(* ===== verification/CCM_Prelude.thy ===== *)
theory CCM_Prelude
  imports Main
begin

text \<open>
  The prelude of the development: the error values of the program, the state-and-error
  monad in which its handlers are written, the judgements the proofs use (an invariant
  is kept; a post-condition holds after success; a run succeeds) with their rules, and a few facts on lists
  that several components share.

  A Go function with an \<^verbatim>\<open>error\<close> result that talks to the outside world is a function
  from the state of the world to a result \<open>error + 'a\<close> (\<open>Inl\<close> the error) and the new state.
  The new state is there on errors too: what was done before the error stays done.
\<close>

named_theorems keeps_intros \<open>rules for the preservation of an invariant\<close>
named_theorems hoare_intros \<open>rules for the post-condition of a successful run\<close>
named_theorems run_intros \<open>rules for runs that succeed\<close>
named_theorems monad_defs \<open>the definitions of the monad, for evaluation\<close>

section \<open>Errors\<close>

text \<open>
  Sentinel errors are constructors of their own. \<open>ErrorfW\<close> is \<^verbatim>\<open>fmt.Errorf\<close> with \<^verbatim>\<open>%w\<close> (the
  operand can be found again by \<^verbatim>\<open>errors.Is\<close>), \<open>ErrorfS\<close> the same with \<^verbatim>\<open>%s\<close> (only its text is
  kept), \<open>Errorf\<close> a message with string operands. \<open>Panic\<close> is a Go run-time panic: no error
  handler of the program sees it.
\<close>

datatype error =
    ErrNotFound
  | ErrConflict
  | ErrAPI string
  | ErrKube string
  | ErrLoadBalancerNotFound
  | ErrLoadBalancerIDAnnotationNotFound
  | ErrNotImplemented
  | ErrSyntax string
  | ErrRange string
  | ErrNew string
  | Errorf string "string list"
  | ErrorfS string "string list" error
  | ErrorfW string "string list" error
  | Panic string

fun errors_Is :: "error \<Rightarrow> error \<Rightarrow> bool" where
  "errors_Is (ErrorfW m as e) t = (ErrorfW m as e = t \<or> errors_Is e t)"
| "errors_Is e t = (e = t)"

fun is_panic :: "error \<Rightarrow> bool" where
  "is_panic (Panic p) = True"
| "is_panic e = False"

section \<open>The monad\<close>

type_synonym ('s, 'a) M = "'s \<Rightarrow> (error + 'a) \<times> 's"

definition returnM :: "'a \<Rightarrow> ('s, 'a) M" where
  "returnM x = (\<lambda>s. (Inr x, s))"

definition failM :: "error \<Rightarrow> ('s, 'a) M" where
  "failM e = (\<lambda>s. (Inl e, s))"

text \<open>\<^verbatim>\<open>x, err := m; if err != nil { return err }; f(x)\<close>\<close>

definition bindM :: "('s, 'a) M \<Rightarrow> ('a \<Rightarrow> ('s, 'b) M) \<Rightarrow> ('s, 'b) M" where
  "bindM m f = (\<lambda>s. case m s of (Inl e, s') \<Rightarrow> (Inl e, s') | (Inr x, s') \<Rightarrow> f x s')"

text \<open>\<^verbatim>\<open>x, err := m; if err != nil { h(err) }\<close>: a panic is not caught.\<close>

definition catchM :: "('s, 'a) M \<Rightarrow> (error \<Rightarrow> ('s, 'a) M) \<Rightarrow> ('s, 'a) M" where
  "catchM m h = (\<lambda>s. case m s of
     (Inl e, s') \<Rightarrow> if is_panic e then (Inl e, s') else h e s'
   | (Inr x, s') \<Rightarrow> (Inr x, s'))"

text \<open>The error of \<open>m\<close> is wrapped: \<^verbatim>\<open>return fmt.Errorf("...", err)\<close>.\<close>

definition wrapM :: "(error \<Rightarrow> error) \<Rightarrow> ('s, 'a) M \<Rightarrow> ('s, 'a) M" where
  "wrapM w m = catchM m (\<lambda>e. failM (w e))"

text \<open>A pure Go function with an error result.\<close>

definition liftE :: "error + 'a \<Rightarrow> ('s, 'a) M" where
  "liftE r = (\<lambda>s. (r, s))"

definition getM :: "('s \<Rightarrow> 'a) \<Rightarrow> ('s, 'a) M" where
  "getM f = (\<lambda>s. (Inr (f s), s))"

definition modifyM :: "('s \<Rightarrow> 's) \<Rightarrow> ('s, unit) M" where
  "modifyM f = (\<lambda>s. (Inr (), f s))"

text \<open>\<^verbatim>\<open>for _, x := range xs { ... }\<close>, with and without a loop variable that is updated.\<close>

primrec foldM :: "('a \<Rightarrow> 'b \<Rightarrow> ('s, 'b) M) \<Rightarrow> 'a list \<Rightarrow> 'b \<Rightarrow> ('s, 'b) M" where
  "foldM f [] b = returnM b"
| "foldM f (x # xs) b = bindM (f x b) (foldM f xs)"

primrec forM :: "('a \<Rightarrow> ('s, unit) M) \<Rightarrow> 'a list \<Rightarrow> ('s, unit) M" where
  "forM f [] = returnM ()"
| "forM f (x # xs) = bindM (f x) (\<lambda>_. forM f xs)"

lemmas monad_basic_defs [monad_defs] =
  returnM_def failM_def bindM_def catchM_def wrapM_def liftE_def getM_def modifyM_def

text \<open>One step of a run.\<close>

lemma bindM_getM [simp]: "bindM (getM g) f s = f (g s) s"
  by (simp add: bindM_def getM_def)

lemma bindM_run: "m s = (Inr x, s') \<Longrightarrow> bindM m f s = f x s'"
  by (simp add: bindM_def)

lemma bindM_error: "m s = (Inl e, s') \<Longrightarrow> bindM m f s = (Inl e, s')"
  by (simp add: bindM_def)

lemma catchM_run: "m s = (Inr x, s') \<Longrightarrow> catchM m h s = (Inr x, s')"
  by (simp add: catchM_def)

lemma catchM_error: "m s = (Inl e, s') \<Longrightarrow> \<not> is_panic e \<Longrightarrow> catchM m h s = h e s'"
  by (simp add: catchM_def)

section \<open>An invariant is kept\<close>

text \<open>
  \<open>keeps I m\<close>: whatever \<open>m\<close> returns, an error or a value, a state with \<open>I\<close> becomes a state
  with \<open>I\<close>. This is the judgement for "the handler never does such a thing".
\<close>

definition keeps :: "('s \<Rightarrow> bool) \<Rightarrow> ('s, 'a) M \<Rightarrow> bool" where
  "keeps I m \<longleftrightarrow> (\<forall>s. I s \<longrightarrow> I (snd (m s)))"

lemma keepsI: "(\<And>s. I s \<Longrightarrow> I (snd (m s))) \<Longrightarrow> keeps I m"
  by (simp add: keeps_def)

lemma keepsD: "keeps I m \<Longrightarrow> I s \<Longrightarrow> I (snd (m s))"
  by (simp add: keeps_def)

lemma keeps_return [keeps_intros]: "keeps I (returnM x)"
  by (simp add: keeps_def returnM_def)

lemma keeps_fail [keeps_intros]: "keeps I (failM e)"
  by (simp add: keeps_def failM_def)

lemma keeps_lift [keeps_intros]: "keeps I (liftE r)"
  by (simp add: keeps_def liftE_def)

lemma keeps_get [keeps_intros]: "keeps I (getM f)"
  by (simp add: keeps_def getM_def)

lemma keeps_bind [keeps_intros]:
  assumes "keeps I m" and "\<And>x. keeps I (f x)"
  shows "keeps I (bindM m f)"
proof (rule keepsI)
  fix s
  assume "I s"
  with assms(1) have "I (snd (m s))" by (rule keepsD)
  with assms(2) show "I (snd (bindM m f s))"
    by (auto simp: bindM_def keeps_def split: prod.split sum.split)
qed

text \<open>What was read from the state may be used to justify what follows.\<close>

lemma keeps_bind_get:
  assumes "\<And>s. I s \<Longrightarrow> keeps I (f (g s))"
  shows "keeps I (bindM (getM g) f)"
  using assms by (simp add: keeps_def bindM_def getM_def)

lemma keeps_catch [keeps_intros]:
  assumes "keeps I m" and "\<And>e. keeps I (h e)"
  shows "keeps I (catchM m h)"
proof (rule keepsI)
  fix s
  assume "I s"
  with assms(1) have "I (snd (m s))" by (rule keepsD)
  with assms(2) show "I (snd (catchM m h s))"
    by (auto simp: catchM_def keeps_def split: prod.split sum.split)
qed

lemma keeps_wrap [keeps_intros]: "keeps I m \<Longrightarrow> keeps I (wrapM w m)"
  unfolding wrapM_def by (intro keeps_catch keeps_fail)

lemma keeps_forM [keeps_intros]:
  assumes "\<And>x. x \<in> set xs \<Longrightarrow> keeps I (f x)"
  shows "keeps I (forM f xs)"
  using assms by (induction xs) (auto intro!: keeps_intros)

lemma keeps_foldM [keeps_intros]:
  assumes "\<And>x b. x \<in> set xs \<Longrightarrow> keeps I (f x b)"
  shows "keeps I (foldM f xs b)"
  using assms by (induction xs arbitrary: b) (auto intro!: keeps_intros)

lemma keeps_if [keeps_intros]:
  "(c \<Longrightarrow> keeps I m) \<Longrightarrow> (\<not> c \<Longrightarrow> keeps I n) \<Longrightarrow> keeps I (if c then m else n)"
  by simp

lemma keeps_case_option [keeps_intros]:
  "(z = None \<Longrightarrow> keeps I m) \<Longrightarrow> (\<And>x. z = Some x \<Longrightarrow> keeps I (f x)) \<Longrightarrow>
   keeps I (case z of None \<Rightarrow> m | Some x \<Rightarrow> f x)"
  by (cases z) auto

lemma keeps_case_sum:
  "(\<And>e. z = Inl e \<Longrightarrow> keeps I (h e)) \<Longrightarrow> (\<And>x. z = Inr x \<Longrightarrow> keeps I (f x)) \<Longrightarrow>
   keeps I (case z of Inl e \<Rightarrow> h e | Inr x \<Rightarrow> f x)"
  by (cases z) auto

text \<open>\<open>leads I J m\<close>: a state with \<open>I\<close> becomes a state with \<open>J\<close>, whatever \<open>m\<close> returns.\<close>

definition leads :: "('s \<Rightarrow> bool) \<Rightarrow> ('s \<Rightarrow> bool) \<Rightarrow> ('s, 'a) M \<Rightarrow> bool" where
  "leads I J m \<longleftrightarrow> (\<forall>s. I s \<longrightarrow> J (snd (m s)))"

lemma leadsD: "leads I J m \<Longrightarrow> I s \<Longrightarrow> J (snd (m s))"
  by (simp add: leads_def)

lemma leads_keeps: "keeps I m \<Longrightarrow> (\<And>s. I s \<Longrightarrow> J s) \<Longrightarrow> leads I J m"
  by (simp add: leads_def keeps_def)

lemma leads_before:
  "keeps I m \<Longrightarrow> (\<And>s. I s \<Longrightarrow> J s) \<Longrightarrow> (\<And>x. leads I J (f x)) \<Longrightarrow> leads I J (bindM m f)"
  by (fastforce simp: leads_def keeps_def bindM_def split: prod.split sum.split)

lemma leads_after: "leads I J m \<Longrightarrow> (\<And>x. keeps J (f x)) \<Longrightarrow> leads I J (bindM m f)"
  by (fastforce simp: leads_def keeps_def bindM_def split: prod.split sum.split)

lemma leads_if: "(c \<Longrightarrow> leads I J m) \<Longrightarrow> (\<not> c \<Longrightarrow> leads I J n) \<Longrightarrow> leads I J (if c then m else n)"
  by simp

lemma leads_handler:
  "keeps I m \<Longrightarrow> (\<And>s. I s \<Longrightarrow> J s) \<Longrightarrow> (\<And>e. leads I J (h e)) \<Longrightarrow> leads I J (catchM m h)"
  by (fastforce simp: leads_def keeps_def catchM_def split: prod.split sum.split)

section \<open>A post-condition of a successful run\<close>

definition triple :: "('s \<Rightarrow> bool) \<Rightarrow> ('s, 'a) M \<Rightarrow> ('a \<Rightarrow> 's \<Rightarrow> bool) \<Rightarrow> bool" where
  "triple P m Q \<longleftrightarrow> (\<forall>s x s'. P s \<longrightarrow> m s = (Inr x, s') \<longrightarrow> Q x s')"

lemma tripleI: "(\<And>s x s'. P s \<Longrightarrow> m s = (Inr x, s') \<Longrightarrow> Q x s') \<Longrightarrow> triple P m Q"
  by (simp add: triple_def)

lemma tripleD: "triple P m Q \<Longrightarrow> P s \<Longrightarrow> m s = (Inr x, s') \<Longrightarrow> Q x s'"
  by (simp add: triple_def)

lemma bindM_InrE:
  assumes "bindM m f s = (Inr y, s'')"
  obtains x s' where "m s = (Inr x, s')" and "f x s' = (Inr y, s'')"
  using assms by (auto simp: bindM_def split: prod.splits sum.splits)

lemma wrapM_Inr_iff: "wrapM w m s = (Inr x, s') \<longleftrightarrow> m s = (Inr x, s')"
  by (auto simp: wrapM_def catchM_def failM_def split: prod.splits sum.splits)

lemma wrapM_liftE: "wrapM w (liftE (Inr x)) s = (Inr x, s)"
  by (simp add: wrapM_def catchM_def liftE_def)

lemma triple_return [hoare_intros]: "triple (Q x) (returnM x) Q"
  by (simp add: triple_def returnM_def)

lemma triple_fail [hoare_intros]: "triple P (failM e) Q"
  by (simp add: triple_def failM_def)

lemma triple_bind [hoare_intros]:
  assumes "triple P m R" and "\<And>x. triple (R x) (f x) Q"
  shows "triple P (bindM m f) Q"
proof (rule tripleI)
  fix s y s''
  assume "P s" and "bindM m f s = (Inr y, s'')"
  then obtain x s' where "m s = (Inr x, s')" and run: "f x s' = (Inr y, s'')"
    by (blast elim: bindM_InrE)
  with assms(1) \<open>P s\<close> have "R x s'" by (blast dest: tripleD)
  with assms(2) run show "Q y s''" by (blast dest: tripleD)
qed

lemma triple_wrap [hoare_intros]: "triple P m Q \<Longrightarrow> triple P (wrapM w m) Q"
  by (auto simp: triple_def wrapM_Inr_iff)

lemma triple_if [hoare_intros]:
  "(c \<Longrightarrow> triple P m Q) \<Longrightarrow> (\<not> c \<Longrightarrow> triple P n Q) \<Longrightarrow> triple P (if c then m else n) Q"
  by simp

lemma triple_weaken:
  "triple P m Q \<Longrightarrow> (\<And>s. P' s \<Longrightarrow> P s) \<Longrightarrow> (\<And>x s. Q x s \<Longrightarrow> Q' x s) \<Longrightarrow> triple P' m Q'"
  unfolding triple_def by blast

text \<open>The loop rule: the invariant speaks of the elements already visited.\<close>

lemma triple_forM_aux:
  assumes "\<And>vs x ws. zs = vs @ x # ws \<Longrightarrow> triple (J vs) (f x) (\<lambda>_. J (vs @ [x]))"
    and "zs = ys @ xs"
  shows "triple (J ys) (forM f xs) (\<lambda>_. J zs)"
  using assms(2)
proof (induction xs arbitrary: ys)
  case Nil
  then show ?case by (simp add: triple_def returnM_def)
next
  case (Cons x xs)
  have "triple (J ys) (f x) (\<lambda>_. J (ys @ [x]))"
    using assms(1) Cons.prems by blast
  moreover have "triple (J (ys @ [x])) (forM f xs) (\<lambda>_. J zs)"
    using Cons.IH [of "ys @ [x]"] Cons.prems by simp
  ultimately show ?case by (simp add: triple_bind)
qed

lemma triple_forM:
  assumes "\<And>vs x ws. zs = vs @ x # ws \<Longrightarrow> triple (J vs) (f x) (\<lambda>_. J (vs @ [x]))"
  shows "triple (J []) (forM f zs) (\<lambda>_. J zs)"
  by (rule triple_forM_aux [where ys = "[]"]) (auto intro: assms)

lemma triple_foldM_aux:
  assumes "\<And>vs x ws b. zs = vs @ x # ws \<Longrightarrow> triple (J vs b) (f x b) (J (vs @ [x]))"
    and "zs = ys @ xs"
  shows "triple (J ys b) (foldM f xs b) (J zs)"
  using assms(2)
proof (induction xs arbitrary: ys b)
  case Nil
  then show ?case by (simp add: triple_def returnM_def)
next
  case (Cons x xs)
  have "triple (J ys b) (f x b) (J (ys @ [x]))"
    using assms(1) Cons.prems by blast
  moreover have "triple (J (ys @ [x]) c) (foldM f xs c) (J zs)" for c
    using Cons.IH [of "ys @ [x]"] Cons.prems by simp
  ultimately show ?case by (simp add: triple_bind)
qed

lemma triple_foldM:
  assumes "\<And>vs x ws b. zs = vs @ x # ws \<Longrightarrow> triple (J vs b) (f x b) (J (vs @ [x]))"
  shows "triple (J [] b) (foldM f zs b) (J zs)"
  by (rule triple_foldM_aux [where ys = "[]"]) (auto intro: assms)

section \<open>A run that succeeds\<close>

text \<open>
  \<open>runsTo P m Q\<close>: from a state with \<open>P\<close> the program returns a value, no error, and \<open>Q\<close> holds afterwards.
  A post-condition shown for successful runs can be added.
\<close>

definition runsTo :: "('s \<Rightarrow> bool) \<Rightarrow> ('s, 'a) M \<Rightarrow> ('a \<Rightarrow> 's \<Rightarrow> bool) \<Rightarrow> bool" where
  "runsTo P m Q \<longleftrightarrow> (\<forall>s. P s \<longrightarrow> (\<exists>x s'. m s = (Inr x, s') \<and> Q x s'))"

lemma runsToI: "(\<And>s. P s \<Longrightarrow> \<exists>x s'. m s = (Inr x, s') \<and> Q x s') \<Longrightarrow> runsTo P m Q"
  by (simp add: runsTo_def)

lemma runsToE:
  assumes "runsTo P m Q" and "P s"
  obtains x s' where "m s = (Inr x, s')" and "Q x s'"
  using assms unfolding runsTo_def by blast

lemma runsTo_triple: "runsTo P m R \<Longrightarrow> triple P m Q \<Longrightarrow> runsTo P m (\<lambda>x s. Q x s \<and> R x s)"
  unfolding runsTo_def triple_def by blast

lemma runsTo_weaken:
  "runsTo P m Q \<Longrightarrow> (\<And>s. P' s \<Longrightarrow> P s) \<Longrightarrow> (\<And>x s. Q x s \<Longrightarrow> Q' x s) \<Longrightarrow> runsTo P' m Q'"
  unfolding runsTo_def by blast

lemma runsTo_return [run_intros]: "runsTo (Q x) (returnM x) Q"
  by (simp add: runsTo_def returnM_def)

lemma runsTo_bind [run_intros]:
  assumes "runsTo P m R" and "\<And>x. runsTo (R x) (f x) Q"
  shows "runsTo P (bindM m f) Q"
proof (rule runsToI)
  fix s
  assume "P s"
  with assms(1) obtain x s' where m: "m s = (Inr x, s')" and "R x s'" by (rule runsToE)
  from assms(2) this(2) obtain y s'' where "f x s' = (Inr y, s'')" and "Q y s''" by (rule runsToE)
  with m show "\<exists>y s''. bindM m f s = (Inr y, s'') \<and> Q y s''" by (simp add: bindM_def)
qed

lemma runsTo_wrap [run_intros]: "runsTo P m Q \<Longrightarrow> runsTo P (wrapM w m) Q"
  by (simp add: runsTo_def wrapM_Inr_iff)

lemma runsTo_if [run_intros]:
  "(c \<Longrightarrow> runsTo P m Q) \<Longrightarrow> (\<not> c \<Longrightarrow> runsTo P n Q) \<Longrightarrow> runsTo P (if c then m else n) Q"
  by simp

lemma runsTo_foldM_aux:
  assumes "\<And>vs x ws b. zs = vs @ x # ws \<Longrightarrow> runsTo (J vs b) (f x b) (J (vs @ [x]))"
    and "zs = ys @ xs"
  shows "runsTo (J ys b) (foldM f xs b) (J zs)"
  using assms(2)
proof (induction xs arbitrary: ys b)
  case Nil
  then show ?case by (simp add: runsTo_return)
next
  case (Cons x xs)
  then have "runsTo (J (ys @ [x]) c) (foldM f xs c) (J zs)" for c by simp
  with Cons.prems show ?case by (auto intro: runsTo_bind assms(1))
qed

lemma runsTo_foldM:
  assumes "\<And>vs x ws b. zs = vs @ x # ws \<Longrightarrow> runsTo (J vs b) (f x b) (J (vs @ [x]))"
  shows "runsTo (J [] b) (foldM f zs b) (J zs)"
  by (rule runsTo_foldM_aux [where ys = "[]"]) (auto intro: assms)

lemma runsTo_forM_aux:
  assumes "\<And>vs x ws. zs = vs @ x # ws \<Longrightarrow> runsTo (J vs) (f x) (\<lambda>_. J (vs @ [x]))"
    and "zs = ys @ xs"
  shows "runsTo (J ys) (forM f xs) (\<lambda>_. J zs)"
  using assms(2)
proof (induction xs arbitrary: ys)
  case Nil
  then show ?case by (simp add: runsTo_def returnM_def)
next
  case (Cons x xs)
  then have "runsTo (J (ys @ [x])) (forM f xs) (\<lambda>_. J zs)" by simp
  with Cons.prems show ?case by (auto intro: runsTo_bind assms(1))
qed

lemma runsTo_forM:
  assumes "\<And>vs x ws. zs = vs @ x # ws \<Longrightarrow> runsTo (J vs) (f x) (\<lambda>_. J (vs @ [x]))"
  shows "runsTo (J []) (forM f zs) (\<lambda>_. J zs)"
  by (rule runsTo_forM_aux [where ys = "[]"]) (auto intro: assms)

section \<open>Lists\<close>

lemma find_Some_in: "List.find P xs = Some x \<Longrightarrow> x \<in> set xs \<and> P x"
  by (induction xs) (auto split: if_splits)

lemma find_None_all: "List.find P xs = None \<longleftrightarrow> (\<forall>x\<in>set xs. \<not> P x)"
  by (induction xs) auto

lemma distinct_map_inj: "distinct (map f xs) \<Longrightarrow> x \<in> set xs \<Longrightarrow> y \<in> set xs \<Longrightarrow> f x = f y \<Longrightarrow> x = y"
  by (simp add: distinct_map inj_on_def)

end
