(* ===== verification/Go_Strings.thy ===== *)
theory Go_Strings
  imports CCM_Prelude
begin

text \<open>
  What the program uses of Go's \<^verbatim>\<open>strings\<close>, \<^verbatim>\<open>strconv\<close> and \<^verbatim>\<open>fmt\<close> packages. A Go string is a
  sequence of bytes, here a list of \<open>char\<close>. Case mapping is the ASCII part of Go's: bytes of 128
  and more (the pieces of a non-ASCII character) are left as they are. Conversions are those of a
  64-bit platform.
\<close>

section \<open>Bytes\<close>

definition byte :: "char \<Rightarrow> nat" where
  "byte c = of_char c"

definition is_digit :: "char \<Rightarrow> bool" where
  "is_digit c \<longleftrightarrow> 48 \<le> byte c \<and> byte c \<le> 57"

definition digit_val :: "char \<Rightarrow> nat" where
  "digit_val c = byte c - 48"

definition digit_char :: "nat \<Rightarrow> char" where
  "digit_char d = char_of (48 + d)"

lemma byte_less_256: "byte c < 256"
  by (simp add: byte_def)

lemma byte_digit_char: "d < 10 \<Longrightarrow> byte (digit_char d) = 48 + d"
  by (simp add: byte_def digit_char_def)

lemma is_digit_digit_char: "d < 10 \<Longrightarrow> is_digit (digit_char d)"
  by (simp add: is_digit_def byte_digit_char)

lemma digit_val_digit_char: "d < 10 \<Longrightarrow> digit_val (digit_char d) = d"
  by (simp add: digit_val_def byte_digit_char)

lemma digit_val_less: "is_digit c \<Longrightarrow> digit_val c < 10"
  by (auto simp: is_digit_def digit_val_def)

section \<open>The strings package\<close>

definition ToLower_char :: "char \<Rightarrow> char" where
  "ToLower_char c = (if 65 \<le> byte c \<and> byte c \<le> 90 then char_of (byte c + 32) else c)"

definition ToLower :: "string \<Rightarrow> string" where
  "ToLower s = map ToLower_char s"

text \<open>\<^verbatim>\<open>strings.EqualFold\<close> compares byte by byte: equal, or an upper-case letter and its lower case.\<close>

definition fold_eq :: "char \<Rightarrow> char \<Rightarrow> bool" where
  "fold_eq a b = (a = b \<or>
     (let lo = min (byte a) (byte b); hi = max (byte a) (byte b)
      in 65 \<le> lo \<and> lo \<le> 90 \<and> hi = lo + 32))"

fun EqualFold :: "string \<Rightarrow> string \<Rightarrow> bool" where
  "EqualFold [] [] = True"
| "EqualFold (a # s) (b # t) = (fold_eq a b \<and> EqualFold s t)"
| "EqualFold _ _ = False"

fun HasPrefix :: "string \<Rightarrow> string \<Rightarrow> bool" where
  "HasPrefix s [] = True"
| "HasPrefix [] (p # ps) = False"
| "HasPrefix (c # s) (p # ps) = (c = p \<and> HasPrefix s ps)"

definition HasSuffix :: "string \<Rightarrow> string \<Rightarrow> bool" where
  "HasSuffix s p = HasPrefix (rev s) (rev p)"

definition TrimPrefix :: "string \<Rightarrow> string \<Rightarrow> string" where
  "TrimPrefix s p = (if HasPrefix s p then drop (length p) s else s)"

text \<open>\<^verbatim>\<open>strings.Trim\<close> with a one-byte cutset.\<close>

definition Trim :: "string \<Rightarrow> char \<Rightarrow> string" where
  "Trim s c = rev (dropWhile (\<lambda>x. x = c) (rev (dropWhile (\<lambda>x. x = c) s)))"

text \<open>\<^verbatim>\<open>strings.Split\<close> with a one-byte separator: always at least one piece.\<close>

fun Split :: "char \<Rightarrow> string \<Rightarrow> string list" where
  "Split c [] = [[]]"
| "Split c (x # s) =
     (if x = c then [] # Split c s
      else case Split c s of [] \<Rightarrow> [[x]] | p # ps \<Rightarrow> (x # p) # ps)"

section \<open>Decimal numbers\<close>

text \<open>\<^verbatim>\<open>fmt.Sprintf("%d", n)\<close>\<close>

fun show_nat :: "nat \<Rightarrow> string" where
  "show_nat n = (if n < 10 then [digit_char n] else show_nat (n div 10) @ [digit_char (n mod 10)])"

declare show_nat.simps [simp del]

definition fmt_d :: "int \<Rightarrow> string" where
  "fmt_d n = (if n < 0 then CHR ''-'' # show_nat (nat (- n)) else show_nat (nat n))"

text \<open>
  \<^verbatim>\<open>strconv.Atoi\<close>: strings of fewer than 19 bytes are converted by a loop that checks no range,
  the others by \<^verbatim>\<open>ParseInt\<close>, whose unsigned loop stops at the first digit that leaves 64 bits.
\<close>

fun atoi_digits :: "string \<Rightarrow> nat \<Rightarrow> nat option" where
  "atoi_digits [] n = Some n"
| "atoi_digits (c # s) n =
     (if is_digit c then atoi_digits s (n * 10 + digit_val c) else None)"

fun parse_uint_loop :: "string \<Rightarrow> nat \<Rightarrow> error + nat" where
  "parse_uint_loop [] n = Inr n"
| "parse_uint_loop (c # s) n =
     (if \<not> is_digit c then Inl (ErrSyntax ''ParseUint'')
      else if 1844674407370955162 \<le> n then Inl (ErrRange ''ParseUint'')
      else let n1 = n * 10 + digit_val c in
        if 18446744073709551615 < n1 then Inl (ErrRange ''ParseUint'') else parse_uint_loop s n1)"

definition ParseUint :: "string \<Rightarrow> error + nat" where
  "ParseUint s = (if s = [] then Inl (ErrSyntax ''ParseUint'') else parse_uint_loop s 0)"

definition split_sign :: "string \<Rightarrow> bool \<times> string" where
  "split_sign s = (case s of [] \<Rightarrow> (False, s)
     | c # r \<Rightarrow> if c = CHR ''-'' then (True, r) else if c = CHR ''+'' then (False, r) else (False, s))"

definition ParseInt :: "string \<Rightarrow> error + int" where
  "ParseInt s = (if s = [] then Inl (ErrSyntax ''ParseInt'') else
     case split_sign s of (neg, r) \<Rightarrow>
       (case ParseUint r of
          Inl e \<Rightarrow> Inl e
        | Inr un \<Rightarrow>
            if \<not> neg \<and> 9223372036854775808 \<le> un then Inl (ErrRange ''ParseInt'')
            else if neg \<and> 9223372036854775808 < un then Inl (ErrRange ''ParseInt'')
            else Inr (if neg then - int un else int un)))"

definition Atoi :: "string \<Rightarrow> error + int" where
  "Atoi s = (if 0 < length s \<and> length s < 19 then
      (case split_sign s of (neg, r) \<Rightarrow>
         if r = [] then Inl (ErrSyntax ''Atoi'')
         else (case atoi_digits r 0 of
             None \<Rightarrow> Inl (ErrSyntax ''Atoi'')
           | Some n \<Rightarrow> Inr (if neg then - int n else int n)))
    else ParseInt s)"

section \<open>Facts on the strings package\<close>

lemma ToLower_char_byte:
  "byte (ToLower_char c) = (if 65 \<le> byte c \<and> byte c \<le> 90 then byte c + 32 else byte c)"
  by (simp add: ToLower_char_def byte_def)

lemma byte_inject: "byte a = byte b \<longleftrightarrow> a = b"
  by (simp add: byte_def)

lemma fold_eq_ToLower: "fold_eq a b \<longleftrightarrow> ToLower_char a = ToLower_char b"
  unfolding fold_eq_def Let_def byte_inject [symmetric] ToLower_char_byte
  by (auto simp: min_def max_def)

text \<open>\<^verbatim>\<open>EqualFold\<close> is equality of the lower-cased strings; in particular it is an equivalence.\<close>

lemma EqualFold_ToLower: "EqualFold s t \<longleftrightarrow> ToLower s = ToLower t"
  by (induction s t rule: EqualFold.induct) (auto simp: ToLower_def fold_eq_ToLower)

lemma EqualFold_refl [simp]: "EqualFold s s"
  by (simp add: EqualFold_ToLower)

lemma EqualFold_sym: "EqualFold s t \<Longrightarrow> EqualFold t s"
  by (simp add: EqualFold_ToLower)

lemma ToLower_char_idem: "ToLower_char (ToLower_char c) = ToLower_char c"
  unfolding byte_inject [symmetric] ToLower_char_byte by simp

lemma ToLower_idem [simp]: "ToLower (ToLower s) = ToLower s"
  by (simp add: ToLower_def ToLower_char_idem)

lemma EqualFold_ToLower_left [simp]: "EqualFold (ToLower s) t = EqualFold s t"
  by (simp add: EqualFold_ToLower)

lemma HasPrefix_append: "HasPrefix s p \<longleftrightarrow> (\<exists>r. s = p @ r)"
  by (induction s p rule: HasPrefix.induct) auto

lemma TrimPrefix_append [simp]: "TrimPrefix (p @ s) p = s"
proof -
  have "HasPrefix (p @ s) p" by (auto simp: HasPrefix_append)
  then show ?thesis by (simp add: TrimPrefix_def)
qed

lemma TrimPrefix_no_prefix: "\<not> HasPrefix s p \<Longrightarrow> TrimPrefix s p = s"
  by (simp add: TrimPrefix_def)

lemma Split_not_Nil [simp]: "Split c s \<noteq> []"
  by (induction s) (auto split: list.split)

lemma set_Split: "x \<in> set (Split c s) \<Longrightarrow> c \<notin> set x"
  by (induction s arbitrary: x) (auto split: list.splits if_splits)

section \<open>Facts on decimal numbers\<close>

text \<open>Conditional equations: they evaluate the function on a numeral and never unfold it elsewhere.\<close>

lemma show_nat_digit: "n < 10 \<Longrightarrow> show_nat n = [digit_char n]"
  by (simp add: show_nat.simps)

lemma show_nat_step: "\<not> n < 10 \<Longrightarrow> show_nat n = show_nat (n div 10) @ [digit_char (n mod 10)]"
  by (subst show_nat.simps) simp

lemma digit_char_table:
  "digit_char 0 = CHR ''0''" "digit_char (Suc 0) = CHR ''1''" "digit_char 1 = CHR ''1''" "digit_char 2 = CHR ''2''"
  "digit_char 3 = CHR ''3''" "digit_char 4 = CHR ''4''" "digit_char 5 = CHR ''5''" "digit_char 6 = CHR ''6''"
  "digit_char 7 = CHR ''7''" "digit_char 8 = CHR ''8''" "digit_char 9 = CHR ''9''"
  by (simp_all add: digit_char_def char_of_eq_iff)

lemmas show_nat_eval = show_nat_digit show_nat_step digit_char_table

lemma atoi_digits_append:
  "atoi_digits (s @ [c]) n =
     (case atoi_digits s n of None \<Rightarrow> None
      | Some m \<Rightarrow> if is_digit c then Some (m * 10 + digit_val c) else None)"
  by (induction s n rule: atoi_digits.induct) auto

lemma atoi_digits_show_nat: "atoi_digits (show_nat n) 0 = Some n"
proof (induction n rule: show_nat.induct)
  case (1 n)
  show ?case
  proof (cases "n < 10")
    case True
    then show ?thesis
      by (subst show_nat.simps) (simp add: is_digit_digit_char digit_val_digit_char)
  next
    case False
    with "1" show ?thesis
      by (subst show_nat.simps)
        (simp add: atoi_digits_append is_digit_digit_char digit_val_digit_char)
  qed
qed

lemma show_nat_not_Nil [simp]: "show_nat n \<noteq> []"
  by (subst show_nat.simps) simp

lemma show_nat_digits: "c \<in> set (show_nat n) \<Longrightarrow> is_digit c"
proof (induction n rule: show_nat.induct)
  case (1 n)
  then show ?case
    by (subst (asm) show_nat.simps) (auto simp: is_digit_digit_char split: if_splits)
qed

lemma show_nat_inject [simp]: "show_nat m = show_nat n \<longleftrightarrow> m = n"
  by (metis atoi_digits_show_nat option.inject)

lemma fmt_d_inject [simp]: "fmt_d m = fmt_d n \<longleftrightarrow> m = n"
proof
  assume eq: "fmt_d m = fmt_d n"
  have minus: "\<not> is_digit (CHR ''-'')" by (simp add: is_digit_def byte_def)
  have no_minus: "CHR ''-'' # xs \<noteq> show_nat k" for xs k
    using show_nat_digits [of "CHR ''-''" k] minus by (metis list.set_intros(1))
  show "m = n"
    using eq no_minus by (auto simp: fmt_d_def no_minus [symmetric] split: if_splits)
qed simp

text \<open>The value of a digit string, and that both conversion loops compute it.\<close>

lemma atoi_digits_acc:
  "atoi_digits s n = Some m \<Longrightarrow> \<exists>k. m = n * 10 ^ length s + k \<and> k < 10 ^ length s"
proof (induction s n rule: atoi_digits.induct)
  case (1 n)
  then show ?case by simp
next
  case (2 c s n)
  from "2.prems" have d: "is_digit c" and "atoi_digits s (n * 10 + digit_val c) = Some m"
    by (auto split: if_splits)
  with "2.IH" obtain k where m: "m = (n * 10 + digit_val c) * 10 ^ length s + k"
      and k: "k < 10 ^ length s"
    by blast
  have "digit_val c * 10 ^ length s + k < 10 * 10 ^ length s"
  proof -
    have "digit_val c * 10 ^ length s \<le> 9 * 10 ^ length s"
      using digit_val_less [OF d] by (intro mult_right_mono) auto
    with k show ?thesis by linarith
  qed
  with m show ?case
    by (intro exI [of _ "digit_val c * 10 ^ length s + k"]) (simp add: algebra_simps)
qed

lemma atoi_digits_bound: "atoi_digits s 0 = Some m \<Longrightarrow> m < 10 ^ length s"
  using atoi_digits_acc [of s 0 m] by auto

lemma atoi_digits_mono: "atoi_digits s n = Some m \<Longrightarrow> n \<le> m"
proof (induction s n rule: atoi_digits.induct)
  case (2 c s n)
  then show ?case by (force split: if_splits)
qed simp

lemma parse_uint_loop_eq:
  "n \<le> 18446744073709551615 \<Longrightarrow> atoi_digits s n = Some m \<Longrightarrow>
   parse_uint_loop s n =
     (if m \<le> 18446744073709551615 then Inr m else Inl (ErrRange ''ParseUint''))"
proof (induction s n rule: atoi_digits.induct)
  case (2 c s n)
  from "2.prems" have d: "is_digit c" and r: "atoi_digits s (n * 10 + digit_val c) = Some m"
    by (auto split: if_splits)
  from r have le: "n * 10 + digit_val c \<le> m" by (rule atoi_digits_mono)
  show ?case
  proof (cases "n * 10 + digit_val c \<le> 18446744073709551615")
    case True
    with d r "2.IH" show ?thesis by (simp add: Let_def)
  next
    case False
    with le d show ?thesis by (simp add: Let_def)
  qed
qed auto

lemma ParseUint_show_nat:
  "n \<le> 18446744073709551615 \<Longrightarrow> ParseUint (show_nat n) = Inr n"
  using parse_uint_loop_eq [of 0 "show_nat n" n]
  by (simp add: ParseUint_def atoi_digits_show_nat)

lemma split_sign_show_nat [simp]: "split_sign (show_nat n) = (False, show_nat n)"
proof -
  obtain c r where cr: "show_nat n = c # r" by (cases "show_nat n") auto
  then have "is_digit c" using show_nat_digits by (metis list.set_intros(1))
  then have "c \<noteq> CHR ''-''" and "c \<noteq> CHR ''+''" by (auto simp: is_digit_def byte_def)
  with cr show ?thesis by (simp add: split_sign_def)
qed

text \<open>Printing and reading back: every 64-bit number survives.\<close>

lemma Atoi_fmt_d:
  assumes "- 9223372036854775808 \<le> n" and "n \<le> 9223372036854775807"
  shows "Atoi (fmt_d n) = Inr n"
proof (cases "n < 0")
  case True
  then have "nat (- n) \<le> 9223372036854775808" using assms by simp
  with True show ?thesis
    by (simp add: Atoi_def ParseInt_def fmt_d_def split_sign_def atoi_digits_show_nat ParseUint_show_nat)
next
  case False
  then have "nat n \<le> 9223372036854775807" using assms by simp
  with False show ?thesis
    by (simp add: Atoi_def ParseInt_def fmt_d_def atoi_digits_show_nat ParseUint_show_nat)
qed

end
