(* ===== verification/Go_Net.thy ===== *)
theory Go_Net
  imports Go_Strings "HOL-Library.Word"
begin

text \<open>
  What the program uses of Go's \<^verbatim>\<open>net\<close> package: an IP address is a slice of bytes and
  \<^verbatim>\<open>IP.String\<close> prints it. The nil slice is the empty list here and prints as \<^verbatim>\<open><nil>\<close>.
\<close>

type_synonym IP = "8 word list"

definition hex_digit :: "nat \<Rightarrow> char" where
  "hex_digit d = (if d < 10 then char_of (48 + d) else char_of (87 + d))"

fun show_hex :: "nat \<Rightarrow> string" where
  "show_hex n = (if n < 16 then [hex_digit n] else show_hex (n div 16) @ [hex_digit (n mod 16)])"

declare show_hex.simps [simp del]

fun join :: "string \<Rightarrow> string list \<Rightarrow> string" where
  "join sep [] = []"
| "join sep [x] = x"
| "join sep (x # y # xs) = x @ sep @ join sep (y # xs)"

definition To4 :: "IP \<Rightarrow> IP option" where
  "To4 ip = (if length ip = 4 then Some ip
     else if length ip = 16 \<and> (\<forall>b \<in> set (take 10 ip). b = 0) \<and> ip ! 10 = 255 \<and> ip ! 11 = 255
       then Some (drop 12 ip)
     else None)"

definition dotted :: "IP \<Rightarrow> string" where
  "dotted ip = join ''.'' (map (\<lambda>b. show_nat (unat b)) ip)"

text \<open>The eight 16-bit groups of an IPv6 address, and its longest run of two or more zero groups.\<close>

fun v6_groups :: "IP \<Rightarrow> nat list" where
  "v6_groups (a # b # r) = (256 * unat a + unat b) # v6_groups r"
| "v6_groups _ = []"

definition better_run :: "nat \<Rightarrow> nat \<Rightarrow> nat \<times> nat \<Rightarrow> nat \<times> nat" where
  "better_run i l z = (if 2 \<le> l \<and> snd z - fst z < l then (i, i + l) else z)"

fun zero_run :: "nat list \<Rightarrow> nat \<Rightarrow> nat \<times> nat \<Rightarrow> nat \<times> nat" where
  "zero_run [] i z = z"
| "zero_run (g # gs) i z =
     zero_run gs (Suc i) (better_run i (length (takeWhile (\<lambda>x. x = 0) (g # gs))) z)"

definition v6_string :: "IP \<Rightarrow> string" where
  "v6_string ip = (let gs = v6_groups ip in case zero_run gs 0 (255, 255) of (zs, ze) \<Rightarrow>
     if zs = 255 then join '':'' (map show_hex gs)
     else join '':'' (map show_hex (take zs gs)) @ ''::'' @ join '':'' (map show_hex (drop ze gs)))"

definition hex_byte :: "8 word \<Rightarrow> string" where
  "hex_byte b = [hex_digit (unat b div 16), hex_digit (unat b mod 16)]"

definition IP_String :: "IP \<Rightarrow> string" where
  "IP_String ip =
     (if ip = [] then ''<nil>''
      else if length ip \<noteq> 4 \<and> length ip \<noteq> 16 then CHR ''?'' # concat (map hex_byte ip)
      else case To4 ip of Some p4 \<Rightarrow> dotted p4 | None \<Rightarrow> v6_string ip)"

section \<open>Facts\<close>

text \<open>Pieces without the separator can be read back from the joined string.\<close>

lemma join_inject:
  assumes "join [c] xs = join [c] ys" and "length xs = length ys"
    and "\<forall>x\<in>set xs. c \<notin> set x" and "\<forall>y\<in>set ys. c \<notin> set y"
  shows "xs = ys"
  using assms
proof (induction "[c]" xs arbitrary: ys rule: join.induct)
  case 1
  then show ?case by simp
next
  case (2 x)
  then obtain y where "ys = [y]" by (cases ys) auto
  with "2.prems" show ?case by simp
next
  case (3 x x' xs)
  then obtain y y' zs where ys: "ys = y # y' # zs"
    by (cases ys; cases "tl ys") auto
  have cx: "c \<notin> set x" and cy: "c \<notin> set y" using "3.prems"(3,4) ys by auto
  have eq: "x @ c # join [c] (x' # xs) = y @ c # join [c] (y' # zs)"
    using "3.prems"(1) ys by simp
  have "x = takeWhile (\<lambda>d. d \<noteq> c) (x @ c # join [c] (x' # xs))"
    using cx by (simp add: takeWhile_append)
  moreover have "y = takeWhile (\<lambda>d. d \<noteq> c) (y @ c # join [c] (y' # zs))"
    using cy by (simp add: takeWhile_append)
  ultimately have "x = y" using eq by metis
  with eq have "join [c] (x' # xs) = join [c] (y' # zs)" by simp
  with "3.hyps" "3.prems"(2,3,4) ys have "x' # xs = y' # zs" by simp
  with \<open>x = y\<close> ys show ?case by simp
qed

lemma dot_not_digit: "CHR ''.'' \<notin> set (show_nat n)"
  using show_nat_digits [of "CHR ''.''" n] by (auto simp: is_digit_def byte_def)

text \<open>Two IPv4 addresses with the same text are the same address.\<close>

lemma dotted_inject:
  assumes "length a = length b" and "dotted a = dotted b"
  shows "a = b"
proof -
  have "map (\<lambda>w. show_nat (unat w)) a = map (\<lambda>w. show_nat (unat w)) b"
    using assms unfolding dotted_def by (intro join_inject) (auto simp: dot_not_digit)
  moreover have "inj (\<lambda>w :: 8 word. show_nat (unat w))"
    by (rule injI) (simp add: word_unat_eq_iff)
  ultimately show ?thesis by (simp add: inj_map_eq_map)
qed

lemma IP_String_v4: "length ip = 4 \<Longrightarrow> IP_String ip = dotted ip"
  by (cases ip) (simp_all add: IP_String_def To4_def)

lemma IP_String_v4_inject:
  "length a = 4 \<Longrightarrow> length b = 4 \<Longrightarrow> IP_String a = IP_String b \<Longrightarrow> a = b"
  by (simp add: IP_String_v4 dotted_inject)

lemma show_hex_digit: "n < 16 \<Longrightarrow> show_hex n = [hex_digit n]"
  by (simp add: show_hex.simps)

lemma show_hex_step: "\<not> n < 16 \<Longrightarrow> show_hex n = show_hex (n div 16) @ [hex_digit (n mod 16)]"
  by (subst show_hex.simps) simp

lemma hex_digit_table:
  "hex_digit 0 = CHR ''0''" "hex_digit (Suc 0) = CHR ''1''" "hex_digit 1 = CHR ''1''" "hex_digit 2 = CHR ''2''"
  "hex_digit 3 = CHR ''3''" "hex_digit 4 = CHR ''4''" "hex_digit 5 = CHR ''5''" "hex_digit 6 = CHR ''6''"
  "hex_digit 7 = CHR ''7''" "hex_digit 8 = CHR ''8''" "hex_digit 9 = CHR ''9''" "hex_digit 10 = CHR ''a''"
  "hex_digit 11 = CHR ''b''" "hex_digit 12 = CHR ''c''" "hex_digit 13 = CHR ''d''" "hex_digit 14 = CHR ''e''"
  "hex_digit 15 = CHR ''f''"
  by (simp_all add: hex_digit_def char_of_eq_iff)

lemmas show_hex_eval = show_hex_digit show_hex_step hex_digit_table

lemmas ip_eval = IP_String_def To4_def dotted_def v6_string_def better_run_def Let_def show_nat_eval show_hex_eval

lemma IP_String_v4_example: "IP_String [159, 100, 240, 7] = ''159.100.240.7''"
  by (simp add: ip_eval)

lemma IP_String_v6_example:
  "IP_String [32, 1, 13, 184, 0, 0, 0, 0, 0, 0, 0, 0, 0, 0, 0, 1] = ''2001:db8::1''"
  by (simp add: ip_eval)

end
