(* ===== verification/Ego_API.thy ===== *)
theory Ego_API
  imports Go_Net
begin

text \<open>
  The Exoscale API as the program sees it: the types of the vendored client
  (\<^verbatim>\<open>vendor/github.com/exoscale/egoscale/v3\<close>, \<^verbatim>\<open>schemas.go\<close> and \<^verbatim>\<open>operations.go\<close>), the two
  \<^verbatim>\<open>Find\<close> helpers the program calls, the interface \<^verbatim>\<open>exoscaleClient\<close> of \<^verbatim>\<open>exoscale/client.go\<close>
  as a record of methods, and the recording client of \<^verbatim>\<open>exoscale/client_mock.go\<close>.

  The service behind the interface is not part of the program: every method is a function from
  a state \<open>'w\<close> of the outside world to a result and a new state, and \<open>'w\<close> is a parameter.
  Timestamps and fields that no line of the program reads are left out; the fields of an
  Instance Pool other than its ID, which only take part in a comparison of whole structures,
  are kept together in \<open>ip_attrs\<close> (name and JSON text of each field that is not zero).
\<close>

section \<open>Types\<close>

type_synonym UUID = string

record InstancePool =
  ip_ID :: UUID
  ip_attrs :: "(string \<times> string) list"

record LoadBalancerServiceHealthcheck =
  hc_Interval :: int
  hc_Mode :: string
  hc_Port :: int
  hc_Retries :: int
  hc_Timeout :: int
  hc_TlsSNI :: string
  hc_URI :: string

record LoadBalancerService =
  svc_Description :: string
  svc_Healthcheck :: "LoadBalancerServiceHealthcheck option"
  svc_HealthcheckStatus :: "(IP \<times> string) list"
  svc_ID :: UUID
  svc_InstancePool :: "InstancePool option"
  svc_Name :: string
  svc_Port :: int
  svc_Protocol :: string
  svc_State :: string
  svc_Strategy :: string
  svc_TargetPort :: int

record LoadBalancer =
  lb_Description :: string
  lb_ID :: UUID
  lb_IP :: IP
  lb_Labels :: "(string \<times> string) list"
  lb_Name :: string
  lb_Services :: "LoadBalancerService list"
  lb_State :: string

record Operation =
  op_ID :: UUID
  op_Reference :: "UUID option"
  op_State :: string

record CreateLoadBalancerRequest =
  clb_Name :: string
  clb_Description :: string
  clb_Labels :: "(string \<times> string) list"

record UpdateLoadBalancerRequest =
  ulb_Name :: string
  ulb_Description :: string
  ulb_Labels :: "(string \<times> string) list"

record AddServiceToLoadBalancerRequest =
  add_Name :: string
  add_Description :: string
  add_Port :: int
  add_TargetPort :: int
  add_Protocol :: string
  add_Strategy :: string
  add_Healthcheck :: "LoadBalancerServiceHealthcheck option"
  add_InstancePool :: "InstancePool option"

record UpdateLoadBalancerServiceRequest =
  upd_Name :: string
  upd_Description :: string
  upd_Port :: int
  upd_TargetPort :: int
  upd_Protocol :: string
  upd_Strategy :: string
  upd_Healthcheck :: "LoadBalancerServiceHealthcheck option"

record Manager =
  mgr_ID :: UUID
  mgr_Type :: string

text \<open>
  An instance as returned by \<^verbatim>\<open>GetInstance\<close> and, with the same fields, in the answer of
  \<^verbatim>\<open>ListInstances\<close>. The nil pointer of a missing address is the empty \<^verbatim>\<open>IP\<close>.
\<close>

record Instance =
  inst_ID :: UUID
  inst_InstanceType :: "UUID option"
  inst_Ipv6Address :: string
  inst_Manager :: "Manager option"
  inst_Name :: string
  inst_PrivateNetworks :: "UUID list"
  inst_PublicIP :: IP
  inst_State :: string

record InstanceType =
  it_Family :: string
  it_Size :: string

record SKSNodepool =
  np_Name :: string
  np_InstancePool :: "InstancePool option"

record SKSCluster =
  sks_ID :: UUID
  sks_Name :: string
  sks_Nodepools :: "SKSNodepool list"

section \<open>The Find helpers of the responses\<close>

text \<open>Exactly one element with that name or ID, otherwise an error.\<close>

definition FindLoadBalancer :: "LoadBalancer list \<Rightarrow> string \<Rightarrow> error + LoadBalancer" where
  "FindLoadBalancer lbs nameOrID =
     (let result = filter (\<lambda>elem. lb_Name elem = nameOrID \<or> lb_ID elem = nameOrID) lbs in
      if length result = 1 then Inr (result ! 0)
      else if length result > 1
        then Inl (ErrorfW ''%q too many found in ListLoadBalancersResponse: %w'' [nameOrID] ErrConflict)
      else Inl (ErrorfW ''%q not found in ListLoadBalancersResponse: %w'' [nameOrID] ErrNotFound))"

definition FindSKSCluster :: "SKSCluster list \<Rightarrow> string \<Rightarrow> error + SKSCluster" where
  "FindSKSCluster cs nameOrID =
     (let result = filter (\<lambda>elem. sks_Name elem = nameOrID \<or> sks_ID elem = nameOrID) cs in
      if length result = 1 then Inr (result ! 0)
      else if length result > 1
        then Inl (ErrorfW ''%q too many found in ListSKSClustersResponse: %w'' [nameOrID] ErrConflict)
      else Inl (ErrorfW ''%q not found in ListSKSClustersResponse: %w'' [nameOrID] ErrNotFound))"

section \<open>The client interface\<close>

record 'w exoscaleClient =
  CreateLoadBalancer :: "CreateLoadBalancerRequest \<Rightarrow> ('w, Operation) M"
  AddServiceToLoadBalancer :: "UUID \<Rightarrow> AddServiceToLoadBalancerRequest \<Rightarrow> ('w, Operation) M"
  DeleteLoadBalancer :: "UUID \<Rightarrow> ('w, Operation) M"
  DeleteLoadBalancerService :: "UUID \<Rightarrow> UUID \<Rightarrow> ('w, Operation) M"
  GetInstance :: "UUID \<Rightarrow> ('w, Instance) M"
  GetInstanceType :: "UUID \<Rightarrow> ('w, InstanceType) M"
  GetLoadBalancer :: "UUID \<Rightarrow> ('w, LoadBalancer) M"
  ListInstances :: "('w, Instance list) M"
  ListLoadBalancers :: "('w, LoadBalancer list) M"
  ListSKSClusters :: "('w, SKSCluster list) M"
  UpdateLoadBalancer :: "UUID \<Rightarrow> UpdateLoadBalancerRequest \<Rightarrow> ('w, Operation) M"
  UpdateLoadBalancerService ::
    "UUID \<Rightarrow> UUID \<Rightarrow> UpdateLoadBalancerServiceRequest \<Rightarrow> ('w, Operation) M"
  Wait :: "Operation \<Rightarrow> string list \<Rightarrow> ('w, Operation) M"

section \<open>The recording client\<close>

datatype api_call =
    CallCreateLoadBalancer CreateLoadBalancerRequest
  | CallAddServiceToLoadBalancer UUID AddServiceToLoadBalancerRequest
  | CallDeleteLoadBalancer UUID
  | CallDeleteLoadBalancerService UUID UUID
  | CallGetInstance UUID
  | CallGetInstanceType UUID
  | CallGetLoadBalancer UUID
  | CallListInstances
  | CallListLoadBalancers
  | CallListSKSClusters
  | CallUpdateLoadBalancer UUID UpdateLoadBalancerRequest
  | CallUpdateLoadBalancerService UUID UUID UpdateLoadBalancerServiceRequest
  | CallWait Operation "string list"

text \<open>
  \<^verbatim>\<open>mock.Mock\<close> records the calls and answers from its script; the script is any client \<open>exo\<close>
  over any state, so a statement about the recorded calls holds for every behaviour of the
  service.
\<close>

record 'w mock =
  mock_world :: 'w
  Calls :: "api_call list"

definition Called :: "api_call \<Rightarrow> ('w, 'a) M \<Rightarrow> ('w mock, 'a) M" where
  "Called c answer = (\<lambda>m. case answer (mock_world m) of (r, w) \<Rightarrow>
     (r, \<lparr>mock_world = w, Calls = Calls m @ [c]\<rparr>))"

definition exoscaleClientMock :: "'w exoscaleClient \<Rightarrow> ('w mock) exoscaleClient" where
  "exoscaleClientMock exo =
     \<lparr>CreateLoadBalancer = (\<lambda>req. Called (CallCreateLoadBalancer req) (CreateLoadBalancer exo req)),
      AddServiceToLoadBalancer = (\<lambda>id req.
        Called (CallAddServiceToLoadBalancer id req) (AddServiceToLoadBalancer exo id req)),
      DeleteLoadBalancer = (\<lambda>id. Called (CallDeleteLoadBalancer id) (DeleteLoadBalancer exo id)),
      DeleteLoadBalancerService = (\<lambda>id sid.
        Called (CallDeleteLoadBalancerService id sid) (DeleteLoadBalancerService exo id sid)),
      GetInstance = (\<lambda>id. Called (CallGetInstance id) (GetInstance exo id)),
      GetInstanceType = (\<lambda>id. Called (CallGetInstanceType id) (GetInstanceType exo id)),
      GetLoadBalancer = (\<lambda>id. Called (CallGetLoadBalancer id) (GetLoadBalancer exo id)),
      ListInstances = Called CallListInstances (ListInstances exo),
      ListLoadBalancers = Called CallListLoadBalancers (ListLoadBalancers exo),
      ListSKSClusters = Called CallListSKSClusters (ListSKSClusters exo),
      UpdateLoadBalancer = (\<lambda>id req. Called (CallUpdateLoadBalancer id req) (UpdateLoadBalancer exo id req)),
      UpdateLoadBalancerService = (\<lambda>id sid req.
        Called (CallUpdateLoadBalancerService id sid req) (UpdateLoadBalancerService exo id sid req)),
      Wait = (\<lambda>op states. Called (CallWait op states) (Wait exo op states))\<rparr>"

section \<open>Facts\<close>

lemma FindLoadBalancer_Inr:
  "FindLoadBalancer lbs n = Inr lb \<Longrightarrow>
   filter (\<lambda>l. lb_Name l = n \<or> lb_ID l = n) lbs = [lb]"
  by (cases "filter (\<lambda>l. lb_Name l = n \<or> lb_ID l = n) lbs")
    (auto simp: FindLoadBalancer_def Let_def split: if_splits)

lemma FindSKSCluster_Inr:
  "FindSKSCluster cs n = Inr c \<Longrightarrow>
   filter (\<lambda>l. sks_Name l = n \<or> sks_ID l = n) cs = [c]"
  by (cases "filter (\<lambda>l. sks_Name l = n \<or> sks_ID l = n) cs")
    (auto simp: FindSKSCluster_def Let_def split: if_splits)

text \<open>A recorded call keeps a condition on the call list when the condition allows that call.\<close>

lemma keeps_Called: "P c \<Longrightarrow> keeps (\<lambda>m. list_all P (Calls m)) (Called c answer)"
  by (auto simp: keeps_def Called_def split: prod.split)

lemma Calls_Called: "Calls (snd (Called c answer m)) = Calls m @ [c]"
  by (simp add: Called_def split: prod.split)

lemma fst_Called: "fst (Called c answer m) = fst (answer (mock_world m))"
  by (simp add: Called_def split: prod.split)

end
