(* ===== verification/Kube_API.thy ===== *)
theory Kube_API
  imports Ego_API
begin

text \<open>
  The Kubernetes side as the program sees it: the fields of \<^verbatim>\<open>v1.Service\<close> and \<^verbatim>\<open>v1.Node\<close> that it
  reads or writes, the requests it sends to the API server (parameters: the server is not part
  of the program), and the \<^verbatim>\<open>Get\<close> of the vendored \<^verbatim>\<open>k8s.io/client-go\<close>, which the program calls
  for nodes. The 32-bit port numbers are integers; nothing is computed with them. A nil
  annotation map is the empty map: reading one cannot tell them apart and the JSON text of both
  is the same.
\<close>

record ServicePort =
  sp_Port :: int
  sp_NodePort :: int
  sp_Protocol :: string

record Service =
  s_Namespace :: string
  s_Name :: string
  s_UID :: string
  s_Annotations :: "string \<rightharpoonup> string"
  s_Ports :: "ServicePort list"
  s_ExternalTrafficPolicy :: string
  s_HealthCheckNodePort :: int

record NodeAddress =
  na_Type :: string
  na_Address :: string

record Node =
  n_Name :: string
  n_Annotations :: "string \<rightharpoonup> string"
  n_ProviderID :: string
  n_SystemUUID :: string

text \<open>
  A \<^verbatim>\<open>Get\<close> of the Kubernetes client returns a pointer and an error, and the program sometimes uses
  the pointer without looking at the error; so both are results here (\<open>None\<close>: a nil pointer, no
  error).
\<close>

record 'w kubeClient =
  NodesGet :: "string \<Rightarrow> 'w \<Rightarrow> (Node option \<times> error option) \<times> 'w"
  ServicesPatch :: "string \<Rightarrow> string \<Rightarrow> string \<Rightarrow> ('w, unit) M"

text \<open>
  \<^verbatim>\<open>gentype.Client.Get\<close>: the object is allocated before the request is sent and returned with
  the error, so the pointer is never nil.
\<close>

definition newObject :: Node where
  "newObject = \<lparr>n_Name = [], n_Annotations = Map.empty, n_ProviderID = [], n_SystemUUID = []\<rparr>"

definition Client_Get :: "(string \<Rightarrow> ('w, Node) M) \<Rightarrow> string \<Rightarrow> 'w \<Rightarrow> (Node option \<times> error option) \<times> 'w" where
  "Client_Get request name = (\<lambda>w. case request name w of
     (Inl e, w') \<Rightarrow> ((Some newObject, Some e), w')
   | (Inr node, w') \<Rightarrow> ((Some node, None), w'))"

text \<open>\<^verbatim>\<open>node, err := ...Get(...); if err != nil { return err }\<close>\<close>

definition getNodeM :: "'w kubeClient \<Rightarrow> string \<Rightarrow> ('w, Node) M" where
  "getNodeM kc name = (\<lambda>w. case NodesGet kc name w of
     ((_, Some e), w') \<Rightarrow> (Inl e, w')
   | ((Some n, None), w') \<Rightarrow> (Inr n, w')
   | ((None, None), w') \<Rightarrow> (Inl (Panic ''nil pointer dereference''), w'))"

definition AnnotationAlphaProvidedIPAddr :: string where
  "AnnotationAlphaProvidedIPAddr = ''alpha.kubernetes.io/provided-node-ip''"

text \<open>
  The lookup that \<^verbatim>\<open>NodeAddressesByProviderID\<close> and the CSR agent share: the node by the instance
  name, and by the lower-cased name when that pointer is nil; then the annotation.
\<close>

definition providedNodeIP :: "'w kubeClient \<Rightarrow> string \<Rightarrow> 'w \<Rightarrow> string option \<times> 'w" where
  "providedNodeIP kc name = (\<lambda>w.
     case NodesGet kc name w of ((n1, _), w1) \<Rightarrow>
     (case (case n1 of Some n \<Rightarrow> (Some n, w1)
            | None \<Rightarrow> (case NodesGet kc (ToLower name) w1 of ((n2, _), w2) \<Rightarrow> (n2, w2))) of
        (None, w3) \<Rightarrow> (None, w3)
      | (Some n, w3) \<Rightarrow> (n_Annotations n AnnotationAlphaProvidedIPAddr, w3)))"

section \<open>Facts\<close>

lemma Client_Get_not_nil: "fst (fst (Client_Get request name w)) \<noteq> None"
  by (auto simp: Client_Get_def split: prod.split sum.split)

lemma getNodeM_Client_Get:
  "NodesGet kc = Client_Get request \<Longrightarrow> getNodeM kc name = request name"
  by (auto simp: getNodeM_def Client_Get_def fun_eq_iff split: prod.split sum.split)

end
