(* ===== verification/Go_Sha256.thy ===== *)
theory Go_Sha256
  imports Go_Net
begin

text \<open>
  \<^verbatim>\<open>crypto/sha256\<close>, \<^verbatim>\<open>Sum256\<close>: the hash function of FIPS 180-4 on 32-bit words, and its \<^verbatim>\<open>%x\<close> text.
  The program derives the default external ID of an instance override from it.
\<close>

unbundle bit_operations_syntax

type_synonym w32 = "32 word"

definition rotr :: "nat \<Rightarrow> w32 \<Rightarrow> w32" where
  "rotr n x = drop_bit n x OR push_bit (32 - n) x"

definition Ch :: "w32 \<Rightarrow> w32 \<Rightarrow> w32 \<Rightarrow> w32" where
  "Ch x y z = (x AND y) XOR (NOT x AND z)"

definition Maj :: "w32 \<Rightarrow> w32 \<Rightarrow> w32 \<Rightarrow> w32" where
  "Maj x y z = (x AND y) XOR (x AND z) XOR (y AND z)"

definition bigSigma0 :: "w32 \<Rightarrow> w32" where
  "bigSigma0 x = rotr 2 x XOR rotr 13 x XOR rotr 22 x"

definition bigSigma1 :: "w32 \<Rightarrow> w32" where
  "bigSigma1 x = rotr 6 x XOR rotr 11 x XOR rotr 25 x"

definition smallSigma0 :: "w32 \<Rightarrow> w32" where
  "smallSigma0 x = rotr 7 x XOR rotr 18 x XOR drop_bit 3 x"

definition smallSigma1 :: "w32 \<Rightarrow> w32" where
  "smallSigma1 x = rotr 17 x XOR rotr 19 x XOR drop_bit 10 x"

definition K256 :: "w32 list" where
  "K256 =
    [1116352408, 1899447441, 3049323471, 3921009573, 961987163, 1508970993, 2453635748, 2870763221,
     3624381080, 310598401, 607225278, 1426881987, 1925078388, 2162078206, 2614888103, 3248222580,
     3835390401, 4022224774, 264347078, 604807628, 770255983, 1249150122, 1555081692, 1996064986,
     2554220882, 2821834349, 2952996808, 3210313671, 3336571891, 3584528711, 113926993, 338241895,
     666307205, 773529912, 1294757372, 1396182291, 1695183700, 1986661051, 2177026350, 2456956037,
     2730485921, 2820302411, 3259730800, 3345764771, 3516065817, 3600352804, 4094571909, 275423344,
     430227734, 506948616, 659060556, 883997877, 958139571, 1322822218, 1537002063, 1747873779,
     1955562222, 2024104815, 2227730452, 2361852424, 2428436474, 2756734187, 3204031479, 3329325298]"

definition H256 :: "w32 list" where
  "H256 = [1779033703, 3144134277, 1013904242, 2773480762, 1359893119, 2600822924, 528734635, 1541459225]"

text \<open>Padding: a one bit, zeros, and the length in bits as 64 bits, to a multiple of 64 bytes.\<close>

definition length_bytes :: "64 word \<Rightarrow> 8 word list" where
  "length_bytes n = map (\<lambda>k. ucast (drop_bit k n)) [56, 48, 40, 32, 24, 16, 8, 0]"

definition sha_pad :: "8 word list \<Rightarrow> 8 word list" where
  "sha_pad m = m @ [0x80] @ replicate ((119 - length m mod 64) mod 64) 0 @ length_bytes (word_of_nat (8 * length m))"

fun be_words :: "8 word list \<Rightarrow> w32 list" where
  "be_words (a # b # c # d # r) =
     (push_bit 24 (ucast a) OR push_bit 16 (ucast b) OR push_bit 8 (ucast c) OR ucast d) # be_words r"
| "be_words r = []"

text \<open>The message schedule: the window of the last sixteen words produces the next one.\<close>

fun schedule :: "nat \<Rightarrow> w32 list \<Rightarrow> w32 list" where
  "schedule 0 win = win"
| "schedule (Suc n) win =
     hd win # schedule n (tl win @ [smallSigma1 (win ! 14) + win ! 9 + smallSigma0 (win ! 1) + hd win])"

fun sha_round :: "w32 \<times> w32 \<Rightarrow> w32 list \<Rightarrow> w32 list" where
  "sha_round (k, w) [a, b, c, d, e, f, g, h] =
     (let t1 = h + bigSigma1 e + Ch e f g + k + w; t2 = bigSigma0 a + Maj a b c
      in [t1 + t2, a, b, c, d + t1, e, f, g])"
| "sha_round kw s = s"

definition sha_block :: "w32 list \<Rightarrow> w32 list \<Rightarrow> w32 list" where
  "sha_block h block = map2 (+) h (fold sha_round (zip K256 (schedule 48 block)) h)"

fun sha_blocks :: "nat \<Rightarrow> w32 list \<Rightarrow> w32 list \<Rightarrow> w32 list" where
  "sha_blocks 0 ws h = h"
| "sha_blocks (Suc n) ws h = sha_blocks n (drop 16 ws) (sha_block h (take 16 ws))"

definition word_bytes :: "w32 \<Rightarrow> 8 word list" where
  "word_bytes w = map (\<lambda>k. ucast (drop_bit k w)) [24, 16, 8, 0]"

definition Sum256 :: "8 word list \<Rightarrow> 8 word list" where
  "Sum256 m = (let ws = be_words (sha_pad m) in concat (map word_bytes (sha_blocks (length ws div 16) ws H256)))"

definition string_bytes :: "string \<Rightarrow> 8 word list" where
  "string_bytes s = map (\<lambda>c. word_of_nat (byte c)) s"

text \<open>\<^verbatim>\<open>fmt.Sprintf("%x", sum)\<close>\<close>

definition hex_string :: "8 word list \<Rightarrow> string" where
  "hex_string bs = concat (map hex_byte bs)"

section \<open>Sizes\<close>

lemma sha_pad_blocks: "64 dvd length (sha_pad m)"
proof -
  define r where "r = length m mod 64"
  have r: "r < 64" "length m = 64 * (length m div 64) + r" by (simp_all add: r_def)
  have "64 dvd r + 1 + (119 - r) mod 64 + 8"
    using r(1) by (cases "r < 56") (simp_all add: mod_if)
  then have "64 dvd 64 * (length m div 64) + (r + 1 + (119 - r) mod 64 + 8)" by simp
  moreover have "length (sha_pad m) = 64 * (length m div 64) + (r + 1 + (119 - r) mod 64 + 8)"
    using r(2) by (simp add: sha_pad_def length_bytes_def r_def [symmetric])
  ultimately show ?thesis by (simp only:)
qed

lemma sha_round_length: "length (sha_round kw s) = length s"
  by (cases "(kw, s)" rule: sha_round.cases) (auto simp: Let_def)

lemma fold_sha_round_length: "length (fold sha_round kws s) = length s"
  by (induction kws arbitrary: s) (simp_all add: sha_round_length)

lemma sha_blocks_length: "length (sha_blocks n ws h) = length h"
  by (induction n arbitrary: ws h) (simp_all add: sha_block_def fold_sha_round_length)

lemma concat_fixed_length: "(\<And>x. length (f x) = k) \<Longrightarrow> length (concat (map f xs)) = k * length xs"
  by (induction xs) auto

lemma word_bytes_length: "length (word_bytes w) = 4"
  by (simp add: word_bytes_def)

lemma hex_byte_length: "length (hex_byte b) = 2"
  by (simp add: hex_byte_def)

lemma Sum256_length: "length (Sum256 m) = 32"
  by (simp add: Sum256_def Let_def concat_fixed_length [where f = word_bytes and k = 4, OF word_bytes_length] sha_blocks_length H256_def)

lemma hex_string_length: "length (hex_string bs) = 2 * length bs"
  by (simp add: hex_string_def concat_fixed_length [where f = hex_byte and k = 2, OF hex_byte_length])

end
