(* ===== verification/Cloud_Config.thy ===== *)
theory Cloud_Config
  imports Kube_API Go_Sha256
begin

text \<open>
  The configuration: \<^verbatim>\<open>exoscale/exoscale_config.go\<close>, \<^verbatim>\<open>exoscale/instances_config.go\<close>,
  \<^verbatim>\<open>exoscale/loadbalancer_config.go\<close>, and \<^verbatim>\<open>formatProviderID\<close> of \<^verbatim>\<open>exoscale/common.go\<close>.
  The YAML decoder and the regular expression engine are parameters; every statement holds for
  whatever they do. The environment is a map.
\<close>

section \<open>Types\<close>

record instancesOverrideAddressConfig =
  oa_Type :: string
  oa_Address :: string

record instancesOverrideConfig =
  ov_Name :: string
  ov_External :: bool
  ov_ExternalID :: string
  ov_Type :: string
  ov_Addresses :: "instancesOverrideAddressConfig list"
  ov_Region :: string

record instancesConfig =
  ic_Disabled :: bool
  ic_Overrides :: "instancesOverrideConfig list"
  ic_ExternalOnly :: bool

record loadBalancerConfig =
  lc_Disabled :: bool

record globalConfig =
  gc_APIKey :: string
  gc_APISecret :: string
  gc_APICredentialsFile :: string
  gc_APIEndpoint :: string

record cloudConfig =
  cc_Global :: globalConfig
  cc_Instances :: instancesConfig
  cc_LoadBalancer :: loadBalancerConfig

definition providerPrefix :: string where
  "providerPrefix = ''exoscale://''"

definition formatProviderID :: "string \<Rightarrow> error + UUID" where
  "formatProviderID providerID =
     (if providerID = [] then Inl (ErrNew ''provider ID cannot be empty'')
      else Inr (TrimPrefix providerID providerPrefix))"

section \<open>Instance overrides\<close>

type_synonym regexpMatch = "string \<Rightarrow> string \<Rightarrow> error + bool"

definition defaultInstanceOverrideExternalID :: "string \<Rightarrow> string" where
  "defaultInstanceOverrideExternalID overrideName =
     ''external-'' @ hex_string (Sum256 (string_bytes overrideName))"

definition matchesName :: "string \<Rightarrow> instancesOverrideConfig \<Rightarrow> bool" where
  "matchesName nodeName candidate \<longleftrightarrow> ov_Name candidate \<noteq> [] \<and> nodeName = ov_Name candidate"

definition matchesRegexp :: "regexpMatch \<Rightarrow> string \<Rightarrow> instancesOverrideConfig \<Rightarrow> bool" where
  "matchesRegexp rx nodeName candidate \<longleftrightarrow>
     HasPrefix (ov_Name candidate) ''/'' \<and> HasSuffix (ov_Name candidate) ''/'' \<and>
     (case rx (Trim (ov_Name candidate) (CHR ''/'')) nodeName of Inl e \<Rightarrow> False | Inr match \<Rightarrow> match)"

definition getInstanceOverride ::
  "regexpMatch \<Rightarrow> instancesConfig \<Rightarrow> string \<Rightarrow> instancesOverrideConfig option" where
  "getInstanceOverride rx c nodeName =
     (case List.find (matchesName nodeName) (ic_Overrides c) of
        Some config \<Rightarrow> Some config
      | None \<Rightarrow> List.find (matchesRegexp rx nodeName) (ic_Overrides c))"

definition matchesExternalID :: "string \<Rightarrow> instancesOverrideConfig \<Rightarrow> bool" where
  "matchesExternalID instanceID candidate \<longleftrightarrow>
     ov_ExternalID candidate \<noteq> [] \<and> instanceID = ov_ExternalID candidate"

definition matchesDefaultID :: "string \<Rightarrow> instancesOverrideConfig \<Rightarrow> bool" where
  "matchesDefaultID instanceID candidate \<longleftrightarrow>
     ov_ExternalID candidate = [] \<and> instanceID = defaultInstanceOverrideExternalID (ov_Name candidate)"

definition getInstanceOverrideByProviderID :: "instancesConfig \<Rightarrow> string \<Rightarrow> instancesOverrideConfig option" where
  "getInstanceOverrideByProviderID c providerID =
     (let instanceID = TrimPrefix providerID providerPrefix in
      case List.find (matchesExternalID instanceID) (ic_Overrides c) of
        Some config \<Rightarrow> Some config
      | None \<Rightarrow> List.find (matchesDefaultID instanceID) (ic_Overrides c))"

section \<open>Reading the configuration\<close>

definition zeroConfig :: cloudConfig where
  "zeroConfig =
     \<lparr>cc_Global = \<lparr>gc_APIKey = [], gc_APISecret = [], gc_APICredentialsFile = [], gc_APIEndpoint = []\<rparr>,
      cc_Instances = \<lparr>ic_Disabled = False, ic_Overrides = [], ic_ExternalOnly = False\<rparr>,
      cc_LoadBalancer = \<lparr>lc_Disabled = False\<rparr>\<rparr>"

definition fromEnv :: "(string \<rightharpoonup> string) \<Rightarrow> string \<Rightarrow> string \<Rightarrow> string" where
  "fromEnv env name configured = (case env name of Some value \<Rightarrow> value | None \<Rightarrow> configured)"

definition endpointFromEnv :: "(string \<rightharpoonup> string) \<Rightarrow> string \<Rightarrow> string" where
  "endpointFromEnv env configured =
     (case env ''EXOSCALE_API_ENDPOINT'' of
        Some value \<Rightarrow> value
      | None \<Rightarrow>
          (case env ''EXOSCALE_API_ENVIRONMENT'' of
             Some value \<Rightarrow>
               if value = ''ppapi'' then ''https://'' @ value @ ''-ch-gva-2.exoscale.com/v2'' else configured
           | None \<Rightarrow> configured))"

definition readExoscaleConfig ::
  "(string \<Rightarrow> error + cloudConfig) \<Rightarrow> (string \<rightharpoonup> string) \<Rightarrow> string option \<Rightarrow> error + cloudConfig" where
  "readExoscaleConfig yamlDecode env config =
     (case (case config of None \<Rightarrow> Inr zeroConfig | Some text \<Rightarrow> yamlDecode text) of
        Inl e \<Rightarrow> Inl e
      | Inr cfg \<Rightarrow>
          let g = cc_Global cfg in
          Inr (cfg\<lparr>cc_Global :=
            \<lparr>gc_APIKey = fromEnv env ''EXOSCALE_API_KEY'' (gc_APIKey g),
             gc_APISecret = fromEnv env ''EXOSCALE_API_SECRET'' (gc_APISecret g),
             gc_APICredentialsFile = fromEnv env ''EXOSCALE_API_CREDENTIALS_FILE'' (gc_APICredentialsFile g),
             gc_APIEndpoint = endpointFromEnv env (gc_APIEndpoint g)\<rparr>\<rparr>))"

section \<open>Facts\<close>

lemma providerPrefix_not_Nil [simp]: "providerPrefix \<noteq> []"
  by (simp add: providerPrefix_def)

lemma formatProviderID_prefixed: "formatProviderID (providerPrefix @ i) = Inr i"
  by (simp add: formatProviderID_def)

lemma getInstanceOverride_in:
  assumes "getInstanceOverride rx c n = Some ov"
  shows "ov \<in> set (ic_Overrides c) \<and> (matchesName n ov \<or> matchesRegexp rx n ov)"
  using assms by (auto simp: getInstanceOverride_def split: option.splits dest!: find_Some_in)

lemma getInstanceOverrideByProviderID_in:
  assumes "getInstanceOverrideByProviderID c p = Some ov"
  shows "ov \<in> set (ic_Overrides c) \<and>
    (matchesExternalID (TrimPrefix p providerPrefix) ov \<or> matchesDefaultID (TrimPrefix p providerPrefix) ov)"
  using assms by (auto simp: getInstanceOverrideByProviderID_def Let_def split: option.splits dest!: find_Some_in)

lemma defaultInstanceOverrideExternalID_length: "length (defaultInstanceOverrideExternalID n) = 73"
  by (simp add: defaultInstanceOverrideExternalID_def hex_string_length Sum256_length)

text \<open>The identity under which an external override is known.\<close>

definition overrideID :: "instancesOverrideConfig \<Rightarrow> string" where
  "overrideID ov = (if ov_ExternalID ov \<noteq> [] then ov_ExternalID ov
     else defaultInstanceOverrideExternalID (ov_Name ov))"

lemma find_unique:
  assumes "x \<in> set xs" and "P x" and "\<And>y. y \<in> set xs \<Longrightarrow> P y \<Longrightarrow> y = x"
  shows "List.find P xs = Some x"
  using assms by (metis find_None_all find_Some_in option.exhaust)

lemma find_none: "(\<And>y. y \<in> set xs \<Longrightarrow> \<not> P y) \<Longrightarrow> List.find P xs = None"
  by (simp add: find_None_all)

lemma matches_overrideID:
  "matchesExternalID i y \<Longrightarrow> overrideID y = i" "matchesDefaultID i y \<Longrightarrow> overrideID y = i"
  by (simp_all add: matchesExternalID_def matchesDefaultID_def overrideID_def)

text \<open>An override whose identity nobody shares is found under that identity.\<close>

lemma getInstanceOverrideByProviderID_overrideID:
  assumes "ov \<in> set (ic_Overrides c)"
    and unique: "\<And>o'. o' \<in> set (ic_Overrides c) \<Longrightarrow> overrideID o' = overrideID ov \<Longrightarrow> o' = ov"
  shows "getInstanceOverrideByProviderID c (providerPrefix @ overrideID ov) = Some ov"
proof -
  have ext: "y = ov" if "y \<in> set (ic_Overrides c)" "matchesExternalID (overrideID ov) y" for y
    using unique [OF that(1)] matches_overrideID(1) [OF that(2)] .
  have def: "y = ov" if "y \<in> set (ic_Overrides c)" "matchesDefaultID (overrideID ov) y" for y
    using unique [OF that(1)] matches_overrideID(2) [OF that(2)] .
  show ?thesis
  proof (cases "ov_ExternalID ov = []")
    case True
    then have "\<not> matchesExternalID (overrideID ov) ov" by (simp add: matchesExternalID_def)
    with ext have "List.find (matchesExternalID (overrideID ov)) (ic_Overrides c) = None"
      by (intro find_none) blast
    moreover have "matchesDefaultID (overrideID ov) ov" using True by (simp add: matchesDefaultID_def overrideID_def)
    with assms(1) def have "List.find (matchesDefaultID (overrideID ov)) (ic_Overrides c) = Some ov"
      by (intro find_unique)
    ultimately show ?thesis by (simp add: getInstanceOverrideByProviderID_def)
  next
    case False
    then have "matchesExternalID (overrideID ov) ov" by (simp add: matchesExternalID_def overrideID_def)
    with assms(1) ext have "List.find (matchesExternalID (overrideID ov)) (ic_Overrides c) = Some ov"
      by (intro find_unique)
    then show ?thesis by (simp add: getInstanceOverrideByProviderID_def)
  qed
qed

end
