(* ===== verification/Instances.thy ===== *)
theory Instances
  imports Cloud_Config
begin

text \<open>
  \<^verbatim>\<open>exoscale/instances.go\<close>, \<^verbatim>\<open>exoscale/instances_v2.go\<close> and \<^verbatim>\<open>exoscale/common.go\<close>: what the node
  controllers ask about the instances behind the nodes, in the old interface (by node name or provider ID)
  and in the new one (by node object). The provider is a record; its clients are nil until
  \<^verbatim>\<open>Initialize\<close> has run, and a call through a nil client panics.
\<close>

section \<open>The provider\<close>

record 'w cloudProvider =
  p_cfg :: cloudConfig
  p_client :: "'w exoscaleClient option"
  p_kclient :: "'w kubeClient option"
  p_zone :: string

definition nilPanic :: error where
  "nilPanic = Panic ''invalid memory address or nil pointer dereference''"

definition clientM :: "'w cloudProvider \<Rightarrow> ('w exoscaleClient \<Rightarrow> ('w, 'a) M) \<Rightarrow> ('w, 'a) M" where
  "clientM p f = (case p_client p of None \<Rightarrow> failM nilPanic | Some cl \<Rightarrow> f cl)"

definition kclientM :: "'w cloudProvider \<Rightarrow> ('w kubeClient \<Rightarrow> ('w, 'a) M) \<Rightarrow> ('w, 'a) M" where
  "kclientM p f = (case p_kclient p of None \<Rightarrow> failM nilPanic | Some kc \<Rightarrow> f kc)"

definition computeInstanceByProviderID :: "'w cloudProvider \<Rightarrow> string \<Rightarrow> ('w, Instance) M" where
  "computeInstanceByProviderID p providerID =
     bindM (liftE (formatProviderID providerID)) (\<lambda>i. clientM p (\<lambda>cl. GetInstance cl i))"

record 'w instances =
  i_p :: "'w cloudProvider"
  i_cfg :: instancesConfig

definition newInstances :: "'w cloudProvider \<Rightarrow> instancesConfig \<Rightarrow> 'w instances" where
  "newInstances provider config = \<lparr>i_p = provider, i_cfg = config\<rparr>"

definition errExternalOnly :: error where
  "errExternalOnly = Errorf ''no override found (Exoscale API disabled)'' []"

section \<open>Labels\<close>

text \<open>
  \<^verbatim>\<open>labelInvalidCharsRegex.ReplaceAllString(s, "")\<close>. Every match of the expression is one
  character: the first or the last one when it is not a letter or digit, and any character outside of
  \<^verbatim>\<open>[-A-Za-z0-9_.]\<close>.
\<close>

definition is_alnum :: "char \<Rightarrow> bool" where
  "is_alnum c \<longleftrightarrow> (65 \<le> byte c \<and> byte c \<le> 90) \<or> (97 \<le> byte c \<and> byte c \<le> 122) \<or> is_digit c"

definition is_label_char :: "char \<Rightarrow> bool" where
  "is_label_char c \<longleftrightarrow> is_alnum c \<or> c = CHR ''-'' \<or> c = CHR ''_'' \<or> c = CHR ''.''"

definition labelMatch :: "nat \<Rightarrow> nat \<Rightarrow> char \<Rightarrow> bool" where
  "labelMatch len pos c \<longleftrightarrow>
     (pos = 0 \<and> \<not> is_alnum c) \<or> (Suc pos = len \<and> \<not> is_alnum c) \<or> \<not> is_label_char c"

fun labelReplace :: "nat \<Rightarrow> nat \<Rightarrow> string \<Rightarrow> string" where
  "labelReplace len pos [] = []"
| "labelReplace len pos (c # cs) =
     (if labelMatch len pos c then labelReplace len (Suc pos) cs else c # labelReplace len (Suc pos) cs)"

definition labelReplaceAll :: "string \<Rightarrow> string" where
  "labelReplaceAll s = labelReplace (length s) 0 s"

definition getInstanceTypeName :: "string \<Rightarrow> string \<Rightarrow> string" where
  "getInstanceTypeName family sz = family @ ''.'' @ sz"

text \<open>The last lines of both type lookups.\<close>

definition instanceTypeLabel :: "'w cloudProvider \<Rightarrow> Instance \<Rightarrow> ('w, string) M" where
  "instanceTypeLabel p inst =
     (case inst_InstanceType inst of
        None \<Rightarrow> failM nilPanic
      | Some t \<Rightarrow>
          bindM (clientM p (\<lambda>cl. GetInstanceType cl t)) (\<lambda>instanceType.
          returnM (labelReplaceAll (getInstanceTypeName (it_Family instanceType) (it_Size instanceType)))))"

section \<open>The interface by name and provider ID\<close>

text \<open>The static addresses of an override, if they settle the question.\<close>

definition overrideAddresses :: "instancesOverrideConfig \<Rightarrow> NodeAddress list" where
  "overrideAddresses ov = map (\<lambda>a. \<lparr>na_Type = oa_Type a, na_Address = oa_Address a\<rparr>) (ov_Addresses ov)"

definition staticAddresses :: "instancesOverrideConfig option \<Rightarrow> NodeAddress list option" where
  "staticAddresses override = (case override of
     None \<Rightarrow> None
   | Some ov \<Rightarrow>
       if length (ov_Addresses ov) > 0 then Some (overrideAddresses ov)
       else if ov_External ov then Some [] else None)"

definition instanceAddresses :: "Instance \<Rightarrow> string option \<Rightarrow> NodeAddress list" where
  "instanceAddresses inst providedIP =
     (let foundInternalIP = providedIP \<noteq> None in
      [\<lparr>na_Type = ''Hostname'', na_Address = inst_Name inst\<rparr>] @
      (case providedIP of None \<Rightarrow> [] | Some ip \<Rightarrow> [\<lparr>na_Type = ''InternalIP'', na_Address = ip\<rparr>]) @
      (if inst_PublicIP inst \<noteq> [] then
         [\<lparr>na_Type = ''ExternalIP'', na_Address = IP_String (inst_PublicIP inst)\<rparr>] @
         (if \<not> foundInternalIP then [\<lparr>na_Type = ''InternalIP'', na_Address = IP_String (inst_PublicIP inst)\<rparr>] else [])
       else []) @
      (if inst_Ipv6Address inst \<noteq> [] then
         [\<lparr>na_Type = ''ExternalIP'', na_Address = inst_Ipv6Address inst\<rparr>] @
         (if \<not> foundInternalIP then [\<lparr>na_Type = ''InternalIP'', na_Address = inst_Ipv6Address inst\<rparr>] else [])
       else []))"

definition NodeAddressesByProviderID :: "'w instances \<Rightarrow> string \<Rightarrow> ('w, NodeAddress list) M" where
  "NodeAddressesByProviderID i providerID =
     (case staticAddresses (getInstanceOverrideByProviderID (i_cfg i) providerID) of
        Some nodeAddresses \<Rightarrow> returnM nodeAddresses
      | None \<Rightarrow>
          if ic_ExternalOnly (i_cfg i) then failM errExternalOnly
          else
            bindM (computeInstanceByProviderID (i_p i) providerID) (\<lambda>inst.
            bindM (if p_client (i_p i) \<noteq> None \<and> inst_PrivateNetworks inst \<noteq> []
                   then kclientM (i_p i) (\<lambda>kc w. case providedNodeIP kc (inst_Name inst) w of (ip, w') \<Rightarrow> (Inr ip, w'))
                   else returnM None) (\<lambda>providedIP.
            returnM (instanceAddresses inst providedIP))))"

text \<open>\<^verbatim>\<open>if override != nil { if override.External { ... } }\<close>\<close>

definition externalOverride :: "instancesOverrideConfig option \<Rightarrow> instancesOverrideConfig option" where
  "externalOverride override = (case override of
     None \<Rightarrow> None | Some ov \<Rightarrow> if ov_External ov then Some ov else None)"

definition InstanceID :: "regexpMatch \<Rightarrow> 'w instances \<Rightarrow> string \<Rightarrow> ('w, string) M" where
  "InstanceID rx i nodeName =
     (case externalOverride (getInstanceOverride rx (i_cfg i) nodeName) of
        Some ov \<Rightarrow>
          if ov_ExternalID ov \<noteq> [] then returnM (ov_ExternalID ov)
          else returnM (defaultInstanceOverrideExternalID (ov_Name ov))
      | None \<Rightarrow>
          if ic_ExternalOnly (i_cfg i) then failM errExternalOnly
          else
            bindM (wrapM (ErrorfS ''failed to retrieve node %s from the apiserver: %s'' [nodeName])
                     (kclientM (i_p i) (\<lambda>kc. getNodeM kc nodeName))) (\<lambda>node.
            returnM (n_SystemUUID node)))"

definition NodeAddresses :: "regexpMatch \<Rightarrow> 'w instances \<Rightarrow> string \<Rightarrow> ('w, NodeAddress list) M" where
  "NodeAddresses rx i nodeName =
     (case staticAddresses (getInstanceOverride rx (i_cfg i) nodeName) of
        Some nodeAddresses \<Rightarrow> returnM nodeAddresses
      | None \<Rightarrow>
          if ic_ExternalOnly (i_cfg i) then failM errExternalOnly
          else bindM (InstanceID rx i nodeName) (NodeAddressesByProviderID i))"

definition staticType :: "instancesOverrideConfig option \<Rightarrow> string option" where
  "staticType override = (case override of
     None \<Rightarrow> None
   | Some ov \<Rightarrow>
       if ov_Type ov \<noteq> [] then Some (ov_Type ov)
       else if ov_External ov then Some ''external'' else None)"

definition InstanceTypeByProviderID :: "'w instances \<Rightarrow> string \<Rightarrow> ('w, string) M" where
  "InstanceTypeByProviderID i providerID =
     (case staticType (getInstanceOverrideByProviderID (i_cfg i) providerID) of
        Some t \<Rightarrow> returnM t
      | None \<Rightarrow>
          if ic_ExternalOnly (i_cfg i) then failM errExternalOnly
          else bindM (computeInstanceByProviderID (i_p i) providerID) (instanceTypeLabel (i_p i)))"

definition i_InstanceType :: "regexpMatch \<Rightarrow> 'w instances \<Rightarrow> string \<Rightarrow> ('w, string) M" where
  "i_InstanceType rx i nodeName =
     (case staticType (getInstanceOverride rx (i_cfg i) nodeName) of
        Some t \<Rightarrow> returnM t
      | None \<Rightarrow>
          if ic_ExternalOnly (i_cfg i) then failM errExternalOnly
          else bindM (InstanceID rx i nodeName) (InstanceTypeByProviderID i))"

definition AddSSHKeyToAllInstances :: "('w, unit) M" where
  "AddSSHKeyToAllInstances = failM ErrNotImplemented"

definition CurrentNodeName :: "string \<Rightarrow> ('w, string) M" where
  "CurrentNodeName hostname = returnM hostname"

text \<open>An API error is passed on, except "not found": then the instance does not exist.\<close>

definition existsM :: "('w, Instance) M \<Rightarrow> ('w, bool) M" where
  "existsM lookup =
     catchM (bindM lookup (\<lambda>_. returnM True))
       (\<lambda>e. if errors_Is e ErrNotFound then returnM False else failM e)"

definition InstanceExistsByProviderID :: "'w instances \<Rightarrow> string \<Rightarrow> ('w, bool) M" where
  "InstanceExistsByProviderID i providerID =
     (if externalOverride (getInstanceOverrideByProviderID (i_cfg i) providerID) \<noteq> None then returnM True
      else if ic_ExternalOnly (i_cfg i) then returnM False
      else existsM (computeInstanceByProviderID (i_p i) providerID))"

definition InstanceShutdownByProviderID :: "'w instances \<Rightarrow> string \<Rightarrow> ('w, bool) M" where
  "InstanceShutdownByProviderID i providerID =
     (if externalOverride (getInstanceOverrideByProviderID (i_cfg i) providerID) \<noteq> None
      then failM ErrNotImplemented
      else if ic_ExternalOnly (i_cfg i) then failM errExternalOnly
      else bindM (computeInstanceByProviderID (i_p i) providerID) (\<lambda>inst.
           returnM (inst_State inst = ''stopping'' \<or> inst_State inst = ''stopped'')))"

section \<open>The interface by node object\<close>

record 'w instancesV2 =
  i2_p :: "'w cloudProvider"
  i2_cfg :: instancesConfig

definition newInstancesV2 :: "'w cloudProvider \<Rightarrow> instancesConfig \<Rightarrow> 'w instancesV2" where
  "newInstancesV2 provider config = \<lparr>i2_p = provider, i2_cfg = config\<rparr>"

definition nodeInstanceOverride ::
  "regexpMatch \<Rightarrow> 'w instancesV2 \<Rightarrow> Node \<Rightarrow> instancesOverrideConfig option" where
  "nodeInstanceOverride rx i node =
     (case (if n_ProviderID node \<noteq> [] then getInstanceOverrideByProviderID (i2_cfg i) (n_ProviderID node) else None) of
        Some ov \<Rightarrow> Some ov
      | None \<Rightarrow> getInstanceOverride rx (i2_cfg i) (n_Name node))"

definition computeInstanceByNode :: "'w instancesV2 \<Rightarrow> Node \<Rightarrow> ('w, Instance) M" where
  "computeInstanceByNode i node =
     (let providerID = (if n_ProviderID node = [] then n_SystemUUID node else n_ProviderID node) in
      computeInstanceByProviderID (i2_p i) providerID)"

definition InstanceExists :: "regexpMatch \<Rightarrow> 'w instancesV2 \<Rightarrow> Node \<Rightarrow> ('w, bool) M" where
  "InstanceExists rx i node =
     (if externalOverride (nodeInstanceOverride rx i node) \<noteq> None then returnM True
      else if ic_ExternalOnly (i2_cfg i) then returnM False
      else existsM (computeInstanceByNode i node))"

definition InstanceShutdown :: "regexpMatch \<Rightarrow> 'w instancesV2 \<Rightarrow> Node \<Rightarrow> ('w, bool) M" where
  "InstanceShutdown rx i node =
     (if externalOverride (nodeInstanceOverride rx i node) \<noteq> None then failM ErrNotImplemented
      else if ic_ExternalOnly (i2_cfg i) then failM errExternalOnly
      else bindM (computeInstanceByNode i node) (\<lambda>inst.
           returnM (inst_State inst = ''stopping'' \<or> inst_State inst = ''stopped'')))"

definition nodeAddressesFromInstance :: "Node \<Rightarrow> Instance \<Rightarrow> NodeAddress list" where
  "nodeAddressesFromInstance node inst =
     (let addresses0 = [\<lparr>na_Type = ''Hostname'', na_Address = inst_Name inst\<rparr>];
          providedIP = (if length (inst_PrivateNetworks inst) > 0
                        then n_Annotations node AnnotationAlphaProvidedIPAddr else None);
          addresses1 = (case providedIP of
              Some ip \<Rightarrow> addresses0 @ [\<lparr>na_Type = ''InternalIP'', na_Address = ip\<rparr>] | None \<Rightarrow> addresses0);
          foundInternalIP = (providedIP \<noteq> None);
          addIP = (\<lambda>ip as. if foundInternalIP then as @ [\<lparr>na_Type = ''ExternalIP'', na_Address = ip\<rparr>]
              else as @ [\<lparr>na_Type = ''ExternalIP'', na_Address = ip\<rparr>] @ [\<lparr>na_Type = ''InternalIP'', na_Address = ip\<rparr>]);
          addresses2 = (if inst_PublicIP inst \<noteq> [] then addIP (IP_String (inst_PublicIP inst)) addresses1 else addresses1)
      in (if inst_Ipv6Address inst \<noteq> [] then addIP (inst_Ipv6Address inst) addresses2 else addresses2))"

record InstanceMetadata =
  meta_ProviderID :: string
  meta_InstanceType :: string
  meta_NodeAddresses :: "NodeAddress list"
  meta_Zone :: string
  meta_Region :: string

definition i2_InstanceMetadata :: "regexpMatch \<Rightarrow> 'w instancesV2 \<Rightarrow> Node \<Rightarrow> ('w, InstanceMetadata) M" where
  "i2_InstanceMetadata rx i node =
     (let override = nodeInstanceOverride rx i node;
          staticInstanceType = (case staticType override of None \<Rightarrow> [] | Some t \<Rightarrow> t);
          staticNodeAddresses = (case override of None \<Rightarrow> [] | Some ov \<Rightarrow> overrideAddresses ov) in
      case externalOverride override of
        Some ov \<Rightarrow>
          let externalID = (if ov_ExternalID ov = [] then defaultInstanceOverrideExternalID (ov_Name ov)
                            else ov_ExternalID ov);
              region = (if ov_Region ov = [] then ''external'' else ov_Region ov) in
          returnM \<lparr>meta_ProviderID = providerPrefix @ externalID, meta_InstanceType = staticInstanceType,
            meta_NodeAddresses = staticNodeAddresses, meta_Zone = region, meta_Region = region\<rparr>
      | None \<Rightarrow>
          if ic_ExternalOnly (i2_cfg i) then failM errExternalOnly
          else
            bindM (computeInstanceByNode i node) (\<lambda>inst.
            bindM (if staticInstanceType = [] then instanceTypeLabel (i2_p i) inst else returnM staticInstanceType)
              (\<lambda>instanceType.
            returnM \<lparr>meta_ProviderID = providerPrefix @ inst_ID inst, meta_InstanceType = instanceType,
              meta_NodeAddresses = (if length staticNodeAddresses = 0 then nodeAddressesFromInstance node inst
                                    else staticNodeAddresses),
              meta_Zone = p_zone (i2_p i), meta_Region = p_zone (i2_p i)\<rparr>)))"

end
