(* ===== verification/Service_Patcher.thy ===== *)
theory Service_Patcher
  imports Kube_API
begin

text \<open>
  \<^verbatim>\<open>exoscale/patcher.go\<close> and \<^verbatim>\<open>patchAnnotation\<close> of \<^verbatim>\<open>exoscale/loadbalancer.go\<close>: how the program
  records what it found out in the annotations of the Service object.

  A handler works on a pointer to a Service: its state is the object behind that pointer and the
  outside world. The patcher keeps a deep copy of the object and the pointer itself, so that
  \<open>Patch\<close> compares the copy with what the object has become; the pointer is the state here.
  JSON encoding and the merge patch (\<^verbatim>\<open>k8s.io/apimachinery\<close>) are parameters.
\<close>

record 'w handler_state =
  st_service :: Service
  st_world :: 'w

record patchLib =
  jsonMarshal :: "Service \<Rightarrow> error + string"
  CreateTwoWayMergePatch :: "string \<Rightarrow> string \<Rightarrow> error + string"

text \<open>A request to the outside world, made from a handler.\<close>

definition callM :: "('w, 'a) M \<Rightarrow> ('w handler_state, 'a) M" where
  "callM f = (\<lambda>st. case f (st_world st) of (r, w) \<Rightarrow> (r, st\<lparr>st_world := w\<rparr>))"

record kubeServicePatcher =
  ksp_current :: Service

definition newServicePatcher :: "Service \<Rightarrow> kubeServicePatcher" where
  "newServicePatcher service = \<lparr>ksp_current = service\<rparr>"

definition Patch ::
  "'w kubeClient \<Rightarrow> patchLib \<Rightarrow> kubeServicePatcher \<Rightarrow> ('w handler_state, unit) M" where
  "Patch kc lib p =
     bindM (wrapM (ErrorfS ''failed to serialize current original object: %s'' [])
              (liftE (jsonMarshal lib (ksp_current p)))) (\<lambda>currentJSON.
     bindM (getM st_service) (\<lambda>modified.
     bindM (wrapM (ErrorfS ''failed to serialize modified updated object: %s'' [])
              (liftE (jsonMarshal lib modified))) (\<lambda>modifiedJSON.
     bindM (wrapM (ErrorfS ''failed to create 2-way merge patch: %s'' [])
              (liftE (CreateTwoWayMergePatch lib currentJSON modifiedJSON))) (\<lambda>patch.
     if patch = [] \<or> patch = ''{}'' then returnM ()
     else wrapM (ErrorfS ''failed to patch service object %s/%s: %s''
                   [s_Namespace (ksp_current p), s_Name (ksp_current p)])
            (callM (ServicesPatch kc (s_Namespace (ksp_current p)) (s_Name (ksp_current p)) patch))))))"

definition patchAnnotation ::
  "'w kubeClient \<Rightarrow> patchLib \<Rightarrow> string \<Rightarrow> string \<Rightarrow> ('w handler_state, unit) M" where
  "patchAnnotation kc lib k v =
     bindM (getM st_service) (\<lambda>service.
     let patcher = newServicePatcher service in
     if s_Annotations service k = Some v then returnM ()
     else bindM (modifyM (\<lambda>st. st\<lparr>st_service := service\<lparr>s_Annotations := (s_Annotations service)(k \<mapsto> v)\<rparr>\<rparr>))
            (\<lambda>_. Patch kc lib patcher))"

section \<open>Facts\<close>

lemma callM_service [simp]: "st_service (snd (callM f st)) = st_service st"
  by (simp add: callM_def split: prod.split)

lemma callM_world [simp]: "st_world (snd (callM f st)) = snd (f (st_world st))"
  by (simp add: callM_def split: prod.split)

lemma callM_result [simp]: "fst (callM f st) = fst (f (st_world st))"
  by (simp add: callM_def split: prod.split)

lemma callM_InrD:
  "callM f st = (Inr x, st') \<Longrightarrow>
   f (st_world st) = (Inr x, st_world st') \<and> st_service st' = st_service st"
  by (auto simp: callM_def split: prod.splits)

text \<open>A property of the world that a request keeps, a handler that makes the request keeps.\<close>

lemma keeps_callM [keeps_intros]:
  "keeps I f \<Longrightarrow> keeps (\<lambda>st. I (st_world st)) (callM f)"
  by (auto simp: keeps_def)

lemma keeps_callM_service: "keeps (\<lambda>st. I (st_service st)) (callM f)"
  by (simp add: keeps_def)

lemma keeps_world_modify [keeps_intros]:
  "(\<And>st. st_world (f st) = st_world st) \<Longrightarrow> keeps (\<lambda>st. I (st_world st)) (modifyM f)"
  by (simp add: keeps_def modifyM_def)

lemma keeps_service_Patch: "keeps (\<lambda>st. I (st_service st)) (Patch kc lib p)"
  unfolding Patch_def by (intro keeps_intros keeps_callM_service)

lemma Patch_service [simp]: "st_service (snd (Patch kc lib p st)) = st_service st"
  using keepsD [OF keeps_service_Patch [where I = "\<lambda>s. s = st_service st"], of st] by simp

lemma keeps_world_Patch [keeps_intros]:
  "(\<And>ns n p. keeps I (ServicesPatch kc ns n p)) \<Longrightarrow> keeps (\<lambda>st. I (st_world st)) (Patch kc lib q)"
  unfolding Patch_def by (intro keeps_intros)

lemma keeps_world_patchAnnotation [keeps_intros]:
  "(\<And>ns n p. keeps I (ServicesPatch kc ns n p)) \<Longrightarrow>
   keeps (\<lambda>st. I (st_world st)) (patchAnnotation kc lib k v)"
  unfolding patchAnnotation_def Let_def by (intro keeps_intros) auto

text \<open>Whatever the API server answers, the object in memory carries the annotation afterwards.\<close>

lemma patchAnnotation_service:
  "st_service (snd (patchAnnotation kc lib k v st)) =
   (st_service st)\<lparr>s_Annotations := (s_Annotations (st_service st))(k \<mapsto> v)\<rparr>"
proof (cases "s_Annotations (st_service st) k = Some v")
  case True
  then have "(s_Annotations (st_service st))(k \<mapsto> v) = s_Annotations (st_service st)" by auto
  with True show ?thesis by (simp add: patchAnnotation_def bindM_def getM_def returnM_def)
next
  case False
  then show ?thesis
    by (simp add: patchAnnotation_def bindM_def getM_def modifyM_def Let_def)
qed

text \<open>An annotation that has the value already costs no request.\<close>

lemma patchAnnotation_present:
  "s_Annotations (st_service st) k = Some v \<Longrightarrow> patchAnnotation kc lib k v st = (Inr (), st)"
  by (simp add: patchAnnotation_def bindM_def getM_def returnM_def)

end
