(* ===== verification/Go_Time.thy ===== *)
theory Go_Time
  imports Go_Strings
begin

text \<open>
  What the program uses of Go's \<^verbatim>\<open>time\<close> package: \<^verbatim>\<open>ParseDuration\<close>, \<^verbatim>\<open>Duration.Seconds\<close> and
  the conversion of the seconds to an \<^verbatim>\<open>int64\<close>. A duration is a signed 64-bit number of
  nanoseconds. The two places where Go computes in \<^verbatim>\<open>float64\<close> (a fraction of a unit; the
  seconds of a duration) are computed here with the rounding of IEEE double precision: a
  non-negative double is a fraction \<open>(p, q)\<close> of natural numbers and \<open>fl64\<close> rounds such a
  fraction to 53 significant bits, to nearest, ties to even. The magnitudes that occur are
  far from the limits of the exponent.
\<close>

section \<open>Rounding to double precision\<close>

fun bit_len :: "nat \<Rightarrow> nat" where
  "bit_len n = (if n = 0 then 0 else Suc (bit_len (n div 2)))"

declare bit_len.simps [simp del]

definition round_half_even :: "nat \<Rightarrow> nat \<Rightarrow> nat" where
  "round_half_even num den =
     (let d = num div den; r = num mod den in
      if 2 * r < den then d else if den < 2 * r then d + 1 else if even d then d else d + 1)"

definition fl64 :: "nat \<times> nat \<Rightarrow> nat \<times> nat" where
  "fl64 x = (case x of (p, q) \<Rightarrow>
     if p = 0 then (0, 1)
     else let k0 = int (bit_len p) - int (bit_len q) - 53;
              big = (if 0 \<le> k0 then q * 2 ^ (nat k0) * 2 ^ 53 \<le> p
                     else q * 2 ^ 53 \<le> p * 2 ^ (nat (- k0)));
              k = (if big then k0 + 1 else k0)
          in if 0 \<le> k then (round_half_even p (q * 2 ^ nat k) * 2 ^ nat k, 1)
             else (round_half_even (p * 2 ^ nat (- k)) q, 2 ^ nat (- k)))"

definition fl_mul :: "nat \<times> nat \<Rightarrow> nat \<times> nat \<Rightarrow> nat \<times> nat" where
  "fl_mul x y = fl64 (fst x * fst y, snd x * snd y)"

definition fl_div :: "nat \<times> nat \<Rightarrow> nat \<times> nat \<Rightarrow> nat \<times> nat" where
  "fl_div x y = fl64 (fst x * snd y, snd x * fst y)"

definition fl_add :: "nat \<times> nat \<Rightarrow> nat \<times> nat \<Rightarrow> nat \<times> nat" where
  "fl_add x y = fl64 (fst x * snd y + fst y * snd x, snd x * snd y)"

definition fl_of_nat :: "nat \<Rightarrow> nat \<times> nat" where
  "fl_of_nat n = fl64 (n, 1)"

definition fl_trunc :: "nat \<times> nat \<Rightarrow> nat" where
  "fl_trunc x = fst x div snd x"

section \<open>ParseDuration\<close>

text \<open>\<open>leadingInt\<close> consumes \<^verbatim>\<open>[0-9]*\<close>; \<open>None\<close> when the number passes \<^verbatim>\<open>1<<63\<close>.\<close>

fun leadingInt :: "string \<Rightarrow> nat \<Rightarrow> (nat \<times> string) option" where
  "leadingInt [] x = Some (x, [])"
| "leadingInt (c # s) x =
     (if \<not> is_digit c then Some (x, c # s)
      else if 2 ^ 63 div 10 < x then None
      else let y = x * 10 + digit_val c in if 2 ^ 63 < y then None else leadingInt s y)"

text \<open>\<open>leadingFraction\<close> consumes \<^verbatim>\<open>[0-9]*\<close> and never fails: digits beyond the range are skipped.\<close>

fun leadingFraction :: "string \<Rightarrow> nat \<Rightarrow> nat \<Rightarrow> bool \<Rightarrow> nat \<times> nat \<times> string" where
  "leadingFraction [] x scale overflow = (x, scale, [])"
| "leadingFraction (c # s) x scale overflow =
     (if \<not> is_digit c then (x, scale, c # s)
      else if overflow then leadingFraction s x scale overflow
      else if (2 ^ 63 - 1) div 10 < x then leadingFraction s x scale True
      else let y = x * 10 + digit_val c in
        if 2 ^ 63 < y then leadingFraction s x scale True
        else leadingFraction s y (scale * 10) False)"

definition unit_end :: "char \<Rightarrow> bool" where
  "unit_end c \<longleftrightarrow> c = CHR ''.'' \<or> is_digit c"

text \<open>The unit table; the micro sign is two bytes in UTF-8, and has two code points.\<close>

definition unitMap :: "(string \<times> nat) list" where
  "unitMap = [(''ns'', 1), (''us'', 1000),
     ([char_of (194 :: nat), char_of (181 :: nat), CHR ''s''], 1000),
     ([char_of (206 :: nat), char_of (188 :: nat), CHR ''s''], 1000),
     (''ms'', 1000000), (''s'', 1000000000), (''m'', 60000000000), (''h'', 3600000000000)]"

text \<open>
  One number with its unit, in the three parts of the loop body: the fraction after the integer
  part (with its scale, the rest of the string and whether it has a digit), the unit, and the
  whole, which gives the value in nanoseconds and the rest of the string.
\<close>

definition duration_fraction :: "string \<Rightarrow> nat \<times> nat \<times> string \<times> bool" where
  "duration_fraction s = (case s of [] \<Rightarrow> (0, 1, s, False)
     | c # s2 \<Rightarrow> if c = CHR ''.''
         then (case leadingFraction s2 0 1 False of (f, scale, s3) \<Rightarrow> (f, scale, s3, length s2 \<noteq> length s3))
         else (0, 1, s, False))"

definition duration_unit :: "nat \<Rightarrow> nat \<Rightarrow> nat \<Rightarrow> string \<Rightarrow> (nat \<times> string) option" where
  "duration_unit v f scale s =
     (let u = takeWhile (\<lambda>c. \<not> unit_end c) s; r = dropWhile (\<lambda>c. \<not> unit_end c) s in
      if u = [] then None
      else case map_of unitMap u of None \<Rightarrow> None | Some un \<Rightarrow>
        if 2 ^ 63 div un < v then None
        else if f = 0 then Some (v * un, r)
        else let v2 = v * un + fl_trunc (fl_mul (fl_of_nat f) (fl_div (fl_of_nat un) (scale, 1)))
             in if 2 ^ 63 < v2 then None else Some (v2, r))"

definition duration_piece :: "string \<Rightarrow> (nat \<times> string) option" where
  "duration_piece s =
     (if s = [] \<or> \<not> (hd s = CHR ''.'' \<or> is_digit (hd s)) then None
      else case leadingInt s 0 of None \<Rightarrow> None | Some (v, s1) \<Rightarrow>
        (case duration_fraction s1 of (f, scale, s3, post) \<Rightarrow>
           if length s = length s1 \<and> \<not> post then None else duration_unit v f scale s3))"

lemma leadingInt_length: "leadingInt s x = Some (y, r) \<Longrightarrow> length r \<le> length s"
  by (induction s x rule: leadingInt.induct) (auto simp: Let_def split: if_splits)

lemma leadingFraction_length: "leadingFraction s x sc ov = (y, sc', r) \<Longrightarrow> length r \<le> length s"
  by (induction s x sc ov rule: leadingFraction.induct) (auto simp: Let_def split: if_splits)

lemma duration_fraction_length: "duration_fraction s = (f, sc, r, b) \<Longrightarrow> length r \<le> length s"
  by (auto simp: duration_fraction_def dest: leadingFraction_length split: list.splits if_splits prod.splits)

lemma duration_unit_shrinks:
  assumes "duration_unit v f sc s = Some (w, r)"
  shows "length r < length s"
proof -
  have r: "r = dropWhile (\<lambda>c. \<not> unit_end c) s" and u: "takeWhile (\<lambda>c. \<not> unit_end c) s \<noteq> []"
    using assms by (auto simp: duration_unit_def Let_def split: if_splits option.splits)
  from u obtain c s' where "s = c # s'" and "\<not> unit_end c"
    by (cases s) (auto split: if_splits)
  then show ?thesis
    unfolding r by (simp add: le_imp_less_Suc length_dropWhile_le)
qed

text \<open>Every piece consumes at least its unit: the loop over the pieces ends.\<close>

lemma duration_piece_shrinks: "duration_piece s = Some (v, r) \<Longrightarrow> length r < length s"
  by (fastforce simp: duration_piece_def split: if_splits option.splits prod.splits
      dest: leadingInt_length duration_fraction_length duration_unit_shrinks)

text \<open>The loop of \<^verbatim>\<open>ParseDuration\<close>; the sum is an unsigned 64-bit number.\<close>

function duration_loop :: "string \<Rightarrow> nat \<Rightarrow> nat option" where
  "duration_loop s d =
     (if s = [] then Some d
      else case duration_piece s of None \<Rightarrow> None | Some (v, r) \<Rightarrow>
        let d1 = (d + v) mod 2 ^ 64 in if 2 ^ 63 < d1 then None else duration_loop r d1)"
  by pat_completeness auto
termination
  by (relation "measure (\<lambda>(s, d). length s)") (auto dest: duration_piece_shrinks)

declare duration_loop.simps [simp del]

definition ParseDuration :: "string \<Rightarrow> error + int" where
  "ParseDuration s = (case split_sign s of (neg, r) \<Rightarrow>
     if r = ''0'' then Inr 0
     else if r = [] then Inl (ErrSyntax ''ParseDuration'')
     else case duration_loop r 0 of
         None \<Rightarrow> Inl (ErrSyntax ''ParseDuration'')
       | Some d \<Rightarrow>
           if neg then Inr (- int d)
           else if 2 ^ 63 - 1 < d then Inl (ErrSyntax ''ParseDuration'')
           else Inr (int d))"

text \<open>
  \<^verbatim>\<open>int64(d.Seconds())\<close>: whole seconds and nanoseconds as doubles, added, and cut off towards
  zero. Rounding is symmetric, so a negative duration gives the negated result.
\<close>

definition Seconds_nat :: "nat \<Rightarrow> nat" where
  "Seconds_nat d = fl_trunc (fl_add (fl_of_nat (d div 1000000000))
      (fl_div (fl_of_nat (d mod 1000000000)) (1000000000, 1)))"

definition Seconds_int64 :: "int \<Rightarrow> int" where
  "Seconds_int64 d = (if d < 0 then - int (Seconds_nat (nat (- d))) else int (Seconds_nat (nat d)))"

section \<open>Facts\<close>

text \<open>A fraction that is a whole number of at most 53 bits is not changed by rounding.\<close>

lemma bit_len_le: "n < 2 ^ k \<Longrightarrow> bit_len n \<le> k"
proof (induction k arbitrary: n)
  case 0
  then show ?case by (simp add: bit_len.simps)
next
  case (Suc k)
  then have "bit_len (n div 2) \<le> k" by (intro Suc.IH) auto
  then show ?case by (subst bit_len.simps) simp
qed

lemma round_half_even_exact: "0 < q \<Longrightarrow> round_half_even (m * q) q = m"
  by (simp add: round_half_even_def Let_def)

lemma less_two_power_bit_len: "n < 2 ^ bit_len n"
proof (induction n rule: bit_len.induct)
  case (1 n)
  show ?case
  proof (cases "n = 0")
    case False
    then have "n div 2 < 2 ^ bit_len (n div 2)" by (rule "1")
    with False show ?thesis by (subst bit_len.simps) simp
  qed (simp add: bit_len.simps)
qed

lemma bit_len_mult: "bit_len (a * b) \<le> bit_len a + bit_len b"
proof (rule bit_len_le)
  show "a * b < 2 ^ (bit_len a + bit_len b)"
    using less_two_power_bit_len [of a] less_two_power_bit_len [of b]
    by (simp add: power_add mult_strict_mono')
qed

lemma fl64_exact:
  assumes "n < 2 ^ 53" and "0 < q" and "fl64 (n * q, q) = (a, b)"
  shows "a = n * b" and "0 < b"
proof -
  have "bit_len (n * q) \<le> 53 + bit_len q"
    using bit_len_mult [of n q] bit_len_le [OF assms(1)] by simp
  then have k0: "int (bit_len (n * q)) - int (bit_len q) - 53 \<le> 0" by simp
  have nb: "\<not> q * 2 ^ 53 \<le> n * q" using assms(1,2) by (simp add: mult.commute not_le)
  have e: "round_half_even (n * q * m) q = n * m" for m
    using round_half_even_exact [OF assms(2), of "n * m"] by (simp add: mult.assoc mult.commute mult.left_commute)
  have e1: "round_half_even (n * q) q = n"
    using round_half_even_exact [OF assms(2), of n] by simp
  have "a = n * b \<and> 0 < b"
    using assms(2,3) k0 nb e [of "2 ^ _"] e1
    by (auto simp: fl64_def Let_def split: if_splits)
  then show "a = n * b" and "0 < b" by auto
qed

lemma fl_trunc_fl64_exact: "n < 2 ^ 53 \<Longrightarrow> 0 < q \<Longrightarrow> fl_trunc (fl64 (n * q, q)) = n"
  using fl64_exact [of n q] by (cases "fl64 (n * q, q)") (simp add: fl_trunc_def)

lemma leadingInt_digits:
  assumes "atoi_digits ds x = Some m" and "m \<le> 2 ^ 63" and "r = [] \<or> \<not> is_digit (hd r)"
  shows "leadingInt (ds @ r) x = Some (m, r)"
  using assms(1)
proof (induction ds x rule: atoi_digits.induct)
  case (1 n)
  with assms(3) show ?case by (cases r) auto
next
  case (2 c s n)
  from "2.prems" have d: "is_digit c" and rest: "atoi_digits s (n * 10 + digit_val c) = Some m"
    by (auto split: if_splits)
  from rest have "n * 10 + digit_val c \<le> m" by (rule atoi_digits_mono)
  with assms(2) have le: "n * 10 + digit_val c \<le> 2 ^ 63" by simp
  then have "\<not> 2 ^ 63 div 10 < n" by (simp add: not_less less_eq_div_iff_mult_less_eq)
  with d le "2.IH" [OF d rest] show ?case by (simp add: Let_def)
qed

text \<open>A whole number of seconds, as a user writes it in an annotation.\<close>

lemma ParseDuration_seconds:
  assumes "n \<le> 9223372036"
  shows "ParseDuration (show_nat n @ ''s'') = Inr (int n * 1000000000)"
proof -
  have ss: "split_sign (show_nat n @ ''s'') = (False, show_nat n @ ''s'')"
    using split_sign_show_nat [of n]
    by (cases "show_nat n") (auto simp: split_sign_def split: if_splits)
  have li: "leadingInt (show_nat n @ ''s'') 0 = Some (n, ''s'')"
    using assms by (intro leadingInt_digits atoi_digits_show_nat) (auto simp: is_digit_def byte_def)
  have hd: "is_digit (hd (show_nat n @ ''s''))"
    by (cases "show_nat n") (use show_nat_digits [of _ n] in auto)
  have s0: "\<not> unit_end (CHR ''s'')" by (simp add: unit_end_def is_digit_def byte_def)
  have un: "map_of unitMap ''s'' = Some 1000000000" by (simp add: unitMap_def)
  have fr: "duration_fraction ''s'' = (0, 1, ''s'', False)" by (simp add: duration_fraction_def)
  have du: "duration_unit n 0 1 ''s'' = Some (n * 1000000000, [])"
    using assms by (simp add: duration_unit_def Let_def s0 un)
  have "duration_piece (show_nat n @ ''s'') = Some (n * 1000000000, [])"
    by (simp only: duration_piece_def li option.case prod.case fr du) (use hd in simp)
  moreover have "n * 1000000000 mod 2 ^ 64 = n * 1000000000" and "n * 1000000000 \<le> 2 ^ 63 - 1"
    using assms by simp_all
  ultimately have "duration_loop (show_nat n @ ''s'') 0 = Some (n * 1000000000)"
    by (subst duration_loop.simps) (simp add: Let_def duration_loop.simps [of "[]"])
  moreover have "show_nat n @ ''s'' \<noteq> ''0''"
    by (cases "show_nat n" rule: rev_cases) auto
  ultimately show ?thesis
    using assms by (simp add: ParseDuration_def ss)
qed

lemma Seconds_int64_whole:
  assumes "n \<le> 9223372036"
  shows "Seconds_int64 (int n * 1000000000) = int n"
proof -
  have small: "n < 2 ^ 53" using assms by simp
  obtain a b where ab: "fl64 (n * 1, 1) = (a, b)" by (cases "fl64 (n * 1, 1)") auto
  note a = fl64_exact(1) [OF small _ ab] and b = fl64_exact(2) [OF small _ ab]
  have z: "fl_div (fl_of_nat 0) (1000000000, 1) = (0, 1)"
    by (simp add: fl_div_def fl_of_nat_def fl64_def)
  have "fl_of_nat n = (n * b, b)" using ab a by (simp add: fl_of_nat_def)
  then have "Seconds_nat (n * 1000000000) = fl_trunc (fl64 (n * b, b))"
    unfolding Seconds_nat_def fl_add_def by (simp add: z [simplified])
  also have "\<dots> = n" using small b by (simp add: fl_trunc_fl64_exact)
  finally show ?thesis
    by (simp add: Seconds_int64_def nat_mult_distrib)
qed

text \<open>The bundle of equations that evaluates these functions on a concrete string.\<close>

lemmas duration_eval = ParseDuration_def split_sign_def duration_loop.simps duration_piece_def
  duration_fraction_def duration_unit_def unitMap_def unit_end_def is_digit_def digit_val_def byte_def Let_def

lemmas seconds_eval = Seconds_int64_def Seconds_nat_def fl_trunc_def fl_add_def fl_div_def fl_mul_def
  fl_of_nat_def fl64_def round_half_even_def bit_len.simps Let_def

lemma duration_default_interval: "ParseDuration ''10s'' = Inr 10000000000"
  by (simp add: duration_eval)

lemma duration_default_timeout: "ParseDuration ''5s'' = Inr 5000000000"
  by (simp add: duration_eval)

lemma duration_minutes: "ParseDuration ''1m30s'' = Inr 90000000000"
  by (simp add: duration_eval)

lemma duration_missing_unit: "ParseDuration ''10'' = Inl (ErrSyntax ''ParseDuration'')"
  by (simp add: duration_eval)

lemma duration_fractional: "ParseDuration ''1.5s'' = Inr 1500000000"
  by (simp add: duration_eval seconds_eval)

lemma seconds_cut_off: "Seconds_int64 1500000000 = 1"
  by (simp add: seconds_eval)

end
