(* ===== verification/LB_Spec.thy ===== *)
theory LB_Spec
  imports Service_Patcher Go_Time
begin

text \<open>
  The pure part of \<^verbatim>\<open>exoscale/loadbalancer.go\<close>: the annotations, and the desired load balancer
  that \<open>buildLoadBalancerFromAnnotations\<close> computes from a Service object.
\<close>

section \<open>Annotations\<close>

definition annotationPrefix :: string where
  "annotationPrefix = ''service.beta.kubernetes.io/exoscale-loadbalancer-''"

definition annotationLoadBalancerID :: string where
  "annotationLoadBalancerID = annotationPrefix @ ''id''"

definition annotationLoadBalancerName :: string where
  "annotationLoadBalancerName = annotationPrefix @ ''name''"

definition annotationLoadBalancerDescription :: string where
  "annotationLoadBalancerDescription = annotationPrefix @ ''description''"

definition annotationLoadBalancerExternal :: string where
  "annotationLoadBalancerExternal = annotationPrefix @ ''external''"

definition annotationLoadBalancerServiceStrategy :: string where
  "annotationLoadBalancerServiceStrategy = annotationPrefix @ ''service-strategy''"

definition annotationLoadBalancerServiceName :: string where
  "annotationLoadBalancerServiceName = annotationPrefix @ ''service-name''"

definition annotationLoadBalancerServiceDescription :: string where
  "annotationLoadBalancerServiceDescription = annotationPrefix @ ''service-description''"

definition annotationLoadBalancerServiceInstancePoolID :: string where
  "annotationLoadBalancerServiceInstancePoolID = annotationPrefix @ ''service-instancepool-id''"

definition annotationLoadBalancerSKSClusterName :: string where
  "annotationLoadBalancerSKSClusterName = annotationPrefix @ ''sks-cluster-name''"

definition annotationLoadBalancerServiceSKSNodePoolName :: string where
  "annotationLoadBalancerServiceSKSNodePoolName = annotationPrefix @ ''service-sks-nodepool-name''"

definition annotationLoadBalancerServiceHealthCheckMode :: string where
  "annotationLoadBalancerServiceHealthCheckMode = annotationPrefix @ ''service-healthcheck-mode''"

definition annotationLoadBalancerServiceHealthCheckPort :: string where
  "annotationLoadBalancerServiceHealthCheckPort = annotationPrefix @ ''service-healthcheck-port''"

definition annotationLoadBalancerServiceHealthCheckURI :: string where
  "annotationLoadBalancerServiceHealthCheckURI = annotationPrefix @ ''service-healthcheck-uri''"

definition annotationLoadBalancerServiceHealthCheckInterval :: string where
  "annotationLoadBalancerServiceHealthCheckInterval = annotationPrefix @ ''service-healthcheck-interval''"

definition annotationLoadBalancerServiceHealthCheckTimeout :: string where
  "annotationLoadBalancerServiceHealthCheckTimeout = annotationPrefix @ ''service-healthcheck-timeout''"

definition annotationLoadBalancerServiceHealthCheckRetries :: string where
  "annotationLoadBalancerServiceHealthCheckRetries = annotationPrefix @ ''service-healthcheck-retries''"

lemmas annotation_defs =
  annotationLoadBalancerID_def annotationLoadBalancerName_def annotationLoadBalancerDescription_def
  annotationLoadBalancerExternal_def annotationLoadBalancerServiceStrategy_def
  annotationLoadBalancerServiceName_def annotationLoadBalancerServiceDescription_def
  annotationLoadBalancerServiceInstancePoolID_def annotationLoadBalancerSKSClusterName_def
  annotationLoadBalancerServiceSKSNodePoolName_def annotationLoadBalancerServiceHealthCheckMode_def
  annotationLoadBalancerServiceHealthCheckPort_def annotationLoadBalancerServiceHealthCheckURI_def
  annotationLoadBalancerServiceHealthCheckInterval_def annotationLoadBalancerServiceHealthCheckTimeout_def
  annotationLoadBalancerServiceHealthCheckRetries_def

definition getAnnotation :: "Service \<Rightarrow> string \<Rightarrow> string \<Rightarrow> string" where
  "getAnnotation service annotation defaultValue =
     (case s_Annotations service annotation of
        Some v \<Rightarrow> v
      | None \<Rightarrow> if defaultValue \<noteq> [] then defaultValue else [])"

definition isExternal :: "Service \<Rightarrow> bool" where
  "isExternal service \<longleftrightarrow>
     ToLower (getAnnotation service annotationLoadBalancerExternal ''false'') = ''true''"

definition GetLoadBalancerName :: "Service \<Rightarrow> string" where
  "GetLoadBalancerName service =
     getAnnotation service annotationLoadBalancerName (''k8s-'' @ s_UID service)"

section \<open>Defaults\<close>

definition defaultNLBServiceHealthCheckTimeout :: string where
  "defaultNLBServiceHealthCheckTimeout = ''5s''"

definition defaultNLBServiceHealthcheckInterval :: string where
  "defaultNLBServiceHealthcheckInterval = ''10s''"

definition defaultNLBServiceHealthcheckMode :: string where
  "defaultNLBServiceHealthcheckMode = ''tcp''"

definition defaultNLBServiceHealthcheckRetries :: int where
  "defaultNLBServiceHealthcheckRetries = 1"

definition defaultNLBServiceStrategy :: string where
  "defaultNLBServiceStrategy = ''round-robin''"

lemmas default_defs = defaultNLBServiceHealthCheckTimeout_def defaultNLBServiceHealthcheckInterval_def
  defaultNLBServiceHealthcheckMode_def defaultNLBServiceHealthcheckRetries_def defaultNLBServiceStrategy_def

section \<open>The desired load balancer\<close>

text \<open>
  The health check port of one Service port: a Go \<^verbatim>\<open>uint16\<close>, so conversions keep the low sixteen
  bits.
\<close>

definition healthcheckPort :: "Service \<Rightarrow> ServicePort \<Rightarrow> error + 16 word" where
  "healthcheckPort service servicePort =
     (let hcPortAnnotation = getAnnotation service annotationLoadBalancerServiceHealthCheckPort [] in
      if hcPortAnnotation \<noteq> [] then
        (case Atoi hcPortAnnotation of
           Inl e \<Rightarrow> Inl (ErrorfS ''invalid healthcheck port annotation: %s'' [] e)
         | Inr hcPortInt \<Rightarrow> Inr (word_of_int hcPortInt))
      else if s_ExternalTrafficPolicy service = ''Local'' \<and> s_HealthCheckNodePort service > 0
        then Inr (word_of_int (s_HealthCheckNodePort service))
      else Inr (word_of_int (sp_NodePort servicePort)))"

definition serviceName :: "Service \<Rightarrow> ServicePort \<Rightarrow> string" where
  "serviceName service servicePort =
     (let svcName = s_UID service @ ''-'' @ fmt_d (sp_Port servicePort) in
      if sp_Protocol servicePort \<noteq> ''TCP'' then svcName @ ''-'' @ ToLower (sp_Protocol servicePort)
      else svcName)"

text \<open>The body of the loop over the Service ports.\<close>

definition buildLoadBalancerService ::
  "Service \<Rightarrow> int \<Rightarrow> int \<Rightarrow> int \<Rightarrow> ServicePort \<Rightarrow> error + LoadBalancerService" where
  "buildLoadBalancerService service hcInterval hcTimeout hcRetries servicePort =
     (case healthcheckPort service servicePort of
        Inl e \<Rightarrow> Inl e
      | Inr hcPort \<Rightarrow>
          if sp_Protocol servicePort \<noteq> ''TCP'' \<and> sp_Protocol servicePort \<noteq> ''UDP''
          then Inl (ErrNew ''only TCP and UDP are supported as service port protocols'')
          else let svcName = serviceName service servicePort in
            Inr \<lparr>svc_Description =
                   (if length (s_Ports service) = 1
                    then getAnnotation service annotationLoadBalancerServiceDescription [] else []),
                 svc_Healthcheck = Some
                   \<lparr>hc_Interval = Seconds_int64 hcInterval,
                    hc_Mode = getAnnotation service annotationLoadBalancerServiceHealthCheckMode
                                defaultNLBServiceHealthcheckMode,
                    hc_Port = uint hcPort,
                    hc_Retries = hcRetries,
                    hc_Timeout = Seconds_int64 hcTimeout,
                    hc_TlsSNI = [],
                    hc_URI = getAnnotation service annotationLoadBalancerServiceHealthCheckURI []\<rparr>,
                 svc_HealthcheckStatus = [],
                 svc_ID = [],
                 svc_InstancePool = Some
                   \<lparr>ip_ID = getAnnotation service annotationLoadBalancerServiceInstancePoolID [], ip_attrs = []\<rparr>,
                 svc_Name =
                   (if length (s_Ports service) = 1
                    then getAnnotation service annotationLoadBalancerServiceName svcName else svcName),
                 svc_Port = sp_Port servicePort,
                 svc_Protocol = ToLower (sp_Protocol servicePort),
                 svc_State = [],
                 svc_Strategy = getAnnotation service annotationLoadBalancerServiceStrategy
                                  defaultNLBServiceStrategy,
                 svc_TargetPort = sp_NodePort servicePort\<rparr>)"

fun buildServices ::
  "(ServicePort \<Rightarrow> error + LoadBalancerService) \<Rightarrow> ServicePort list \<Rightarrow> error + LoadBalancerService list" where
  "buildServices f [] = Inr []"
| "buildServices f (p # ps) =
     (case f p of Inl e \<Rightarrow> Inl e
      | Inr svc \<Rightarrow> (case buildServices f ps of Inl e \<Rightarrow> Inl e | Inr svcs \<Rightarrow> Inr (svc # svcs)))"

definition buildLoadBalancerFromAnnotations :: "Service \<Rightarrow> error + LoadBalancer" where
  "buildLoadBalancerFromAnnotations service =
     (case ParseDuration (getAnnotation service annotationLoadBalancerServiceHealthCheckInterval
             defaultNLBServiceHealthcheckInterval) of
        Inl e \<Rightarrow> Inl e
      | Inr hcInterval \<Rightarrow>
     (case ParseDuration (getAnnotation service annotationLoadBalancerServiceHealthCheckTimeout
             defaultNLBServiceHealthCheckTimeout) of
        Inl e \<Rightarrow> Inl e
      | Inr hcTimeout \<Rightarrow>
     (case Atoi (getAnnotation service annotationLoadBalancerServiceHealthCheckRetries
             (fmt_d defaultNLBServiceHealthcheckRetries)) of
        Inl e \<Rightarrow> Inl e
      | Inr hcRetries \<Rightarrow>
     (case buildServices (buildLoadBalancerService service hcInterval hcTimeout hcRetries) (s_Ports service) of
        Inl e \<Rightarrow> Inl e
      | Inr svcs \<Rightarrow>
          Inr \<lparr>lb_Description = getAnnotation service annotationLoadBalancerDescription [],
               lb_ID = getAnnotation service annotationLoadBalancerID [],
               lb_IP = [],
               lb_Labels = [],
               lb_Name = getAnnotation service annotationLoadBalancerName (''k8s-'' @ s_UID service),
               lb_Services = svcs,
               lb_State = []\<rparr>))))"

section \<open>Comparisons\<close>

definition isLoadBalancerUpdated :: "LoadBalancer \<Rightarrow> LoadBalancer \<Rightarrow> bool" where
  "isLoadBalancerUpdated current update =
     (if lb_Name current \<noteq> lb_Name update then True
      else if lb_Description current \<noteq> lb_Description update then True
      else False)"

text \<open>\<^verbatim>\<open>cmp.Equal\<close> with the fields \<^verbatim>\<open>State\<close> and \<^verbatim>\<open>HealthcheckStatus\<close> ignored.\<close>

definition isLoadBalancerServiceUpdated :: "LoadBalancerService \<Rightarrow> LoadBalancerService \<Rightarrow> bool" where
  "isLoadBalancerServiceUpdated current update \<longleftrightarrow>
     current\<lparr>svc_State := [], svc_HealthcheckStatus := []\<rparr>
     \<noteq> update\<lparr>svc_State := [], svc_HealthcheckStatus := []\<rparr>"

section \<open>Facts\<close>

lemma getAnnotation_Some: "s_Annotations s k = Some v \<Longrightarrow> getAnnotation s k d = v"
  by (simp add: getAnnotation_def)

lemma getAnnotation_None: "s_Annotations s k = None \<Longrightarrow> getAnnotation s k d = d"
  by (simp add: getAnnotation_def)

lemma getAnnotation_upd [simp]:
  "getAnnotation (s\<lparr>s_Annotations := (s_Annotations s)(k \<mapsto> v)\<rparr>) k' d =
   (if k' = k then v else getAnnotation s k' d)"
  by (simp add: getAnnotation_def)

lemma buildServices_Inr:
  "buildServices f ps = Inr svcs \<longleftrightarrow> map f ps = map Inr svcs"
proof (induction ps arbitrary: svcs)
  case (Cons p ps)
  show ?case
  proof (cases "buildServices f ps")
    case (Inl e)
    with Cons.IH have "map f ps \<noteq> map Inr r" for r by (metis sum.distinct(1))
    with Inl show ?thesis by (auto split: sum.split simp: Cons_eq_map_conv)
  next
    case (Inr r)
    then have "map f ps = map Inr r" using Cons.IH [of r] by simp
    with Inr show ?thesis
      by (auto split: sum.split simp: Cons_eq_map_conv inj_map_eq_map inj_def)
  qed
qed auto

lemma buildServices_Inl:
  "buildServices f ps = Inl e \<Longrightarrow> \<exists>p\<in>set ps. f p = Inl e"
  by (induction ps) (auto split: sum.splits)

end
