(* ===== verification/LB_Handlers.thy ===== *)
theory LB_Handlers
  imports LB_Spec
begin

text \<open>
  The handlers of \<^verbatim>\<open>exoscale/loadbalancer.go\<close>, in the order of the file: the four operations of the
  \<^verbatim>\<open>cloudprovider.LoadBalancer\<close> interface and the internal \<^verbatim>\<open>updateLoadBalancer\<close> and
  \<^verbatim>\<open>fetchLoadBalancer\<close>. The provider's \<^verbatim>\<open>client\<close> and \<^verbatim>\<open>kclient\<close> are the parameters \<open>cl\<close> and \<open>kc\<close>,
  \<open>lib\<close> is the patch library. Log lines are left out.
\<close>

section \<open>Fetching\<close>

definition fetchLoadBalancer :: "'w exoscaleClient \<Rightarrow> ('w handler_state, LoadBalancer) M" where
  "fetchLoadBalancer cl =
     bindM (getM st_service) (\<lambda>service.
     let lbID = getAnnotation service annotationLoadBalancerID [] in
     if lbID \<noteq> []
     then catchM (callM (GetLoadBalancer cl lbID))
            (\<lambda>e. if errors_Is e ErrNotFound then failM ErrLoadBalancerNotFound else failM e)
     else failM ErrLoadBalancerNotFound)"

definition lbStatus :: "LoadBalancer \<Rightarrow> string list" where
  "lbStatus nlb = [IP_String (lb_IP nlb)]"

text \<open>\<open>GetLoadBalancer\<close> of the interface: the status and whether the load balancer exists.\<close>

definition lb_GetLoadBalancer ::
  "'w exoscaleClient \<Rightarrow> ('w handler_state, string list option \<times> bool) M" where
  "lb_GetLoadBalancer cl =
     catchM (bindM (fetchLoadBalancer cl) (\<lambda>nlb. returnM (Some (lbStatus nlb), True)))
       (\<lambda>e. if e = ErrLoadBalancerNotFound then returnM (None, False) else failM e)"

section \<open>Updating\<close>

type_synonym ServiceKey = "int \<times> string"

definition serviceKey :: "LoadBalancerService \<Rightarrow> ServiceKey" where
  "serviceKey svc = (svc_Port svc, svc_Protocol svc)"

definition addRequest :: "LoadBalancerService \<Rightarrow> error + AddServiceToLoadBalancerRequest" where
  "addRequest svc = (case svc_InstancePool svc of
     None \<Rightarrow> Inl (Panic ''nil pointer dereference'')
   | Some pool \<Rightarrow>
       Inr \<lparr>add_Name = svc_Name svc,
            add_Description = svc_Description svc,
            add_Port = svc_Port svc,
            add_TargetPort = svc_TargetPort svc,
            add_Protocol = svc_Protocol svc,
            add_Strategy = svc_Strategy svc,
            add_Healthcheck = svc_Healthcheck svc,
            add_InstancePool = Some \<lparr>ip_ID = ip_ID pool, ip_attrs = []\<rparr>\<rparr>)"

definition updateRequest :: "LoadBalancerService \<Rightarrow> UpdateLoadBalancerServiceRequest" where
  "updateRequest svc =
     \<lparr>upd_Name = svc_Name svc,
      upd_Description = svc_Description svc,
      upd_Port = svc_Port svc,
      upd_TargetPort = svc_TargetPort svc,
      upd_Protocol = svc_Protocol svc,
      upd_Strategy = svc_Strategy svc,
      upd_Healthcheck = svc_Healthcheck svc\<rparr>"

text \<open>
  Adding a service and looking it up again by name: the last service of that name wins, and the
  empty name means that none was found. The code has this block twice, for a new service and for
  one that is recreated.
\<close>

fun lastNamed :: "string \<Rightarrow> LoadBalancerService list \<Rightarrow> string \<Rightarrow> string" where
  "lastNamed n [] found = found"
| "lastNamed n (item # items) found = lastNamed n items (if svc_Name item = n then svc_Name item else found)"

definition addService ::
  "'w exoscaleClient \<Rightarrow> LoadBalancer \<Rightarrow> LoadBalancerService \<Rightarrow> ('w handler_state, unit) M" where
  "addService cl nlbCurrent nlbServiceUpdate =
     bindM (liftE (addRequest nlbServiceUpdate)) (\<lambda>req.
     bindM (callM (AddServiceToLoadBalancer cl (lb_ID nlbCurrent) req)) (\<lambda>_.
     bindM (callM (GetLoadBalancer cl (lb_ID nlbCurrent))) (\<lambda>nlb.
     if lastNamed (svc_Name nlbServiceUpdate) (lb_Services nlb) [] = []
     then failM (Errorf ''failed to create NLB service %s/%s'' [lb_Name nlbCurrent, svc_Name nlbServiceUpdate])
     else returnM ())))"

text \<open>The first loop: keep the services whose key is still wanted, delete the others.\<close>

definition firstLoopBody ::
  "'w exoscaleClient \<Rightarrow> bool \<Rightarrow> LoadBalancer \<Rightarrow> LoadBalancer \<Rightarrow> LoadBalancerService
   \<Rightarrow> (ServiceKey \<rightharpoonup> LoadBalancerService) \<Rightarrow> ('w handler_state, ServiceKey \<rightharpoonup> LoadBalancerService) M" where
  "firstLoopBody cl external nlbCurrent nlbUpdate nlbServiceCurrent nlbServices =
     (let key = serviceKey nlbServiceCurrent in
      if List.find (\<lambda>u. serviceKey u = key) (lb_Services nlbUpdate) \<noteq> None
      then returnM (nlbServices(key \<mapsto> nlbServiceCurrent))
      else if external then returnM nlbServices
      else bindM (callM (DeleteLoadBalancerService cl (lb_ID nlbCurrent) (svc_ID nlbServiceCurrent)))
             (\<lambda>_. returnM nlbServices))"

definition poolID :: "LoadBalancerService \<Rightarrow> UUID" where
  "poolID svc = (case svc_InstancePool svc of None \<Rightarrow> [] | Some pool \<Rightarrow> ip_ID pool)"

text \<open>The second loop: create, recreate on a changed Instance Pool, update on another change.\<close>

definition secondLoopBody ::
  "'w exoscaleClient \<Rightarrow> LoadBalancer \<Rightarrow> LoadBalancer \<Rightarrow> (ServiceKey \<rightharpoonup> LoadBalancerService)
   \<Rightarrow> LoadBalancerService \<Rightarrow> ('w handler_state, unit) M" where
  "secondLoopBody cl nlbCurrent nlbUpdate nlbServices nlbServiceUpdate =
     (case nlbServices (serviceKey nlbServiceUpdate) of
        None \<Rightarrow> addService cl nlbCurrent nlbServiceUpdate
      | Some nlbServiceCurrent \<Rightarrow>
          let update = nlbServiceUpdate\<lparr>svc_ID := svc_ID nlbServiceCurrent\<rparr> in
          if poolID nlbServiceCurrent \<noteq> poolID update
          then bindM (wrapM (ErrorfW ''failed deleting NLB service: %w'' [])
                        (callM (DeleteLoadBalancerService cl (lb_ID nlbCurrent) (svc_ID nlbServiceCurrent))))
                 (\<lambda>_. addService cl nlbCurrent update)
          else if isLoadBalancerServiceUpdated nlbServiceCurrent update
          then bindM (callM (UpdateLoadBalancerService cl (lb_ID nlbUpdate) (svc_ID update) (updateRequest update)))
                 (\<lambda>_. returnM ())
          else returnM ())"

definition updateTopLevel ::
  "'w exoscaleClient \<Rightarrow> bool \<Rightarrow> LoadBalancer \<Rightarrow> LoadBalancer \<Rightarrow> ('w handler_state, unit) M" where
  "updateTopLevel cl external nlbCurrent nlbUpdate =
     (if \<not> external \<and> isLoadBalancerUpdated nlbCurrent nlbUpdate
      then bindM (callM (UpdateLoadBalancer cl (lb_ID nlbUpdate)
               \<lparr>ulb_Name = lb_Name nlbUpdate,
                ulb_Description = lb_Description nlbCurrent,
                ulb_Labels = lb_Labels nlbUpdate\<rparr>)) (\<lambda>_. returnM ())
      else returnM ())"

definition updateLoadBalancer :: "'w exoscaleClient \<Rightarrow> ('w handler_state, unit) M" where
  "updateLoadBalancer cl =
     bindM (getM st_service) (\<lambda>service.
     bindM (liftE (buildLoadBalancerFromAnnotations service)) (\<lambda>nlbUpdate.
     if lb_ID nlbUpdate = [] then failM ErrLoadBalancerIDAnnotationNotFound
     else
     bindM (callM (GetLoadBalancer cl (lb_ID nlbUpdate))) (\<lambda>nlbCurrent.
     bindM (updateTopLevel cl (isExternal service) nlbCurrent nlbUpdate) (\<lambda>_.
     bindM (foldM (firstLoopBody cl (isExternal service) nlbCurrent nlbUpdate) (lb_Services nlbCurrent) Map.empty)
       (\<lambda>nlbServices.
     forM (secondLoopBody cl nlbCurrent nlbUpdate nlbServices) (lb_Services nlbUpdate))))))"

definition lb_UpdateLoadBalancer :: "'w exoscaleClient \<Rightarrow> Node list \<Rightarrow> ('w handler_state, unit) M" where
  "lb_UpdateLoadBalancer cl nodes = updateLoadBalancer cl"

section \<open>Ensuring\<close>

text \<open>The first block: an external load balancer given by name gets its ID annotation.\<close>

definition resolveExternal ::
  "'w exoscaleClient \<Rightarrow> 'w kubeClient \<Rightarrow> patchLib \<Rightarrow> ('w handler_state, unit) M" where
  "resolveExternal cl kc lib =
     bindM (getM st_service) (\<lambda>service.
     if isExternal service then
       (let lbID = getAnnotation service annotationLoadBalancerID [];
            lbName = getAnnotation service annotationLoadBalancerName [] in
        if lbID = [] \<and> lbName = []
        then failM (ErrNew ''NLB instance marked as external in Service annotations, but no ID or name specified'')
        else if lbID = [] \<and> lbName \<noteq> [] then
          bindM (wrapM (ErrorfW ''error listing NLBs: %w'' []) (callM (ListLoadBalancers cl))) (\<lambda>nlbs.
          case FindLoadBalancer nlbs lbName of
            Inl _ \<Rightarrow> failM (Errorf ''NLB instance is marked external by name %q, but no matching NLB was found'' [lbName])
          | Inr nlb \<Rightarrow>
              wrapM (ErrorfW ''error patching annotations: %w'' [])
                (patchAnnotation kc lib annotationLoadBalancerID (lb_ID nlb)))
        else returnM ())
     else returnM ())"

text \<open>The Instance Pool of a node pool, by name; the empty ID when there is none.\<close>

fun findNodepool :: "string \<Rightarrow> SKSNodepool list \<Rightarrow> UUID" where
  "findNodepool name [] = []"
| "findNodepool name (pool # pools) =
     (case np_InstancePool pool of
        Some ip \<Rightarrow> if EqualFold (np_Name pool) name then ip_ID ip else findNodepool name pools
      | None \<Rightarrow> findNodepool name pools)"

definition resolveNodepool ::
  "'w exoscaleClient \<Rightarrow> string \<Rightarrow> string \<Rightarrow> ('w handler_state, UUID) M" where
  "resolveNodepool cl sksClusterName sksNodePoolName =
     bindM (wrapM (ErrorfS ''error listing SKS clusters: %s'' []) (callM (ListSKSClusters cl))) (\<lambda>sksClusters.
     case FindSKSCluster sksClusters sksClusterName of
       Inl _ \<Rightarrow> failM (Errorf ''SKS cluster with name %s not found'' [sksClusterName])
     | Inr sksCluster \<Rightarrow>
         let instancePoolID = findNodepool sksNodePoolName (sks_Nodepools sksCluster) in
         if instancePoolID = [] then failM (Errorf ''SKS node pool with name %s not found'' [sksNodePoolName])
         else returnM instancePoolID)"

text \<open>The Instance Pool that the nodes of the cluster belong to.\<close>

definition inferBody ::
  "'w exoscaleClient \<Rightarrow> Node \<Rightarrow> UUID \<Rightarrow> ('w handler_state, UUID) M" where
  "inferBody cl node instancePoolID =
     bindM (wrapM (ErrorfS ''error retrieving Compute instance information: %s'' [])
              (callM (GetInstance cl (n_SystemUUID node)))) (\<lambda>instance.
     case inst_Manager instance of
       None \<Rightarrow> returnM instancePoolID
     | Some manager \<Rightarrow>
         if mgr_Type manager \<noteq> ''instance-pool'' then returnM instancePoolID
         else if instancePoolID \<noteq> [] \<and> mgr_ID manager \<noteq> instancePoolID
         then failM (ErrNew (''multiple Instance Pools detected across cluster Nodes, '' @
                ''an Instance Pool ID must be specified in Service manifest annotations''))
         else returnM (mgr_ID manager))"

definition inferInstancePool ::
  "'w exoscaleClient \<Rightarrow> Node list \<Rightarrow> ('w handler_state, UUID) M" where
  "inferInstancePool cl nodes =
     bindM (foldM (inferBody cl) nodes []) (\<lambda>instancePoolID.
     if instancePoolID = [] then failM (ErrNew ''couldn't infer any Instance Pool from cluster Nodes'')
     else returnM instancePoolID)"

definition resolveInstancePool ::
  "'w exoscaleClient \<Rightarrow> 'w kubeClient \<Rightarrow> patchLib \<Rightarrow> Node list \<Rightarrow> ('w handler_state, unit) M" where
  "resolveInstancePool cl kc lib nodes =
     bindM (getM st_service) (\<lambda>service.
     let sksClusterName = getAnnotation service annotationLoadBalancerSKSClusterName [];
         sksNodePoolName = getAnnotation service annotationLoadBalancerServiceSKSNodePoolName [] in
     if sksClusterName \<noteq> [] then
       (if sksNodePoolName \<noteq> [] then
          bindM (resolveNodepool cl sksClusterName sksNodePoolName) (\<lambda>instancePoolID.
          wrapM (ErrorfS ''error patching annotations: %s'' [])
            (patchAnnotation kc lib annotationLoadBalancerServiceInstancePoolID instancePoolID))
        else returnM ())
     else if sksNodePoolName \<noteq> []
     then failM (ErrNew ''SKS node pool name specified without SKS cluster name'')
     else if getAnnotation service annotationLoadBalancerServiceInstancePoolID [] = [] then
       bindM (inferInstancePool cl nodes) (\<lambda>instancePoolID.
       wrapM (ErrorfS ''error patching annotations: %s'' [])
         (patchAnnotation kc lib annotationLoadBalancerServiceInstancePoolID instancePoolID))
     else returnM ())"

text \<open>Creating the load balancer and recording its ID.\<close>

definition createNLB ::
  "'w exoscaleClient \<Rightarrow> 'w kubeClient \<Rightarrow> patchLib \<Rightarrow> LoadBalancer \<Rightarrow> ('w handler_state, LoadBalancer) M" where
  "createNLB cl kc lib lbSpec =
     bindM (getM st_service) (\<lambda>service.
     if isExternal service
     then failM (ErrNew ''NLB instance marked as external in Service annotations, cannot create'')
     else
       bindM (callM (CreateLoadBalancer cl \<lparr>clb_Name = lb_Name lbSpec,
                clb_Description = lb_Description lbSpec, clb_Labels = lb_Labels lbSpec\<rparr>)) (\<lambda>op.
       case op_Reference op of
         None \<Rightarrow> failM (Panic ''nil pointer dereference'')
       | Some ref \<Rightarrow>
           bindM (callM (GetLoadBalancer cl ref)) (\<lambda>nlb.
           bindM (wrapM (ErrorfS ''error patching annotations: %s'' [])
                    (patchAnnotation kc lib annotationLoadBalancerID (lb_ID nlb))) (\<lambda>_.
           returnM nlb))))"

definition EnsureLoadBalancer ::
  "'w exoscaleClient \<Rightarrow> 'w kubeClient \<Rightarrow> patchLib \<Rightarrow> Node list \<Rightarrow> ('w handler_state, string list) M" where
  "EnsureLoadBalancer cl kc lib nodes =
     bindM (resolveExternal cl kc lib) (\<lambda>_.
     bindM (resolveInstancePool cl kc lib nodes) (\<lambda>_.
     bindM (getM st_service) (\<lambda>service.
     bindM (liftE (buildLoadBalancerFromAnnotations service)) (\<lambda>lbSpec.
     bindM (catchM (fetchLoadBalancer cl)
              (\<lambda>e. if errors_Is e ErrLoadBalancerNotFound then createNLB cl kc lib lbSpec else failM e)) (\<lambda>nlb.
     bindM (updateLoadBalancer cl) (\<lambda>_.
     returnM (lbStatus nlb)))))))"

section \<open>Deleting\<close>

definition deleteMatches :: "LoadBalancerService \<Rightarrow> ServicePort \<Rightarrow> bool" where
  "deleteMatches nlbService servicePort \<longleftrightarrow>
     svc_Port nlbService = sp_Port servicePort \<and> EqualFold (svc_Protocol nlbService) (sp_Protocol servicePort)"

definition deleteBody ::
  "'w exoscaleClient \<Rightarrow> LoadBalancer \<Rightarrow> ServicePort list \<Rightarrow> LoadBalancerService \<Rightarrow> int \<Rightarrow> ('w handler_state, int) M" where
  "deleteBody cl nlb ports nlbService remaining =
     foldM (\<lambda>servicePort remainingServices.
       if deleteMatches nlbService servicePort
       then bindM (callM (DeleteLoadBalancerService cl (lb_ID nlb) (svc_ID nlbService)))
              (\<lambda>_. returnM (remainingServices - 1))
       else returnM remainingServices) ports remaining"

definition EnsureLoadBalancerDeleted :: "'w exoscaleClient \<Rightarrow> ('w handler_state, unit) M" where
  "EnsureLoadBalancerDeleted cl =
     bindM (getM st_service) (\<lambda>service.
     bindM (catchM (bindM (fetchLoadBalancer cl) (\<lambda>nlb. returnM (Some nlb)))
              (\<lambda>e. if errors_Is e ErrLoadBalancerNotFound then returnM None else failM e)) (\<lambda>found.
     case found of
       None \<Rightarrow> returnM ()
     | Some nlb \<Rightarrow>
         bindM (foldM (deleteBody cl nlb (s_Ports service)) (lb_Services nlb) (int (length (lb_Services nlb))))
           (\<lambda>remainingServices.
         if remainingServices = 0
         then (if isExternal service then returnM ()
               else bindM (callM (DeleteLoadBalancer cl (lb_ID nlb))) (\<lambda>_. returnM ()))
         else returnM ())))"

section \<open>Facts\<close>

lemma buildLoadBalancer_Inr:
  assumes "buildLoadBalancerFromAnnotations s = Inr lb"
  obtains i t r where "map (buildLoadBalancerService s i t r) (s_Ports s) = map Inr (lb_Services lb)"
  using assms
  by (auto simp: buildLoadBalancerFromAnnotations_def buildServices_Inr split: sum.splits)

lemma buildLoadBalancer_ID:
  "buildLoadBalancerFromAnnotations s = Inr lb \<Longrightarrow> lb_ID lb = getAnnotation s annotationLoadBalancerID []"
  by (auto simp: buildLoadBalancerFromAnnotations_def split: sum.splits)

lemma buildLoadBalancerService_key:
  "buildLoadBalancerService s i t r p = Inr svc \<Longrightarrow>
   serviceKey svc = (sp_Port p, ToLower (sp_Protocol p)) \<and> svc_Healthcheck svc \<noteq> None \<and>
   sp_Protocol p \<in> {''TCP'', ''UDP''}"
  by (auto simp: buildLoadBalancerService_def serviceKey_def Let_def split: sum.splits if_splits)

lemma map_Inr_pointwise:
  "map f xs = map Inr ys \<Longrightarrow> (\<And>x y. x \<in> set xs \<Longrightarrow> f x = Inr y \<Longrightarrow> g y = h x) \<Longrightarrow> map g ys = map h xs"
  by (induction xs arbitrary: ys) auto

lemma buildLoadBalancer_keys:
  assumes "buildLoadBalancerFromAnnotations s = Inr lb"
  shows "map serviceKey (lb_Services lb) = map (\<lambda>p. (sp_Port p, ToLower (sp_Protocol p))) (s_Ports s)"
  using assms by (elim buildLoadBalancer_Inr map_Inr_pointwise) (simp add: buildLoadBalancerService_key)

lemma buildLoadBalancer_healthcheck:
  assumes "buildLoadBalancerFromAnnotations s = Inr lb" and "d \<in> set (lb_Services lb)"
  shows "svc_Healthcheck d \<noteq> None"
proof -
  obtain i t r where "map (buildLoadBalancerService s i t r) (s_Ports s) = map Inr (lb_Services lb)"
    using assms(1) by (rule buildLoadBalancer_Inr)
  with assms(2) have "Inr d \<in> set (map (buildLoadBalancerService s i t r) (s_Ports s))" by simp
  then show ?thesis using buildLoadBalancerService_key by fastforce
qed

text \<open>
  Kubernetes accepts no Service with two ports of the same number and protocol. The lower-cased
  protocols then differ, too: a build succeeds for TCP and UDP only.
\<close>

lemma buildLoadBalancer_keys_distinct:
  assumes "buildLoadBalancerFromAnnotations s = Inr lb"
    and "distinct (map (\<lambda>p. (sp_Port p, sp_Protocol p)) (s_Ports s))"
  shows "distinct (map serviceKey (lb_Services lb))"
proof -
  obtain i t r where b: "map (buildLoadBalancerService s i t r) (s_Ports s) = map Inr (lb_Services lb)"
    using assms(1) by (rule buildLoadBalancer_Inr)
  have protocols: "sp_Protocol p \<in> {''TCP'', ''UDP''}" if "p \<in> set (s_Ports s)" for p
  proof -
    have "buildLoadBalancerService s i t r p \<in> set (map Inr (lb_Services lb))"
      using that unfolding b [symmetric] by simp
    then show ?thesis using buildLoadBalancerService_key by fastforce
  qed
  have low: "ToLower ''TCP'' \<noteq> ToLower ''UDP''" by code_simp
  have "sp_Protocol p = sp_Protocol q"
    if "p \<in> set (s_Ports s)" "q \<in> set (s_Ports s)" "ToLower (sp_Protocol p) = ToLower (sp_Protocol q)" for p q
    using protocols [OF that(1)] protocols [OF that(2)] that(3) low low [symmetric] by (elim insertE emptyE) simp_all
  then have "inj_on (\<lambda>p. (sp_Port p, ToLower (sp_Protocol p))) (set (s_Ports s))"
    using assms(2) unfolding distinct_map inj_on_def by blast
  with assms(2) show ?thesis unfolding buildLoadBalancer_keys [OF assms(1)] by (simp add: distinct_map)
qed

end
