(* ===== verification/NLB_API.thy ===== *)
theory NLB_API
  imports LB_Handlers "HOL-Library.AList"
begin

text \<open>
  What the load balancer part of the Exoscale API promises, as an interface: the configuration of
  every load balancer is seen through a function \<open>view\<close> of the outside world, and a request that
  succeeds changes it as the documentation of the API says. Nothing is promised for a change that
  fails. The last section is an in-memory service that keeps these promises; it shows that they can
  be kept, and concrete examples run on it.
\<close>

section \<open>The configuration of a load balancer\<close>

text \<open>The parts of a service that the API reports and nobody configures are blanked.\<close>

definition configService :: "LoadBalancerService \<Rightarrow> LoadBalancerService" where
  "configService svc = svc\<lparr>svc_State := [], svc_HealthcheckStatus := []\<rparr>"

record nlb_config =
  v_Name :: string
  v_Description :: string
  v_Services :: "UUID \<rightharpoonup> LoadBalancerService"

definition servicesOf :: "LoadBalancerService list \<Rightarrow> UUID \<rightharpoonup> LoadBalancerService" where
  "servicesOf svcs = map_of (map (\<lambda>svc. (svc_ID svc, configService svc)) svcs)"

definition configOf :: "LoadBalancer \<Rightarrow> nlb_config" where
  "configOf lb = \<lparr>v_Name = lb_Name lb, v_Description = lb_Description lb,
     v_Services = servicesOf (lb_Services lb)\<rparr>"

type_synonym nlb_view = "UUID \<rightharpoonup> nlb_config"

section \<open>The effect of the requests\<close>

text \<open>
  A zero value is not sent (\<^verbatim>\<open>omitempty\<close>) and leaves the field as it is. A health check that is sent replaces the old
  one as a whole: this is assumed of the API, since the fields inside of it are \<^verbatim>\<open>omitempty\<close>, too.
\<close>

definition sent :: "'a list \<Rightarrow> 'a list \<Rightarrow> 'a list" where
  "sent new old = (if new = [] then old else new)"

definition sent_int :: "int \<Rightarrow> int \<Rightarrow> int" where
  "sent_int new old = (if new = 0 then old else new)"

definition serviceOf :: "UUID \<Rightarrow> AddServiceToLoadBalancerRequest \<Rightarrow> LoadBalancerService" where
  "serviceOf sid req =
     \<lparr>svc_Description = add_Description req, svc_Healthcheck = add_Healthcheck req,
      svc_HealthcheckStatus = [], svc_ID = sid, svc_InstancePool = add_InstancePool req,
      svc_Name = add_Name req, svc_Port = add_Port req, svc_Protocol = add_Protocol req,
      svc_State = [], svc_Strategy = add_Strategy req, svc_TargetPort = add_TargetPort req\<rparr>"

definition changedService ::
  "UpdateLoadBalancerServiceRequest \<Rightarrow> LoadBalancerService \<Rightarrow> LoadBalancerService" where
  "changedService req svc =
     svc\<lparr>svc_Description := sent (upd_Description req) (svc_Description svc),
         svc_Healthcheck := (case upd_Healthcheck req of None \<Rightarrow> svc_Healthcheck svc | Some h \<Rightarrow> Some h),
         svc_Name := sent (upd_Name req) (svc_Name svc),
         svc_Port := sent_int (upd_Port req) (svc_Port svc),
         svc_Protocol := sent (upd_Protocol req) (svc_Protocol svc),
         svc_Strategy := sent (upd_Strategy req) (svc_Strategy svc),
         svc_TargetPort := sent_int (upd_TargetPort req) (svc_TargetPort svc)\<rparr>"

definition onServices ::
  "((UUID \<rightharpoonup> LoadBalancerService) \<Rightarrow> UUID \<rightharpoonup> LoadBalancerService) \<Rightarrow> nlb_config \<Rightarrow> nlb_config" where
  "onServices f c = c\<lparr>v_Services := f (v_Services c)\<rparr>"

definition addEffect :: "UUID \<Rightarrow> AddServiceToLoadBalancerRequest \<Rightarrow> nlb_view \<Rightarrow> nlb_view \<Rightarrow> bool" where
  "addEffect i req v v' \<longleftrightarrow> (\<exists>c sid. v i = Some c \<and> v_Services c sid = None \<and>
     v' = v(i \<mapsto> onServices (\<lambda>N. N(sid \<mapsto> serviceOf sid req)) c))"

definition deleteServiceEffect :: "UUID \<Rightarrow> UUID \<Rightarrow> nlb_view \<Rightarrow> nlb_view \<Rightarrow> bool" where
  "deleteServiceEffect i sid v v' \<longleftrightarrow> (\<exists>c. v i = Some c \<and>
     v' = v(i \<mapsto> onServices (\<lambda>N. N(sid := None)) c))"

definition updateServiceEffect ::
  "UUID \<Rightarrow> UUID \<Rightarrow> UpdateLoadBalancerServiceRequest \<Rightarrow> nlb_view \<Rightarrow> nlb_view \<Rightarrow> bool" where
  "updateServiceEffect i sid req v v' \<longleftrightarrow> (\<exists>c svc. v i = Some c \<and> v_Services c sid = Some svc \<and>
     v' = v(i \<mapsto> onServices (\<lambda>N. N(sid \<mapsto> changedService req svc)) c))"

definition updateEffect :: "UUID \<Rightarrow> UpdateLoadBalancerRequest \<Rightarrow> nlb_view \<Rightarrow> nlb_view \<Rightarrow> bool" where
  "updateEffect i req v v' \<longleftrightarrow> (\<exists>c. v i = Some c \<and>
     v' = v(i \<mapsto> c\<lparr>v_Name := sent (ulb_Name req) (v_Name c),
                     v_Description := sent (ulb_Description req) (v_Description c)\<rparr>))"

definition createEffect :: "CreateLoadBalancerRequest \<Rightarrow> Operation \<Rightarrow> nlb_view \<Rightarrow> nlb_view \<Rightarrow> bool" where
  "createEffect req oper v v' \<longleftrightarrow> (\<exists>i. op_Reference oper = Some i \<and> i \<noteq> [] \<and> v i = None \<and>
     v' = v(i \<mapsto> \<lparr>v_Name = clb_Name req, v_Description = clb_Description req, v_Services = Map.empty\<rparr>))"

definition deleteEffect :: "UUID \<Rightarrow> nlb_view \<Rightarrow> nlb_view \<Rightarrow> bool" where
  "deleteEffect i v v' \<longleftrightarrow> v' = v(i := None)"

definition getPromise :: "UUID \<Rightarrow> LoadBalancer \<Rightarrow> nlb_view \<Rightarrow> bool" where
  "getPromise i lb v \<longleftrightarrow> lb_ID lb = i \<and> v i = Some (configOf lb) \<and>
     distinct (map svc_ID (lb_Services lb)) \<and> distinct (map serviceKey (lb_Services lb))"

section \<open>The interface of the synchronous client\<close>

text \<open>
  The promises the handlers rely on: a successful request has had its effect when it returns, and
  a request that reads changes nothing. Two services of one load balancer differ in their ID and in
  their port or protocol. The API does not know the errors of the program. Nobody else changes the load balancers while a handler runs.
\<close>

locale nlb_api =
  fixes cl :: "'w exoscaleClient" and kc :: "'w kubeClient" and view :: "'w \<Rightarrow> nlb_view"
  assumes get_ok: "GetLoadBalancer cl i w = (Inr lb, w') \<Longrightarrow> getPromise i lb (view w)"
    and get_missing: "GetLoadBalancer cl i w = (Inl e, w') \<Longrightarrow> errors_Is e ErrNotFound \<Longrightarrow> view w i = None"
    and get_error: "GetLoadBalancer cl i w = (Inl e, w') \<Longrightarrow> \<not> errors_Is e ErrLoadBalancerNotFound"
    and get_reads: "view (snd (GetLoadBalancer cl i w)) = view w"
    and list_reads: "view (snd (ListLoadBalancers cl w)) = view w"
    and clusters_reads: "view (snd (ListSKSClusters cl w)) = view w"
    and instance_reads: "view (snd (GetInstance cl i w)) = view w"
    and patch_apart: "view (snd (ServicesPatch kc ns n p w)) = view w"
    and add_ok: "AddServiceToLoadBalancer cl i areq w = (Inr oper, w') \<Longrightarrow> addEffect i areq (view w) (view w')"
    and delete_service_ok:
      "DeleteLoadBalancerService cl i sid w = (Inr oper, w') \<Longrightarrow> deleteServiceEffect i sid (view w) (view w')"
    and update_service_ok:
      "UpdateLoadBalancerService cl i sid ureq w = (Inr oper, w') \<Longrightarrow> updateServiceEffect i sid ureq (view w) (view w')"
    and update_ok: "UpdateLoadBalancer cl i lreq w = (Inr oper, w') \<Longrightarrow> updateEffect i lreq (view w) (view w')"
    and create_ok: "CreateLoadBalancer cl creq w = (Inr oper, w') \<Longrightarrow> createEffect creq oper (view w) (view w')"
    and delete_ok: "DeleteLoadBalancer cl i w = (Inr oper, w') \<Longrightarrow> deleteEffect i (view w) (view w')"

section \<open>An in-memory service\<close>

record memory =
  mem_nlbs :: "(UUID \<times> LoadBalancer) list"
  mem_services :: "(UUID \<times> (UUID \<times> LoadBalancerService) list) list"
  mem_instances :: "(UUID \<times> Instance) list"
  mem_types :: "(UUID \<times> InstanceType) list"
  mem_clusters :: "SKSCluster list"
  mem_patches :: "string list"

text \<open>An ID longer than every ID in use is a new one.\<close>

definition freshID :: "UUID list \<Rightarrow> UUID" where
  "freshID used = CHR ''n'' # concat used"

definition memServices :: "memory \<Rightarrow> UUID \<Rightarrow> (UUID \<times> LoadBalancerService) list" where
  "memServices m i = (case map_of (mem_services m) i of None \<Rightarrow> [] | Some svcs \<Rightarrow> svcs)"

definition memNLB :: "memory \<Rightarrow> UUID \<Rightarrow> LoadBalancer option" where
  "memNLB m i = map_option (\<lambda>lb. lb\<lparr>lb_ID := i,
       lb_Services := map (\<lambda>(sid, svc). svc\<lparr>svc_ID := sid\<rparr>) (AList.clearjunk (memServices m i))\<rparr>)
     (map_of (mem_nlbs m) i)"

definition memView :: "memory \<Rightarrow> nlb_view" where
  "memView m i = map_option configOf (memNLB m i)"

definition finished :: "UUID \<Rightarrow> Operation" where
  "finished i = \<lparr>op_ID = ''op'', op_Reference = Some i, op_State = ''success''\<rparr>"

definition setServices :: "UUID \<Rightarrow> (UUID \<times> LoadBalancerService) list \<Rightarrow> memory \<Rightarrow> memory" where
  "setServices i svcs m = m\<lparr>mem_services := (i, svcs) # mem_services m\<rparr>"

definition memGet :: "UUID \<Rightarrow> (memory, LoadBalancer) M" where
  "memGet i = (\<lambda>m. case memNLB m i of
     None \<Rightarrow> (Inl ErrNotFound, m)
   | Some lb \<Rightarrow> if distinct (map serviceKey (lb_Services lb)) then (Inr lb, m)
       else (Inl (ErrAPI ''inconsistent''), m))"

definition memCreate :: "CreateLoadBalancerRequest \<Rightarrow> (memory, Operation) M" where
  "memCreate req = (\<lambda>m. let i = freshID (map fst (mem_nlbs m)) in
     (Inr (finished i), setServices i [] (m\<lparr>mem_nlbs := (i,
        \<lparr>lb_Description = clb_Description req, lb_ID = i, lb_IP = [192, 0, 2, 1], lb_Labels = clb_Labels req,
         lb_Name = clb_Name req, lb_Services = [], lb_State = ''running''\<rparr>) # mem_nlbs m\<rparr>)))"

definition memOnNLB :: "UUID \<Rightarrow> (LoadBalancer \<Rightarrow> memory \<Rightarrow> memory) \<Rightarrow> (memory, Operation) M" where
  "memOnNLB i f = (\<lambda>m. case map_of (mem_nlbs m) i of
     None \<Rightarrow> (Inl ErrNotFound, m) | Some lb \<Rightarrow> (Inr (finished i), f lb m))"

definition memAdd :: "UUID \<Rightarrow> AddServiceToLoadBalancerRequest \<Rightarrow> (memory, Operation) M" where
  "memAdd i req = memOnNLB i (\<lambda>_ m.
     let sid = freshID (map fst (memServices m i)) in
     setServices i ((sid, serviceOf sid req) # memServices m i) m)"

definition memDeleteService :: "UUID \<Rightarrow> UUID \<Rightarrow> (memory, Operation) M" where
  "memDeleteService i sid = memOnNLB i (\<lambda>_ m. setServices i (AList.delete sid (memServices m i)) m)"

definition memUpdateService ::
  "UUID \<Rightarrow> UUID \<Rightarrow> UpdateLoadBalancerServiceRequest \<Rightarrow> (memory, Operation) M" where
  "memUpdateService i sid req = (\<lambda>m. case map_of (memServices m i) sid of
     None \<Rightarrow> (Inl ErrNotFound, m)
   | Some svc \<Rightarrow> memOnNLB i (\<lambda>_. setServices i ((sid, changedService req svc) # memServices m i)) m)"

definition memUpdate :: "UUID \<Rightarrow> UpdateLoadBalancerRequest \<Rightarrow> (memory, Operation) M" where
  "memUpdate i req = memOnNLB i (\<lambda>lb m. m\<lparr>mem_nlbs := (i, lb
       \<lparr>lb_Name := sent (ulb_Name req) (lb_Name lb),
        lb_Description := sent (ulb_Description req) (lb_Description lb)\<rparr>) # mem_nlbs m\<rparr>)"

definition memDelete :: "UUID \<Rightarrow> (memory, Operation) M" where
  "memDelete i = memOnNLB i (\<lambda>_ m. m\<lparr>mem_nlbs := AList.delete i (mem_nlbs m)\<rparr>)"

definition memLookup :: "(memory \<Rightarrow> (UUID \<times> 'a) list) \<Rightarrow> UUID \<Rightarrow> (memory, 'a) M" where
  "memLookup f i = (\<lambda>m. case map_of (f m) i of None \<Rightarrow> (Inl ErrNotFound, m) | Some x \<Rightarrow> (Inr x, m))"

definition memoryClient :: "memory exoscaleClient" where
  "memoryClient = \<lparr>CreateLoadBalancer = memCreate, AddServiceToLoadBalancer = memAdd,
     DeleteLoadBalancer = memDelete, DeleteLoadBalancerService = memDeleteService,
     GetInstance = memLookup mem_instances, GetInstanceType = memLookup mem_types, GetLoadBalancer = memGet,
     ListInstances = getM (\<lambda>m. map snd (mem_instances m)),
     ListLoadBalancers = getM (\<lambda>m. map snd (mem_nlbs m)), ListSKSClusters = getM mem_clusters,
     UpdateLoadBalancer = memUpdate, UpdateLoadBalancerService = memUpdateService,
     Wait = (\<lambda>oper states. returnM oper)\<rparr>"

definition memoryKube :: "(string \<Rightarrow> Node option) \<Rightarrow> memory kubeClient" where
  "memoryKube nodes = \<lparr>NodesGet = Client_Get (\<lambda>n m. case nodes n of
       None \<Rightarrow> (Inl (ErrKube ''not found''), m) | Some node \<Rightarrow> (Inr node, m)),
     ServicesPatch = (\<lambda>ns n p. modifyM (\<lambda>m. m\<lparr>mem_patches := mem_patches m @ [p]\<rparr>))\<rparr>"

subsection \<open>It keeps the promises\<close>

lemma length_in_concat: "x \<in> set xs \<Longrightarrow> length x \<le> length (concat xs)"
  by (induction xs) auto

lemma freshID_new: "freshID used \<notin> set used"
  using length_in_concat [of "freshID used" used] by (auto simp: freshID_def)

lemma freshID_not_Nil [simp]: "freshID used \<noteq> []"
  by (simp add: freshID_def)

lemma memServices_set [simp]:
  "memServices (setServices i svcs m) j = (if j = i then svcs else memServices m j)"
  by (simp add: memServices_def setServices_def)

lemma memServices_nlbs [simp]: "memServices (m\<lparr>mem_nlbs := x\<rparr>) j = memServices m j"
  by (simp add: memServices_def)

lemma map_of_config:
  "map_of (map (\<lambda>svc. (svc_ID svc, configService svc)) (map (\<lambda>(sid, svc). svc\<lparr>svc_ID := sid\<rparr>) ps)) sid =
   map_option (\<lambda>svc. configService (svc\<lparr>svc_ID := sid\<rparr>)) (map_of ps sid)"
  by (induction ps) auto

definition memServiceMap :: "(UUID \<times> LoadBalancerService) list \<Rightarrow> UUID \<rightharpoonup> LoadBalancerService" where
  "memServiceMap ps sid = map_option (\<lambda>svc. configService (svc\<lparr>svc_ID := sid\<rparr>)) (map_of ps sid)"

lemma memView_eq:
  "memView m i = map_option (\<lambda>lb. \<lparr>v_Name = lb_Name lb, v_Description = lb_Description lb,
     v_Services = memServiceMap (memServices m i)\<rparr>) (map_of (mem_nlbs m) i)"
  by (cases "map_of (mem_nlbs m) i")
    (simp_all add: memView_def memNLB_def configOf_def servicesOf_def memServiceMap_def
      map_of_config map_of_clearjunk fun_eq_iff del: map_map)

lemma memServiceMap_Cons:
  "memServiceMap ((sid, svc) # ps) = (memServiceMap ps)(sid \<mapsto> configService (svc\<lparr>svc_ID := sid\<rparr>))"
  by (simp add: memServiceMap_def fun_eq_iff)

lemma memServiceMap_delete: "memServiceMap (AList.delete sid ps) = (memServiceMap ps)(sid := None)"
  by (simp add: memServiceMap_def fun_eq_iff delete_conv)

lemma memServiceMap_fresh: "memServiceMap ps (freshID (map fst ps)) = None"
  using freshID_new [of "map fst ps"] by (simp add: memServiceMap_def map_of_eq_None_iff)

lemma mem_nlbs_setServices [simp]: "mem_nlbs (setServices i svcs m) = mem_nlbs m"
  by (simp add: setServices_def)

lemma map_fst_ID: "map (svc_ID \<circ> (\<lambda>(sid, svc). svc\<lparr>svc_ID := sid\<rparr>)) ps = map fst ps"
  by (induction ps) auto

lemma memGet_ok: "memGet i m = (Inr lb, m') \<Longrightarrow> getPromise i lb (memView m)"
  by (auto simp: memGet_def memView_def getPromise_def memNLB_def map_fst_ID distinct_clearjunk
      split: option.splits if_splits)

lemma memGet_missing: "memGet i m = (Inl e, m') \<Longrightarrow> errors_Is e ErrNotFound \<Longrightarrow> memView m i = None"
  by (auto simp: memGet_def memView_def split: option.splits if_splits)

lemma memGet_error: "memGet i m = (Inl e, m') \<Longrightarrow> \<not> errors_Is e ErrLoadBalancerNotFound"
  by (auto simp: memGet_def split: option.splits if_splits)

lemma memGet_reads: "snd (memGet i m) = m"
  by (simp add: memGet_def split: option.split)

lemma memLookup_reads: "snd (memLookup f i m) = m"
  by (simp add: memLookup_def split: option.split)

lemma configService_serviceOf: "configService ((serviceOf sid req)\<lparr>svc_ID := sid\<rparr>) = serviceOf sid req"
  by (simp add: configService_def serviceOf_def)

lemma memAdd_ok: "memAdd i req m = (Inr oper, m') \<Longrightarrow> addEffect i req (memView m) (memView m')"
  by (auto simp: memAdd_def memOnNLB_def addEffect_def memView_eq Let_def fun_eq_iff memServiceMap_Cons
      configService_serviceOf onServices_def memServiceMap_fresh split: option.splits
      intro!: exI [of _ "freshID (map fst (memServices m i))"])

lemma memDeleteService_ok:
  "memDeleteService i sid m = (Inr oper, m') \<Longrightarrow> deleteServiceEffect i sid (memView m) (memView m')"
  by (auto simp: memDeleteService_def memOnNLB_def deleteServiceEffect_def memView_eq fun_eq_iff
      memServiceMap_delete onServices_def split: option.splits)

lemma configService_changed:
  "configService ((changedService req svc)\<lparr>svc_ID := sid\<rparr>) = changedService req (configService (svc\<lparr>svc_ID := sid\<rparr>))"
  by (cases svc; cases "upd_Healthcheck req") (simp_all add: configService_def changedService_def)

lemma memUpdateService_ok:
  assumes "memUpdateService i sid req m = (Inr oper, m')"
  shows "updateServiceEffect i sid req (memView m) (memView m')"
proof -
  obtain svc lb where "map_of (memServices m i) sid = Some svc" and "map_of (mem_nlbs m) i = Some lb"
    and "m' = setServices i ((sid, changedService req svc) # memServices m i) m"
    using assms by (auto simp: memUpdateService_def memOnNLB_def split: option.splits)
  then show ?thesis
    by (auto simp: updateServiceEffect_def memView_eq fun_eq_iff memServiceMap_Cons onServices_def
        configService_changed memServiceMap_def)
qed

lemma memUpdate_ok: "memUpdate i req m = (Inr oper, m') \<Longrightarrow> updateEffect i req (memView m) (memView m')"
  by (auto simp: memUpdate_def memOnNLB_def updateEffect_def memView_eq fun_eq_iff split: option.splits)

lemma memCreate_ok: "memCreate req m = (Inr oper, m') \<Longrightarrow> createEffect req oper (memView m) (memView m')"
  using freshID_new [of "map fst (mem_nlbs m)"]
  by (auto simp: memCreate_def createEffect_def memView_eq fun_eq_iff Let_def finished_def memServiceMap_def
      map_of_eq_None_iff image_iff)

lemma memDelete_ok: "memDelete i m = (Inr oper, m') \<Longrightarrow> deleteEffect i (memView m) (memView m')"
  by (auto simp: memDelete_def memOnNLB_def deleteEffect_def memView_eq fun_eq_iff delete_conv
      split: option.splits)

interpretation memory: nlb_api memoryClient "memoryKube nodes" memView for nodes
proof unfold_locales
  show "memView (snd (ServicesPatch (memoryKube nodes) ns n p w)) = memView w" for ns n p w
    by (simp add: memoryKube_def modifyM_def memView_eq memServices_def fun_eq_iff)
qed (simp_all add: memoryClient_def getM_def memLookup_reads memGet_reads memGet_ok memGet_missing memGet_error memAdd_ok
    memDeleteService_ok memUpdateService_ok memUpdate_ok memCreate_ok memDelete_ok)

end
