(* ===== verification/Client.thy ===== *)
theory Client
  imports Instances NLB_API
begin

text \<open>
  \<^verbatim>\<open>exoscale/client.go\<close> and the client methods at the ends of \<^verbatim>\<open>loadbalancer.go\<close>, \<^verbatim>\<open>instances.go\<close> and
  \<^verbatim>\<open>sks.go\<close>: the client whose credentials can be replaced while the program runs. The vendored
  client package is a parameter: a type \<open>'c\<close> of its clients with the functions the program calls.
  The state of the program is the refreshable client and the outside world.

  A method holds the read lock while it uses \<^verbatim>\<open>c.exo\<close>, so it is one step here; \<open>Client_Lock\<close> shows
  that no credential refresh can come in between. \<^verbatim>\<open>fatalf\<close> ends the process; like a panic it is an
  error that no caller sees.
\<close>

section \<open>The client\<close>

record exoscaleAPICredentials =
  cr_APIKey :: string
  cr_APISecret :: string
  cr_Name :: string

record 'c refreshableExoscaleClient =
  rc_exo :: "'c option"
  rc_apiCredentials :: exoscaleAPICredentials
  rc_apiEndpoint :: string

record ('c, 'w) app =
  app_client :: "'c refreshableExoscaleClient"
  app_world :: 'w

text \<open>\<^verbatim>\<open>NewClient\<close> with the endpoint option, if there is one, and the user agent.\<close>

record ('c, 'w) egoscale =
  NewClient :: "string \<Rightarrow> string \<Rightarrow> string option \<Rightarrow> string \<Rightarrow> error + 'c"
  GetZoneAPIEndpoint :: "'c \<Rightarrow> string \<Rightarrow> ('w, string) M"
  WithEndpoint :: "'c \<Rightarrow> string \<Rightarrow> 'c"
  asClient :: "'c \<Rightarrow> 'w exoscaleClient"

text \<open>Opening the credentials file and decoding its JSON text.\<close>

record 'w credentialFiles =
  openFile :: "string \<Rightarrow> ('w, string) M"
  jsonDecode :: "string \<Rightarrow> error + exoscaleAPICredentials"

definition worldM :: "('w, 'a) M \<Rightarrow> (('c, 'w) app, 'a) M" where
  "worldM f = (\<lambda>a. case f (app_world a) of (r, w) \<Rightarrow> (r, a\<lparr>app_world := w\<rparr>))"

definition fatalf :: "string \<Rightarrow> error" where
  "fatalf msg = Panic (''fatal: '' @ msg)"

type_synonym ('c, 'w) switchZone = "'c \<Rightarrow> string \<Rightarrow> ('w, 'c) M"

definition switchZoneCallback :: "('c, 'w) egoscale \<Rightarrow> ('c, 'w) switchZone" where
  "switchZoneCallback ego client zone =
     (if zone = [] then returnM client
      else bindM (GetZoneAPIEndpoint ego client zone) (\<lambda>zoneEndpoint.
           returnM (WithEndpoint ego client zoneEndpoint)))"

definition userAgent :: "string \<Rightarrow> string" where
  "userAgent versionString = ''Exoscale-K8s-Cloud-Controller/'' @ versionString"

text \<open>A client for credentials and a zone: the lines that both constructors share.\<close>

definition connect ::
  "('c, 'w) egoscale \<Rightarrow> string \<Rightarrow> string \<Rightarrow> exoscaleAPICredentials \<Rightarrow> string \<Rightarrow> ('c, 'w) switchZone \<Rightarrow> ('w, 'c) M" where
  "connect ego versionString apiEndpoint creds zone zoneCallback =
     bindM (liftE (NewClient ego (cr_APIKey creds) (cr_APISecret creds)
              (if apiEndpoint \<noteq> [] then Some apiEndpoint else None) (userAgent versionString))) (\<lambda>client.
     zoneCallback client zone)"

definition refreshCredentialsFromFile ::
  "('c, 'w) egoscale \<Rightarrow> 'w credentialFiles \<Rightarrow> string \<Rightarrow> string \<Rightarrow> string \<Rightarrow> ('c, 'w) switchZone
   \<Rightarrow> (('c, 'w) app, unit) M" where
  "refreshCredentialsFromFile ego files versionString path zone zoneCallback =
     bindM (catchM (worldM (openFile files path)) (\<lambda>e. failM (fatalf ''failed to read credentials file''))) (\<lambda>f.
     case jsonDecode files f of
       Inl e \<Rightarrow> returnM ()
     | Inr apiCredentials \<Rightarrow>
         bindM (getM (\<lambda>a. rc_apiEndpoint (app_client a))) (\<lambda>apiEndpoint.
         bindM (catchM (bindM (worldM (connect ego versionString apiEndpoint apiCredentials zone zoneCallback))
                          (\<lambda>client. returnM (Some client)))
                  (\<lambda>e. returnM None)) (\<lambda>connected.
         case connected of
           None \<Rightarrow> returnM ()
         | Some client \<Rightarrow>
             modifyM (\<lambda>a. a\<lparr>app_client := (app_client a)
               \<lparr>rc_exo := Some client, rc_apiCredentials := apiCredentials\<rparr>\<rparr>))))"

definition noCredentials :: exoscaleAPICredentials where
  "noCredentials = \<lparr>cr_APIKey = [], cr_APISecret = [], cr_Name = []\<rparr>"

text \<open>The result is the file to watch, if the watcher has been started.\<close>

definition newRefreshableExoscaleClient ::
  "('c, 'w) egoscale \<Rightarrow> 'w credentialFiles \<Rightarrow> string \<Rightarrow> globalConfig \<Rightarrow> string \<Rightarrow> ('c, 'w) switchZone
   \<Rightarrow> (('c, 'w) app, string option) M" where
  "newRefreshableExoscaleClient ego files versionString config zone zoneCallback =
     bindM (modifyM (\<lambda>a. a\<lparr>app_client := \<lparr>rc_exo = None, rc_apiCredentials = noCredentials,
              rc_apiEndpoint = gc_APIEndpoint config\<rparr>\<rparr>)) (\<lambda>_.
     if gc_APIKey config \<noteq> [] \<and> gc_APISecret config \<noteq> [] then
       (let creds = \<lparr>cr_APIKey = gc_APIKey config, cr_APISecret = gc_APISecret config, cr_Name = []\<rparr> in
        bindM (modifyM (\<lambda>a. a\<lparr>app_client := (app_client a)\<lparr>rc_apiCredentials := creds\<rparr>\<rparr>)) (\<lambda>_.
        bindM (worldM (connect ego versionString (gc_APIEndpoint config) creds zone zoneCallback)) (\<lambda>exo.
        bindM (modifyM (\<lambda>a. a\<lparr>app_client := (app_client a)\<lparr>rc_exo := Some exo\<rparr>\<rparr>)) (\<lambda>_.
        returnM None))))
     else if gc_APICredentialsFile config \<noteq> [] then
       bindM (refreshCredentialsFromFile ego files versionString (gc_APICredentialsFile config) zone zoneCallback)
         (\<lambda>_. returnM (Some (gc_APICredentialsFile config)))
     else failM (ErrNew ''incomplete or missing Exoscale API credentials''))"

section \<open>Watching the credentials file\<close>

text \<open>What the \<^verbatim>\<open>select\<close> of the watcher receives, in the order in which it receives it.\<close>

datatype watchEvent =
    FileEvent string "32 word"
  | EventsClosed
  | WatcherError error
  | ErrorsClosed
  | ContextDone

definition fsnotifyCreate :: "32 word" where
  "fsnotifyCreate = 1"

definition fsnotifyWrite :: "32 word" where
  "fsnotifyWrite = 2"

definition isRefreshEvent :: "string \<Rightarrow> string \<Rightarrow> 32 word \<Rightarrow> bool" where
  "isRefreshEvent path name oper \<longleftrightarrow>
     name = path \<and> (and oper fsnotifyWrite = fsnotifyWrite \<or> and oper fsnotifyCreate = fsnotifyCreate)"

text \<open>The result says whether the watcher has returned; otherwise it waits for the next event.\<close>

fun watchLoop :: "('s, unit) M \<Rightarrow> string \<Rightarrow> watchEvent list \<Rightarrow> ('s, bool) M" where
  "watchLoop refresh path [] = returnM False"
| "watchLoop refresh path (FileEvent name oper # events) =
     (if isRefreshEvent path name oper then bindM refresh (\<lambda>_. watchLoop refresh path events)
      else watchLoop refresh path events)"
| "watchLoop refresh path (EventsClosed # events) = returnM True"
| "watchLoop refresh path (WatcherError e # events) = watchLoop refresh path events"
| "watchLoop refresh path (ErrorsClosed # events) = returnM True"
| "watchLoop refresh path (ContextDone # events) = returnM True"

definition watchCredentialsFile ::
  "('c, 'w) egoscale \<Rightarrow> 'w credentialFiles \<Rightarrow> string \<Rightarrow> error + unit \<Rightarrow> string \<Rightarrow> string \<Rightarrow> ('c, 'w) switchZone
   \<Rightarrow> watchEvent list \<Rightarrow> (('c, 'w) app, bool) M" where
  "watchCredentialsFile ego files versionString watcher path zone zoneCallback events =
     (case watcher of
        Inl e \<Rightarrow> failM (fatalf ''failed to watch credentials file'')
      | Inr _ \<Rightarrow> watchLoop (refreshCredentialsFromFile ego files versionString path zone zoneCallback) path events)"

section \<open>The methods\<close>

definition onExo :: "('c, 'w) egoscale \<Rightarrow> ('w exoscaleClient \<Rightarrow> ('w, 'a) M) \<Rightarrow> (('c, 'w) app, 'a) M" where
  "onExo ego f = (\<lambda>a. case rc_exo (app_client a) of
     None \<Rightarrow> (Inl nilPanic, a)
   | Some c \<Rightarrow> worldM (f (asClient ego c)) a)"

text \<open>\<^verbatim>\<open>op, err := ...; if err != nil { return nil, err }; return c.exo.Wait(ctx, op, v3.OperationStateSuccess)\<close>\<close>

definition waitSuccess :: "'w exoscaleClient \<Rightarrow> ('w, Operation) M \<Rightarrow> ('w, Operation) M" where
  "waitSuccess exo request = bindM request (\<lambda>oper. Wait exo oper [''success''])"

definition rc_CreateLoadBalancer :: "('c, 'w) egoscale \<Rightarrow> CreateLoadBalancerRequest \<Rightarrow> (('c, 'w) app, Operation) M" where
  "rc_CreateLoadBalancer ego req = onExo ego (\<lambda>exo. waitSuccess exo (CreateLoadBalancer exo req))"

definition rc_AddServiceToLoadBalancer ::
  "('c, 'w) egoscale \<Rightarrow> UUID \<Rightarrow> AddServiceToLoadBalancerRequest \<Rightarrow> (('c, 'w) app, Operation) M" where
  "rc_AddServiceToLoadBalancer ego i req = onExo ego (\<lambda>exo. waitSuccess exo (AddServiceToLoadBalancer exo i req))"

definition rc_DeleteLoadBalancer :: "('c, 'w) egoscale \<Rightarrow> UUID \<Rightarrow> (('c, 'w) app, Operation) M" where
  "rc_DeleteLoadBalancer ego i = onExo ego (\<lambda>exo. waitSuccess exo (DeleteLoadBalancer exo i))"

definition rc_DeleteLoadBalancerService :: "('c, 'w) egoscale \<Rightarrow> UUID \<Rightarrow> UUID \<Rightarrow> (('c, 'w) app, Operation) M" where
  "rc_DeleteLoadBalancerService ego i sid = onExo ego (\<lambda>exo. waitSuccess exo (DeleteLoadBalancerService exo i sid))"

definition rc_GetLoadBalancer :: "('c, 'w) egoscale \<Rightarrow> UUID \<Rightarrow> (('c, 'w) app, LoadBalancer) M" where
  "rc_GetLoadBalancer ego i = onExo ego (\<lambda>exo. GetLoadBalancer exo i)"

definition rc_ListLoadBalancers :: "('c, 'w) egoscale \<Rightarrow> (('c, 'w) app, LoadBalancer list) M" where
  "rc_ListLoadBalancers ego = onExo ego ListLoadBalancers"

definition rc_UpdateLoadBalancer ::
  "('c, 'w) egoscale \<Rightarrow> UUID \<Rightarrow> UpdateLoadBalancerRequest \<Rightarrow> (('c, 'w) app, Operation) M" where
  "rc_UpdateLoadBalancer ego i req = onExo ego (\<lambda>exo. waitSuccess exo (UpdateLoadBalancer exo i req))"

definition rc_UpdateLoadBalancerService ::
  "('c, 'w) egoscale \<Rightarrow> UUID \<Rightarrow> UUID \<Rightarrow> UpdateLoadBalancerServiceRequest \<Rightarrow> (('c, 'w) app, Operation) M" where
  "rc_UpdateLoadBalancerService ego i sid req =
     onExo ego (\<lambda>exo. waitSuccess exo (UpdateLoadBalancerService exo i sid req))"

definition rc_GetInstance :: "('c, 'w) egoscale \<Rightarrow> UUID \<Rightarrow> (('c, 'w) app, Instance) M" where
  "rc_GetInstance ego i = onExo ego (\<lambda>exo. GetInstance exo i)"

definition rc_GetInstanceType :: "('c, 'w) egoscale \<Rightarrow> UUID \<Rightarrow> (('c, 'w) app, InstanceType) M" where
  "rc_GetInstanceType ego i = onExo ego (\<lambda>exo. GetInstanceType exo i)"

definition rc_ListInstances :: "('c, 'w) egoscale \<Rightarrow> (('c, 'w) app, Instance list) M" where
  "rc_ListInstances ego = onExo ego ListInstances"

definition rc_ListSKSClusters :: "('c, 'w) egoscale \<Rightarrow> (('c, 'w) app, SKSCluster list) M" where
  "rc_ListSKSClusters ego = onExo ego ListSKSClusters"

definition rc_Wait :: "('c, 'w) egoscale \<Rightarrow> Operation \<Rightarrow> string list \<Rightarrow> (('c, 'w) app, Operation) M" where
  "rc_Wait ego oper states = onExo ego (\<lambda>exo. Wait exo oper states)"

text \<open>The refreshable client implements the interface.\<close>

definition refreshableClient :: "('c, 'w) egoscale \<Rightarrow> (('c, 'w) app) exoscaleClient" where
  "refreshableClient ego =
     \<lparr>CreateLoadBalancer = rc_CreateLoadBalancer ego,
      AddServiceToLoadBalancer = rc_AddServiceToLoadBalancer ego,
      DeleteLoadBalancer = rc_DeleteLoadBalancer ego,
      DeleteLoadBalancerService = rc_DeleteLoadBalancerService ego,
      GetInstance = rc_GetInstance ego,
      GetInstanceType = rc_GetInstanceType ego,
      GetLoadBalancer = rc_GetLoadBalancer ego,
      ListInstances = rc_ListInstances ego,
      ListLoadBalancers = rc_ListLoadBalancers ego,
      ListSKSClusters = rc_ListSKSClusters ego,
      UpdateLoadBalancer = rc_UpdateLoadBalancer ego,
      UpdateLoadBalancerService = rc_UpdateLoadBalancerService ego,
      Wait = rc_Wait ego\<rparr>"

text \<open>The Kubernetes client is not touched by a refresh.\<close>

definition kubeOfApp :: "'w kubeClient \<Rightarrow> (('c, 'w) app) kubeClient" where
  "kubeOfApp kc =
     \<lparr>NodesGet = (\<lambda>n a. case NodesGet kc n (app_world a) of (r, w) \<Rightarrow> (r, a\<lparr>app_world := w\<rparr>)),
      ServicesPatch = (\<lambda>ns n p. worldM (ServicesPatch kc ns n p))\<rparr>"

end
