(* ===== verification/SKS_Agent.thy ===== *)
theory SKS_Agent
  imports Instances
begin

text \<open>
  \<^verbatim>\<open>exoscale/sks_agent.go\<close> and \<^verbatim>\<open>exoscale/sks_agent_runner_node_csr_validation.go\<close>: the runner that
  approves the certificate signing requests of the nodes. PEM and X.509 decoding are parameters.
  One event is handled by a function; the loop around it is a step relation, because what comes next
  (an event, a closed channel, a cancelled context, a failing watch) is decided outside.
\<close>

section \<open>Types\<close>

record CSRCondition =
  cond_Type :: string
  cond_Status :: string
  cond_Reason :: string
  cond_Message :: string

record CertificateSigningRequest =
  csr_Name :: string
  csr_Groups :: "string list"
  csr_Request :: string
  csr_Conditions :: "CSRCondition list"

record CertificateRequest =
  cert_DNSNames :: "string list"
  cert_IPAddresses :: "IP list"

record pemBlock =
  block_Type :: string
  block_Bytes :: string

record certLib =
  pemDecode :: "string \<Rightarrow> pemBlock option"
  ParseCertificateRequest :: "string \<Rightarrow> error + CertificateRequest"

record 'w csrClient =
  UpdateApproval :: "string \<Rightarrow> CertificateSigningRequest \<Rightarrow> ('w, unit) M"

text \<open>An event of the watch: its type and, when the object is of the expected type, the request.\<close>

record watchedEvent =
  ev_Type :: string
  ev_Object :: "CertificateSigningRequest option"

section \<open>Checks\<close>

definition sksAgentNodeCSRValidationApprovalReason :: string where
  "sksAgentNodeCSRValidationApprovalReason = ''ExoscaleCloudControllerApproved''"

definition sksAgentNodeCSRValidationApprovalMessage :: string where
  "sksAgentNodeCSRValidationApprovalMessage = ''This CSR was approved by the Exoscale Cloud Controller Manager''"

definition sksAgentNodeCSRValidationRequiredGroups :: "string list" where
  "sksAgentNodeCSRValidationRequiredGroups = [''system:authenticated'', ''system:nodes'']"

fun hasGroup :: "string \<Rightarrow> string list \<Rightarrow> bool" where
  "hasGroup expected [] = False"
| "hasGroup expected (actual # groups) = (if expected = actual then True else hasGroup expected groups)"

fun hasGroups :: "string list \<Rightarrow> string list \<Rightarrow> bool" where
  "hasGroups [] groups = True"
| "hasGroups (expected # required) groups = (if \<not> hasGroup expected groups then False else hasGroups required groups)"

definition hasRequiredGroups :: "CertificateSigningRequest \<Rightarrow> bool" where
  "hasRequiredGroups csr = hasGroups sksAgentNodeCSRValidationRequiredGroups (csr_Groups csr)"

definition parseCSR :: "certLib \<Rightarrow> string \<Rightarrow> error + CertificateRequest" where
  "parseCSR lib pemData =
     (case pemDecode lib pemData of
        None \<Rightarrow> Inl (Errorf ''PEM block type must be CERTIFICATE REQUEST'' [])
      | Some block \<Rightarrow>
          if block_Type block \<noteq> ''CERTIFICATE REQUEST''
          then Inl (Errorf ''PEM block type must be CERTIFICATE REQUEST'' [])
          else ParseCertificateRequest lib (block_Bytes block))"

text \<open>The addresses of an instance that a certificate may name.\<close>

definition nodeAddrs :: "'w kubeClient \<Rightarrow> Instance \<Rightarrow> ('w, string list) M" where
  "nodeAddrs kc inst = (\<lambda>w.
     let known = (if inst_PublicIP inst \<noteq> [] then [IP_String (inst_PublicIP inst)] else []) @
                 (if inst_Ipv6Address inst \<noteq> [] then [inst_Ipv6Address inst] else []) in
     if length (inst_PrivateNetworks inst) > 0
     then (case providedNodeIP kc (inst_Name inst) w of
             (Some providedIP, w') \<Rightarrow> (Inr (known @ [providedIP]), w')
           | (None, w') \<Rightarrow> (Inr known, w'))
     else (Inr known, w))"

text \<open>The loop over the addresses: false at the first one that is not an address of the instance.\<close>

fun allContained :: "string list \<Rightarrow> IP list \<Rightarrow> bool" where
  "allContained addrs [] = True"
| "allContained addrs (ip # ips) = (if \<not> IP_String ip \<in> set addrs then False else allContained addrs ips)"

text \<open>The loop over the instances; every instance with the name sets \<^verbatim>\<open>csrOK\<close> anew.\<close>

definition checkInstance ::
  "'w kubeClient \<Rightarrow> CertificateRequest \<Rightarrow> Instance \<Rightarrow> bool \<Rightarrow> ('w, bool) M" where
  "checkInstance kc parsedCSR inst csrOK =
     (if EqualFold (inst_Name inst) (cert_DNSNames parsedCSR ! 0)
      then bindM (nodeAddrs kc inst) (\<lambda>addrs. returnM (allContained addrs (cert_IPAddresses parsedCSR)))
      else returnM csrOK)"

definition approved :: "CertificateSigningRequest \<Rightarrow> CertificateSigningRequest" where
  "approved csr = csr\<lparr>csr_Conditions := csr_Conditions csr @
     [\<lparr>cond_Type = ''Approved'', cond_Status = ''True'',
       cond_Reason = sksAgentNodeCSRValidationApprovalReason,
       cond_Message = sksAgentNodeCSRValidationApprovalMessage\<rparr>]\<rparr>"

section \<open>One event\<close>

text \<open>
  The body of the inner loop, for an event that passes the filter. \<^verbatim>\<open>continue\<close> is the result False;
  the result True means that the request was approved.
\<close>

definition handleCSR ::
  "'w exoscaleClient \<Rightarrow> 'w kubeClient \<Rightarrow> 'w csrClient \<Rightarrow> certLib \<Rightarrow> CertificateSigningRequest option \<Rightarrow> ('w, bool) M" where
  "handleCSR cl kc cc lib object =
     (case object of
        None \<Rightarrow> returnM False
      | Some csr \<Rightarrow>
          if length (csr_Conditions csr) > 0 then returnM False
          else if \<not> hasRequiredGroups csr then returnM False
          else case parseCSR lib (csr_Request csr) of
            Inl e \<Rightarrow> returnM False
          | Inr parsedCSR \<Rightarrow>
              if length (cert_DNSNames parsedCSR) \<noteq> 1 then returnM False
              else
                bindM (catchM (bindM (ListInstances cl) (\<lambda>instances. returnM (Some instances))) (\<lambda>e. returnM None))
                  (\<lambda>listed.
                case listed of
                  None \<Rightarrow> returnM False
                | Some instances \<Rightarrow>
                    bindM (foldM (checkInstance kc parsedCSR) instances False) (\<lambda>csrOK.
                    if \<not> csrOK then returnM False
                    else catchM (bindM (UpdateApproval cc (csr_Name csr) (approved csr)) (\<lambda>_. returnM True))
                           (\<lambda>e. returnM False))))"

definition keepEvent :: "watchedEvent \<Rightarrow> bool" where
  "keepEvent event \<longleftrightarrow> ev_Type event = ''ADDED''"

definition handleEvent ::
  "'w exoscaleClient \<Rightarrow> 'w kubeClient \<Rightarrow> 'w csrClient \<Rightarrow> certLib \<Rightarrow> watchedEvent \<Rightarrow> ('w, bool) M" where
  "handleEvent cl kc cc lib event =
     (if keepEvent event then handleCSR cl kc cc lib (ev_Object event) else returnM False)"

section \<open>The loop\<close>

datatype runnerPC = Watch | Sleep | Select | Returned | Crashed

record 'w runner =
  r_pc :: runnerPC
  r_cancelled :: bool
  r_world :: 'w

text \<open>
  \<open>watchable cancelled\<close> says whether a \<^verbatim>\<open>Watch\<close> can succeed, given whether its context is cancelled.
  A \<^verbatim>\<open>select\<close> with several cases ready takes any of them.
\<close>

inductive runStep ::
  "(bool \<Rightarrow> bool) \<Rightarrow> (watchedEvent \<Rightarrow> ('w, bool) M) \<Rightarrow> 'w runner \<Rightarrow> 'w runner \<Rightarrow> bool"
  for watchable and handle where
  watch_fails: "r_pc r = Watch \<Longrightarrow> runStep watchable handle r (r\<lparr>r_pc := Sleep\<rparr>)"
| sleep_ends: "r_pc r = Sleep \<Longrightarrow> runStep watchable handle r (r\<lparr>r_pc := Watch\<rparr>)"
| watch_opens: "r_pc r = Watch \<Longrightarrow> watchable (r_cancelled r) \<Longrightarrow> runStep watchable handle r (r\<lparr>r_pc := Select\<rparr>)"
| select_done: "r_pc r = Select \<Longrightarrow> r_cancelled r \<Longrightarrow> runStep watchable handle r (r\<lparr>r_pc := Returned\<rparr>)"
| select_closed: "r_pc r = Select \<Longrightarrow> runStep watchable handle r (r\<lparr>r_pc := Watch\<rparr>)"
| select_event: "r_pc r = Select \<Longrightarrow> handle event (r_world r) = (Inr b, w) \<Longrightarrow>
    runStep watchable handle r (r\<lparr>r_world := w\<rparr>)"
| select_panic: "r_pc r = Select \<Longrightarrow> handle event (r_world r) = (Inl e, w) \<Longrightarrow>
    runStep watchable handle r (r\<lparr>r_pc := Crashed, r_world := w\<rparr>)"
| cancel: "runStep watchable handle r (r\<lparr>r_cancelled := True\<rparr>)"

inductive_cases runStepE: "runStep watchable handle r r'"

definition run :: "(bool \<Rightarrow> bool) \<Rightarrow> 'w exoscaleClient \<Rightarrow> 'w kubeClient \<Rightarrow> 'w csrClient \<Rightarrow> certLib \<Rightarrow> 'w runner \<Rightarrow> 'w runner \<Rightarrow> bool" where
  "run watchable cl kc cc lib = (runStep watchable (handleEvent cl kc cc lib))\<^sup>*\<^sup>*"

section \<open>Starting the runners\<close>

definition sksAgentNodeCSRValidation :: string where
  "sksAgentNodeCSRValidation = ''node-csr-validation''"

text \<open>The runners that have been started, and the result.\<close>

fun runSKSAgent :: "string list \<Rightarrow> string list \<times> (error + unit)" where
  "runSKSAgent [] = ([], Inr ())"
| "runSKSAgent (r # runners) =
     (if r = sksAgentNodeCSRValidation
      then (case runSKSAgent runners of (started, result) \<Rightarrow> (r # started, result))
      else ([], Inl (Errorf ''unsupported runner %q'' [r])))"

end
