(* ===== verification/Zones.thy ===== *)
theory Zones
  imports Instances
begin

text \<open>
  \<^verbatim>\<open>exoscale/zones.go\<close>: the zone and region of a node. The metadata package of the vendored client
  reads a CD-ROM or asks the metadata server; both are parameters.
\<close>

record Zone =
  z_FailureDomain :: string
  z_Region :: string

record 'w metadataLib =
  FromCdRom :: "string \<Rightarrow> ('w, string) M"
  metadataGet :: "string \<Rightarrow> ('w, string) M"

definition AvailabilityZone :: string where
  "AvailabilityZone = ''availability-zone''"

record 'w zones =
  z_p :: "'w cloudProvider"

definition newZones :: "'w cloudProvider \<Rightarrow> 'w zones" where
  "newZones provider = \<lparr>z_p = provider\<rparr>"

definition region :: "string \<Rightarrow> Zone" where
  "region r = \<lparr>z_FailureDomain = [], z_Region = r\<rparr>"

definition GetZone :: "'w metadataLib \<Rightarrow> ('w, Zone) M" where
  "GetZone md =
     bindM (catchM (FromCdRom md AvailabilityZone)
              (\<lambda>_. wrapM (ErrorfW ''get metadata: %w'' []) (metadataGet md AvailabilityZone))) (\<lambda>zone.
     returnM (region zone))"

definition errNoInstanceOverride :: error where
  "errNoInstanceOverride = Errorf ''no instance override found (Exoscale API disabled)'' []"

text \<open>The region of an external override.\<close>

definition overrideRegion :: "instancesOverrideConfig \<Rightarrow> Zone" where
  "overrideRegion ov = (if ov_Region ov \<noteq> [] then region (ov_Region ov) else region ''external'')"

definition GetZoneByProviderID :: "'w zones \<Rightarrow> string \<Rightarrow> ('w, Zone) M" where
  "GetZoneByProviderID z providerID =
     (case externalOverride (getInstanceOverrideByProviderID (cc_Instances (p_cfg (z_p z))) providerID) of
        Some ov \<Rightarrow> returnM (overrideRegion ov)
      | None \<Rightarrow>
          if ic_ExternalOnly (cc_Instances (p_cfg (z_p z))) then failM errNoInstanceOverride
          else returnM (region (p_zone (z_p z))))"

definition GetZoneByNodeName :: "regexpMatch \<Rightarrow> 'w zones \<Rightarrow> string \<Rightarrow> ('w, Zone) M" where
  "GetZoneByNodeName rx z nodeName =
     (case externalOverride (getInstanceOverride rx (cc_Instances (p_cfg (z_p z))) nodeName) of
        Some ov \<Rightarrow> returnM (overrideRegion ov)
      | None \<Rightarrow>
          if ic_ExternalOnly (cc_Instances (p_cfg (z_p z))) then failM errNoInstanceOverride
          else
            bindM (wrapM (ErrorfS ''failed to retrieve node %s from the apiserver: %s'' [nodeName])
                     (kclientM (z_p z) (\<lambda>kc. getNodeM kc nodeName))) (\<lambda>node.
            GetZoneByProviderID z (n_SystemUUID node)))"

end
