(* ===== verification/Cloud.thy ===== *)
theory Cloud
  imports Client SKS_Agent Zones LB_Handlers
begin

text \<open>
  \<^verbatim>\<open>exoscale/exoscale.go\<close>: the provider is made from the configuration and the environment, gets its
  clients in \<^verbatim>\<open>Initialize\<close>, and hands out the interfaces that are not disabled. A component holds a
  pointer to the provider, so it is made from the provider as it is when it is handed out.
\<close>

definition ProviderName :: string where
  "ProviderName = ''exoscale''"

definition getenv :: "(string \<rightharpoonup> string) \<Rightarrow> string \<Rightarrow> string" where
  "getenv env name = (case env name of None \<Rightarrow> [] | Some v \<Rightarrow> v)"

text \<open>The zone: two environment variables, the metadata CD-ROM, the metadata server.\<close>

definition providerZone :: "'w metadataLib \<Rightarrow> (string \<rightharpoonup> string) \<Rightarrow> ('w, string) M" where
  "providerZone md env =
     (if getenv env ''EXOSCALE_API_ZONE'' \<noteq> [] then returnM (getenv env ''EXOSCALE_API_ZONE'')
      else if getenv env ''EXOSCALE_ZONE'' \<noteq> [] then returnM (getenv env ''EXOSCALE_ZONE'')
      else catchM (FromCdRom md AvailabilityZone)
             (\<lambda>e. wrapM (ErrorfW ''get metadata: %w'' []) (metadataGet md AvailabilityZone)))"

definition newExoscaleCloud ::
  "'w metadataLib \<Rightarrow> (string \<rightharpoonup> string) \<Rightarrow> cloudConfig \<Rightarrow> ('w, 'v cloudProvider) M" where
  "newExoscaleCloud md env config =
     bindM (providerZone md env) (\<lambda>zone.
     returnM \<lparr>p_cfg = config, p_client = None, p_kclient = None, p_zone = zone\<rparr>)"

text \<open>The factory that the package registers.\<close>

definition cloudProviderFactory ::
  "(string \<Rightarrow> error + cloudConfig) \<Rightarrow> 'w metadataLib \<Rightarrow> (string \<rightharpoonup> string) \<Rightarrow> string option \<Rightarrow> ('w, 'v cloudProvider) M" where
  "cloudProviderFactory yamlDecode md env config =
     bindM (liftE (readExoscaleConfig yamlDecode env config)) (newExoscaleCloud md env)"

text \<open>
  The result: the provider with its clients, the credentials file to watch and the SKS agent
  runners, which run in goroutines of their own.
\<close>

definition Initialize ::
  "('c, 'w) egoscale \<Rightarrow> 'w credentialFiles \<Rightarrow> string \<Rightarrow> (string \<rightharpoonup> string) \<Rightarrow> 'w kubeClient
   \<Rightarrow> (('c, 'w) app) cloudProvider
   \<Rightarrow> (('c, 'w) app, (('c, 'w) app) cloudProvider \<times> string option \<times> string list) M" where
  "Initialize ego files versionString env kc p =
     bindM (catchM (newRefreshableExoscaleClient ego files versionString (cc_Global (p_cfg p)) (p_zone p)
                      (switchZoneCallback ego))
              (\<lambda>e. failM (fatalf ''could not create Exoscale client''))) (\<lambda>watched.
     let p' = p\<lparr>p_kclient := Some (kubeOfApp kc), p_client := Some (refreshableClient ego)\<rparr>;
         v = getenv env ''EXOSCALE_SKS_AGENT_RUNNERS'' in
     if v \<noteq> [] then
       (case runSKSAgent (Split (CHR '','') v) of
          (started, Inl e) \<Rightarrow> failM (fatalf ''SKS agent failed to start'')
        | (started, Inr _) \<Rightarrow> returnM (p', watched, started))
     else returnM (p', watched, []))"

section \<open>The interfaces\<close>

record 'w loadBalancer =
  l_p :: "'w cloudProvider"
  l_cfg :: loadBalancerConfig

definition newLoadBalancer :: "'w cloudProvider \<Rightarrow> loadBalancerConfig \<Rightarrow> 'w loadBalancer" where
  "newLoadBalancer provider config = \<lparr>l_p = provider, l_cfg = config\<rparr>"

definition cp_LoadBalancer :: "'w cloudProvider \<Rightarrow> 'w loadBalancer \<times> bool" where
  "cp_LoadBalancer p = (newLoadBalancer p (cc_LoadBalancer (p_cfg p)), \<not> lc_Disabled (cc_LoadBalancer (p_cfg p)))"

definition cp_Instances :: "'w cloudProvider \<Rightarrow> 'w instances \<times> bool" where
  "cp_Instances p = (newInstances p (cc_Instances (p_cfg p)), \<not> ic_Disabled (cc_Instances (p_cfg p)))"

definition cp_InstancesV2 :: "'w cloudProvider \<Rightarrow> 'w instancesV2 \<times> bool" where
  "cp_InstancesV2 p = (newInstancesV2 p (cc_Instances (p_cfg p)), \<not> ic_Disabled (cc_Instances (p_cfg p)))"

definition cp_Zones :: "'w cloudProvider \<Rightarrow> 'w zones \<times> bool" where
  "cp_Zones p = (newZones p, True)"

definition cp_Clusters :: "'w cloudProvider \<Rightarrow> unit option \<times> bool" where
  "cp_Clusters p = (None, False)"

definition cp_Routes :: "'w cloudProvider \<Rightarrow> unit option \<times> bool" where
  "cp_Routes p = (None, False)"

definition cp_ProviderName :: "'w cloudProvider \<Rightarrow> string" where
  "cp_ProviderName p = ProviderName"

definition cp_HasClusterID :: "'w cloudProvider \<Rightarrow> bool" where
  "cp_HasClusterID p = False"

text \<open>
  \<^verbatim>\<open>cloudInitializer\<close> of \<^verbatim>\<open>cmd/exoscale-cloud-controller-manager/main.go\<close>; \<open>init\<close> is what
  \<^verbatim>\<open>cloudprovider.InitCloudProvider\<close> returned.
\<close>

definition cloudInitializer :: "error + 'w cloudProvider option \<Rightarrow> bool \<Rightarrow> error + 'w cloudProvider" where
  "cloudInitializer init allowUntaggedCloud =
     (case init of
        Inl e \<Rightarrow> Inl (fatalf ''Cloud provider could not be initialized'')
      | Inr None \<Rightarrow> Inl (fatalf ''Cloud provider is nil'')
      | Inr (Some cloud) \<Rightarrow>
          if \<not> cp_HasClusterID cloud then
            (if allowUntaggedCloud then Inr cloud else Inl (fatalf ''no ClusterID found''))
          else Inr cloud)"

text \<open>
  \<^verbatim>\<open>main\<close>: the flags of the vendored command, with their \<^verbatim>\<open>Set\<close> methods, and the execution of the command,
  which parses the command line and calls \<^verbatim>\<open>cloudInitializer\<close>, are parameters. \<^verbatim>\<open>klog.Fatalf\<close> ends the
  process.
\<close>

record Flag =
  fl_Name :: string
  fl_Value :: string
  fl_Set :: "string \<Rightarrow> error + string"

fun visitFlags :: "Flag list \<Rightarrow> error + Flag list" where
  "visitFlags [] = Inr []"
| "visitFlags (flag # flags) =
     (let set = (if fl_Name flag = ''cloud-provider''
                 then (case fl_Set flag ProviderName of
                         Inl e \<Rightarrow> Inl (fatalf ''unable to set cloud-provider flag value'')
                       | Inr v \<Rightarrow> Inr (flag\<lparr>fl_Value := v\<rparr>))
                 else Inr flag) in
      case set of Inl e \<Rightarrow> Inl e
      | Inr flag' \<Rightarrow> (case visitFlags flags of Inl e \<Rightarrow> Inl e | Inr flags' \<Rightarrow> Inr (flag' # flags')))"

definition main_ccm :: "error + 'o \<Rightarrow> ('o \<Rightarrow> Flag list) \<Rightarrow> ('o \<Rightarrow> Flag list \<Rightarrow> ('w, unit) M) \<Rightarrow> ('w, unit) M" where
  "main_ccm ccmOptions commandFlags execute =
     (case ccmOptions of
        Inl e \<Rightarrow> failM (fatalf ''unable to initialize command options'')
      | Inr options \<Rightarrow>
          bindM (liftE (visitFlags (commandFlags options))) (\<lambda>flags.
          catchM (execute options flags) (\<lambda>e. failM (fatalf ''cloud-controller-manger command failed''))))"

text \<open>The command is executed with the provider of this program preset, and no other flag is touched.\<close>

lemma visitFlags_set:
  assumes "visitFlags flags = Inr flags'" and "\<And>flag v. flag \<in> set flags \<Longrightarrow> fl_Set flag v = Inr v"
  shows "flags' = map (\<lambda>flag. if fl_Name flag = ''cloud-provider'' then flag\<lparr>fl_Value := ''exoscale''\<rparr> else flag) flags"
  using assms
proof (induction flags arbitrary: flags')
  case (Cons flag flags)
  then show ?case by (auto simp: Let_def ProviderName_def split: if_splits sum.splits)
qed simp

end
