(* ===== verification/LB_Safety.thy ===== *)
theory LB_Safety
  imports LB_Handlers
begin

text \<open>
  What the load balancer handlers never do, for every behaviour of the Exoscale API and of the
  Kubernetes API server. The handlers are clients of the interface \<^verbatim>\<open>exoscaleClient\<close>; a locale per
  set of allowed requests fixes a property of the world that these requests keep, and shows once
  that the handlers keep it. The locales are interpreted on the recording client, with "no
  forbidden call was recorded" as the property.
\<close>

section \<open>The recorded calls of a handler\<close>

text \<open>The Kubernetes client beside a recording Exoscale client: it does not touch the record.\<close>

definition onWorld :: "('w \<Rightarrow> 'r \<times> 'w) \<Rightarrow> 'w mock \<Rightarrow> 'r \<times> 'w mock" where
  "onWorld f m = (case f (mock_world m) of (r, w) \<Rightarrow> (r, m\<lparr>mock_world := w\<rparr>))"

definition kubeBeside :: "'w kubeClient \<Rightarrow> ('w mock) kubeClient" where
  "kubeBeside kc = \<lparr>NodesGet = (\<lambda>n. onWorld (NodesGet kc n)),
     ServicesPatch = (\<lambda>ns n p. onWorld (ServicesPatch kc ns n p))\<rparr>"

definition trace :: "(('w mock) handler_state, 'a) M \<Rightarrow> Service \<Rightarrow> 'w \<Rightarrow> api_call list" where
  "trace m s w = Calls (st_world (snd (m \<lparr>st_service = s, st_world = \<lparr>mock_world = w, Calls = []\<rparr>\<rparr>)))"

text \<open>The calls that create, change or delete a load balancer instance itself.\<close>

fun changesNLB :: "api_call \<Rightarrow> bool" where
  "changesNLB (CallCreateLoadBalancer req) = True"
| "changesNLB (CallUpdateLoadBalancer i req) = True"
| "changesNLB (CallDeleteLoadBalancer i) = True"
| "changesNLB c = False"

text \<open>The calls that change a service of a load balancer.\<close>

fun changesService :: "api_call \<Rightarrow> bool" where
  "changesService (CallAddServiceToLoadBalancer i req) = True"
| "changesService (CallUpdateLoadBalancerService i sid req) = True"
| "changesService (CallDeleteLoadBalancerService i sid) = True"
| "changesService c = False"

fun deletesNLB :: "api_call \<Rightarrow> bool" where
  "deletesNLB (CallDeleteLoadBalancer i) = True"
| "deletesNLB c = False"

fun addsOrUpdates :: "api_call \<Rightarrow> bool" where
  "addsOrUpdates (CallCreateLoadBalancer req) = True"
| "addsOrUpdates (CallUpdateLoadBalancer i req) = True"
| "addsOrUpdates (CallAddServiceToLoadBalancer i req) = True"
| "addsOrUpdates (CallUpdateLoadBalancerService i sid req) = True"
| "addsOrUpdates c = False"

section \<open>Allowed requests, as interfaces\<close>

text \<open>
  A property of a handler state: \<open>S\<close> of the Service object and \<open>I\<close> of the outside world.
\<close>

definition onState :: "(Service \<Rightarrow> bool) \<Rightarrow> ('w \<Rightarrow> bool) \<Rightarrow> 'w handler_state \<Rightarrow> bool" where
  "onState S I st \<longleftrightarrow> S (st_service st) \<and> I (st_world st)"

lemma keeps_onState_callM: "keeps I f \<Longrightarrow> keeps (onState S I) (callM f)"
  by (auto simp: keeps_def onState_def)

lemma keeps_read_service:
  "(\<And>s. S s \<Longrightarrow> keeps (onState S I) (f s)) \<Longrightarrow> keeps (onState S I) (bindM (getM st_service) f)"
  by (rule keeps_bind_get) (simp add: onState_def)

lemma keeps_onState_patchAnnotation:
  assumes "\<And>ns n p. keeps I (ServicesPatch kc ns n p)"
    and "\<And>s. S s \<Longrightarrow> S (s\<lparr>s_Annotations := (s_Annotations s)(k \<mapsto> v)\<rparr>)"
  shows "keeps (onState S I) (patchAnnotation kc lib k v)"
proof (rule keepsI)
  fix st :: "'a handler_state"
  assume "onState S I st"
  moreover have "keeps (\<lambda>st. I (st_world st)) (patchAnnotation kc lib k v)"
    by (intro keeps_intros assms(1))
  ultimately show "onState S I (snd (patchAnnotation kc lib k v st))"
    using assms(2) by (auto simp: onState_def patchAnnotation_service dest: keepsD)
qed

locale nlb_reads =
  fixes cl :: "'w exoscaleClient" and kc :: "'w kubeClient"
    and S :: "Service \<Rightarrow> bool" and I :: "'w \<Rightarrow> bool"
  assumes keeps_GetLoadBalancer: "keeps I (GetLoadBalancer cl i)"
    and keeps_GetInstance: "keeps I (GetInstance cl i)"
    and keeps_ListLoadBalancers: "keeps I (ListLoadBalancers cl)"
    and keeps_ListSKSClusters: "keeps I (ListSKSClusters cl)"
    and keeps_ServicesPatch: "keeps I (ServicesPatch kc ns n p)"
    and annotate_ID: "S s \<Longrightarrow> S (s\<lparr>s_Annotations := (s_Annotations s)(annotationLoadBalancerID \<mapsto> v)\<rparr>)"
    and annotate_pool: "S s \<Longrightarrow>
      S (s\<lparr>s_Annotations := (s_Annotations s)(annotationLoadBalancerServiceInstancePoolID \<mapsto> v)\<rparr>)"
begin

lemmas keeps_reads = keeps_onState_callM [OF keeps_GetLoadBalancer] keeps_onState_callM [OF keeps_GetInstance]
  keeps_onState_callM [OF keeps_ListLoadBalancers] keeps_onState_callM [OF keeps_ListSKSClusters]

lemma keeps_annotate:
  "keeps (onState S I) (patchAnnotation kc lib annotationLoadBalancerID v)"
  "keeps (onState S I) (patchAnnotation kc lib annotationLoadBalancerServiceInstancePoolID v)"
  by (intro keeps_onState_patchAnnotation keeps_ServicesPatch annotate_ID annotate_pool; assumption)+

lemma keeps_fetch: "keeps (onState S I) (fetchLoadBalancer cl)"
  unfolding fetchLoadBalancer_def Let_def by (intro keeps_intros keeps_reads)

lemma keeps_lb_GetLoadBalancer: "keeps (onState S I) (lb_GetLoadBalancer cl)"
  unfolding lb_GetLoadBalancer_def by (intro keeps_intros keeps_fetch)

lemma keeps_resolveExternal: "keeps (onState S I) (resolveExternal cl kc lib)"
  unfolding resolveExternal_def Let_def
  by (intro keeps_intros keeps_case_sum keeps_reads keeps_annotate)

lemma keeps_resolveNodepool: "keeps (onState S I) (resolveNodepool cl c n)"
  unfolding resolveNodepool_def Let_def
  by (intro keeps_intros keeps_case_sum keeps_reads)

lemma keeps_inferInstancePool: "keeps (onState S I) (inferInstancePool cl nodes)"
  unfolding inferInstancePool_def inferBody_def by (intro keeps_intros keeps_reads)

lemma keeps_resolveInstancePool: "keeps (onState S I) (resolveInstancePool cl kc lib nodes)"
  unfolding resolveInstancePool_def Let_def
  by (intro keeps_intros keeps_resolveNodepool keeps_inferInstancePool keeps_annotate)

end

text \<open>Deleting services of a load balancer is allowed, too.\<close>

locale nlb_deletes_services = nlb_reads +
  assumes keeps_DeleteLoadBalancerService: "keeps I (DeleteLoadBalancerService cl i sid)"
begin

lemma keeps_deleteBody: "keeps (onState S I) (deleteBody cl nlb ports svc n)"
  unfolding deleteBody_def
  by (intro keeps_intros keeps_onState_callM keeps_DeleteLoadBalancerService)

lemma keeps_EnsureLoadBalancerDeleted_external:
  assumes "\<And>s. S s \<Longrightarrow> isExternal s"
  shows "keeps (onState S I) (EnsureLoadBalancerDeleted cl)"
  unfolding EnsureLoadBalancerDeleted_def
  by (rule keeps_read_service, drule assms, simp only: if_True)
    (intro keeps_intros keeps_deleteBody keeps_fetch)

end

text \<open>\<dots> and so is deleting a load balancer.\<close>

locale nlb_deletes = nlb_deletes_services +
  assumes keeps_DeleteLoadBalancer: "keeps I (DeleteLoadBalancer cl i)"
begin

lemma keeps_EnsureLoadBalancerDeleted: "keeps (onState S I) (EnsureLoadBalancerDeleted cl)"
  unfolding EnsureLoadBalancerDeleted_def
  by (intro keeps_intros keeps_deleteBody keeps_fetch keeps_onState_callM keeps_DeleteLoadBalancer)

end

text \<open>Every change of the services of a load balancer is allowed.\<close>

locale nlb_writes_services = nlb_deletes_services +
  assumes keeps_AddService: "keeps I (AddServiceToLoadBalancer cl i req)"
    and keeps_UpdateService: "keeps I (UpdateLoadBalancerService cl i sid ureq)"
begin

lemmas keeps_service_calls = keeps_onState_callM [OF keeps_AddService]
  keeps_onState_callM [OF keeps_UpdateService] keeps_onState_callM [OF keeps_DeleteLoadBalancerService]

lemma keeps_addService: "keeps (onState S I) (addService cl nlb u)"
  unfolding addService_def by (intro keeps_intros keeps_service_calls keeps_reads)

lemma keeps_firstLoopBody: "keeps (onState S I) (firstLoopBody cl ext c u x m)"
  unfolding firstLoopBody_def Let_def by (intro keeps_intros keeps_service_calls)

lemma keeps_secondLoopBody: "keeps (onState S I) (secondLoopBody cl c u m x)"
  unfolding secondLoopBody_def Let_def
  by (intro keeps_intros keeps_addService keeps_service_calls)

lemma keeps_updateLoadBalancer_if:
  assumes "\<And>s c u. S s \<Longrightarrow> keeps (onState S I) (updateTopLevel cl (isExternal s) c u)"
  shows "keeps (onState S I) (updateLoadBalancer cl)"
  unfolding updateLoadBalancer_def
  by (rule keeps_read_service)
    (intro keeps_intros keeps_reads keeps_firstLoopBody keeps_secondLoopBody assms)

lemma keeps_EnsureLoadBalancer_if:
  assumes "\<And>s c u. S s \<Longrightarrow> keeps (onState S I) (updateTopLevel cl (isExternal s) c u)"
    and "\<And>spec. keeps (onState S I) (createNLB cl kc lib spec)"
  shows "keeps (onState S I) (EnsureLoadBalancer cl kc lib nodes)"
  unfolding EnsureLoadBalancer_def
  by (intro keeps_intros keeps_resolveExternal keeps_resolveInstancePool keeps_fetch assms
      keeps_updateLoadBalancer_if)

end

text \<open>Only Services marked external: the load balancer itself is not changed.\<close>

locale nlb_external = nlb_writes_services +
  assumes external: "S s \<Longrightarrow> isExternal s"
begin

lemma keeps_updateTopLevel: "S s \<Longrightarrow> keeps (onState S I) (updateTopLevel cl (isExternal s) c u)"
  using external by (simp add: updateTopLevel_def keeps_return)

lemma keeps_createNLB: "keeps (onState S I) (createNLB cl kc lib spec)"
  unfolding createNLB_def by (rule keeps_read_service) (simp add: external keeps_fail)

lemma keeps_updateLoadBalancer: "keeps (onState S I) (updateLoadBalancer cl)"
  by (intro keeps_updateLoadBalancer_if keeps_updateTopLevel)

lemma keeps_EnsureLoadBalancer: "keeps (onState S I) (EnsureLoadBalancer cl kc lib nodes)"
  by (intro keeps_EnsureLoadBalancer_if keeps_updateTopLevel keeps_createNLB)

end

text \<open>Every request but the deletion of a load balancer is allowed.\<close>

locale nlb_manages = nlb_writes_services +
  assumes keeps_CreateLoadBalancer: "keeps I (CreateLoadBalancer cl creq)"
    and keeps_UpdateLoadBalancer: "keeps I (UpdateLoadBalancer cl i lreq)"
begin

lemma keeps_updateTopLevel: "keeps (onState S I) (updateTopLevel cl e c u)"
  unfolding updateTopLevel_def by (intro keeps_intros keeps_onState_callM keeps_UpdateLoadBalancer)

lemma keeps_createNLB: "keeps (onState S I) (createNLB cl kc lib spec)"
  unfolding createNLB_def
  by (intro keeps_intros keeps_onState_callM keeps_CreateLoadBalancer keeps_GetLoadBalancer keeps_annotate)

lemma keeps_updateLoadBalancer: "keeps (onState S I) (updateLoadBalancer cl)"
  by (intro keeps_updateLoadBalancer_if keeps_updateTopLevel)

lemma keeps_EnsureLoadBalancer: "keeps (onState S I) (EnsureLoadBalancer cl kc lib nodes)"
  by (intro keeps_EnsureLoadBalancer_if keeps_updateTopLevel keeps_createNLB)

end

section \<open>The recording client provides them\<close>

lemma keeps_onWorld: "keeps (\<lambda>m. list_all P (Calls m)) (onWorld f)"
  by (auto simp: keeps_def onWorld_def split: prod.split)

lemmas mock_keeps = exoscaleClientMock_def kubeBeside_def keeps_Called keeps_onWorld

lemma isExternal_annotate:
  "k \<noteq> annotationLoadBalancerExternal \<Longrightarrow>
   isExternal (s\<lparr>s_Annotations := (s_Annotations s)(k \<mapsto> v)\<rparr>) = isExternal s"
  by (simp add: isExternal_def)

lemma annotationLoadBalancerExternal_neq [simp]:
  "annotationLoadBalancerID \<noteq> annotationLoadBalancerExternal"
  "annotationLoadBalancerServiceInstancePoolID \<noteq> annotationLoadBalancerExternal"
  by (simp_all add: annotation_defs)

interpretation reading: nlb_reads "exoscaleClientMock exo" "kubeBeside kc" "\<lambda>_. True"
  "\<lambda>m. list_all (\<lambda>c. \<not> (changesNLB c \<or> changesService c)) (Calls m)" for exo kc
  by unfold_locales (simp_all add: mock_keeps)

interpretation external: nlb_external "exoscaleClientMock exo" "kubeBeside kc" isExternal
  "\<lambda>m. list_all (\<lambda>c. \<not> changesNLB c) (Calls m)" for exo kc
  by unfold_locales (simp_all add: mock_keeps isExternal_annotate)

interpretation managing: nlb_manages "exoscaleClientMock exo" "kubeBeside kc" "\<lambda>_. True"
  "\<lambda>m. list_all (\<lambda>c. \<not> deletesNLB c) (Calls m)" for exo kc
  by unfold_locales (simp_all add: mock_keeps)

interpretation deleting: nlb_deletes "exoscaleClientMock exo" "kubeBeside kc" "\<lambda>_. True"
  "\<lambda>m. list_all (\<lambda>c. \<not> addsOrUpdates c) (Calls m)" for exo kc
  by unfold_locales (simp_all add: mock_keeps)

lemma trace_keeps:
  assumes "keeps (onState S (\<lambda>m. list_all (\<lambda>c. \<not> P c) (Calls m))) m" and "S s"
  shows "filter P (trace m s w) = []"
  using keepsD [OF assms(1), of "\<lparr>st_service = s, st_world = \<lparr>mock_world = w, Calls = []\<rparr>\<rparr>"] assms(2)
  by (simp add: onState_def trace_def list_all_iff filter_empty_conv)

end
