(* ===== verification/LB_Tracks.thy ===== *)
theory LB_Tracks
  imports LB_Safety NLB_API
begin

text \<open>
  The configuration of a load balancer while \<^verbatim>\<open>updateLoadBalancer\<close> works on it: what the controller wants
  to reach, and the invariant that ties the map of the two loops to the services that exist. No
  handler is run here; \<open>LB_Converge\<close> does that.
\<close>

declare split_paired_All [simp del] split_paired_Ex [simp del]

section \<open>The goal\<close>

text \<open>
  The configured service \<open>s\<close> does what the desired service \<open>d\<close> asks for. A field that \<open>d\<close> leaves
  empty may keep the value it had: the API client does not send it.
\<close>

definition realizes :: "LoadBalancerService \<Rightarrow> LoadBalancerService \<Rightarrow> bool" where
  "realizes d s \<longleftrightarrow>
     serviceKey s = serviceKey d \<and> poolID s = poolID d \<and> svc_Healthcheck s = svc_Healthcheck d \<and>
     svc_Name s = sent (svc_Name d) (svc_Name s) \<and>
     svc_Description s = sent (svc_Description d) (svc_Description s) \<and>
     svc_Strategy s = sent (svc_Strategy d) (svc_Strategy s) \<and>
     svc_TargetPort s = sent_int (svc_TargetPort d) (svc_TargetPort s)"

text \<open>Every desired service exists, and every other service is one of the \<open>foreign\<close> ones.\<close>

definition converged ::
  "LoadBalancerService list \<Rightarrow> (UUID \<rightharpoonup> LoadBalancerService) \<Rightarrow> (UUID \<rightharpoonup> LoadBalancerService) \<Rightarrow> bool" where
  "converged desired foreign N \<longleftrightarrow>
     (\<forall>d\<in>set desired. \<exists>sid s. N sid = Some s \<and> realizes d s) \<and>
     foreign \<subseteq>\<^sub>m N \<and>
     (\<forall>sid s. N sid = Some s \<longrightarrow> foreign sid = Some s \<or> (\<exists>d\<in>set desired. realizes d s))"

definition foreignServices ::
  "bool \<Rightarrow> LoadBalancerService list \<Rightarrow> (UUID \<rightharpoonup> LoadBalancerService) \<Rightarrow> UUID \<rightharpoonup> LoadBalancerService" where
  "foreignServices external desired N = (\<lambda>sid. case N sid of
     None \<Rightarrow> None
   | Some s \<Rightarrow> if external \<and> serviceKey s \<notin> serviceKey ` set desired then Some s else None)"

definition servicesAt :: "nlb_view \<Rightarrow> UUID \<Rightarrow> UUID \<rightharpoonup> LoadBalancerService" where
  "servicesAt V i = (case V i of None \<Rightarrow> Map.empty | Some c \<Rightarrow> v_Services c)"

text \<open>The same for any relation between a desired service and the one that exists for it.\<close>

definition covers ::
  "(LoadBalancerService \<Rightarrow> LoadBalancerService \<Rightarrow> bool) \<Rightarrow> LoadBalancerService list
   \<Rightarrow> (UUID \<rightharpoonup> LoadBalancerService) \<Rightarrow> (UUID \<rightharpoonup> LoadBalancerService) \<Rightarrow> bool" where
  "covers R desired foreign N \<longleftrightarrow>
     (\<forall>d\<in>set desired. \<exists>sid s. N sid = Some s \<and> R d s) \<and>
     foreign \<subseteq>\<^sub>m N \<and>
     (\<forall>sid s. N sid = Some s \<longrightarrow> foreign sid = Some s \<or> (\<exists>d\<in>set desired. R d s))"

lemma covers_converged:
  assumes "covers R desired foreign N" and "\<And>d s. d \<in> set desired \<Longrightarrow> R d s \<Longrightarrow> realizes d s"
  shows "converged desired foreign N"
  using assms unfolding covers_def converged_def by meson

definition keyed :: "(LoadBalancerService \<Rightarrow> LoadBalancerService \<Rightarrow> bool) \<Rightarrow> bool" where
  "keyed R \<longleftrightarrow> (\<forall>d s. R d s \<longrightarrow> serviceKey s = serviceKey d)"

lemma keyedD: "keyed R \<Longrightarrow> R d s \<Longrightarrow> serviceKey s = serviceKey d"
  by (simp add: keyed_def)

section \<open>The two loops on the configuration\<close>

text \<open>
  The second loop has processed the desired services \<open>vs\<close>; \<open>m\<close> is the map of the services that the
  first loop kept, \<open>F\<close> the foreign services. \<open>R\<close> says which services are right for a desired one.
\<close>

definition tracks ::
  "(LoadBalancerService \<Rightarrow> LoadBalancerService \<Rightarrow> bool) \<Rightarrow> (UUID \<rightharpoonup> LoadBalancerService) \<Rightarrow> (ServiceKey \<rightharpoonup> LoadBalancerService) \<Rightarrow> LoadBalancerService list
   \<Rightarrow> (UUID \<rightharpoonup> LoadBalancerService) \<Rightarrow> bool" where
  "tracks R F m vs N \<longleftrightarrow>
     (\<forall>d\<in>set vs. \<exists>sid s. N sid = Some s \<and> R d s) \<and>
     F \<subseteq>\<^sub>m N \<and>
     (\<forall>k c. m k = Some c \<longrightarrow> k \<notin> serviceKey ` set vs \<longrightarrow> N (svc_ID c) = Some (configService c)) \<and>
     (\<forall>sid s. N sid = Some s \<longrightarrow> F sid = Some s \<or> (\<exists>d\<in>set vs. R d s) \<or>
        (\<exists>k c. m k = Some c \<and> k \<notin> serviceKey ` set vs \<and> sid = svc_ID c))"

definition kept :: "LoadBalancerService list \<Rightarrow> (ServiceKey \<rightharpoonup> LoadBalancerService) \<Rightarrow> bool" where
  "kept desired m \<longleftrightarrow> (\<forall>k c. m k = Some c \<longrightarrow> serviceKey c = k \<and> k \<in> serviceKey ` set desired)"

lemma serviceKey_config [simp]: "serviceKey (configService s) = serviceKey s"
  by (simp add: serviceKey_def configService_def)

lemma realizes_key: "realizes d s \<Longrightarrow> serviceKey s = serviceKey d"
  by (simp add: realizes_def)

lemma tracksI:
  assumes "\<And>d. d \<in> set vs \<Longrightarrow> \<exists>sid s. N sid = Some s \<and> R d s"
    and "F \<subseteq>\<^sub>m N"
    and "\<And>k c. m k = Some c \<Longrightarrow> k \<notin> serviceKey ` set vs \<Longrightarrow> N (svc_ID c) = Some (configService c)"
    and "\<And>sid s. N sid = Some s \<Longrightarrow> F sid \<noteq> Some s \<Longrightarrow> \<not> (\<exists>d\<in>set vs. R d s) \<Longrightarrow>
           \<exists>k c. m k = Some c \<and> k \<notin> serviceKey ` set vs \<and> sid = svc_ID c"
  shows "tracks R F m vs N"
  unfolding tracks_def using assms by blast

lemma tracks_realized: "tracks R F m vs N \<Longrightarrow> d \<in> set vs \<Longrightarrow> \<exists>sid s. N sid = Some s \<and> R d s"
  by (simp add: tracks_def)

lemma tracks_foreign: "tracks R F m vs N \<Longrightarrow> F \<subseteq>\<^sub>m N"
  by (simp add: tracks_def)

lemma tracks_pending:
  "tracks R F m vs N \<Longrightarrow> m k = Some c \<Longrightarrow> k \<notin> serviceKey ` set vs \<Longrightarrow> N (svc_ID c) = Some (configService c)"
  unfolding tracks_def by blast

lemma tracks_only:
  assumes "tracks R F m vs N" and "N sid = Some s"
  obtains "F sid = Some s" | d where "d \<in> set vs" "R d s"
    | k c where "m k = Some c" "k \<notin> serviceKey ` set vs" "sid = svc_ID c"
  using assms unfolding tracks_def by blast

lemma keptD: "kept ds m \<Longrightarrow> m k = Some c \<Longrightarrow> serviceKey c = k \<and> k \<in> serviceKey ` set ds"
  unfolding kept_def by blast

lemma tracks_finished:
  assumes "tracks R F m vs N" and "kept vs m"
  shows "covers R vs F N"
  using assms unfolding tracks_def kept_def covers_def by blast

text \<open>One desired service is realized: its old service, if any, is replaced or rewritten.\<close>

lemma tracks_add:
  assumes tr: "tracks R F m vs N" and "m (serviceKey d) = None" and new: "N sid = None" and "R d s"
  shows "tracks R F m (vs @ [d]) (N(sid \<mapsto> s))"
proof (rule tracksI)
  fix d' assume "d' \<in> set (vs @ [d])"
  then consider "d' = d" | sid' s' where "N sid' = Some s'" "R d' s'" "sid' \<noteq> sid"
    using tracks_realized [OF tr, of d'] new by fastforce
  then show "\<exists>sid' s'. (N(sid \<mapsto> s)) sid' = Some s' \<and> R d' s'"
    using assms(4) by cases (auto intro: exI [of _ sid])
next
  show "F \<subseteq>\<^sub>m N(sid \<mapsto> s)"
    using map_le_upd [OF tracks_foreign [OF tr], of sid] tracks_foreign [OF tr] new
    by (auto simp: map_le_def dom_def)
next
  fix k c assume "m k = Some c" and "k \<notin> serviceKey ` set (vs @ [d])"
  then show "(N(sid \<mapsto> s)) (svc_ID c) = Some (configService c)"
    using tracks_pending [OF tr, of k c] new by auto
next
  fix sid' s' assume s': "(N(sid \<mapsto> s)) sid' = Some s'" "F sid' \<noteq> Some s'"
    "\<not> (\<exists>d\<in>set (vs @ [d]). R d s')"
  then have "N sid' = Some s'" using assms(4) by (auto split: if_splits)
  with tr show "\<exists>k c. m k = Some c \<and> k \<notin> serviceKey ` set (vs @ [d]) \<and> sid' = svc_ID c"
  proof (cases rule: tracks_only)
    case (3 k c)
    moreover have "k \<noteq> serviceKey d" using 3 assms(2) by auto
    ultimately show ?thesis by auto
  qed (use s' in auto)
qed

text \<open>The old service of \<open>d\<close> is forgotten by the map and the configuration together.\<close>

lemma tracks_drop:
  assumes tr: "tracks R F m vs N" and k: "kept ds m" and m: "m (serviceKey d) = Some c"
    and new: "serviceKey d \<notin> serviceKey ` set vs" and F: "F (svc_ID c) = None" and keyed: "keyed R"
  shows "tracks R F (m(serviceKey d := None)) vs (N(svc_ID c := None))"
proof -
  have c: "N (svc_ID c) = Some (configService c)" "serviceKey c = serviceKey d"
    using tracks_pending [OF tr m new] keptD [OF k m] by auto
  have others: "svc_ID c' \<noteq> svc_ID c"
    if "m k' = Some c'" and "k' \<notin> serviceKey ` set vs" and "k' \<noteq> serviceKey d" for k' c'
  proof
    assume "svc_ID c' = svc_ID c"
    then have "configService c' = configService c" using tracks_pending [OF tr that(1,2)] c(1) by simp
    then have "serviceKey c' = serviceKey c" by (metis serviceKey_config)
    with that keptD [OF k that(1)] c(2) show False by simp
  qed
  show ?thesis
  proof (rule tracksI)
    fix d' assume d': "d' \<in> set vs"
    then obtain sid s where s: "N sid = Some s" "R d' s" using tracks_realized [OF tr] by blast
    then have "sid \<noteq> svc_ID c" using c d' new keyedD [OF keyed, of d' s] by force
    with s show "\<exists>sid s. (N(svc_ID c := None)) sid = Some s \<and> R d' s" by auto
  next
    show "F \<subseteq>\<^sub>m N(svc_ID c := None)" using tracks_foreign [OF tr] F by (auto simp: map_le_def dom_def)
  next
    fix k' c' assume "(m(serviceKey d := None)) k' = Some c'" and "k' \<notin> serviceKey ` set vs"
    then show "(N(svc_ID c := None)) (svc_ID c') = Some (configService c')"
      using tracks_pending [OF tr, of k' c'] others [of k' c'] by (simp split: if_splits)
  next
    fix sid s assume s: "(N(svc_ID c := None)) sid = Some s" "F sid \<noteq> Some s" "\<not> (\<exists>d\<in>set vs. R d s)"
    then have "N sid = Some s" and sid: "sid \<noteq> svc_ID c" by (auto split: if_splits)
    with tr show "\<exists>k c'. (m(serviceKey d := None)) k = Some c' \<and> k \<notin> serviceKey ` set vs \<and> sid = svc_ID c'"
    proof (cases rule: tracks_only)
      case (3 k c')
      moreover have "k \<noteq> serviceKey d" using 3 sid m by auto
      ultimately show ?thesis by auto
    qed (use s in auto)
  qed
qed

text \<open>What the map says about a desired service that has been processed no longer matters.\<close>

lemma tracks_forget:
  assumes tr: "tracks R F (m(serviceKey d := None)) (vs @ [d]) N"
  shows "tracks R F m (vs @ [d]) N"
proof (rule tracksI)
  fix k c assume "m k = Some c" "k \<notin> serviceKey ` set (vs @ [d])"
  then show "N (svc_ID c) = Some (configService c)" by (intro tracks_pending [OF tr, of k]) auto
next
  fix sid s assume "N sid = Some s" "F sid \<noteq> Some s" "\<not> (\<exists>d\<in>set (vs @ [d]). R d s)"
  with tr show "\<exists>k c. m k = Some c \<and> k \<notin> serviceKey ` set (vs @ [d]) \<and> sid = svc_ID c"
    by (elim tracks_only) (auto split: if_splits)
qed (use tr in \<open>auto dest: tracks_realized tracks_foreign\<close>)

lemma tracks_replace:
  assumes "tracks R F m vs N" and "kept ds m" and "m (serviceKey d) = Some c"
    and "serviceKey d \<notin> serviceKey ` set vs" and "F (svc_ID c) = None" and "keyed R"
    and "(N(svc_ID c := None)) sid = None" and "R d s"
  shows "tracks R F m (vs @ [d]) ((N(svc_ID c := None))(sid \<mapsto> s))"
  by (rule tracks_forget, rule tracks_add [OF tracks_drop [OF assms(1-6)]]) (use assms in simp_all)

text \<open>The first loop: a service that is not wanted is deleted, a wanted one goes into the map.\<close>

definition unwanted :: "bool \<Rightarrow> LoadBalancerService list \<Rightarrow> LoadBalancerService \<Rightarrow> bool" where
  "unwanted external desired s \<longleftrightarrow> \<not> external \<and> serviceKey s \<notin> serviceKey ` set desired"

definition keptMap :: "LoadBalancerService list \<Rightarrow> LoadBalancerService list \<Rightarrow> ServiceKey \<rightharpoonup> LoadBalancerService" where
  "keptMap desired vs k = (if k \<in> serviceKey ` set desired then
     map_of (map (\<lambda>s. (serviceKey s, s)) (rev vs)) k else None)"

definition remaining ::
  "bool \<Rightarrow> LoadBalancerService list \<Rightarrow> LoadBalancerService list \<Rightarrow> (UUID \<rightharpoonup> LoadBalancerService)
   \<Rightarrow> UUID \<rightharpoonup> LoadBalancerService" where
  "remaining external desired vs N sid =
     (if sid \<in> svc_ID ` {s \<in> set vs. unwanted external desired s} then None else N sid)"

lemma kept_keptMap: "kept desired (keptMap desired vs)"
  by (auto simp: kept_def keptMap_def split: if_splits dest!: map_of_SomeD)

lemma keptMap_Some:
  "distinct (map serviceKey vs) \<Longrightarrow>
   keptMap desired vs k = Some c \<longleftrightarrow> c \<in> set vs \<and> serviceKey c = k \<and> k \<in> serviceKey ` set desired"
  by (auto simp: keptMap_def map_of_eq_Some_iff rev_map [symmetric] comp_def image_iff)

lemma servicesOf_Some:
  "distinct (map svc_ID svcs) \<Longrightarrow>
   servicesOf svcs sid = Some s \<longleftrightarrow> (\<exists>c\<in>set svcs. sid = svc_ID c \<and> s = configService c)"
  by (auto simp: servicesOf_def map_of_eq_Some_iff comp_def image_iff)

lemma tracks_initial:
  assumes "distinct (map svc_ID svcs)" and "distinct (map serviceKey svcs)"
  shows "tracks R (foreignServices external desired (servicesOf svcs)) (keptMap desired svcs) []
           (remaining external desired svcs (servicesOf svcs))"
proof -
  have inj: "c = c'" if "c \<in> set svcs" "c' \<in> set svcs" "svc_ID c = svc_ID c'" for c c'
    using that assms(1) by (rule_tac distinct_map_inj)
  have rem: "remaining external desired svcs (servicesOf svcs) (svc_ID c) = Some (configService c)"
    if "c \<in> set svcs" "\<not> unwanted external desired c" for c
    using that inj assms(1) by (auto simp: remaining_def servicesOf_Some)
  show ?thesis
  proof (rule tracksI)
    show "foreignServices external desired (servicesOf svcs)
        \<subseteq>\<^sub>m remaining external desired svcs (servicesOf svcs)"
      by (auto simp: map_le_def foreignServices_def unwanted_def remaining_def
          split: option.splits if_splits)
  next
    fix k c assume "keptMap desired svcs k = Some c"
    then show "remaining external desired svcs (servicesOf svcs) (svc_ID c) = Some (configService c)"
      by (intro rem) (auto simp: keptMap_Some [OF assms(2)] unwanted_def)
  next
    fix sid s assume "remaining external desired svcs (servicesOf svcs) sid = Some s"
    then obtain c where c: "c \<in> set svcs" "sid = svc_ID c" "s = configService c"
      "\<not> unwanted external desired c"
      by (auto simp: remaining_def servicesOf_Some [OF assms(1)] split: if_splits)
    then have "servicesOf svcs sid = Some s" using servicesOf_Some [OF assms(1)] by blast
    moreover assume "foreignServices external desired (servicesOf svcs) sid \<noteq> Some s"
    ultimately have "serviceKey c \<in> serviceKey ` set desired"
      using c by (auto simp: foreignServices_def unwanted_def split: if_splits)
    with c show "\<exists>k c. keptMap desired svcs k = Some c \<and> k \<notin> serviceKey ` set [] \<and> sid = svc_ID c"
      using keptMap_Some [OF assms(2), of desired "serviceKey c" c] by auto
  qed simp
qed

section \<open>The services that the requests make\<close>

text \<open>
  What the loops make of a desired service, exactly: a service with its port, protocol and
  Instance Pool is changed, with the fields that are sent; otherwise a new one is created.
\<close>

definition createdService :: "LoadBalancerService \<Rightarrow> UUID \<Rightarrow> LoadBalancerService" where
  "createdService d sid =
     (configService d)\<lparr>svc_ID := sid, svc_InstancePool := Some \<lparr>ip_ID = poolID d, ip_attrs = []\<rparr>\<rparr>"

definition reusable :: "(UUID \<rightharpoonup> LoadBalancerService) \<Rightarrow> LoadBalancerService \<Rightarrow> LoadBalancerService \<Rightarrow> bool" where
  "reusable N d c \<longleftrightarrow> (\<exists>sid. N sid = Some c) \<and> serviceKey c = serviceKey d \<and> poolID c = poolID d"

definition made :: "(UUID \<rightharpoonup> LoadBalancerService) \<Rightarrow> LoadBalancerService \<Rightarrow> LoadBalancerService \<Rightarrow> bool" where
  "made N d s \<longleftrightarrow> (\<exists>c. reusable N d c \<and> s = changedService (updateRequest d) c) \<or>
     (\<nexists>c. reusable N d c) \<and> (\<exists>sid. s = createdService d sid)"

lemma createdService_ID [simp]: "createdService (d\<lparr>svc_ID := i\<rparr>) sid = createdService d sid"
  by (simp add: createdService_def configService_def poolID_def)

lemma updateRequest_ID [simp]: "updateRequest (d\<lparr>svc_ID := i\<rparr>) = updateRequest d"
  by (simp add: updateRequest_def)

lemma addRequest_created: "addRequest d = Inr req \<Longrightarrow> serviceOf sid req = createdService d sid"
  by (auto simp: addRequest_def serviceOf_def createdService_def configService_def poolID_def split: option.splits)

lemma changedService_key: "serviceKey c = serviceKey d \<Longrightarrow> serviceKey (changedService (updateRequest d) c) = serviceKey d"
  by (auto simp: changedService_def updateRequest_def serviceKey_def sent_def sent_int_def)

lemma made_keyed: "keyed (made N)"
  by (auto simp: keyed_def made_def reusable_def changedService_key)
    (simp add: createdService_def serviceKey_def configService_def)

lemma realizes_changedService:
  assumes "serviceKey c = serviceKey d" and "poolID c = poolID d" and "svc_Healthcheck d \<noteq> None"
  shows "realizes d (changedService (updateRequest d) c)"
  using assms
  by (auto simp: realizes_def changedService_def updateRequest_def serviceKey_def poolID_def sent_def sent_int_def)

lemma made_realizes: "made N d s \<Longrightarrow> svc_Healthcheck d \<noteq> None \<Longrightarrow> realizes d s"
  by (auto simp: made_def reusable_def realizes_changedService)
    (simp add: realizes_def createdService_def configService_def serviceKey_def poolID_def sent_def sent_int_def)

lemma unchangedService:
  assumes "\<not> isLoadBalancerServiceUpdated c (d\<lparr>svc_ID := i\<rparr>)"
  shows "changedService (updateRequest d) (configService c) = configService c \<and> poolID c = poolID d"
proof -
  have "configService c = configService (d\<lparr>svc_ID := i\<rparr>)"
    using assms by (simp add: isLoadBalancerServiceUpdated_def configService_def)
  then have "changedService (updateRequest d) (configService c) = configService c"
    by (simp add: changedService_def updateRequest_def configService_def sent_def sent_int_def split: option.split)
  moreover have "svc_InstancePool (configService c) = svc_InstancePool (configService (d\<lparr>svc_ID := i\<rparr>))"
    using \<open>configService c = _\<close> by simp
  ultimately show ?thesis by (simp add: poolID_def configService_def)
qed

text \<open>The map of the first loop knows the services that were there before.\<close>

definition prior :: "(UUID \<rightharpoonup> LoadBalancerService) \<Rightarrow> LoadBalancerService list \<Rightarrow> (ServiceKey \<rightharpoonup> LoadBalancerService) \<Rightarrow> bool" where
  "prior N ds m \<longleftrightarrow> (\<forall>k c. m k = Some c \<longrightarrow> (\<exists>sid. N sid = Some (configService c))) \<and>
     (\<forall>sid s. N sid = Some s \<longrightarrow> serviceKey s \<in> serviceKey ` set ds \<longrightarrow>
        (\<exists>c. m (serviceKey s) = Some c \<and> s = configService c))"

lemma prior_keptMap:
  assumes "distinct (map svc_ID svcs)" and "distinct (map serviceKey svcs)"
  shows "prior (servicesOf svcs) ds (keptMap ds svcs)"
  unfolding prior_def servicesOf_Some [OF assms(1)] keptMap_Some [OF assms(2)] by auto

lemma made_new:
  assumes "prior N ds m" and "d \<in> set ds" and "\<And>c. m (serviceKey d) = Some c \<Longrightarrow> poolID c \<noteq> poolID d"
  shows "made N d (createdService d sid)"
proof -
  have "\<not> reusable N d c" for c
  proof
    assume c: "reusable N d c"
    with assms(1,2) obtain c' where "m (serviceKey d) = Some c'" "c = configService c'"
      unfolding prior_def reusable_def by (metis imageI)
    with assms(3) c show False by (auto simp: reusable_def poolID_def configService_def)
  qed
  then show ?thesis by (auto simp: made_def)
qed

lemma made_changed:
  assumes "prior N ds m" and "m (serviceKey d) = Some c" and "serviceKey c = serviceKey d" and "poolID c = poolID d"
  shows "made N d (changedService (updateRequest d) (configService c))"
proof -
  have "reusable N d (configService c)"
    using assms by (auto simp: prior_def reusable_def poolID_def configService_def serviceKey_def)
  then show ?thesis by (auto simp: made_def)
qed

section \<open>The loops of the first pass\<close>

lemma keptMap_snoc:
  "keptMap desired (vs @ [x]) =
   (if serviceKey x \<in> serviceKey ` set desired then (keptMap desired vs)(serviceKey x \<mapsto> x)
    else keptMap desired vs)"
  by (auto simp: keptMap_def fun_eq_iff)

lemma remaining_snoc:
  "remaining external desired (vs @ [x]) N =
   (if unwanted external desired x then (remaining external desired vs N)(svc_ID x := None)
    else remaining external desired vs N)"
  by (auto simp: remaining_def fun_eq_iff)

lemma firstLoop_start [simp]:
  "keptMap desired [] = Map.empty" "remaining external desired [] N = N"
  by (auto simp: keptMap_def remaining_def)

lemma find_key_iff:
  "List.find (\<lambda>u. serviceKey u = k) ds \<noteq> None \<longleftrightarrow> k \<in> serviceKey ` set ds"
  by (auto simp: find_None_iff)

definition notForeign :: "LoadBalancerService list \<Rightarrow> (UUID \<rightharpoonup> LoadBalancerService) \<Rightarrow> bool" where
  "notForeign desired F \<longleftrightarrow> (\<forall>sid s. F sid = Some s \<longrightarrow> serviceKey s \<notin> serviceKey ` set desired)"

lemma notForeign_foreignServices: "notForeign desired (foreignServices external desired N)"
  by (auto simp: notForeign_def foreignServices_def split: option.splits if_splits)

lemma pending_not_foreign:
  assumes "tracks R F m vs N" and "kept ds m" and "notForeign ds F" and "m k = Some c"
    and "k \<notin> serviceKey ` set vs"
  shows "F (svc_ID c) = None"
proof (rule ccontr)
  assume "F (svc_ID c) \<noteq> None"
  then obtain s where s: "F (svc_ID c) = Some s" by auto
  with tracks_foreign [OF assms(1)] have "N (svc_ID c) = Some s" by (auto simp: map_le_def dom_def)
  with tracks_pending [OF assms(1,4,5)] have "s = configService c" by simp
  with s assms(3) keptD [OF assms(2,4)] show False unfolding notForeign_def by (metis serviceKey_config)
qed

end
