(* ===== verification/LB_Converge.thy ===== *)
theory LB_Converge
  imports LB_Tracks
begin

text \<open>
  Convergence: the handlers that ensure and update, run on an API that keeps the promises of
  \<open>nlb_api\<close>. After success the services are exactly what the loops make of the desired ones.
\<close>

section \<open>The handlers on an API that keeps its promises\<close>

context nlb_api begin

text \<open>The load balancer \<open>i\<close> has this name, this description and the services \<open>N\<close>; every other one
  is as in \<open>V\<close>.\<close>

definition conf where
  "conf V i n de N st \<longleftrightarrow> view (st_world st) = V(i \<mapsto> \<lparr>v_Name = n, v_Description = de, v_Services = N\<rparr>)"

lemma get_conf:
  "callM (GetLoadBalancer cl i) st = (Inr lb, st') \<Longrightarrow>
   view (st_world st') = view (st_world st) \<and> st_service st' = st_service st \<and> getPromise i lb (view (st_world st))"
  by (metis callM_InrD get_ok get_reads snd_conv)

lemma delete_service_conf:
  assumes "callM (DeleteLoadBalancerService cl i sid) st = (Inr oper, st')" and "conf V i n de N st"
  shows "conf V i n de (N(sid := None)) st'"
  using callM_InrD [OF assms(1)] delete_service_ok assms(2)
  by (fastforce simp: conf_def deleteServiceEffect_def onServices_def)

lemma update_service_conf:
  assumes "callM (UpdateLoadBalancerService cl i sid req) st = (Inr oper, st')" and "conf V i n de N st"
    and "N sid = Some svc"
  shows "conf V i n de (N(sid \<mapsto> changedService req svc)) st'"
  using callM_InrD [OF assms(1)] update_service_ok assms(2,3)
  by (fastforce simp: conf_def updateServiceEffect_def onServices_def)

lemma addService_conf:
  assumes "addService cl nlb d st = (Inr u, st')" and "lb_ID nlb = i" and "conf V i n de N st"
  obtains sid where "N sid = None" and "conf V i n de (N(sid \<mapsto> createdService d sid)) st'"
proof -
  obtain req oper st1 lb st2 where req: "addRequest d = Inr req"
    and add: "callM (AddServiceToLoadBalancer cl i req) st = (Inr oper, st1)"
    and get: "callM (GetLoadBalancer cl i) st1 = (Inr lb, st2)" and "st' = st2"
    using assms(1,2) unfolding addService_def
    by (auto elim!: bindM_InrE simp: liftE_def failM_def returnM_def split: if_splits)
  from callM_InrD [OF add] add_ok
  have "addEffect i req (view (st_world st)) (view (st_world st1))" by blast
  then obtain sid where "N sid = None" and "conf V i n de (N(sid \<mapsto> serviceOf sid req)) st1"
    using assms(3) by (auto simp: addEffect_def conf_def onServices_def)
  then show thesis
    using that addRequest_created [OF req] get_conf [OF get] \<open>st' = st2\<close> by (auto simp: conf_def)
qed

lemma secondLoopBody_conf:
  assumes run: "secondLoopBody cl cur upd m d st = (Inr u, st')"
    and ids: "lb_ID cur = i" "lb_ID upd = i" and conf: "conf V i n de N st"
    and tr: "tracks (made N0) F m vs N" and k: "kept ds m" and nf: "notForeign ds F" and p: "prior N0 ds m"
    and d: "d \<in> set ds" and new: "serviceKey d \<notin> serviceKey ` set vs"
  shows "\<exists>N'. conf V i n de N' st' \<and> tracks (made N0) F m (vs @ [d]) N'"
proof (cases "m (serviceKey d)")
  case None
  with run have "addService cl cur d st = (Inr u, st')" by (simp add: secondLoopBody_def)
  then show ?thesis using ids(1) conf
    by (rule addService_conf) (use tracks_add [OF tr None] made_new [OF p d] None in auto)
next
  case (Some c)
  note pending = tracks_pending [OF tr Some new]
  note replace = tracks_replace [OF tr k Some new pending_not_foreign [OF tr k nf Some new] made_keyed]
  note changed = made_changed [OF p Some conjunct1 [OF keptD [OF k Some]]]
  let ?d = "d\<lparr>svc_ID := svc_ID c\<rparr>"
  have pool: "poolID ?d = poolID d" by (simp add: poolID_def)
  consider (recreate) oper st1 where "poolID c \<noteq> poolID d"
      "callM (DeleteLoadBalancerService cl i (svc_ID c)) st = (Inr oper, st1)"
      "addService cl cur ?d st1 = (Inr u, st')"
    | (update) oper where "poolID c = poolID d"
      "callM (UpdateLoadBalancerService cl i (svc_ID c) (updateRequest d)) st = (Inr oper, st')"
    | (same) "\<not> isLoadBalancerServiceUpdated c ?d" "st' = st"
    using run Some ids unfolding secondLoopBody_def Let_def
    by (auto elim!: bindM_InrE simp: wrapM_Inr_iff returnM_def pool split: if_splits)
  then show ?thesis
  proof cases
    case recreate
    from delete_service_conf [OF recreate(2) conf]
    obtain sid where "(N(svc_ID c := None)) sid = None"
      "conf V i n de ((N(svc_ID c := None))(sid \<mapsto> createdService d sid)) st'"
      by (rule addService_conf [OF recreate(3) ids(1), simplified])
    moreover have "made N0 d (createdService d sid)" using made_new [OF p d] Some recreate(1) by simp
    ultimately show ?thesis using replace by blast
  next
    case update
    from update_service_conf [OF update(2) conf pending] changed [OF update(1)] replace [of "svc_ID c"]
    show ?thesis by fastforce
  next
    case same
    with unchangedService [OF same(1)] changed have "made N0 d (configService c)" by simp
    with replace [of "svc_ID c" "configService c"] pending have "tracks (made N0) F m (vs @ [d]) N"
      by (simp add: fun_upd_idem)
    with conf same show ?thesis by blast
  qed
qed

lemma secondLoop_conf:
  assumes "lb_ID cur = i" "lb_ID upd = i" and "kept ds m" and "notForeign ds F" and "prior N0 ds m"
    and "distinct (map serviceKey ds)"
  shows "triple (\<lambda>st. \<exists>N. conf V i n de N st \<and> tracks (made N0) F m [] N) (forM (secondLoopBody cl cur upd m) ds)
           (\<lambda>_ st. \<exists>N. conf V i n de N st \<and> tracks (made N0) F m ds N)"
proof (rule triple_forM [where J = "\<lambda>vs st. \<exists>N. conf V i n de N st \<and> tracks (made N0) F m vs N"], rule tripleI)
  fix vs x ws st u st'
  assume "ds = vs @ x # ws" and "\<exists>N. conf V i n de N st \<and> tracks (made N0) F m vs N"
    and "secondLoopBody cl cur upd m x st = (Inr u, st')"
  moreover from this assms(6) have "serviceKey x \<notin> serviceKey ` set vs" by auto
  ultimately show "\<exists>N. conf V i n de N st' \<and> tracks (made N0) F m (vs @ [x]) N"
    using secondLoopBody_conf [OF _ assms(1,2) _ _ assms(3-5)] by auto
qed

lemma firstLoopBody_conf:
  assumes "lb_ID cur = i" and c: "conf V i n de (remaining external (lb_Services upd) vs N0) st"
    and run: "firstLoopBody cl external cur upd x (keptMap (lb_Services upd) vs) st = (Inr m, st')"
  shows "m = keptMap (lb_Services upd) (vs @ [x]) \<and> conf V i n de (remaining external (lb_Services upd) (vs @ [x]) N0) st'"
proof (cases "unwanted external (lb_Services upd) x")
  case True
  then obtain oper where "callM (DeleteLoadBalancerService cl i (svc_ID x)) st = (Inr oper, st')"
    "m = keptMap (lb_Services upd) vs"
    using run assms(1) unfolding firstLoopBody_def Let_def find_key_iff unwanted_def
    by (auto elim!: bindM_InrE simp: returnM_def)
  with c True show ?thesis by (auto simp: keptMap_snoc remaining_snoc unwanted_def intro: delete_service_conf)
next
  case False
  with run c show ?thesis
    unfolding firstLoopBody_def Let_def find_key_iff
    by (auto simp: returnM_def keptMap_snoc remaining_snoc unwanted_def split: if_splits)
qed

lemma firstLoop_conf:
  assumes "lb_ID cur = i"
  shows "triple (conf V i n de N0) (foldM (firstLoopBody cl external cur upd) svcs Map.empty)
           (\<lambda>m st. m = keptMap (lb_Services upd) svcs \<and>
              conf V i n de (remaining external (lb_Services upd) svcs N0) st)"
proof -
  let ?J = "\<lambda>vs m st. m = keptMap (lb_Services upd) vs \<and>
              conf V i n de (remaining external (lb_Services upd) vs N0) st"
  have "triple (?J [] Map.empty) (foldM (firstLoopBody cl external cur upd) svcs Map.empty) (?J svcs)"
    by (rule triple_foldM [where J = ?J], rule tripleI) (use firstLoopBody_conf [OF assms] in blast)
  then show ?thesis by simp
qed

lemma updateTopLevel_conf:
  assumes "updateTopLevel cl external cur upd st = (Inr u, st')" and "lb_ID upd = i"
    and "conf V i n de N st" and "lb_Name cur = n" and "lb_Description cur = de"
  shows "conf V i (if external then n else sent (lb_Name upd) n) de N st'"
proof (cases "\<not> external \<and> isLoadBalancerUpdated cur upd")
  case True
  then obtain oper where "callM (UpdateLoadBalancer cl i \<lparr>ulb_Name = lb_Name upd,
      ulb_Description = lb_Description cur, ulb_Labels = lb_Labels upd\<rparr>) st = (Inr oper, st')"
    using assms(1,2) unfolding updateTopLevel_def by (auto elim!: bindM_InrE simp: returnM_def)
  from callM_InrD [OF this] update_ok
  have "updateEffect i \<lparr>ulb_Name = lb_Name upd, ulb_Description = lb_Description cur,
      ulb_Labels = lb_Labels upd\<rparr> (view (st_world st)) (view (st_world st'))" by blast
  with assms(3-5) True show ?thesis by (auto simp: updateEffect_def conf_def sent_def)
next
  case False
  with assms show ?thesis
    by (auto simp: updateTopLevel_def returnM_def isLoadBalancerUpdated_def sent_def split: if_splits)
qed

lemma updateLoadBalancer_service: "st_service (snd (updateLoadBalancer cl st)) = st_service st"
proof -
  have keep: "keeps (onState (\<lambda>s. s = st_service st) (\<lambda>_. True)) (callM f)" for f :: "('w, 'b) M"
    by (rule keeps_onState_callM) (simp add: keeps_def)
  have "keeps (onState (\<lambda>s. s = st_service st) (\<lambda>_. True)) (updateLoadBalancer cl)"
    unfolding updateLoadBalancer_def updateTopLevel_def firstLoopBody_def secondLoopBody_def addService_def Let_def
    by (intro keeps_intros keep)
  then show ?thesis using keepsD by (fastforce simp: onState_def)
qed

lemma updateLoadBalancer_reconciles:
  assumes run: "updateLoadBalancer cl st = (Inr u, st')"
    and spec: "buildLoadBalancerFromAnnotations (st_service st) = Inr spec"
    and dist: "distinct (map serviceKey (lb_Services spec))"
  shows "\<exists>c c'. view (st_world st) (lb_ID spec) = Some c \<and>
     view (st_world st') = (view (st_world st))(lb_ID spec \<mapsto> c') \<and>
     v_Description c' = v_Description c \<and>
     v_Name c' = (if isExternal (st_service st) then v_Name c else sent (lb_Name spec) (v_Name c)) \<and>
     covers (made (v_Services c)) (lb_Services spec)
       (foreignServices (isExternal (st_service st)) (lb_Services spec) (v_Services c)) (v_Services c')"
proof -
  let ?i = "lb_ID spec" and ?ext = "isExternal (st_service st)" and ?D = "lb_Services spec"
  obtain cur st1 st2 st3 m where get: "callM (GetLoadBalancer cl ?i) st = (Inr cur, st1)"
    and top: "updateTopLevel cl ?ext cur spec st1 = (Inr (), st2)"
    and one: "foldM (firstLoopBody cl ?ext cur spec) (lb_Services cur) Map.empty st2 = (Inr m, st3)"
    and two: "forM (secondLoopBody cl cur spec m) ?D st3 = (Inr u, st')"
    using run spec unfolding updateLoadBalancer_def
    by (auto elim!: bindM_InrE simp: getM_def liftE_def failM_def split: if_splits)
  let ?N = "servicesOf (lb_Services cur)" and ?V = "view (st_world st)"
  from get_conf [OF get] have p: "getPromise ?i cur ?V" and v1: "view (st_world st1) = ?V" by auto
  then have ids: "lb_ID cur = ?i" and c: "?V ?i = Some (configOf cur)"
    and d: "distinct (map svc_ID (lb_Services cur))" "distinct (map serviceKey (lb_Services cur))"
    by (auto simp: getPromise_def)
  define n where "n = (if ?ext then lb_Name cur else sent (lb_Name spec) (lb_Name cur))"
  have "conf ?V ?i (lb_Name cur) (lb_Description cur) ?N st1"
    using c v1 by (simp add: conf_def configOf_def fun_upd_idem)
  then have "conf ?V ?i n (lb_Description cur) ?N st2"
    using updateTopLevel_conf [OF top] by (simp add: n_def)
  from tripleD [OF firstLoop_conf [OF ids] this one]
  have m: "m = keptMap ?D (lb_Services cur)"
    and c3: "conf ?V ?i n (lb_Description cur) (remaining ?ext ?D (lb_Services cur) ?N) st3" by auto
  let ?F = "foreignServices ?ext ?D ?N"
  have tr: "tracks (made ?N) ?F m [] (remaining ?ext ?D (lb_Services cur) ?N)"
    unfolding m by (rule tracks_initial [OF d])
  have "\<exists>N. conf ?V ?i n (lb_Description cur) N st' \<and> tracks (made ?N) ?F m ?D N"
    by (rule tripleD [OF secondLoop_conf [OF ids refl _ notForeign_foreignServices _ dist] _ two])
      (use c3 tr m kept_keptMap prior_keptMap [OF d] in auto)
  then obtain N where "conf ?V ?i n (lb_Description cur) N st'" and "covers (made ?N) ?D ?F N"
    using tracks_finished kept_keptMap m by blast
  then show ?thesis using c by (auto simp: conf_def configOf_def n_def)
qed

lemma updateLoadBalancer_converges:
  assumes run: "updateLoadBalancer cl st = (Inr u, st')"
    and spec: "buildLoadBalancerFromAnnotations (st_service st) = Inr spec"
    and dist: "distinct (map serviceKey (lb_Services spec))"
    and hc: "\<And>d. d \<in> set (lb_Services spec) \<Longrightarrow> svc_Healthcheck d \<noteq> None"
  shows "\<exists>c c'. view (st_world st) (lb_ID spec) = Some c \<and>
     view (st_world st') = (view (st_world st))(lb_ID spec \<mapsto> c') \<and>
     v_Description c' = v_Description c \<and>
     v_Name c' = (if isExternal (st_service st) then v_Name c else sent (lb_Name spec) (v_Name c)) \<and>
     converged (lb_Services spec)
       (foreignServices (isExternal (st_service st)) (lb_Services spec) (v_Services c)) (v_Services c')"
proof -
  have "covers (made N) (lb_Services spec) F N' \<Longrightarrow> converged (lb_Services spec) F N'" for N F N'
    by (erule covers_converged) (rule made_realizes [OF _ hc])
  then show ?thesis using updateLoadBalancer_reconciles [OF run spec dist] by blast
qed

lemma updateLoadBalancer_spec:
  assumes "updateLoadBalancer cl st = (Inr u, st')"
  obtains spec where "buildLoadBalancerFromAnnotations (st_service st) = Inr spec"
  using assms unfolding updateLoadBalancer_def
  by (auto elim!: bindM_InrE simp: getM_def liftE_def)

end

text \<open>An API that keeps the promises provides the reads, whatever the view and the Service ports are.\<close>

lemma annotate_ports_external:
  assumes "s_Ports s = ps \<and> isExternal s = e" and "k \<noteq> annotationLoadBalancerExternal"
  shows "s_Ports (s\<lparr>s_Annotations := (s_Annotations s)(k \<mapsto> v)\<rparr>) = ps \<and>
         isExternal (s\<lparr>s_Annotations := (s_Annotations s)(k \<mapsto> v)\<rparr>) = e"
  using assms by (simp add: isExternal_annotate)

sublocale nlb_api \<subseteq> reads: nlb_reads cl kc "\<lambda>s. s_Ports s = ps \<and> isExternal s = e" "\<lambda>w. view w = V" for ps e V
  by unfold_locales
    (simp_all add: keeps_def get_reads list_reads clusters_reads instance_reads patch_apart annotate_ports_external)

context nlb_api begin

lemma createNLB_conf:
  assumes "createNLB cl kc lib spec st = (Inr nlb, st')"
  obtains i c where "\<not> isExternal (st_service st)" and "i \<noteq> []" and "view (st_world st) i = None"
    and "view (st_world st') = (view (st_world st))(i \<mapsto> c)"
    and "st_service st' = (st_service st)\<lparr>s_Annotations := (s_Annotations (st_service st))(annotationLoadBalancerID \<mapsto> i)\<rparr>"
proof -
  obtain oper st1 i st2 where ext: "\<not> isExternal (st_service st)"
    and create: "callM (CreateLoadBalancer cl \<lparr>clb_Name = lb_Name spec,
                clb_Description = lb_Description spec, clb_Labels = lb_Labels spec\<rparr>) st = (Inr oper, st1)"
    and i: "op_Reference oper = Some i"
    and get: "callM (GetLoadBalancer cl i) st1 = (Inr nlb, st2)"
    and patch: "patchAnnotation kc lib annotationLoadBalancerID (lb_ID nlb) st2 = (Inr (), st')"
    using assms unfolding createNLB_def
    by (auto elim!: bindM_InrE simp: getM_def failM_def returnM_def wrapM_Inr_iff split: if_splits option.splits)
  from callM_InrD [OF create] create_ok
  have "createEffect \<lparr>clb_Name = lb_Name spec, clb_Description = lb_Description spec,
      clb_Labels = lb_Labels spec\<rparr> oper (view (st_world st)) (view (st_world st1))"
    and s1: "st_service st1 = st_service st" by blast+
  then obtain c where v: "i \<noteq> []" "view (st_world st) i = None" "view (st_world st1) = (view (st_world st))(i \<mapsto> c)"
    using i by (auto simp: createEffect_def)
  from get_conf [OF get] s1 have g: "lb_ID nlb = i" "view (st_world st2) = view (st_world st1)"
    "st_service st2 = st_service st" by (auto simp: getPromise_def)
  have "keeps (\<lambda>st. view (st_world st) = view (st_world st1)) (patchAnnotation kc lib annotationLoadBalancerID i)"
    by (rule keeps_world_patchAnnotation [where I = "\<lambda>w. view w = view (st_world st1)"])
      (simp add: keeps_def patch_apart)
  from keepsD [OF this, of st2] patch g have "view (st_world st') = view (st_world st1)" by simp
  moreover have "st_service st' = (st_service st)\<lparr>s_Annotations := (s_Annotations (st_service st))(annotationLoadBalancerID \<mapsto> i)\<rparr>"
    using patchAnnotation_service [of kc lib annotationLoadBalancerID i st2] patch g by simp
  ultimately show thesis using that ext v by simp
qed

lemma fetchLoadBalancer_state:
  "view (st_world (snd (fetchLoadBalancer cl st))) = view (st_world st) \<and>
   st_service (snd (fetchLoadBalancer cl st)) = st_service st"
  by (simp add: fetchLoadBalancer_def bindM_def getM_def catchM_def failM_def callM_def Let_def
      split: prod.split sum.split) (metis get_reads snd_conv)

text \<open>Up to the update, only a creation changes the configuration.\<close>

lemma ensureNLB_state:
  assumes "catchM (fetchLoadBalancer cl)
      (\<lambda>e. if errors_Is e ErrLoadBalancerNotFound then createNLB cl kc lib spec else failM e) st = (Inr nlb, st')"
  shows "s_Ports (st_service st') = s_Ports (st_service st)
     \<and> isExternal (st_service st') = isExternal (st_service st)
     \<and> (view (st_world st') = view (st_world st) \<or>
        (\<exists>i c. \<not> isExternal (st_service st) \<and> view (st_world st) i = None \<and>
          getAnnotation (st_service st') annotationLoadBalancerID [] = i \<and>
          view (st_world st') = (view (st_world st))(i \<mapsto> c)))"
proof (cases "fetchLoadBalancer cl st")
  case (Pair r st1)
  with fetchLoadBalancer_state [of st]
  have st1: "view (st_world st1) = view (st_world st)" "st_service st1 = st_service st" by simp_all
  show ?thesis
  proof (cases r)
    case (Inr lb)
    with Pair assms st1 show ?thesis by (simp add: catchM_def)
  next
    case (Inl e)
    with Pair assms have "createNLB cl kc lib spec st1 = (Inr nlb, st')"
      by (auto simp: catchM_def failM_def split: if_splits)
    then show ?thesis by (rule createNLB_conf) (auto simp: st1 isExternal_annotate)
  qed
qed

lemma EnsureLoadBalancer_phases:
  assumes "EnsureLoadBalancer cl kc lib nodes st = (Inr status, st')"
  obtains st1 where "s_Ports (st_service st1) = s_Ports (st_service st)"
    and "isExternal (st_service st1) = isExternal (st_service st)"
    and "updateLoadBalancer cl st1 = (Inr (), st')"
    and "view (st_world st1) = view (st_world st) \<or>
        (\<exists>i c. \<not> isExternal (st_service st) \<and> view (st_world st) i = None \<and>
          getAnnotation (st_service st1) annotationLoadBalancerID [] = i \<and>
          view (st_world st1) = (view (st_world st))(i \<mapsto> c))"
proof -
  let ?S = "\<lambda>s. s_Ports s = s_Ports (st_service st) \<and> isExternal s = isExternal (st_service st)"
  let ?I = "\<lambda>w. view w = view (st_world st)"
  obtain sta stb spec nlb stc where a: "resolveExternal cl kc lib st = (Inr (), sta)"
    and b: "resolveInstancePool cl kc lib nodes sta = (Inr (), stb)"
    and c: "catchM (fetchLoadBalancer cl)
       (\<lambda>e. if errors_Is e ErrLoadBalancerNotFound then createNLB cl kc lib spec else failM e) stb = (Inr nlb, stc)"
    and d: "updateLoadBalancer cl stc = (Inr (), st')"
    using assms unfolding EnsureLoadBalancer_def
    by (auto elim!: bindM_InrE simp: getM_def liftE_def returnM_def)
  have "onState ?S ?I sta" using keepsD [OF reads.keeps_resolveExternal, of _ _ _ st lib] a by (simp add: onState_def)
  with keepsD [OF reads.keeps_resolveInstancePool, of _ _ _ sta lib nodes] b
  have "onState ?S ?I stb" by (simp add: onState_def)
  with ensureNLB_state [OF c] show thesis using that [OF _ _ d] by (auto simp: onState_def)
qed

lemma EnsureLoadBalancer_converges:
  assumes run: "EnsureLoadBalancer cl kc lib nodes st = (Inr status, st')"
    and ports: "distinct (map (\<lambda>p. (sp_Port p, sp_Protocol p)) (s_Ports (st_service st)))"
  shows "\<exists>spec c'. buildLoadBalancerFromAnnotations (st_service st') = Inr spec \<and>
     view (st_world st') = (view (st_world st))(lb_ID spec \<mapsto> c') \<and>
     converged (lb_Services spec) (foreignServices (isExternal (st_service st)) (lb_Services spec)
       (servicesAt (view (st_world st)) (lb_ID spec))) (v_Services c')"
proof -
  obtain st1 where p: "s_Ports (st_service st1) = s_Ports (st_service st)"
    and e: "isExternal (st_service st1) = isExternal (st_service st)"
    and upd: "updateLoadBalancer cl st1 = (Inr (), st')"
    and v: "view (st_world st1) = view (st_world st) \<or>
        (\<exists>i c. \<not> isExternal (st_service st) \<and> view (st_world st) i = None \<and>
          getAnnotation (st_service st1) annotationLoadBalancerID [] = i \<and>
          view (st_world st1) = (view (st_world st))(i \<mapsto> c))"
    using run by (rule EnsureLoadBalancer_phases)
  obtain spec where spec: "buildLoadBalancerFromAnnotations (st_service st1) = Inr spec"
    using upd by (rule updateLoadBalancer_spec)
  obtain c c' where c: "view (st_world st1) (lb_ID spec) = Some c"
    "view (st_world st') = (view (st_world st1))(lb_ID spec \<mapsto> c')"
    "converged (lb_Services spec) (foreignServices (isExternal (st_service st1)) (lb_Services spec)
       (v_Services c)) (v_Services c')"
    using updateLoadBalancer_converges [OF upd spec] buildLoadBalancer_keys_distinct [OF spec]
      buildLoadBalancer_healthcheck [OF spec] ports p by auto
  have same: "st_service st' = st_service st1" using updateLoadBalancer_service [of st1] upd by simp
  have "foreignServices (isExternal (st_service st1)) (lb_Services spec) (v_Services c) =
      foreignServices (isExternal (st_service st)) (lb_Services spec) (servicesAt (view (st_world st)) (lb_ID spec))"
    using v c(1) e by (auto simp: foreignServices_def servicesAt_def fun_eq_iff split: option.split)
  moreover have "(view (st_world st1))(lb_ID spec \<mapsto> c') = (view (st_world st))(lb_ID spec \<mapsto> c')"
    using v buildLoadBalancer_ID [OF spec] by (auto simp: fun_eq_iff)
  ultimately show ?thesis using c spec same by auto
qed

end

end
