(* ===== verification/LB_Delete.thy ===== *)
theory LB_Delete
  imports LB_Converge
begin

text \<open>
  \<^verbatim>\<open>EnsureLoadBalancerDeleted\<close> on an API that keeps its promises: the abstract deletion and its refinement.
\<close>

section \<open>Deletion\<close>

text \<open>The services of the load balancer that belong to a port of the Service go; with the last one
  the load balancer goes, unless it is external.\<close>

definition ownedBy :: "ServicePort list \<Rightarrow> LoadBalancerService \<Rightarrow> bool" where
  "ownedBy ports svc \<longleftrightarrow> (\<exists>p\<in>set ports. deleteMatches svc p)"

definition unowned :: "ServicePort list \<Rightarrow> (UUID \<rightharpoonup> LoadBalancerService) \<Rightarrow> UUID \<rightharpoonup> LoadBalancerService" where
  "unowned ports N = (\<lambda>sid. case N sid of None \<Rightarrow> None | Some s \<Rightarrow> if ownedBy ports s then None else Some s)"

definition afterDelete :: "bool \<Rightarrow> ServicePort list \<Rightarrow> UUID \<Rightarrow> nlb_view \<Rightarrow> nlb_view" where
  "afterDelete external ports i V = (case V i of
     None \<Rightarrow> V
   | Some c \<Rightarrow>
       if unowned ports (v_Services c) = Map.empty \<and> \<not> external then V(i := None)
       else V(i \<mapsto> c\<lparr>v_Services := unowned ports (v_Services c)\<rparr>))"

lemma ownedBy_config [simp]: "ownedBy ports (configService s) = ownedBy ports s"
  by (simp add: ownedBy_def deleteMatches_def configService_def)

lemma deleteMatches_unique:
  assumes "distinct (map (\<lambda>p. (sp_Port p, ToLower (sp_Protocol p))) (p # ps))" and "deleteMatches s p"
  shows "\<not> ownedBy ps s"
  using assms by (auto simp: ownedBy_def deleteMatches_def EqualFold_ToLower)

definition dropOwned ::
  "ServicePort list \<Rightarrow> LoadBalancerService list \<Rightarrow> (UUID \<rightharpoonup> LoadBalancerService) \<Rightarrow> UUID \<rightharpoonup> LoadBalancerService" where
  "dropOwned ports vs N sid = (if sid \<in> svc_ID ` {s \<in> set vs. ownedBy ports s} then None else N sid)"

lemma dropOwned_snoc:
  "dropOwned ports (vs @ [x]) N =
   (if ownedBy ports x then (dropOwned ports vs N)(svc_ID x := None) else dropOwned ports vs N)"
  by (auto simp: dropOwned_def fun_eq_iff)

lemma dropOwned_Nil [simp]: "dropOwned ports [] N = N"
  by (simp add: dropOwned_def fun_eq_iff)

lemma dropOwned_all:
  assumes "distinct (map svc_ID svcs)"
  shows "dropOwned ports svcs (servicesOf svcs) = unowned ports (servicesOf svcs)"
proof
  fix sid
  show "dropOwned ports svcs (servicesOf svcs) sid = unowned ports (servicesOf svcs) sid"
  proof (cases "servicesOf svcs sid")
    case (Some s)
    then obtain c where c: "c \<in> set svcs" "sid = svc_ID c" "s = configService c"
      using servicesOf_Some [OF assms] by blast
    then have "sid \<in> svc_ID ` {s \<in> set svcs. ownedBy ports s} \<longleftrightarrow> ownedBy ports c"
      using distinct_map_inj [OF assms] by auto
    with Some c show ?thesis by (auto simp: dropOwned_def unowned_def)
  qed (auto simp: dropOwned_def unowned_def)
qed

lemma unowned_empty:
  assumes "distinct (map svc_ID svcs)"
  shows "unowned ports (servicesOf svcs) = Map.empty \<longleftrightarrow> (\<forall>s\<in>set svcs. ownedBy ports s)"
proof
  assume empty: "unowned ports (servicesOf svcs) = Map.empty"
  show "\<forall>s\<in>set svcs. ownedBy ports s"
  proof
    fix s assume "s \<in> set svcs"
    then have "servicesOf svcs (svc_ID s) = Some (configService s)" using servicesOf_Some [OF assms] by blast
    with fun_cong [OF empty, of "svc_ID s"] show "ownedBy ports s" by (auto simp: unowned_def split: if_splits)
  qed
next
  assume "\<forall>s\<in>set svcs. ownedBy ports s"
  then show "unowned ports (servicesOf svcs) = Map.empty"
    using servicesOf_Some [OF assms] by (fastforce simp: unowned_def fun_eq_iff split: option.split)
qed

lemma none_left:
  assumes "distinct (map svc_ID svcs)"
  shows "int (length svcs) - int (length (filter (ownedBy ports) svcs)) = 0 \<longleftrightarrow>
    unowned ports (servicesOf svcs) = Map.empty"
proof -
  have "length (filter (ownedBy ports) svcs) = length svcs \<longleftrightarrow> (\<forall>s\<in>set svcs. ownedBy ports s)"
    by (metis filter_True length_filter_less less_irrefl)
  then show ?thesis unfolding unowned_empty [OF assms] by auto
qed

context nlb_api begin

lemma deleteBody_unowned: "\<not> ownedBy ports svc \<Longrightarrow> deleteBody cl nlb ports svc r = returnM r"
  by (induction ports) (auto simp: deleteBody_def ownedBy_def bindM_def returnM_def)

lemma deleteBody_owned:
  assumes "distinct (map (\<lambda>p. (sp_Port p, ToLower (sp_Protocol p))) ports)" and "ownedBy ports svc"
  shows "deleteBody cl nlb ports svc r =
    bindM (callM (DeleteLoadBalancerService cl (lb_ID nlb) (svc_ID svc))) (\<lambda>_. returnM (r - 1))"
  using assms
proof (induction ports)
  case Nil
  then show ?case by (simp add: ownedBy_def)
next
  case (Cons p ps)
  show ?case
  proof (cases "deleteMatches svc p")
    case True
    with Cons.prems(1) have "\<not> ownedBy ps svc" by (rule deleteMatches_unique)
    then have "deleteBody cl nlb ps svc = returnM" using deleteBody_unowned by blast
    with True show ?thesis
      by (simp add: deleteBody_def bindM_def returnM_def fun_eq_iff split: prod.split sum.split)
  next
    case False
    with Cons.prems(2) have "ownedBy ps svc" by (simp add: ownedBy_def)
    with Cons False show ?thesis by (simp add: deleteBody_def bindM_def returnM_def)
  qed
qed

lemma deleteBody_conf:
  assumes dist: "distinct (map (\<lambda>p. (sp_Port p, ToLower (sp_Protocol p))) ports)" and "lb_ID nlb = i"
    and c: "conf V i n de (dropOwned ports vs N0) st"
    and run: "deleteBody cl nlb ports x (r0 - int (length (filter (ownedBy ports) vs))) st = (Inr r, st')"
  shows "r = r0 - int (length (filter (ownedBy ports) (vs @ [x]))) \<and> conf V i n de (dropOwned ports (vs @ [x]) N0) st'"
proof (cases "ownedBy ports x")
  case True
  with run assms(2) obtain oper where "callM (DeleteLoadBalancerService cl i (svc_ID x)) st = (Inr oper, st')"
    and "r = r0 - int (length (filter (ownedBy ports) vs)) - 1"
    by (auto simp: deleteBody_owned [OF dist] returnM_def elim!: bindM_InrE)
  with True c show ?thesis by (auto simp: dropOwned_snoc intro: delete_service_conf)
next
  case False
  with run c show ?thesis by (auto simp: deleteBody_unowned returnM_def dropOwned_snoc)
qed

lemma deleteLoop_conf:
  assumes dist: "distinct (map (\<lambda>p. (sp_Port p, ToLower (sp_Protocol p))) ports)" and "lb_ID nlb = i"
  shows "triple (conf V i n de N0) (foldM (deleteBody cl nlb ports) svcs r0)
    (\<lambda>r st. r = r0 - int (length (filter (ownedBy ports) svcs)) \<and> conf V i n de (dropOwned ports svcs N0) st)"
proof -
  let ?J = "\<lambda>vs r st. r = r0 - int (length (filter (ownedBy ports) vs)) \<and> conf V i n de (dropOwned ports vs N0) st"
  have "triple (?J [] r0) (foldM (deleteBody cl nlb ports) svcs r0) (?J svcs)"
    by (rule triple_foldM [where J = ?J], rule tripleI) (use deleteBody_conf [OF assms] in blast)
  then show ?thesis by simp
qed

lemma fetchLoadBalancer_missing:
  assumes "fetchLoadBalancer cl st = (Inl e, st')" and "errors_Is e ErrLoadBalancerNotFound"
    and "getAnnotation (st_service st) annotationLoadBalancerID [] = i" and "i \<noteq> []"
  shows "view (st_world st) i = None"
proof -
  obtain e1 w1 where g: "GetLoadBalancer cl i (st_world st) = (Inl e1, w1)"
    and "errors_Is e1 ErrNotFound \<or> e = e1"
    using assms(1,3,4)
    by (auto simp: fetchLoadBalancer_def bindM_def getM_def catchM_def failM_def callM_def Let_def
        split: prod.splits sum.splits if_splits)
  with assms(2) get_error [OF g] have "errors_Is e1 ErrNotFound" by blast
  with g show ?thesis by (rule get_missing)
qed

lemma fetchLoadBalancer_found:
  assumes "fetchLoadBalancer cl st = (Inr nlb, st')"
    and "getAnnotation (st_service st) annotationLoadBalancerID [] = i"
  shows "i \<noteq> [] \<and> getPromise i nlb (view (st_world st))"
  using assms get_ok
  by (auto simp: fetchLoadBalancer_def bindM_def getM_def catchM_def failM_def callM_def Let_def
      split: prod.splits sum.splits if_splits)

lemma deleteFound_refines:
  assumes p: "getPromise i nlb (view (st_world st))"
    and dist: "distinct (map (\<lambda>p. (sp_Port p, ToLower (sp_Protocol p))) ports)"
    and run: "bindM (foldM (deleteBody cl nlb ports) (lb_Services nlb) (int (length (lb_Services nlb))))
           (\<lambda>remainingServices. if remainingServices = 0
              then (if external then returnM () else bindM (callM (DeleteLoadBalancer cl (lb_ID nlb))) (\<lambda>_. returnM ()))
              else returnM ()) st = (Inr u, st')"
  shows "view (st_world st') = afterDelete external ports i (view (st_world st))"
proof -
  let ?svcs = "lb_Services nlb" and ?V = "view (st_world st)"
  from p have i: "lb_ID nlb = i" and V: "?V i = Some (configOf nlb)" and d: "distinct (map svc_ID ?svcs)"
    by (auto simp: getPromise_def)
  obtain r st1 where loop: "foldM (deleteBody cl nlb ports) ?svcs (int (length ?svcs)) st = (Inr r, st1)"
    and rest: "(if r = 0 then (if external then returnM ()
         else bindM (callM (DeleteLoadBalancer cl (lb_ID nlb))) (\<lambda>_. returnM ())) else returnM ()) st1 = (Inr u, st')"
    using run by (blast elim: bindM_InrE)
  have "conf ?V i (lb_Name nlb) (lb_Description nlb) (servicesOf ?svcs) st"
    using V by (simp add: conf_def configOf_def fun_upd_idem)
  from tripleD [OF deleteLoop_conf [OF dist i] this loop]
  have r: "r = int (length ?svcs) - int (length (filter (ownedBy ports) ?svcs))"
    and c: "view (st_world st1) = ?V(i \<mapsto> (configOf nlb)\<lparr>v_Services := unowned ports (servicesOf ?svcs)\<rparr>)"
    by (auto simp: conf_def configOf_def dropOwned_all [OF d])
  have r0: "r = 0 \<longleftrightarrow> unowned ports (servicesOf ?svcs) = Map.empty" unfolding r by (rule none_left [OF d])
  show ?thesis
  proof (cases "r = 0 \<and> \<not> external")
    case True
    then obtain oper where "callM (DeleteLoadBalancer cl i) st1 = (Inr oper, st')"
      using rest i by (auto elim!: bindM_InrE simp: returnM_def)
    from callM_InrD [OF this] delete_ok have "deleteEffect i (view (st_world st1)) (view (st_world st'))" by blast
    with True r0 c V show ?thesis by (simp add: afterDelete_def deleteEffect_def configOf_def)
  next
    case False
    with rest have "st' = st1" by (auto simp: returnM_def split: if_splits)
    with False r0 c V show ?thesis by (auto simp: afterDelete_def configOf_def)
  qed
qed

lemma EnsureLoadBalancerDeleted_refines:
  assumes run: "EnsureLoadBalancerDeleted cl st = (Inr u, st')"
    and dist: "distinct (map (\<lambda>p. (sp_Port p, ToLower (sp_Protocol p))) (s_Ports (st_service st)))"
    and i: "getAnnotation (st_service st) annotationLoadBalancerID [] = i"
  shows "view (st_world st') = (if i = [] then view (st_world st)
     else afterDelete (isExternal (st_service st)) (s_Ports (st_service st)) i (view (st_world st)))"
proof (cases "fetchLoadBalancer cl st")
  case (Pair r st1)
  with fetchLoadBalancer_state [of st]
  have st1: "view (st_world st1) = view (st_world st)" "st_service st1 = st_service st" by simp_all
  show ?thesis
  proof (cases r)
    case (Inl e)
    with run Pair have "errors_Is e ErrLoadBalancerNotFound" and "st' = st1"
      by (auto simp: EnsureLoadBalancerDeleted_def bindM_def getM_def catchM_def failM_def returnM_def
          split: if_splits)
    with fetchLoadBalancer_missing [of st e st1 i] Inl Pair i st1 show ?thesis by (auto simp: afterDelete_def)
  next
    case (Inr nlb)
    with fetchLoadBalancer_found [of st nlb st1 i] Pair i st1
    have p: "i \<noteq> []" "getPromise i nlb (view (st_world st1))" by auto
    have found: "catchM (bindM (fetchLoadBalancer cl) (\<lambda>nlb. returnM (Some nlb)))
        (\<lambda>e. if errors_Is e ErrLoadBalancerNotFound then returnM None else failM e) st = (Inr (Some nlb), st1)"
      using Pair Inr by (simp add: catchM_def bindM_def returnM_def)
    have "bindM (foldM (deleteBody cl nlb (s_Ports (st_service st))) (lb_Services nlb) (int (length (lb_Services nlb))))
         (\<lambda>remainingServices. if remainingServices = 0
            then (if isExternal (st_service st) then returnM ()
              else bindM (callM (DeleteLoadBalancer cl (lb_ID nlb))) (\<lambda>_. returnM ()))
            else returnM ()) st1 = (Inr (), st')"
      using run by (simp add: EnsureLoadBalancerDeleted_def bindM_def [of "catchM m h" for m h] found)
    from deleteFound_refines [OF p(2) dist this] p(1) st1 show ?thesis by simp
  qed
qed

end

end
