(* ===== verification/LB_Properties.thy ===== *)
theory LB_Properties
  imports LB_Delete
begin

text \<open>
  The properties of the load balancer controller, with concrete examples on the in-memory service
  of \<open>NLB_API\<close>.
\<close>

section \<open>Examples\<close>

definition exPort :: ServicePort where
  "exPort = \<lparr>sp_Port = 80, sp_NodePort = 30080, sp_Protocol = ''TCP''\<rparr>"

definition exService :: "(string \<times> string) list \<Rightarrow> ServicePort list \<Rightarrow> Service" where
  "exService as ps = \<lparr>s_Namespace = ''default'', s_Name = ''web'', s_UID = ''u1'',
     s_Annotations = map_of as, s_Ports = ps,
     s_ExternalTrafficPolicy = ''Cluster'', s_HealthCheckNodePort = 0\<rparr>"

definition exPool :: "(string \<times> string) list" where
  "exPool = [(annotationLoadBalancerID, ''n1''), (annotationLoadBalancerServiceInstancePoolID, ''p1'')]"

definition exExternal :: "(string \<times> string) list" where
  "exExternal = (annotationLoadBalancerExternal, ''TRUE'') # exPool"

text \<open>A service of somebody else on port 22, and a service on port 80 for another Instance Pool.\<close>

definition exOther :: LoadBalancerService where
  "exOther = \<lparr>svc_Description = ''ssh'', svc_Healthcheck = None, svc_HealthcheckStatus = [], svc_ID = ''a'',
     svc_InstancePool = Some \<lparr>ip_ID = ''p9'', ip_attrs = []\<rparr>, svc_Name = ''ssh'', svc_Port = 22,
     svc_Protocol = ''tcp'', svc_State = ''running'', svc_Strategy = ''round-robin'', svc_TargetPort = 22\<rparr>"

definition exOld :: LoadBalancerService where
  "exOld = exOther\<lparr>svc_ID := ''b'', svc_Port := 80, svc_Name := ''web''\<rparr>"

definition exNLB :: LoadBalancer where
  "exNLB = \<lparr>lb_Description = ''shared'', lb_ID = ''n1'', lb_IP = [192, 0, 2, 1], lb_Labels = [],
     lb_Name = ''old'', lb_Services = [], lb_State = ''running''\<rparr>"

definition exMemory :: memory where
  "exMemory = \<lparr>mem_nlbs = [(''n1'', exNLB)],
     mem_services = [(''n1'', [(''a'', exOther), (''b'', exOld)])],
     mem_instances = [], mem_types = [], mem_clusters = [], mem_patches = []\<rparr>"

definition exState :: "(string \<times> string) list \<Rightarrow> memory handler_state" where
  "exState as = \<lparr>st_service = exService as [exPort], st_world = exMemory\<rparr>"

definition exLib :: patchLib where
  "exLib = \<lparr>jsonMarshal = (\<lambda>s. Inr (s_Name s)), CreateTwoWayMergePatch = (\<lambda>a b. Inr ''{...}'')\<rparr>"

lemma ToLower_protocols [simp]: "ToLower ''TCP'' = ''tcp''" "ToLower ''UDP'' = ''udp''"
  by code_simp+

lemma ToLower_bools [simp]: "ToLower ''TRUE'' = ''true''" "ToLower ''false'' = ''false''"
  by code_simp+

lemma exService_ports [simp]: "s_Ports (exService as ps) = ps"
  by (simp add: exService_def)

lemma Atoi_one [simp]: "Atoi ''1'' = Inr 1"
  using Atoi_fmt_d [of 1] by (simp add: fmt_d_def show_nat_eval)

lemmas example_defs = exPort_def exService_def exPool_def exExternal_def exOther_def exOld_def exNLB_def
  exMemory_def exState_def exLib_def

lemmas build_eval = buildLoadBalancerFromAnnotations_def getAnnotation_def annotation_defs default_defs
  duration_default_interval duration_default_timeout buildLoadBalancerService_def healthcheckPort_def
  serviceName_def seconds_eval fmt_d_def show_nat_eval isExternal_def

definition exDesired :: LoadBalancerService where
  "exDesired = \<lparr>svc_Description = [], svc_Healthcheck = Some \<lparr>hc_Interval = 10, hc_Mode = ''tcp'',
       hc_Port = 30080, hc_Retries = 1, hc_Timeout = 5, hc_TlsSNI = [], hc_URI = []\<rparr>,
     svc_HealthcheckStatus = [], svc_ID = [], svc_InstancePool = Some \<lparr>ip_ID = ''p1'', ip_attrs = []\<rparr>,
     svc_Name = ''u1-80'', svc_Port = 80, svc_Protocol = ''tcp'', svc_State = [],
     svc_Strategy = ''round-robin'', svc_TargetPort = 30080\<rparr>"

definition exSpec :: LoadBalancer where
  "exSpec = \<lparr>lb_Description = [], lb_ID = ''n1'', lb_IP = [], lb_Labels = [], lb_Name = ''k8s-u1'',
     lb_Services = [exDesired], lb_State = []\<rparr>"

lemma build_exPool: "buildLoadBalancerFromAnnotations (exService exPool [exPort]) = Inr exSpec"
  by (simp add: build_eval example_defs exSpec_def exDesired_def)

lemma build_exExternal: "buildLoadBalancerFromAnnotations (exService exExternal [exPort]) = Inr exSpec"
  by (simp add: build_eval example_defs exSpec_def exDesired_def)

lemmas external_eval = isExternal_def getAnnotation_def annotation_defs

lemmas memory_eval = memoryClient_def memGet_def memNLB_def memServices_def memAdd_def memOnNLB_def
  memDeleteService_def memUpdateService_def memUpdate_def memDelete_def memCreate_def memLookup_def
  setServices_def freshID_def finished_def serviceOf_def changedService_def sent_def sent_int_def Let_def

lemmas run_eval = returnM_def failM_def bindM_def catchM_def wrapM_def liftE_def callM_def modifyM_def getM_def

lemmas update_eval = updateLoadBalancer_def updateTopLevel_def firstLoopBody_def secondLoopBody_def
  addService_def addRequest_def updateRequest_def serviceKey_def poolID_def isLoadBalancerUpdated_def
  isLoadBalancerServiceUpdated_def

lemma update_exPool_runs: "fst (updateLoadBalancer memoryClient (exState exPool)) = Inr ()"
  by (simp add: exState_def updateLoadBalancer_def build_exPool run_eval)
    (simp add: update_eval run_eval memory_eval external_eval example_defs exSpec_def exDesired_def)

lemma update_exExternal_runs: "fst (updateLoadBalancer memoryClient (exState exExternal)) = Inr ()"
  by (simp add: exState_def updateLoadBalancer_def build_exExternal run_eval)
    (simp add: update_eval run_eval memory_eval external_eval example_defs exSpec_def exDesired_def)

lemma delete_exExternal_runs: "fst (EnsureLoadBalancerDeleted memoryClient (exState exExternal)) = Inr ()"
  by (simp add: EnsureLoadBalancerDeleted_def fetchLoadBalancer_def deleteBody_def deleteMatches_def run_eval
      memory_eval external_eval example_defs serviceKey_def)

lemma run_result: "fst r = Inr x \<Longrightarrow> r = (Inr x, snd r)"
  by (simp add: prod_eq_iff)

section \<open>Convergence\<close>

text \<open>
  When \<^verbatim>\<open>updateLoadBalancer\<close> returns without an error, the load balancer has a service for
  every port of the Service with the settings that the annotations ask for, and no other service,
  except, on an external load balancer, the services on ports that the Service does not have, which
  are as before. Other load balancers are not touched.
\<close>

theorem update_converges:
  assumes "nlb_api cl kc view"
    and "updateLoadBalancer cl st = (Inr (), st')"
    and "buildLoadBalancerFromAnnotations (st_service st) = Inr spec"
    and "distinct (map (\<lambda>p. (sp_Port p, sp_Protocol p)) (s_Ports (st_service st)))"
  shows "\<exists>c c'. view (st_world st) (lb_ID spec) = Some c \<and>
     view (st_world st') = (view (st_world st))(lb_ID spec \<mapsto> c') \<and>
     v_Name c' = (if isExternal (st_service st) then v_Name c else sent (lb_Name spec) (v_Name c)) \<and>
     converged (lb_Services spec)
       (foreignServices (isExternal (st_service st)) (lb_Services spec) (v_Services c)) (v_Services c')"
  using nlb_api.updateLoadBalancer_converges [OF assms(1-3)]
    buildLoadBalancer_keys_distinct [OF assms(3,4)] buildLoadBalancer_healthcheck [OF assms(3)] by blast

theorem update_converges_witness:
  "\<exists>c c'. memView exMemory ''n1'' = Some c \<and>
     memView (st_world (snd (updateLoadBalancer memoryClient (exState exExternal)))) =
       (memView exMemory)(''n1'' \<mapsto> c') \<and> v_Name c' = v_Name c \<and>
     converged [exDesired] (foreignServices True [exDesired] (v_Services c)) (v_Services c')"
proof -
  have "isExternal (exService exExternal [exPort])" by (simp add: external_eval example_defs)
  then show ?thesis
    using update_converges [OF memory.nlb_api_axioms run_result [OF update_exExternal_runs], of exSpec]
      build_exExternal
    by (auto simp: exState_def exSpec_def)
qed

text \<open>
  Property C1. When \<^verbatim>\<open>EnsureLoadBalancer\<close> returns without an error, the Service object carries the ID
  of a load balancer whose services are the desired ones in the same sense; the other load balancers
  are not touched, and at most this one is new.
\<close>

theorem ensure_converges:
  assumes "nlb_api cl kc view"
    and "EnsureLoadBalancer cl kc lib nodes st = (Inr status, st')"
    and "distinct (map (\<lambda>p. (sp_Port p, sp_Protocol p)) (s_Ports (st_service st)))"
  shows "\<exists>spec c'. buildLoadBalancerFromAnnotations (st_service st') = Inr spec \<and>
     view (st_world st') = (view (st_world st))(lb_ID spec \<mapsto> c') \<and>
     converged (lb_Services spec) (foreignServices (isExternal (st_service st)) (lb_Services spec)
       (servicesAt (view (st_world st)) (lb_ID spec))) (v_Services c')"
  by (rule nlb_api.EnsureLoadBalancer_converges [OF assms])

lemma ensure_exPool_state:
  "EnsureLoadBalancer memoryClient (memoryKube (\<lambda>_. None)) exLib [] (exState exPool) =
   (Inr [''192.0.2.1''], snd (updateLoadBalancer memoryClient (exState exPool)))"
proof -
  have "resolveExternal memoryClient (memoryKube (\<lambda>_. None)) exLib (exState exPool) = (Inr (), exState exPool)"
    by (simp add: resolveExternal_def run_eval external_eval example_defs)
  moreover have "resolveInstancePool memoryClient (memoryKube (\<lambda>_. None)) exLib [] (exState exPool) = (Inr (), exState exPool)"
    by (simp add: resolveInstancePool_def run_eval external_eval example_defs)
  moreover have "st_service (exState exPool) = exService exPool [exPort]" by (simp add: exState_def)
  moreover have "\<exists>nlb. fetchLoadBalancer memoryClient (exState exPool) = (Inr nlb, exState exPool) \<and>
      lbStatus nlb = [''192.0.2.1'']"
    by (simp add: fetchLoadBalancer_def run_eval external_eval memory_eval example_defs serviceKey_def lbStatus_def ip_eval)
  ultimately show ?thesis
    using run_result [OF update_exPool_runs]
    by (auto simp: EnsureLoadBalancer_def bindM_run catchM_run build_exPool liftE_def returnM_def)
qed

lemma ensure_exPool_runs:
  "fst (EnsureLoadBalancer memoryClient (memoryKube (\<lambda>_. None)) exLib [] (exState exPool)) = Inr [''192.0.2.1'']"
  by (simp add: ensure_exPool_state)

theorem ensure_converges_witness:
  "\<exists>spec c'. buildLoadBalancerFromAnnotations (st_service (snd
       (EnsureLoadBalancer memoryClient (memoryKube (\<lambda>_. None)) exLib [] (exState exPool)))) = Inr spec \<and>
     memView (st_world (snd
       (EnsureLoadBalancer memoryClient (memoryKube (\<lambda>_. None)) exLib [] (exState exPool)))) =
       (memView exMemory)(lb_ID spec \<mapsto> c') \<and>
     converged (lb_Services spec) (foreignServices (isExternal (exService exPool [exPort])) (lb_Services spec)
       (servicesAt (memView exMemory) (lb_ID spec))) (v_Services c')"
  using ensure_converges [OF memory.nlb_api_axioms run_result [OF ensure_exPool_runs]]
  by (simp add: exState_def exService_def)

text \<open>
  Property C3. When \<^verbatim>\<open>EnsureLoadBalancerDeleted\<close> returns without an error, exactly the services on the
  ports of the Service are gone from its load balancer; the load balancer itself is gone if nothing
  is left on it and it is not external. Everything else is as before.
\<close>

theorem delete_refines:
  assumes "nlb_api cl kc view"
    and "EnsureLoadBalancerDeleted cl st = (Inr (), st')"
    and "distinct (map (\<lambda>p. (sp_Port p, ToLower (sp_Protocol p))) (s_Ports (st_service st)))"
    and "getAnnotation (st_service st) annotationLoadBalancerID [] = i"
  shows "view (st_world st') = (if i = [] then view (st_world st)
     else afterDelete (isExternal (st_service st)) (s_Ports (st_service st)) i (view (st_world st)))"
  by (rule nlb_api.EnsureLoadBalancerDeleted_refines [OF assms])

theorem delete_refines_witness:
  "memView (st_world (snd (EnsureLoadBalancerDeleted memoryClient (exState exExternal)))) =
   afterDelete True [exPort] ''n1'' (memView exMemory)"
proof -
  have "isExternal (exService exExternal [exPort])" by (simp add: external_eval example_defs)
  then show ?thesis
    using delete_refines [OF memory.nlb_api_axioms run_result [OF delete_exExternal_runs] _ refl]
    by (simp add: exState_def exService_def) (simp add: external_eval example_defs)
qed

section \<open>What the handlers never do\<close>

text \<open>
  Property C6. A load balancer marked external is never created, renamed or deleted: none of the
  three handlers that change things sends a request that changes a load balancer instance itself,
  whatever the APIs answer.
\<close>

theorem external_never_changed:
  assumes "isExternal s"
  shows "filter changesNLB (trace (EnsureLoadBalancer (exoscaleClientMock exo) (kubeBeside kc) lib nodes) s w) = [] \<and>
    filter changesNLB (trace (updateLoadBalancer (exoscaleClientMock exo)) s w) = [] \<and>
    filter changesNLB (trace (EnsureLoadBalancerDeleted (exoscaleClientMock exo)) s w) = []"
  using assms
  by (auto intro!: trace_keeps external.keeps_EnsureLoadBalancer external.keeps_updateLoadBalancer
      external.keeps_EnsureLoadBalancerDeleted_external)

theorem external_never_changed_witness:
  "filter changesNLB (trace (EnsureLoadBalancer (exoscaleClientMock memoryClient)
     (kubeBeside (memoryKube (\<lambda>_. None))) exLib []) (exService exExternal [exPort]) exMemory) = []"
proof -
  have "isExternal (exService exExternal [exPort])" by (simp add: external_eval example_defs)
  from external_never_changed [OF this, THEN conjunct1] show ?thesis .
qed

text \<open>
  Property C24. Ensuring or updating a load balancer never deletes a load balancer instance.
\<close>

theorem ensure_never_deletes_NLB:
  "filter deletesNLB (trace (EnsureLoadBalancer (exoscaleClientMock exo) (kubeBeside kc) lib nodes) s w) = [] \<and>
   filter deletesNLB (trace (lb_UpdateLoadBalancer (exoscaleClientMock exo) nodes) s w) = []"
  unfolding lb_UpdateLoadBalancer_def
  by (auto intro!: trace_keeps managing.keeps_EnsureLoadBalancer managing.keeps_updateLoadBalancer)

text \<open>
  Property C25. Asking for a load balancer only reads, and deleting one neither creates nor changes
  a load balancer or a service.
\<close>

theorem get_reads_delete_deletes:
  "filter (\<lambda>c. changesNLB c \<or> changesService c) (trace (lb_GetLoadBalancer (exoscaleClientMock exo)) s w) = [] \<and>
   filter addsOrUpdates (trace (EnsureLoadBalancerDeleted (exoscaleClientMock exo)) s w) = []"
  by (auto intro!: trace_keeps reading.keeps_lb_GetLoadBalancer deleting.keeps_EnsureLoadBalancerDeleted)

end
