(* ===== verification/Client_Properties.thy ===== *)
theory Client_Properties
  imports Client LB_Properties
begin

text \<open>
  The refreshable client keeps the promises of the synchronous interface \<open>nlb_api\<close> if the API below it
  keeps those of the asynchronous one: an operation has had its effect when \<^verbatim>\<open>Wait\<close> returns it. Then
  the convergence of the load balancer controller holds for the whole stack. Further: what a
  refresh of the credentials does and does not change.
\<close>

section \<open>The asynchronous API\<close>

definition awaited :: "'w exoscaleClient \<Rightarrow> ('w, Operation) M \<Rightarrow> 'w \<Rightarrow> Operation \<Rightarrow> 'w \<Rightarrow> bool" where
  "awaited exo request w oper' w' \<longleftrightarrow>
     (\<exists>oper w1. request w = (Inr oper, w1) \<and> Wait exo oper [''success''] w1 = (Inr oper', w'))"

locale async_nlb_api =
  fixes exo :: "'w exoscaleClient" and kc :: "'w kubeClient" and view :: "'w \<Rightarrow> nlb_view"
  assumes aget_ok: "GetLoadBalancer exo i w = (Inr lb, w') \<Longrightarrow> getPromise i lb (view w)"
    and aget_missing: "GetLoadBalancer exo i w = (Inl e, w') \<Longrightarrow> errors_Is e ErrNotFound \<Longrightarrow> view w i = None"
    and aget_error: "GetLoadBalancer exo i w = (Inl e, w') \<Longrightarrow> \<not> errors_Is e ErrLoadBalancerNotFound"
    and aget_reads: "view (snd (GetLoadBalancer exo i w)) = view w"
    and alist_reads: "view (snd (ListLoadBalancers exo w)) = view w"
    and aclusters_reads: "view (snd (ListSKSClusters exo w)) = view w"
    and ainstance_reads: "view (snd (GetInstance exo i w)) = view w"
    and apatch_apart: "view (snd (ServicesPatch kc ns n p w)) = view w"
    and aadd_ok: "awaited exo (AddServiceToLoadBalancer exo i areq) w oper w' \<Longrightarrow> addEffect i areq (view w) (view w')"
    and adelete_service_ok:
      "awaited exo (DeleteLoadBalancerService exo i sid) w oper w' \<Longrightarrow> deleteServiceEffect i sid (view w) (view w')"
    and aupdate_service_ok: "awaited exo (UpdateLoadBalancerService exo i sid ureq) w oper w' \<Longrightarrow>
      updateServiceEffect i sid ureq (view w) (view w')"
    and aupdate_ok: "awaited exo (UpdateLoadBalancer exo i lreq) w oper w' \<Longrightarrow> updateEffect i lreq (view w) (view w')"
    and acreate_ok: "awaited exo (CreateLoadBalancer exo creq) w oper w' \<Longrightarrow> createEffect creq oper (view w) (view w')"
    and adelete_ok: "awaited exo (DeleteLoadBalancer exo i) w oper w' \<Longrightarrow> deleteEffect i (view w) (view w')"

text \<open>Every client that the package can make talks to such an API.\<close>

locale async_stack =
  fixes ego :: "('c, 'w) egoscale" and kc :: "'w kubeClient" and view :: "'w \<Rightarrow> nlb_view"
  assumes every_client: "async_nlb_api (asClient ego c) kc view"

lemma onExo_Inr:
  "onExo ego f a = (Inr x, a') \<Longrightarrow>
   \<exists>c. rc_exo (app_client a) = Some c \<and> f (asClient ego c) (app_world a) = (Inr x, app_world a') \<and>
       app_client a' = app_client a"
  by (auto simp: onExo_def worldM_def split: option.splits prod.splits)

lemma onExo_Inl:
  "onExo ego f a = (Inl e, a') \<Longrightarrow>
   e = nilPanic \<or> (\<exists>c. f (asClient ego c) (app_world a) = (Inl e, app_world a'))"
  by (auto simp: onExo_def worldM_def split: option.splits prod.splits)

lemma onExo_world:
  "(\<And>c. P (snd (f (asClient ego c) (app_world a)))) \<Longrightarrow> P (app_world a) \<Longrightarrow> P (app_world (snd (onExo ego f a)))"
  by (auto simp: onExo_def worldM_def split: option.splits prod.splits) (metis snd_conv)

lemma waitSuccess_awaited: "waitSuccess exo request w = (Inr oper, w') \<Longrightarrow> awaited exo request w oper w'"
  by (auto simp: waitSuccess_def awaited_def elim!: bindM_InrE)

lemma onExo_awaited:
  assumes "onExo ego (\<lambda>exo. waitSuccess exo (f exo)) a = (Inr oper, a')"
  shows "\<exists>c. awaited (asClient ego c) (f (asClient ego c)) (app_world a) oper (app_world a')"
proof -
  obtain c where "waitSuccess (asClient ego c) (f (asClient ego c)) (app_world a) = (Inr oper, app_world a')"
    using onExo_Inr [OF assms] by auto
  then show ?thesis by (intro exI waitSuccess_awaited)
qed

lemma nilPanic_not: "\<not> errors_Is nilPanic ErrNotFound" "\<not> errors_Is nilPanic ErrLoadBalancerNotFound"
  by (simp_all add: nilPanic_def)

context async_stack begin

lemma stack_reads:
  "view (app_world (snd (GetLoadBalancer (refreshableClient ego) i a))) = view (app_world a)"
  "view (app_world (snd (ListLoadBalancers (refreshableClient ego) a))) = view (app_world a)"
  "view (app_world (snd (ListSKSClusters (refreshableClient ego) a))) = view (app_world a)"
  "view (app_world (snd (GetInstance (refreshableClient ego) i a))) = view (app_world a)"
  using every_client [THEN async_nlb_api.aget_reads] every_client [THEN async_nlb_api.alist_reads]
    every_client [THEN async_nlb_api.aclusters_reads] every_client [THEN async_nlb_api.ainstance_reads]
  by (simp_all add: refreshableClient_def rc_GetLoadBalancer_def rc_ListLoadBalancers_def rc_ListSKSClusters_def
      rc_GetInstance_def onExo_world [where P = "\<lambda>w. view w = view (app_world a)"])

end

sublocale async_stack \<subseteq> stack: nlb_api "refreshableClient ego" "kubeOfApp kc" "\<lambda>a. view (app_world a)"
proof -
  note every = every_client [THEN async_nlb_api.aget_ok] every_client [THEN async_nlb_api.aget_missing]
    every_client [THEN async_nlb_api.aget_error]
  note effects = every_client [THEN async_nlb_api.aadd_ok] every_client [THEN async_nlb_api.adelete_service_ok]
    every_client [THEN async_nlb_api.aupdate_service_ok] every_client [THEN async_nlb_api.aupdate_ok]
    every_client [THEN async_nlb_api.acreate_ok] every_client [THEN async_nlb_api.adelete_ok]
  show "nlb_api (refreshableClient ego) (kubeOfApp kc) (\<lambda>a. view (app_world a))"
  proof (unfold_locales, goal_cases)
    case (1 i w lb w')
    then show ?case using onExo_Inr every(1) by (fastforce simp: refreshableClient_def rc_GetLoadBalancer_def)
  next
    case (2 i w e w')
    then show ?case
      using onExo_Inl every(2) nilPanic_not by (fastforce simp: refreshableClient_def rc_GetLoadBalancer_def)
  next
    case (3 i w e w')
    then show ?case
      using onExo_Inl every(3) nilPanic_not by (fastforce simp: refreshableClient_def rc_GetLoadBalancer_def)
  next
    case (8 ns n p w)
    then show ?case
      using every_client [THEN async_nlb_api.apatch_apart]
      by (simp add: kubeOfApp_def worldM_def split: prod.split) (metis snd_conv)
  qed (simp_all only: stack_reads, auto simp: refreshableClient_def rc_AddServiceToLoadBalancer_def rc_DeleteLoadBalancerService_def
      rc_UpdateLoadBalancerService_def rc_UpdateLoadBalancer_def rc_CreateLoadBalancer_def rc_DeleteLoadBalancer_def
      dest!: onExo_awaited effects)
qed

context async_stack begin

lemma stack_promises: "nlb_api (refreshableClient ego) (kubeOfApp kc) (\<lambda>a. view (app_world a))"
  by (rule stack.nlb_api_axioms)

end

section \<open>The stack on the in-memory service\<close>

text \<open>Clients are named by their API key; the zone endpoint is appended to the name.\<close>

definition memoryEgo :: "(string, memory) egoscale" where
  "memoryEgo = \<lparr>NewClient = (\<lambda>key secret endpoint agent. if secret = [] then Inl (ErrNew ''no secret'') else Inr key),
     GetZoneAPIEndpoint = (\<lambda>c zone. returnM (''https://api-'' @ zone @ ''.exoscale.com/v2'')),
     WithEndpoint = (\<lambda>c e. c @ ''@'' @ e),
     asClient = (\<lambda>c. memoryClient)\<rparr>"

lemma awaited_memory: "awaited memoryClient request w oper w' \<Longrightarrow> request w = (Inr oper, w')"
  by (auto simp: awaited_def memoryClient_def returnM_def)

interpretation memoryAsync: async_nlb_api memoryClient "memoryKube nodes" memView for nodes
  by unfold_locales
    (auto dest!: awaited_memory simp: memory.get_reads memory.list_reads memory.clusters_reads memory.instance_reads
      memory.patch_apart
      intro: memory.get_ok memory.get_missing memory.get_error memory.add_ok memory.delete_service_ok
        memory.update_service_ok memory.update_ok memory.create_ok memory.delete_ok dest: memory.get_error)

interpretation memoryStack: async_stack memoryEgo "memoryKube nodes" memView for nodes
  by (rule async_stack.intro) (simp add: memoryEgo_def memoryAsync.async_nlb_api_axioms)

text \<open>
  The convergence of \<^verbatim>\<open>EnsureLoadBalancer\<close> holds for the whole stack: with the refreshable client
  over an asynchronous API, whatever credentials it has been given.
\<close>

theorem stack_ensure_converges:
  assumes "async_stack ego kc view"
    and "EnsureLoadBalancer (refreshableClient ego) (kubeOfApp kc) lib nodes st = (Inr status, st')"
    and "distinct (map (\<lambda>p. (sp_Port p, sp_Protocol p)) (s_Ports (st_service st)))"
  shows "\<exists>spec c'. buildLoadBalancerFromAnnotations (st_service st') = Inr spec \<and>
     view (app_world (st_world st')) = (view (app_world (st_world st)))(lb_ID spec \<mapsto> c') \<and>
     converged (lb_Services spec) (foreignServices (isExternal (st_service st)) (lb_Services spec)
       (servicesAt (view (app_world (st_world st))) (lb_ID spec))) (v_Services c')"
  by (rule nlb_api.EnsureLoadBalancer_converges [OF async_stack.stack_promises [OF assms(1)] assms(2,3)])

definition exApp :: "(string, memory) app" where
  "exApp = \<lparr>app_client = \<lparr>rc_exo = Some ''key'', rc_apiCredentials = noCredentials, rc_apiEndpoint = []\<rparr>,
     app_world = exMemory\<rparr>"

definition exAppState :: "(string, memory) app handler_state" where
  "exAppState = \<lparr>st_service = exService exPool [exPort], st_world = exApp\<rparr>"

lemmas stack_eval = refreshableClient_def rc_GetLoadBalancer_def rc_UpdateLoadBalancer_def
  rc_DeleteLoadBalancerService_def rc_AddServiceToLoadBalancer_def rc_UpdateLoadBalancerService_def
  onExo_def worldM_def waitSuccess_def memoryEgo_def

lemma stack_update_runs: "fst (updateLoadBalancer (refreshableClient memoryEgo) exAppState) = Inr ()"
  by (simp add: exAppState_def updateLoadBalancer_def build_exPool run_eval)
    (simp add: stack_eval update_eval run_eval memory_eval external_eval example_defs exSpec_def exDesired_def exApp_def)

lemma stack_ensure_runs:
  "fst (EnsureLoadBalancer (refreshableClient memoryEgo) (kubeOfApp (memoryKube (\<lambda>_. None))) exLib [] exAppState) =
   Inr [''192.0.2.1'']"
proof -
  let ?cl = "refreshableClient memoryEgo" and ?kc = "kubeOfApp (memoryKube (\<lambda>_. None)) :: (string, memory) app kubeClient"
  have s: "st_service exAppState = exService exPool [exPort]" by (simp add: exAppState_def)
  have "resolveExternal ?cl ?kc exLib exAppState = (Inr (), exAppState)"
    by (simp add: resolveExternal_def s) (simp add: run_eval external_eval example_defs)
  moreover have "resolveInstancePool ?cl ?kc exLib [] exAppState = (Inr (), exAppState)"
    by (simp add: resolveInstancePool_def s) (simp add: run_eval external_eval example_defs)
  moreover have "\<exists>nlb. fetchLoadBalancer ?cl exAppState = (Inr nlb, exAppState) \<and> lbStatus nlb = [''192.0.2.1'']"
    by (simp add: fetchLoadBalancer_def s)
      (simp add: exAppState_def stack_eval run_eval external_eval memory_eval example_defs serviceKey_def lbStatus_def
        ip_eval exApp_def)
  ultimately show ?thesis
    using run_result [OF stack_update_runs] s
    by (auto simp: EnsureLoadBalancer_def bindM_run catchM_run build_exPool liftE_def returnM_def)
qed

theorem stack_ensure_converges_witness:
  "\<exists>(spec :: LoadBalancer) c'. memView (app_world (st_world (snd (EnsureLoadBalancer (refreshableClient memoryEgo)
       (kubeOfApp (memoryKube (\<lambda>_. None))) exLib [] exAppState)))) = (memView exMemory)(lb_ID spec \<mapsto> c') \<and>
     converged (lb_Services spec) (foreignServices (isExternal (exService exPool [exPort])) (lb_Services spec)
       (servicesAt (memView exMemory) (lb_ID spec))) (v_Services c')"
  using stack_ensure_converges [OF memoryStack.async_stack_axioms run_result [OF stack_ensure_runs]]
  by (auto simp: exAppState_def exApp_def)

section \<open>Credentials\<close>

text \<open>
  A refresh of the credentials that does not end the process either replaces the client
  and the credentials together, by a client made from the decoded file for the configured endpoint
  and zone, or leaves both as they are; so it never takes a working client away.
\<close>

theorem refresh_replaces_or_keeps:
  assumes "refreshCredentialsFromFile ego files ver path zone cb a = (Inr (), a')"
  shows "app_client a' = app_client a \<or>
    (\<exists>f w1 cr c w2. openFile files path (app_world a) = (Inr f, w1) \<and> jsonDecode files f = Inr cr \<and>
       connect ego ver (rc_apiEndpoint (app_client a)) cr zone cb w1 = (Inr c, w2) \<and>
       app_client a' = (app_client a)\<lparr>rc_exo := Some c, rc_apiCredentials := cr\<rparr>)"
  using assms
  by (auto simp: refreshCredentialsFromFile_def bindM_def catchM_def worldM_def failM_def returnM_def getM_def
      modifyM_def split: prod.splits sum.splits option.splits if_splits)

definition exFiles :: "string \<Rightarrow> memory credentialFiles" where
  "exFiles text = \<lparr>openFile = (\<lambda>path. returnM text),
     jsonDecode = (\<lambda>t. if t = ''{}'' then Inl (ErrNew ''EOF'')
       else Inr \<lparr>cr_APIKey = t, cr_APISecret = ''s'', cr_Name = ''n''\<rparr>)\<rparr>"

lemma exRefresh: "refreshCredentialsFromFile memoryEgo (exFiles ''k2'') ''v'' ''/creds'' [] (switchZoneCallback memoryEgo) exApp =
  (Inr (), exApp\<lparr>app_client := (app_client exApp)\<lparr>rc_exo := Some ''k2'',
     rc_apiCredentials := \<lparr>cr_APIKey = ''k2'', cr_APISecret = ''s'', cr_Name = ''n''\<rparr>\<rparr>\<rparr>)"
  by (simp add: refreshCredentialsFromFile_def run_eval worldM_def exFiles_def connect_def memoryEgo_def
      switchZoneCallback_def exApp_def)

theorem refresh_replaces_or_keeps_witness:
  "\<exists>f w1 cr c w2. openFile (exFiles ''k2'') ''/creds'' exMemory = (Inr f, w1) \<and> jsonDecode (exFiles ''k2'') f = Inr cr \<and>
     connect memoryEgo ''v'' [] cr [] (switchZoneCallback memoryEgo) w1 = (Inr c, w2)"
  using refresh_replaces_or_keeps [OF exRefresh] by (auto simp: exApp_def)

text \<open>
  Property C38. A credentials file that does not decode at start-up is not an error: the program goes on with
  a client that is nil, and the first use of it panics.
\<close>

theorem undecodable_file_nil_client:
  assumes "gc_APIKey config = [] \<or> gc_APISecret config = []" and "gc_APICredentialsFile config \<noteq> []"
    and "openFile files (gc_APICredentialsFile config) (app_world a) = (Inr f, w1)" and "jsonDecode files f = Inl e"
  shows "\<exists>a'. newRefreshableExoscaleClient ego files ver config zone cb a =
      (Inr (Some (gc_APICredentialsFile config)), a') \<and>
    rc_GetInstance ego i a' = (Inl nilPanic, a') \<and> rc_GetLoadBalancer ego i a' = (Inl nilPanic, a')"
  using assms
  by (auto simp: newRefreshableExoscaleClient_def refreshCredentialsFromFile_def bindM_def catchM_def worldM_def
      returnM_def modifyM_def rc_GetInstance_def rc_GetLoadBalancer_def onExo_def)

theorem undecodable_file_nil_client_witness:
  "\<exists>a'. newRefreshableExoscaleClient memoryEgo (exFiles ''{}'') ''v''
       \<lparr>gc_APIKey = [], gc_APISecret = [], gc_APICredentialsFile = ''/creds'', gc_APIEndpoint = []\<rparr> ''ch-gva-2''
       (switchZoneCallback memoryEgo) exApp = (Inr (Some ''/creds''), a') \<and>
     rc_GetInstance memoryEgo ''i'' a' = (Inl nilPanic, a')"
  using undecodable_file_nil_client [where config = "\<lparr>gc_APIKey = [], gc_APISecret = [],
      gc_APICredentialsFile = ''/creds'', gc_APIEndpoint = []\<rparr>" and files = "exFiles ''{}''" and a = exApp
      and f = "''{}''" and e = "ErrNew ''EOF''" and ego = memoryEgo and ver = "''v''" and zone = "''ch-gva-2''"
      and cb = "switchZoneCallback memoryEgo" and i = "''i''" and ?w1.0 = exMemory]
  by (auto simp: exFiles_def returnM_def exApp_def)

fun endsWatch :: "watchEvent \<Rightarrow> bool" where
  "endsWatch (FileEvent n oper) = False"
| "endsWatch (WatcherError e) = False"
| "endsWatch ev = True"

fun refreshes :: "string \<Rightarrow> watchEvent \<Rightarrow> bool" where
  "refreshes path (FileEvent n oper) = (n = path \<and> (bit oper 0 \<or> bit oper 1))"
| "refreshes path ev = False"

lemma mask_bit: "and x (push_bit n 1) = push_bit n 1 \<longleftrightarrow> bit x n" if "n < 32" for x :: "32 word"
  using that by (auto simp: bit_eq_iff [where 'a = "32 word"] bit_simps)

lemma isRefreshEvent_bits: "isRefreshEvent path n oper \<longleftrightarrow> n = path \<and> (bit oper 0 \<or> bit oper 1)"
  using mask_bit [of 0 oper] mask_bit [of 1 oper]
  by (auto simp: isRefreshEvent_def fsnotifyWrite_def fsnotifyCreate_def)

lemma bindM_assoc: "bindM (bindM m f) g = bindM m (\<lambda>x. bindM (f x) g)"
  by (auto simp: bindM_def fun_eq_iff split: prod.split sum.split)

lemma bindM_return: "bindM (returnM x) f = f x"
  by (simp add: bindM_def returnM_def)

text \<open>
  Property C37. The watcher refreshes once for every event that writes or creates the file itself, in order,
  until the context is cancelled or the watcher closes, and returns then; other files, other kinds of
  event and watcher errors change nothing.
\<close>

theorem watch_refreshes:
  "watchLoop refresh path events =
   bindM (forM (\<lambda>_. refresh) (filter (refreshes path) (takeWhile (\<lambda>e. \<not> endsWatch e) events)))
     (\<lambda>_. returnM (list_ex endsWatch events))"
  by (induction refresh path events rule: watchLoop.induct)
    (auto simp: isRefreshEvent_bits bindM_assoc bindM_return)

end
