(* ===== verification/Instances_Properties.thy ===== *)
theory Instances_Properties
  imports Zones NLB_API
begin

text \<open>
  The properties of the instance and zone lookups: when a node is reported as gone, that the two
  interfaces answer alike, that an override is found again under the provider ID it gave out, and
  what the lookups never do when the Exoscale API is disabled.
\<close>

section \<open>Steps of the lookups\<close>

lemma computeInstance_run:
  "computeInstanceByProviderID p pid w =
   (if pid = [] then (Inl (ErrNew ''provider ID cannot be empty''), w)
    else case p_client p of None \<Rightarrow> (Inl nilPanic, w) | Some cl \<Rightarrow> GetInstance cl (TrimPrefix pid providerPrefix) w)"
  by (simp add: computeInstanceByProviderID_def formatProviderID_def bindM_def liftE_def clientM_def failM_def
      split: option.split)

lemma not_found_no_panic: "errors_Is e ErrNotFound \<Longrightarrow> \<not> is_panic e"
  by (cases e) auto

lemma existsM_False:
  "existsM m w = (Inr False, w') \<longleftrightarrow> (\<exists>e. m w = (Inl e, w') \<and> errors_Is e ErrNotFound)"
  using not_found_no_panic
  by (auto simp: existsM_def catchM_def bindM_def returnM_def failM_def split: prod.split sum.split)

lemma computeInstance_not_found:
  "(\<exists>e. computeInstanceByProviderID p pid w = (Inl e, w') \<and> errors_Is e ErrNotFound) \<longleftrightarrow>
   (\<exists>cl e. pid \<noteq> [] \<and> p_client p = Some cl \<and>
      GetInstance cl (TrimPrefix pid providerPrefix) w = (Inl e, w') \<and> errors_Is e ErrNotFound)"
  by (auto simp: computeInstance_run nilPanic_def split: option.splits if_splits)

section \<open>Existence\<close>

text \<open>
  Property C12. An instance is reported as gone, which makes Kubernetes delete the node, in two cases
  only: the Exoscale API is disabled and no external override covers the node, or the API was asked
  for this instance and answered "not found". Any other error is passed on.
\<close>

theorem exists_false_iff:
  "InstanceExistsByProviderID i pid w = (Inr False, w') \<longleftrightarrow>
     externalOverride (getInstanceOverrideByProviderID (i_cfg i) pid) = None \<and>
     (if ic_ExternalOnly (i_cfg i) then w' = w
      else \<exists>cl e. pid \<noteq> [] \<and> p_client (i_p i) = Some cl \<and>
        GetInstance cl (TrimPrefix pid providerPrefix) w = (Inl e, w') \<and> errors_Is e ErrNotFound)"
  by (auto simp: InstanceExistsByProviderID_def returnM_def existsM_False computeInstance_not_found)

section \<open>The two interfaces\<close>

text \<open>
  Property C34. For a node with a provider ID that is not covered by an override of its name alone, the
  interface by node object gives the same answers as the one by provider ID, errors and effects
  included.
\<close>

theorem v2_agrees_with_v1:
  assumes "n_ProviderID node \<noteq> []"
    and "getInstanceOverrideByProviderID cfg (n_ProviderID node) \<noteq> None \<or>
         getInstanceOverride rx cfg (n_Name node) = None"
  shows "InstanceExists rx (newInstancesV2 p cfg) node =
           InstanceExistsByProviderID (newInstances p cfg) (n_ProviderID node) \<and>
         InstanceShutdown rx (newInstancesV2 p cfg) node =
           InstanceShutdownByProviderID (newInstances p cfg) (n_ProviderID node)"
proof -
  have "nodeInstanceOverride rx (newInstancesV2 p cfg) node = getInstanceOverrideByProviderID cfg (n_ProviderID node)"
    using assms by (auto simp: nodeInstanceOverride_def newInstancesV2_def split: option.split)
  moreover have "computeInstanceByNode (newInstancesV2 p cfg) node = computeInstanceByProviderID p (n_ProviderID node)"
    using assms(1) by (simp add: computeInstanceByNode_def newInstancesV2_def)
  ultimately show ?thesis
    by (simp add: InstanceExists_def InstanceExistsByProviderID_def InstanceShutdown_def
        InstanceShutdownByProviderID_def newInstancesV2_def newInstances_def)
qed

definition exNode :: Node where
  "exNode = \<lparr>n_Name = ''node-1'', n_Annotations = [AnnotationAlphaProvidedIPAddr \<mapsto> ''10.0.0.7''],
     n_ProviderID = ''exoscale://i1'', n_SystemUUID = ''i1''\<rparr>"

definition exInstances :: instancesConfig where
  "exInstances = \<lparr>ic_Disabled = False, ic_Overrides = [], ic_ExternalOnly = False\<rparr>"

definition exInstance :: Instance where
  "exInstance = \<lparr>inst_ID = ''i1'', inst_InstanceType = Some ''t1'', inst_Ipv6Address = [], inst_Manager = None,
     inst_Name = ''node-1'', inst_PrivateNetworks = [''net''], inst_PublicIP = [192, 0, 2, 7], inst_State = ''running''\<rparr>"

definition exCloud :: memory where
  "exCloud = \<lparr>mem_nlbs = [], mem_services = [], mem_instances = [(''i1'', exInstance)],
     mem_types = [(''t1'', \<lparr>it_Family = ''standard'', it_Size = ''medium''\<rparr>)], mem_clusters = [], mem_patches = []\<rparr>"

definition exNodes :: "string \<Rightarrow> Node option" where
  "exNodes = [''node-1'' \<mapsto> exNode]"

definition exProvider :: "instancesConfig \<Rightarrow> memory cloudProvider" where
  "exProvider cfg = \<lparr>p_cfg = zeroConfig\<lparr>cc_Instances := cfg\<rparr>, p_client = Some memoryClient,
     p_kclient = Some (memoryKube exNodes), p_zone = ''ch-gva-2''\<rparr>"

lemma exNode_simps [simp]:
  "n_ProviderID exNode = ''exoscale://i1''" "n_Name exNode = ''node-1''"
  "getInstanceOverrideByProviderID exInstances s = None" "getInstanceOverride rx exInstances s = None"
  by (simp_all add: exNode_def exInstances_def getInstanceOverrideByProviderID_def getInstanceOverride_def)

theorem v2_agrees_with_v1_witness:
  "InstanceExists (\<lambda>r n. Inr False) (newInstancesV2 (exProvider exInstances) exInstances) exNode =
     InstanceExistsByProviderID (newInstances (exProvider exInstances) exInstances) ''exoscale://i1''"
  using v2_agrees_with_v1 [of exNode exInstances "\<lambda>r n. Inr False" "exProvider exInstances"] by simp

lemma addresses_agree:
  "nodeAddressesFromInstance node inst = instanceAddresses inst
     (if inst_PrivateNetworks inst \<noteq> [] then n_Annotations node AnnotationAlphaProvidedIPAddr else None)"
  by (auto simp: nodeAddressesFromInstance_def instanceAddresses_def Let_def split: option.split)

text \<open>The metadata of a node that no external override covers, step by step.\<close>

lemma metadata_run:
  assumes "externalOverride (nodeInstanceOverride rx i node) = None"
    and "i2_InstanceMetadata rx i node w = (Inr m, w')"
    and "staticType (nodeInstanceOverride rx i node) = st"
  obtains inst w1 where "\<not> ic_ExternalOnly (i2_cfg i)" and "computeInstanceByNode i node w = (Inr inst, w1)"
    and "(case st of None \<Rightarrow> instanceTypeLabel (i2_p i) inst | Some t \<Rightarrow> returnM t) w1 = (Inr (meta_InstanceType m), w')"
    and "meta_NodeAddresses m = (case staticAddresses (nodeInstanceOverride rx i node) of
       None \<Rightarrow> nodeAddressesFromInstance node inst | Some as \<Rightarrow> as)"
    and "meta_Region m = p_zone (i2_p i)"
proof -
  have st: "st \<noteq> Some []" using assms(3) by (auto simp: staticType_def split: option.splits if_splits)
  have addr: "staticAddresses (nodeInstanceOverride rx i node) = (case nodeInstanceOverride rx i node of
      None \<Rightarrow> None | Some ov \<Rightarrow> if ov_Addresses ov = [] then None else Some (overrideAddresses ov))"
    using assms(1) by (auto simp: staticAddresses_def externalOverride_def split: option.splits if_splits)
  show thesis
    using assms(2) that st unfolding i2_InstanceMetadata_def assms(1,3) Let_def addr
    by (auto elim!: bindM_InrE simp: failM_def returnM_def overrideAddresses_def split: if_splits option.splits)
qed

text \<open>
  Property C15. The metadata that the new interface reports for a node agree with what the three
  lookups of the old one report: the addresses, the instance type and the region, provided that
  the node has a provider ID and no override covers it by its name only, reading an instance has no effect and the API
  server knows the node object under the name of the instance.
\<close>

theorem metadata_agrees_with_v1:
  assumes pid: "n_ProviderID node = pid" "pid \<noteq> []"
    and ovr: "getInstanceOverrideByProviderID cfg pid \<noteq> None \<or> getInstanceOverride rx cfg (n_Name node) = None"
    and clients: "p_client p = Some cl" "p_kclient p = Some kc" "cc_Instances (p_cfg p) = cfg"
    and reads: "snd (GetInstance cl (TrimPrefix pid providerPrefix) w) = w"
    and known: "\<And>inst. fst (GetInstance cl (TrimPrefix pid providerPrefix) w) = Inr inst \<Longrightarrow>
       providedNodeIP kc (inst_Name inst) w = (n_Annotations node AnnotationAlphaProvidedIPAddr, w)"
    and run: "i2_InstanceMetadata rx (newInstancesV2 p cfg) node w = (Inr m, w')"
  shows "NodeAddressesByProviderID (newInstances p cfg) pid w = (Inr (meta_NodeAddresses m), w) \<and>
         InstanceTypeByProviderID (newInstances p cfg) pid w = (Inr (meta_InstanceType m), w') \<and>
         GetZoneByProviderID (newZones p) pid w = (Inr (region (meta_Region m)), w)"
proof -
  let ?o = "getInstanceOverrideByProviderID cfg pid"
  have o: "nodeInstanceOverride rx (newInstancesV2 p cfg) node = ?o"
    using pid ovr by (auto simp: nodeInstanceOverride_def newInstancesV2_def split: option.split)
  show ?thesis
  proof (cases "externalOverride ?o")
    case (Some ov)
    then have ov: "?o = Some ov" "ov_External ov" by (auto simp: externalOverride_def split: option.splits if_splits)
    with Some run show ?thesis
      by (auto simp: i2_InstanceMetadata_def o Let_def returnM_def NodeAddressesByProviderID_def staticAddresses_def
          InstanceTypeByProviderID_def staticType_def GetZoneByProviderID_def overrideRegion_def overrideAddresses_def
          newInstances_def newZones_def clients)
  next
    case None
    then have none: "externalOverride (nodeInstanceOverride rx (newInstancesV2 p cfg) node) = None" using o by simp
    have comp: "computeInstanceByNode (newInstancesV2 p cfg) node = computeInstanceByProviderID p pid"
      using pid by (simp add: computeInstanceByNode_def newInstancesV2_def)
    have i2: "i2_p (newInstancesV2 p cfg) = p" "i2_cfg (newInstancesV2 p cfg) = cfg"
      by (simp_all add: newInstancesV2_def)
    obtain inst w1 where on: "\<not> ic_ExternalOnly cfg"
      and inst: "computeInstanceByProviderID p pid w = (Inr inst, w1)"
      and ty: "(case staticType ?o of None \<Rightarrow> instanceTypeLabel p inst | Some t \<Rightarrow> returnM t) w1 = (Inr (meta_InstanceType m), w')"
      and ad: "meta_NodeAddresses m = (case staticAddresses ?o of
        None \<Rightarrow> nodeAddressesFromInstance node inst | Some as \<Rightarrow> as)"
      and re: "meta_Region m = p_zone p"
      using metadata_run [OF none run refl, unfolded o comp i2] by blast
    have w1: "w1 = w" "providedNodeIP kc (inst_Name inst) w = (n_Annotations node AnnotationAlphaProvidedIPAddr, w)"
      using inst reads known [of inst] clients(1) pid(2) by (auto simp: computeInstance_run)
    have "NodeAddressesByProviderID (newInstances p cfg) pid w = (Inr (meta_NodeAddresses m), w)"
      using on inst w1 ad clients
      by (auto simp: NodeAddressesByProviderID_def newInstances_def bindM_def returnM_def kclientM_def
          addresses_agree split: option.split)
    moreover have "InstanceTypeByProviderID (newInstances p cfg) pid w = (Inr (meta_InstanceType m), w')"
      using on inst w1 ty
      by (auto simp: InstanceTypeByProviderID_def newInstances_def bindM_run returnM_def split: option.splits)
    moreover have "GetZoneByProviderID (newZones p) pid w = (Inr (region (meta_Region m)), w)"
      using None on re clients by (simp add: GetZoneByProviderID_def newZones_def returnM_def)
    ultimately show ?thesis by blast
  qed
qed

lemma labelReplaceAll_example: "labelReplaceAll ''standard.medium'' = ''standard.medium''"
  by code_simp

lemmas lookup_eval = i2_InstanceMetadata_def computeInstanceByNode_def computeInstance_run instanceTypeLabel_def
  clientM_def staticType_def externalOverride_def nodeInstanceOverride_def newInstancesV2_def returnM_def bindM_def
  memoryClient_def memLookup_def getInstanceTypeName_def

lemma exInstance_lookup:
  "TrimPrefix ''exoscale://i1'' providerPrefix = ''i1''"
  "GetInstance memoryClient ''i1'' exCloud = (Inr exInstance, exCloud)"
  "providedNodeIP (memoryKube exNodes) ''node-1'' exCloud = (Some ''10.0.0.7'', exCloud)"
  by (simp_all add: providerPrefix_def TrimPrefix_def memoryClient_def memLookup_def exCloud_def providedNodeIP_def
      memoryKube_def Client_Get_def exNodes_def exNode_def)

lemma exNode_metadata:
  "\<exists>m. i2_InstanceMetadata (\<lambda>r n. Inr False) (newInstancesV2 (exProvider exInstances) exInstances) exNode exCloud =
     (Inr m, exCloud)"
  by (simp add: lookup_eval exProvider_def exInstance_lookup)
    (simp add: lookup_eval exInstance_lookup exCloud_def exInstance_def exInstances_def)

theorem metadata_agrees_with_v1_witness:
  "\<exists>m :: InstanceMetadata. NodeAddressesByProviderID (newInstances (exProvider exInstances) exInstances) ''exoscale://i1'' exCloud =
       (Inr (meta_NodeAddresses m), exCloud) \<and>
     InstanceTypeByProviderID (newInstances (exProvider exInstances) exInstances) ''exoscale://i1'' exCloud =
       (Inr (meta_InstanceType m), exCloud) \<and>
     GetZoneByProviderID (newZones (exProvider exInstances)) ''exoscale://i1'' exCloud =
       (Inr (region (meta_Region m)), exCloud)"
proof -
  obtain m where m: "i2_InstanceMetadata (\<lambda>r n. Inr False) (newInstancesV2 (exProvider exInstances) exInstances)
      exNode exCloud = (Inr m, exCloud)" using exNode_metadata by blast
  have "inst_Name exInstance = ''node-1''"
    and "n_Annotations exNode AnnotationAlphaProvidedIPAddr = Some ''10.0.0.7''"
    by (simp_all add: exInstance_def exNode_def)
  then have known: "fst (GetInstance memoryClient (TrimPrefix ''exoscale://i1'' providerPrefix) exCloud) = Inr inst \<Longrightarrow>
      providedNodeIP (memoryKube exNodes) (inst_Name inst) exCloud =
        (n_Annotations exNode AnnotationAlphaProvidedIPAddr, exCloud)" for inst
    by (auto simp: exInstance_lookup)
  have h: "n_ProviderID exNode = ''exoscale://i1''" "''exoscale://i1'' \<noteq> []"
    "getInstanceOverrideByProviderID exInstances ''exoscale://i1'' \<noteq> None \<or>
     getInstanceOverride (\<lambda>r n. Inr False) exInstances (n_Name exNode) = None"
    "p_client (exProvider exInstances) = Some memoryClient"
    "p_kclient (exProvider exInstances) = Some (memoryKube exNodes)"
    "cc_Instances (p_cfg (exProvider exInstances)) = exInstances"
    "snd (GetInstance memoryClient (TrimPrefix ''exoscale://i1'' providerPrefix) exCloud) = exCloud"
    by (simp_all add: exInstance_lookup exProvider_def)
  from metadata_agrees_with_v1 [OF h known m] show ?thesis by auto
qed

section \<open>Overrides\<close>

text \<open>
  Property C33. An external override found by the name of a node gives out a provider ID under which
  the same override is found again, so a node covered by an override stays covered once it has its
  provider ID; this needs that no two overrides share an identity.
\<close>

theorem override_roundtrip:
  assumes "getInstanceOverride rx cfg nodeName = Some ov" and "ov_External ov"
    and "\<And>o'. o' \<in> set (ic_Overrides cfg) \<Longrightarrow> overrideID o' = overrideID ov \<Longrightarrow> o' = ov"
  shows "InstanceID rx (newInstances p cfg) nodeName w = (Inr (overrideID ov), w) \<and>
     getInstanceOverrideByProviderID cfg (providerPrefix @ overrideID ov) = Some ov \<and>
     InstanceExistsByProviderID (newInstances p cfg) (providerPrefix @ overrideID ov) w = (Inr True, w)"
proof -
  have ov: "ov \<in> set (ic_Overrides cfg)" using getInstanceOverride_in [OF assms(1)] by blast
  from getInstanceOverrideByProviderID_overrideID [OF ov assms(3)]
  have "getInstanceOverrideByProviderID cfg (providerPrefix @ overrideID ov) = Some ov" .
  with assms(1,2) show ?thesis
    by (simp add: InstanceID_def newInstances_def externalOverride_def returnM_def overrideID_def
        InstanceExistsByProviderID_def)
qed

definition exOverride :: instancesOverrideConfig where
  "exOverride = \<lparr>ov_Name = ''/edge-.*/'', ov_External = True, ov_ExternalID = [], ov_Type = [],
     ov_Addresses = [], ov_Region = []\<rparr>"

definition exOverrides :: "bool \<Rightarrow> instancesConfig" where
  "exOverrides only = \<lparr>ic_Disabled = False, ic_Overrides = [exOverride], ic_ExternalOnly = only\<rparr>"

lemma exOverride_found: "getInstanceOverride (\<lambda>r n. Inr True) (exOverrides only) ''edge-1'' = Some exOverride"
  by (simp add: getInstanceOverride_def exOverrides_def exOverride_def matchesName_def matchesRegexp_def
      HasSuffix_def)

theorem override_roundtrip_witness:
  "InstanceID (\<lambda>r n. Inr True) (newInstances (exProvider (exOverrides True)) (exOverrides True)) ''edge-1'' exCloud =
     (Inr (overrideID exOverride), exCloud) \<and>
   getInstanceOverrideByProviderID (exOverrides True) (providerPrefix @ overrideID exOverride) = Some exOverride"
proof -
  have "ov_External exOverride" "\<And>o'. o' \<in> set (ic_Overrides (exOverrides True)) \<Longrightarrow> o' = exOverride"
    by (simp_all add: exOverride_def exOverrides_def)
  then show ?thesis
    using override_roundtrip [OF exOverride_found [of True], of "exProvider (exOverrides True)" exCloud] by blast
qed

text \<open>
  Property C35. With \<^verbatim>\<open>externalOnly\<close> set, no lookup by name, provider ID or node object makes a request
  to the Exoscale API or to the API server: the outside world is as before.
\<close>

theorem external_only_no_requests:
  assumes "ic_ExternalOnly cfg" and "cc_Instances (p_cfg p) = cfg"
  shows "snd (NodeAddresses rx (newInstances p cfg) n w) = w \<and>
    snd (NodeAddressesByProviderID (newInstances p cfg) pid w) = w \<and>
    snd (InstanceID rx (newInstances p cfg) n w) = w \<and>
    snd (i_InstanceType rx (newInstances p cfg) n w) = w \<and>
    snd (InstanceTypeByProviderID (newInstances p cfg) pid w) = w \<and>
    snd (InstanceExistsByProviderID (newInstances p cfg) pid w) = w \<and>
    snd (InstanceShutdownByProviderID (newInstances p cfg) pid w) = w \<and>
    snd (InstanceExists rx (newInstancesV2 p cfg) node w) = w \<and>
    snd (InstanceShutdown rx (newInstancesV2 p cfg) node w) = w \<and>
    snd (i2_InstanceMetadata rx (newInstancesV2 p cfg) node w) = w \<and>
    snd (GetZoneByProviderID (newZones p) pid w) = w \<and>
    snd (GetZoneByNodeName rx (newZones p) n w) = w"
  using assms
  by (simp add: NodeAddresses_def NodeAddressesByProviderID_def InstanceID_def i_InstanceType_def
      InstanceTypeByProviderID_def InstanceExistsByProviderID_def InstanceShutdownByProviderID_def
      InstanceExists_def InstanceShutdown_def i2_InstanceMetadata_def GetZoneByProviderID_def
      GetZoneByNodeName_def newInstances_def newInstancesV2_def newZones_def returnM_def failM_def Let_def
      split: option.split)

theorem external_only_no_requests_witness:
  "snd (InstanceExists (\<lambda>r n. Inr False) (newInstancesV2 (exProvider (exOverrides True)) (exOverrides True)) exNode exCloud) =
   exCloud"
  using external_only_no_requests [of "exOverrides True" "exProvider (exOverrides True)"]
  by (simp add: exOverrides_def exProvider_def)

section \<open>Addresses and labels\<close>

text \<open>
  The addresses of an instance: the host name comes first; the external addresses are the
  public IPv4 and IPv6 address; the only internal address is the one provided on a private network
  if there is one, and otherwise every external address is an internal one, too.
\<close>

theorem addresses_of_instance:
  "hd (instanceAddresses inst ip) = \<lparr>na_Type = ''Hostname'', na_Address = inst_Name inst\<rparr> \<and>
   map na_Address (filter (\<lambda>a. na_Type a = ''ExternalIP'') (instanceAddresses inst ip)) =
     (if inst_PublicIP inst = [] then [] else [IP_String (inst_PublicIP inst)]) @
     (if inst_Ipv6Address inst = [] then [] else [inst_Ipv6Address inst]) \<and>
   map na_Address (filter (\<lambda>a. na_Type a = ''InternalIP'') (instanceAddresses inst ip)) =
     (case ip of Some provided \<Rightarrow> [provided]
      | None \<Rightarrow> map na_Address (filter (\<lambda>a. na_Type a = ''ExternalIP'') (instanceAddresses inst ip)))"
  by (simp add: instanceAddresses_def Let_def split: option.split)

lemma labelReplace_chars: "c \<in> set (labelReplace len pos s) \<Longrightarrow> is_label_char c"
  by (induction len pos s rule: labelReplace.induct) (auto simp: labelMatch_def split: if_splits)

text \<open>\<^verbatim>\<open>(([A-Za-z0-9][-A-Za-z0-9_.]*)?[A-Za-z0-9])?\<close>\<close>

definition labelValid :: "string \<Rightarrow> bool" where
  "labelValid s \<longleftrightarrow> s = [] \<or> (is_alnum (hd s) \<and> is_alnum (last s) \<and> list_all is_label_char s)"

lemma labelReplace_same:
  assumes "list_all is_label_char s" and "pos + length s = len" and "pos = 0 \<Longrightarrow> s = [] \<or> is_alnum (hd s)"
    and "s = [] \<or> is_alnum (last s)"
  shows "labelReplace len pos s = s"
  using assms
proof (induction len pos s rule: labelReplace.induct)
  case (2 len pos c cs)
  then have "\<not> labelMatch len pos c" by (cases cs) (auto simp: labelMatch_def)
  with 2 show ?case by (cases cs) auto
qed simp

text \<open>
  The instance type label contains characters only that a label value may have, and a
  valid label value is left as it is.
\<close>

theorem label_sanitized:
  "list_all is_label_char (labelReplaceAll s) \<and> (labelValid s \<longrightarrow> labelReplaceAll s = s)"
  using labelReplace_chars [of _ "length s" 0 s] labelReplace_same [of s 0 "length s"]
  by (auto simp: labelReplaceAll_def labelValid_def list_all_iff)

theorem label_sanitized_witness: "labelReplaceAll ''gpu2.large'' = ''gpu2.large''"
proof -
  have "labelValid ''gpu2.large''" by code_simp
  with label_sanitized [of "''gpu2.large''"] show ?thesis by blast
qed

text \<open>
  Removing invalid characters does not make a label value valid: only one character is
  removed at each end.
\<close>

theorem label_may_stay_invalid: "\<not> labelValid (labelReplaceAll ''--standard'')"
  by code_simp

section \<open>The node of an instance\<close>

text \<open>
  Property C40. The Kubernetes client returns an object even when the request fails, so the second
  lookup, by the lower-cased name of the instance, never happens: the provided address of a node is
  found only if the node is registered under the exact name of the instance.
\<close>

theorem lower_case_lookup_dead:
  assumes "NodesGet kc = Client_Get request"
  shows "providedNodeIP kc name w = (case request name w of
     (Inl e, w') \<Rightarrow> (None, w') | (Inr node, w') \<Rightarrow> (n_Annotations node AnnotationAlphaProvidedIPAddr, w'))"
proof (cases "request name w")
  case (Pair r w')
  with assms show ?thesis by (cases r) (simp_all add: providedNodeIP_def Client_Get_def newObject_def)
qed

theorem lower_case_lookup_dead_witness:
  "providedNodeIP (memoryKube exNodes) ''Node-1'' exCloud = (None, exCloud)"
proof -
  have "NodesGet (memoryKube exNodes) = Client_Get (\<lambda>n m. case exNodes n of
       None \<Rightarrow> (Inl (ErrKube ''not found''), m) | Some node \<Rightarrow> (Inr node, m))"
    by (simp add: memoryKube_def)
  from lower_case_lookup_dead [OF this] show ?thesis by (simp add: exNodes_def)
qed

end
