(* ===== verification/SKS_Properties.thy ===== *)
theory SKS_Properties
  imports SKS_Agent Instances_Properties
begin

text \<open>
  The properties of the CSR runner: what must hold for a request to be approved, in one event and
  along every run of the loop, how the decision is made when several instances share a name, and
  that the loop does not end when its context is cancelled while the watch fails.
\<close>

section \<open>The checks\<close>

lemma hasGroup_iff: "hasGroup g gs \<longleftrightarrow> g \<in> set gs"
  by (induction gs) auto

lemma hasGroups_iff: "hasGroups rs gs \<longleftrightarrow> set rs \<subseteq> set gs"
  by (induction rs) (auto simp: hasGroup_iff)

lemma hasRequiredGroups_iff:
  "hasRequiredGroups csr \<longleftrightarrow> {''system:authenticated'', ''system:nodes''} \<subseteq> set (csr_Groups csr)"
  by (simp add: hasRequiredGroups_def hasGroups_iff sksAgentNodeCSRValidationRequiredGroups_def)

lemma allContained_iff: "allContained addrs ips \<longleftrightarrow> (\<forall>ip\<in>set ips. IP_String ip \<in> set addrs)"
  by (induction ips) auto

lemma parseCSR_Inr:
  "parseCSR lib d = Inr c \<Longrightarrow>
   \<exists>b. pemDecode lib d = Some b \<and> block_Type b = ''CERTIFICATE REQUEST'' \<and> ParseCertificateRequest lib (block_Bytes b) = Inr c"
  by (auto simp: parseCSR_def split: option.splits if_splits)

text \<open>The addresses that an instance has, with a provided one found in some state of the API server.\<close>

definition addressOf :: "'w kubeClient \<Rightarrow> Instance \<Rightarrow> string \<Rightarrow> bool" where
  "addressOf kc inst a \<longleftrightarrow>
     (inst_PublicIP inst \<noteq> [] \<and> a = IP_String (inst_PublicIP inst)) \<or>
     (inst_Ipv6Address inst \<noteq> [] \<and> a = inst_Ipv6Address inst) \<or>
     (inst_PrivateNetworks inst \<noteq> [] \<and> (\<exists>w. fst (providedNodeIP kc (inst_Name inst) w) = Some a))"

lemma nodeAddrs_addressOf:
  assumes "nodeAddrs kc inst w = (Inr addrs, w')" and "a \<in> set addrs"
  shows "addressOf kc inst a"
  using assms unfolding nodeAddrs_def addressOf_def Let_def
  by (auto split: if_splits prod.splits option.splits) (metis fst_conv)+

text \<open>A request that deserves to be approved, given the instances that the API listed.\<close>

definition justified :: "'w kubeClient \<Rightarrow> certLib \<Rightarrow> Instance list \<Rightarrow> CertificateSigningRequest \<Rightarrow> bool" where
  "justified kc lib instances csr \<longleftrightarrow>
     csr_Conditions csr = [] \<and>
     {''system:authenticated'', ''system:nodes''} \<subseteq> set (csr_Groups csr) \<and>
     (\<exists>b c name inst. pemDecode lib (csr_Request csr) = Some b \<and> block_Type b = ''CERTIFICATE REQUEST'' \<and>
        ParseCertificateRequest lib (block_Bytes b) = Inr c \<and> cert_DNSNames c = [name] \<and>
        inst \<in> set instances \<and> EqualFold (inst_Name inst) name \<and>
        (\<forall>ip\<in>set (cert_IPAddresses c). addressOf kc inst (IP_String ip)))"

lemma checkInstances_True:
  assumes "foldM (checkInstance kc c) instances b w = (Inr True, w')"
  shows "b \<or> (\<exists>inst\<in>set instances. EqualFold (inst_Name inst) (cert_DNSNames c ! 0) \<and>
    (\<forall>ip\<in>set (cert_IPAddresses c). addressOf kc inst (IP_String ip)))"
  using assms
proof (induction instances arbitrary: b w)
  case (Cons inst instances)
  then obtain b1 w1 where one: "checkInstance kc c inst b w = (Inr b1, w1)"
    and rest: "foldM (checkInstance kc c) instances b1 w1 = (Inr True, w')"
    by (auto elim!: bindM_InrE)
  from Cons.IH [OF rest] show ?case
  proof
    assume b1
    show ?thesis
    proof (cases "EqualFold (inst_Name inst) (cert_DNSNames c ! 0)")
      case True
      with one \<open>b1\<close> show ?thesis
        unfolding checkInstance_def
        by (auto elim!: bindM_InrE simp: returnM_def allContained_iff intro: nodeAddrs_addressOf)
    next
      case False
      with one \<open>b1\<close> show ?thesis by (simp add: checkInstance_def returnM_def)
    qed
  qed auto
qed (simp add: returnM_def)

section \<open>Approvals\<close>

text \<open>A world in which the approvals can be seen: only \<^verbatim>\<open>UpdateApproval\<close> adds one.\<close>

locale csr_world =
  fixes cl :: "'w exoscaleClient" and kc :: "'w kubeClient" and cc :: "'w csrClient"
    and approvals :: "'w \<Rightarrow> (string \<times> CertificateSigningRequest) list"
  assumes list_quiet: "approvals (snd (ListInstances cl w)) = approvals w"
    and nodes_quiet: "approvals (snd (NodesGet kc n w)) = approvals w"
    and approval_seen: "approvals (snd (UpdateApproval cc n csr w)) = approvals w @ [(n, csr)]"
begin

lemma provided_quiet: "approvals (snd (providedNodeIP kc n w)) = approvals w"
proof -
  obtain n1 e1 w1 where a: "NodesGet kc n w = ((n1, e1), w1)" by (metis surj_pair)
  obtain n2 e2 w2 where b: "NodesGet kc (ToLower n) w1 = ((n2, e2), w2)" by (metis surj_pair)
  show ?thesis
    using nodes_quiet [of n w] nodes_quiet [of "ToLower n" w1] a b
    by (simp add: providedNodeIP_def split: option.split)
qed

lemma addrs_quiet: "keeps (\<lambda>w. approvals w = A) (nodeAddrs kc inst)"
proof (rule keepsI)
  fix w
  assume "approvals w = A"
  then show "approvals (snd (nodeAddrs kc inst w)) = A"
    using provided_quiet [of "inst_Name inst" w]
    by (auto simp: nodeAddrs_def Let_def split: prod.split option.split)
qed

lemma check_quiet: "keeps (\<lambda>w. approvals w = A) (foldM (checkInstance kc c) instances b)"
  unfolding checkInstance_def by (intro keeps_intros addrs_quiet)

lemma listed_quiet:
  "keeps (\<lambda>w. approvals w = A)
    (catchM (bindM (ListInstances cl) (\<lambda>instances. returnM (Some instances))) (\<lambda>e. returnM None))"
  by (intro keeps_intros) (simp add: keeps_def list_quiet)

text \<open>The first two stages change no approval and justify the third.\<close>

lemma handleCSR_approves:
  assumes "handleCSR cl kc cc lib object w = (r, w')"
  shows "approvals w' = approvals w \<or>
    (\<exists>csr instances w1. object = Some csr \<and> ListInstances cl w = (Inr instances, w1) \<and>
       justified kc lib instances csr \<and> approvals w' = approvals w @ [(csr_Name csr, approved csr)])"
proof (rule ccontr)
  assume not: "\<not> ?thesis"
  obtain csr c where csr: "object = Some csr" "csr_Conditions csr = []" "hasRequiredGroups csr"
    "parseCSR lib (csr_Request csr) = Inr c" "length (cert_DNSNames c) = 1"
    using assms not by (auto simp: handleCSR_def returnM_def split: option.splits if_splits sum.splits)
  obtain l w1 where l: "catchM (bindM (ListInstances cl) (\<lambda>instances. returnM (Some instances))) (\<lambda>e. returnM None) w = (l, w1)"
    by (metis surj_pair)
  have a1: "approvals w1 = approvals w" using keepsD [OF listed_quiet, of w "approvals w"] l by simp
  obtain instances where li: "l = Inr (Some instances)"
    using assms not csr l a1
    by (cases l) (auto simp: handleCSR_def bindM_def returnM_def split: option.splits)
  then have listed: "ListInstances cl w = (Inr instances, w1)"
    using l by (auto simp: catchM_def bindM_def returnM_def split: prod.splits sum.splits if_splits)
  obtain q w2 where q: "foldM (checkInstance kc c) instances False w1 = (q, w2)" by (metis surj_pair)
  have a2: "approvals w2 = approvals w" using keepsD [OF check_quiet, of w1 "approvals w" c instances False] q a1 by simp
  have qT: "q = Inr True"
    using assms not csr l li q a2
    by (cases q) (auto simp: handleCSR_def bindM_def [of "catchM m h" for m h] bindM_def [of "foldM f xs b" for f xs b]
        returnM_def split: if_splits)
  have "w' = snd (UpdateApproval cc (csr_Name csr) (approved csr) w2)"
    using assms csr l li q qT
    by (auto simp: handleCSR_def bindM_def catchM_def returnM_def split: prod.splits sum.splits if_splits)
  then have "approvals w' = approvals w @ [(csr_Name csr, approved csr)]" using approval_seen a2 by simp
  moreover obtain name where "cert_DNSNames c = [name]" using csr(5) by (auto simp: length_Suc_conv)
  then have "justified kc lib instances csr"
    using csr parseCSR_Inr [OF csr(4)] checkInstances_True [OF q [unfolded qT]]
    unfolding justified_def hasRequiredGroups_iff by auto
  ultimately show False using not csr(1) listed by blast
qed

text \<open>Along a run of the loop every approval was justified when it was made.\<close>

definition sound where
  "sound lib w \<longleftrightarrow> (\<forall>(n, csr')\<in>set (approvals w). \<exists>csr instances w0 w1. n = csr_Name csr \<and> csr' = approved csr \<and>
     ListInstances cl w0 = (Inr instances, w1) \<and> justified kc lib instances csr)"

lemma handleEvent_sound:
  assumes "handleEvent cl kc cc lib event w = (r, w')" and "sound lib w"
  shows "sound lib w'"
proof (cases "keepEvent event")
  case True
  with assms(1) have "handleCSR cl kc cc lib (ev_Object event) w = (r, w')" by (simp add: handleEvent_def)
  from handleCSR_approves [OF this] assms(2) show ?thesis unfolding sound_def by fastforce
next
  case False
  with assms show ?thesis by (simp add: handleEvent_def returnM_def)
qed

lemma run_sound:
  assumes "run watchable cl kc cc lib r r'" and "sound lib (r_world r)"
  shows "sound lib (r_world r')"
  using assms(1) unfolding run_def
proof (induction rule: rtranclp_induct)
  case (step r1 r2)
  from step.hyps(2) step.IH show ?case by cases (auto intro: handleEvent_sound)
qed (rule assms(2))

end

section \<open>The recording world provides it\<close>

record 'w agentWorld =
  aw_world :: 'w
  aw_approvals :: "(string \<times> CertificateSigningRequest) list"

definition apart :: "('w \<Rightarrow> 'r \<times> 'w) \<Rightarrow> 'w agentWorld \<Rightarrow> 'r \<times> 'w agentWorld" where
  "apart f a = (case f (aw_world a) of (r, w) \<Rightarrow> (r, a\<lparr>aw_world := w\<rparr>))"

definition agentClient :: "'w exoscaleClient \<Rightarrow> ('w agentWorld) exoscaleClient" where
  "agentClient exo = \<lparr>CreateLoadBalancer = (\<lambda>req. apart (CreateLoadBalancer exo req)),
     AddServiceToLoadBalancer = (\<lambda>i req. apart (AddServiceToLoadBalancer exo i req)),
     DeleteLoadBalancer = (\<lambda>i. apart (DeleteLoadBalancer exo i)),
     DeleteLoadBalancerService = (\<lambda>i sid. apart (DeleteLoadBalancerService exo i sid)),
     GetInstance = (\<lambda>i. apart (GetInstance exo i)), GetInstanceType = (\<lambda>i. apart (GetInstanceType exo i)),
     GetLoadBalancer = (\<lambda>i. apart (GetLoadBalancer exo i)), ListInstances = apart (ListInstances exo),
     ListLoadBalancers = apart (ListLoadBalancers exo), ListSKSClusters = apart (ListSKSClusters exo),
     UpdateLoadBalancer = (\<lambda>i req. apart (UpdateLoadBalancer exo i req)),
     UpdateLoadBalancerService = (\<lambda>i sid req. apart (UpdateLoadBalancerService exo i sid req)),
     Wait = (\<lambda>oper states. apart (Wait exo oper states))\<rparr>"

definition agentKube :: "'w kubeClient \<Rightarrow> ('w agentWorld) kubeClient" where
  "agentKube kc = \<lparr>NodesGet = (\<lambda>n. apart (NodesGet kc n)), ServicesPatch = (\<lambda>ns n p. apart (ServicesPatch kc ns n p))\<rparr>"

definition agentCSR :: "'w csrClient \<Rightarrow> ('w agentWorld) csrClient" where
  "agentCSR cc = \<lparr>UpdateApproval = (\<lambda>n csr a. case UpdateApproval cc n csr (aw_world a) of (r, w) \<Rightarrow>
     (r, \<lparr>aw_world = w, aw_approvals = aw_approvals a @ [(n, csr)]\<rparr>))\<rparr>"

lemma apart_approvals [simp]: "aw_approvals (snd (apart f a)) = aw_approvals a"
  by (simp add: apart_def split: prod.split)

interpretation agent: csr_world "agentClient exo" "agentKube kc" "agentCSR cc" aw_approvals for exo kc cc
  by unfold_locales (simp_all add: agentClient_def agentKube_def agentCSR_def split: prod.split)

definition runner :: "'w \<Rightarrow> 'w agentWorld runner" where
  "runner w = \<lparr>r_pc = Watch, r_cancelled = False, r_world = \<lparr>aw_world = w, aw_approvals = []\<rparr>\<rparr>"

section \<open>Properties\<close>

text \<open>
  Property C8. Along every run of the loop, whatever events, failures and cancellations it meets, an approval
  is sent only for a request that has no condition yet, that comes from a member of both required
  groups, whose PEM block is a certificate request for exactly one DNS name, and for which the
  Exoscale API listed an instance of that name (up to case) that has every IP address of the
  request. The approval adds one condition and changes nothing else.
\<close>

theorem approvals_sound:
  assumes "run watchable (agentClient exo) (agentKube kc) (agentCSR cc) lib (runner w) r"
    and "(n, csr') \<in> set (aw_approvals (r_world r))"
  shows "\<exists>csr instances w0 w1. n = csr_Name csr \<and> csr' = approved csr \<and>
     ListInstances (agentClient exo) w0 = (Inr instances, w1) \<and> justified (agentKube kc) lib instances csr"
proof -
  have "agent.sound exo kc lib (r_world (runner w))" by (simp add: agent.sound_def runner_def)
  from agent.run_sound [OF assms(1) this] assms(2) show ?thesis unfolding agent.sound_def by blast
qed

definition exLibCSR :: certLib where
  "exLibCSR = \<lparr>pemDecode = (\<lambda>d. Some \<lparr>block_Type = ''CERTIFICATE REQUEST'', block_Bytes = d\<rparr>),
     ParseCertificateRequest = (\<lambda>d. Inr \<lparr>cert_DNSNames = [''NODE-1''], cert_IPAddresses = [[192, 0, 2, 7]]\<rparr>)\<rparr>"

definition exCSR :: CertificateSigningRequest where
  "exCSR = \<lparr>csr_Name = ''csr-1'', csr_Groups = [''system:nodes'', ''system:authenticated''], csr_Request = ''pem'',
     csr_Conditions = []\<rparr>"

definition exCSRClient :: "memory csrClient" where
  "exCSRClient = \<lparr>UpdateApproval = (\<lambda>n c. returnM ())\<rparr>"

definition exAgentWorld :: "(string \<times> CertificateSigningRequest) list \<Rightarrow> memory agentWorld" where
  "exAgentWorld l = \<lparr>aw_world = exCloud, aw_approvals = l\<rparr>"

lemma exNode_names: "EqualFold ''node-1'' ''NODE-1''"
  by code_simp

lemma exCSR_approved:
  "handleEvent (agentClient memoryClient) (agentKube (memoryKube exNodes)) (agentCSR exCSRClient) exLibCSR
     \<lparr>ev_Type = ''ADDED'', ev_Object = Some exCSR\<rparr> (exAgentWorld []) =
   (Inr True, exAgentWorld [(''csr-1'', approved exCSR)])"
proof -
  have list: "ListInstances (agentClient memoryClient) (exAgentWorld []) = (Inr [exInstance], exAgentWorld [])"
    by (simp add: agentClient_def apart_def memoryClient_def getM_def exAgentWorld_def exCloud_def)
  have provided: "providedNodeIP (agentKube (memoryKube exNodes)) ''node-1'' (exAgentWorld []) =
      (Some ''10.0.0.7'', exAgentWorld [])"
    by (simp add: providedNodeIP_def agentKube_def apart_def memoryKube_def Client_Get_def exNodes_def exNode_def exAgentWorld_def)
  have "nodeAddrs (agentKube (memoryKube exNodes)) exInstance (exAgentWorld []) =
      (Inr [''192.0.2.7'', ''10.0.0.7''], exAgentWorld [])"
    using provided by (simp add: nodeAddrs_def exInstance_def ip_eval)
  moreover have "inst_Name exInstance = ''node-1''" by (simp add: exInstance_def)
  moreover have "allContained [''192.0.2.7'', ''10.0.0.7''] [[192, 0, 2, 7]]" by (simp add: ip_eval)
  ultimately have check: "foldM (checkInstance (agentKube (memoryKube exNodes))
      \<lparr>cert_DNSNames = [''NODE-1''], cert_IPAddresses = [[192, 0, 2, 7]]\<rparr>) [exInstance] False (exAgentWorld []) =
      (Inr True, exAgentWorld [])"
    using exNode_names by (simp add: checkInstance_def bindM_def returnM_def)
  have csr: "csr_Conditions exCSR = []" "hasRequiredGroups exCSR" "csr_Name exCSR = ''csr-1''"
    "parseCSR exLibCSR (csr_Request exCSR) = Inr \<lparr>cert_DNSNames = [''NODE-1''], cert_IPAddresses = [[192, 0, 2, 7]]\<rparr>"
    by (simp_all add: exCSR_def hasRequiredGroups_iff parseCSR_def exLibCSR_def)
  show ?thesis
    using list check
    by (simp add: handleEvent_def keepEvent_def handleCSR_def csr bindM_def catchM_def returnM_def agentCSR_def
        exCSRClient_def exAgentWorld_def del: foldM.simps)
qed

lemma exRunner_run:
  "run (\<lambda>_. True) (agentClient memoryClient) (agentKube (memoryKube exNodes)) (agentCSR exCSRClient) exLibCSR
     (runner exCloud) \<lparr>r_pc = Select, r_cancelled = False, r_world = exAgentWorld [(''csr-1'', approved exCSR)]\<rparr>"
proof -
  let ?h = "handleEvent (agentClient memoryClient) (agentKube (memoryKube exNodes)) (agentCSR exCSRClient) exLibCSR"
  let ?r0 = "runner exCloud" and ?r1 = "(runner exCloud)\<lparr>r_pc := Select\<rparr>"
  have w: "r_world ?r1 = exAgentWorld []" by (simp add: runner_def exAgentWorld_def)
  have "runStep (\<lambda>_. True) ?h ?r0 ?r1" by (rule runStep.watch_opens) (simp_all add: runner_def)
  moreover have "runStep (\<lambda>_. True) ?h ?r1 (?r1\<lparr>r_world := exAgentWorld [(''csr-1'', approved exCSR)]\<rparr>)"
  proof (rule runStep.select_event [where event = "\<lparr>ev_Type = ''ADDED'', ev_Object = Some exCSR\<rparr>" and b = True])
    show "?h \<lparr>ev_Type = ''ADDED'', ev_Object = Some exCSR\<rparr> (r_world ?r1) =
        (Inr True, exAgentWorld [(''csr-1'', approved exCSR)])" by (simp only: w exCSR_approved)
  qed simp
  ultimately have "(runStep (\<lambda>_. True) ?h)\<^sup>*\<^sup>* ?r0 (?r1\<lparr>r_world := exAgentWorld [(''csr-1'', approved exCSR)]\<rparr>)"
    by (meson converse_rtranclp_into_rtranclp rtranclp.rtrancl_refl)
  then show ?thesis by (simp add: run_def runner_def)
qed

theorem approvals_sound_witness:
  "\<exists>csr instances w0 w1. ''csr-1'' = csr_Name csr \<and> approved exCSR = approved csr \<and>
     ListInstances (agentClient memoryClient) w0 = (Inr instances, w1) \<and>
     justified (agentKube (memoryKube exNodes)) exLibCSR instances csr"
  using approvals_sound [OF exRunner_run, of "''csr-1''" "approved exCSR"] by (simp add: exAgentWorld_def)

text \<open>The addresses that a lookup finds, when a lookup does not change the API server.\<close>

definition addrsAt :: "'w kubeClient \<Rightarrow> Instance \<Rightarrow> 'w \<Rightarrow> string list" where
  "addrsAt kc inst w = (case fst (nodeAddrs kc inst w) of Inl e \<Rightarrow> [] | Inr addrs \<Rightarrow> addrs)"

lemma nodeAddrs_pure:
  assumes "\<And>n. snd (NodesGet kc n w) = w"
  shows "nodeAddrs kc inst w = (Inr (addrsAt kc inst w), w)"
proof -
  have "snd (providedNodeIP kc (inst_Name inst) w) = w"
    using assms [of "inst_Name inst"] assms [of "ToLower (inst_Name inst)"]
    by (auto simp: providedNodeIP_def split: prod.splits option.splits)
  then show ?thesis
    by (auto simp: addrsAt_def nodeAddrs_def Let_def split: prod.split option.split)
qed

lemma checkInstance_pure:
  assumes "\<And>n. snd (NodesGet kc n w) = w"
  shows "checkInstance kc c inst b w = (Inr (if EqualFold (inst_Name inst) (cert_DNSNames c ! 0)
     then list_all (\<lambda>ip. IP_String ip \<in> set (addrsAt kc inst w)) (cert_IPAddresses c) else b), w)"
  by (simp add: checkInstance_def bindM_def returnM_def nodeAddrs_pure [OF assms] allContained_iff list_all_iff)

lemma find_snoc:
  "List.find P (xs @ [x]) = (case List.find P xs of None \<Rightarrow> if P x then Some x else None | Some y \<Rightarrow> Some y)"
  by (induction xs) auto

text \<open>
  When several instances share the name in the request, the last one that the API lists
  decides alone: the request is accepted if and only if that instance has every address.
\<close>

theorem last_instance_decides:
  assumes "\<And>n. snd (NodesGet kc n w) = w"
  shows "foldM (checkInstance kc c) instances b w = (Inr
    (case List.find (\<lambda>inst. EqualFold (inst_Name inst) (cert_DNSNames c ! 0)) (rev instances) of
       None \<Rightarrow> b
     | Some inst \<Rightarrow> list_all (\<lambda>ip. IP_String ip \<in> set (addrsAt kc inst w)) (cert_IPAddresses c)), w)"
proof (induction instances arbitrary: b)
  case (Cons inst instances)
  let ?P = "\<lambda>inst. EqualFold (inst_Name inst) (cert_DNSNames c ! 0)"
  have "List.find ?P (rev (inst # instances)) = (case List.find ?P (rev instances) of
      None \<Rightarrow> if ?P inst then Some inst else None | Some i \<Rightarrow> Some i)"
    by (simp add: find_snoc)
  then show ?case
    by (simp add: bindM_def checkInstance_pure [OF assms] Cons split: option.split)
qed (simp add: returnM_def)

theorem last_instance_decides_witness:
  "\<exists>b. foldM (checkInstance (memoryKube exNodes)
     \<lparr>cert_DNSNames = [''NODE-1''], cert_IPAddresses = [[192, 0, 2, 7]]\<rparr>) [exInstance, exInstance] False exCloud = (Inr b, exCloud)"
proof -
  have "\<And>n. snd (NodesGet (memoryKube exNodes) n exCloud) = exCloud"
    by (simp add: memoryKube_def Client_Get_def split: option.split)
  from last_instance_decides [OF this] show ?thesis by blast
qed

text \<open>
  Which requests are approved, as a specification: the last listed instance with the name in the request has
  all addresses of the request.
\<close>

definition approvable :: "'w kubeClient \<Rightarrow> certLib \<Rightarrow> Instance list \<Rightarrow> 'w \<Rightarrow> CertificateSigningRequest \<Rightarrow> bool" where
  "approvable kc lib instances w csr \<longleftrightarrow> csr_Conditions csr = [] \<and>
     {''system:authenticated'', ''system:nodes''} \<subseteq> set (csr_Groups csr) \<and>
     (case parseCSR lib (csr_Request csr) of
        Inl e \<Rightarrow> False
      | Inr c \<Rightarrow> (case cert_DNSNames c of
          [name] \<Rightarrow> (case List.find (\<lambda>inst. EqualFold (inst_Name inst) name) (rev instances) of
            None \<Rightarrow> False
          | Some inst \<Rightarrow> list_all (\<lambda>ip. IP_String ip \<in> set (addrsAt kc inst w)) (cert_IPAddresses c))
        | _ \<Rightarrow> False))"

lemma handleCSR_exact:
  assumes list: "ListInstances cl w = (Inr instances, w)" and reads: "\<And>n. snd (NodesGet kc n w) = w"
  shows "handleCSR cl kc cc lib (Some csr) w =
    (if approvable kc lib instances w csr
     then catchM (bindM (UpdateApproval cc (csr_Name csr) (approved csr)) (\<lambda>_. returnM True)) (\<lambda>e. returnM False) w
     else (Inr False, w))"
proof (cases "csr_Conditions csr = [] \<and> hasRequiredGroups csr")
  case pending: True
  show ?thesis
  proof (cases "parseCSR lib (csr_Request csr)")
    case (Inl e)
    with pending show ?thesis by (simp add: handleCSR_def approvable_def returnM_def)
  next
    case c: (Inr c)
    show ?thesis
    proof (cases "\<exists>name. cert_DNSNames c = [name]")
      case True
      then obtain name where name: "cert_DNSNames c = [name]" by blast
      have "catchM (bindM (ListInstances cl) (\<lambda>instances. returnM (Some instances))) (\<lambda>e. returnM None) w =
          (Inr (Some instances), w)" using list by (simp add: catchM_def bindM_def returnM_def)
      with pending c name last_instance_decides [OF reads, of c instances False] show ?thesis
        by (auto simp: handleCSR_def approvable_def hasRequiredGroups_iff bindM_run returnM_def split: option.split)
    next
      case False
      then have "length (cert_DNSNames c) \<noteq> 1" by (auto simp: length_Suc_conv)
      with False pending c show ?thesis
        by (auto simp: handleCSR_def approvable_def returnM_def split: list.split)
    qed
  qed
next
  case False
  then show ?thesis by (auto simp: handleCSR_def approvable_def hasRequiredGroups_iff returnM_def)
qed

text \<open>
  Property C9. The runner approves exactly the requests it should: given what the API lists, and lookups that change
  nothing, an event sends an approval if and only if it adds a request without conditions, of a member of both groups,
  for one DNS name, and the last listed instance of that name has every address of the request. An approval that
  fails is passed over, and every other event leaves everything as it is.
\<close>

theorem approvals_exact:
  assumes "ListInstances cl w = (Inr instances, w)" and "\<And>n. snd (NodesGet kc n w) = w"
  shows "handleEvent cl kc cc lib event w =
    (case ev_Object event of
       Some csr \<Rightarrow>
         if ev_Type event = ''ADDED'' \<and> approvable kc lib instances w csr
         then (case UpdateApproval cc (csr_Name csr) (approved csr) w of
                 (Inr _, w') \<Rightarrow> (Inr True, w')
               | (Inl e, w') \<Rightarrow> (if is_panic e then Inl e else Inr False, w'))
         else (Inr False, w)
     | None \<Rightarrow> (Inr False, w))"
proof (cases "ev_Object event")
  case None
  then show ?thesis by (simp add: handleEvent_def handleCSR_def returnM_def)
next
  case (Some csr)
  with handleCSR_exact [OF assms, of cc lib csr] show ?thesis
    by (auto simp: handleEvent_def keepEvent_def catchM_def bindM_def returnM_def split: prod.split sum.split)
qed

theorem approvals_exact_witness:
  "handleEvent memoryClient (memoryKube exNodes) exCSRClient exLibCSR \<lparr>ev_Type = ''ADDED'', ev_Object = Some exCSR\<rparr> exCloud =
     (Inr True, exCloud) \<and>
   handleEvent memoryClient (memoryKube exNodes) exCSRClient exLibCSR
     \<lparr>ev_Type = ''ADDED'', ev_Object = Some (exCSR\<lparr>csr_Groups := [''system:nodes'']\<rparr>)\<rparr> exCloud = (Inr False, exCloud)"
proof -
  have list: "ListInstances memoryClient exCloud = (Inr [exInstance], exCloud)"
    by (simp add: memoryClient_def getM_def exCloud_def)
  have reads: "\<And>n. snd (NodesGet (memoryKube exNodes) n exCloud) = exCloud"
    by (simp add: memoryKube_def Client_Get_def split: option.split)
  have addrs: "''192.0.2.7'' \<in> set (addrsAt (memoryKube exNodes) exInstance exCloud)"
    by (simp add: addrsAt_def nodeAddrs_def exInstance_def ip_eval split: prod.split option.split)
  have "inst_Name exInstance = ''node-1''" by (simp add: exInstance_def)
  then have "approvable (memoryKube exNodes) exLibCSR [exInstance] exCloud exCSR"
    using addrs exNode_names by (simp add: approvable_def parseCSR_def exLibCSR_def exCSR_def ip_eval)
  moreover have "\<not> approvable (memoryKube exNodes) exLibCSR [exInstance] exCloud (exCSR\<lparr>csr_Groups := [''system:nodes'']\<rparr>)"
    by (simp add: approvable_def)
  ultimately show ?thesis
    by (simp add: approvals_exact [OF list reads] exCSRClient_def returnM_def)
qed

text \<open>
  Property C36. The runner does not follow its context: once it is cancelled while the runner is not in the
  event loop, and a watch with a cancelled context fails, the runner goes on trying for ever and
  never returns.
\<close>

theorem cancelled_runner_spins:
  assumes "run watchable cl kc cc lib r r'" and "\<not> watchable True"
    and "r_cancelled r" and "r_pc r = Watch \<or> r_pc r = Sleep"
  shows "r_cancelled r' \<and> (r_pc r' = Watch \<or> r_pc r' = Sleep)"
  using assms(1) unfolding run_def
proof (induction rule: rtranclp_induct)
  case (step r1 r2)
  from step.hyps(2) step.IH assms(2) show ?case by cases auto
qed (use assms in simp)

theorem cancelled_runner_spins_witness:
  "\<exists>r'. run Not (agentClient memoryClient) (agentKube (memoryKube exNodes)) (agentCSR exCSRClient) exLibCSR
      ((runner exCloud)\<lparr>r_cancelled := True\<rparr>) r' \<and> r' \<noteq> (runner exCloud)\<lparr>r_cancelled := True\<rparr> \<and>
    r_cancelled r' \<and> (r_pc r' = Watch \<or> r_pc r' = Sleep)"
proof -
  let ?h = "handleEvent (agentClient memoryClient) (agentKube (memoryKube exNodes)) (agentCSR exCSRClient) exLibCSR"
  let ?r = "(runner exCloud)\<lparr>r_cancelled := True\<rparr>"
  have "runStep Not ?h ?r (?r\<lparr>r_pc := Sleep\<rparr>)" by (rule runStep.watch_fails) (simp add: runner_def)
  then have "run Not (agentClient memoryClient) (agentKube (memoryKube exNodes)) (agentCSR exCSRClient) exLibCSR ?r (?r\<lparr>r_pc := Sleep\<rparr>)"
    by (simp add: run_def)
  with cancelled_runner_spins [OF this] show ?thesis by (intro exI [of _ "?r\<lparr>r_pc := Sleep\<rparr>"]) (simp add: runner_def)
qed

text \<open>
  The agent starts the runners in the order of the list up to the first one it does not
  know, which it reports; the ones before it keep running.
\<close>

theorem runSKSAgent_prefix:
  "runSKSAgent rs = (takeWhile (\<lambda>r. r = ''node-csr-validation'') rs,
     case dropWhile (\<lambda>r. r = ''node-csr-validation'') rs of
       [] \<Rightarrow> Inr () | r # _ \<Rightarrow> Inl (Errorf ''unsupported runner %q'' [r]))"
  by (induction rs) (auto simp: sksAgentNodeCSRValidation_def)

end
