(* ===== verification/LB_Behaviour.thy ===== *)
theory LB_Behaviour
  imports LB_Properties
begin

text \<open>
  Further properties of the load balancer controller: the desired services that it computes from the
  annotations, that a load balancer in sync is left alone, how the Instance Pool is inferred, and how
  often a load balancer is created.
\<close>

section \<open>The desired services\<close>

lemma fmt_d_chars: "c \<in> set (fmt_d n) \<Longrightarrow> is_digit c \<or> c = CHR ''-''"
  by (auto simp: fmt_d_def dest: show_nat_digits split: if_splits)

lemma serviceName_inject:
  assumes "serviceName s p = serviceName s q"
    and "sp_Protocol p \<in> {''TCP'', ''UDP''}" and "sp_Protocol q \<in> {''TCP'', ''UDP''}"
  shows "sp_Port p = sp_Port q \<and> sp_Protocol p = sp_Protocol q"
proof -
  have u: "CHR ''u'' \<notin> set (fmt_d n)" for n
    using fmt_d_chars [of "CHR ''u''" n] by (auto simp: is_digit_def byte_def)
  have neq: "fmt_d m \<noteq> fmt_d n @ ''-udp''" for m n
    using u [of m] by (metis append_is_Nil_conv in_set_conv_decomp list.set_intros(1,2) set_append UnCI)
  show ?thesis
    using assms(2,3) assms(1) neq [of "sp_Port p" "sp_Port q"] neq [of "sp_Port q" "sp_Port p"]
    by (elim insertE emptyE) (simp_all add: serviceName_def Let_def)
qed

text \<open>
  Property C30. The services that the controller asks for have distinct names, which it relies on when it looks
  a new service up by its name.
\<close>

theorem service_names_distinct:
  assumes "buildLoadBalancerFromAnnotations s = Inr lb"
    and "distinct (map (\<lambda>p. (sp_Port p, sp_Protocol p)) (s_Ports s))"
  shows "distinct (map svc_Name (lb_Services lb))"
proof (cases "length (s_Ports s) = 1")
  case True
  have "length (lb_Services lb) = 1"
    using arg_cong [OF buildLoadBalancer_keys [OF assms(1)], of length] True by simp
  then show ?thesis by (auto simp: length_Suc_conv)
next
  case False
  obtain i t r where b: "map (buildLoadBalancerService s i t r) (s_Ports s) = map Inr (lb_Services lb)"
    using assms(1) by (rule buildLoadBalancer_Inr)
  have prot: "sp_Protocol p \<in> {''TCP'', ''UDP''}" if "p \<in> set (s_Ports s)" for p
  proof -
    have "buildLoadBalancerService s i t r p \<in> set (map Inr (lb_Services lb))"
      using that unfolding b [symmetric] by simp
    then show ?thesis using buildLoadBalancerService_key by fastforce
  qed
  have "map svc_Name (lb_Services lb) = map (serviceName s) (s_Ports s)"
    using b by (rule map_Inr_pointwise)
      (use False in \<open>auto simp: buildLoadBalancerService_def Let_def split: sum.splits if_splits\<close>)
  moreover have "distinct (map (serviceName s) (s_Ports s))"
    using assms(2) serviceName_inject prot unfolding distinct_map inj_on_def by (metis (no_types, lifting))
  ultimately show ?thesis by simp
qed

definition exPorts :: "ServicePort list" where
  "exPorts = [exPort, \<lparr>sp_Port = 80, sp_NodePort = 30081, sp_Protocol = ''UDP''\<rparr>]"

lemma build_exPorts: "\<exists>lb. buildLoadBalancerFromAnnotations (exService exPool exPorts) = Inr lb"
  by (simp add: build_eval example_defs exPorts_def)

theorem service_names_distinct_witness:
  "\<exists>lb. buildLoadBalancerFromAnnotations (exService exPool exPorts) = Inr lb \<and> distinct (map svc_Name (lb_Services lb))"
proof -
  obtain lb where lb: "buildLoadBalancerFromAnnotations (exService exPool exPorts) = Inr lb" using build_exPorts by blast
  have "distinct (map (\<lambda>p. (sp_Port p, sp_Protocol p)) (s_Ports (exService exPool exPorts)))"
    by (simp add: exPorts_def exPort_def)
  with service_names_distinct [OF lb] lb show ?thesis by blast
qed

lemma buildLoadBalancer_services:
  assumes "buildLoadBalancerFromAnnotations s = Inr lb" and "d \<in> set (lb_Services lb)"
  obtains hcI hcT hcR p where "p \<in> set (s_Ports s)" and "buildLoadBalancerService s hcI hcT hcR p = Inr d"
    and "ParseDuration (getAnnotation s annotationLoadBalancerServiceHealthCheckInterval
           defaultNLBServiceHealthcheckInterval) = Inr hcI"
    and "ParseDuration (getAnnotation s annotationLoadBalancerServiceHealthCheckTimeout
           defaultNLBServiceHealthCheckTimeout) = Inr hcT"
proof -
  obtain hcI hcT hcR where b: "map (buildLoadBalancerService s hcI hcT hcR) (s_Ports s) = map Inr (lb_Services lb)"
    and "ParseDuration (getAnnotation s annotationLoadBalancerServiceHealthCheckInterval
           defaultNLBServiceHealthcheckInterval) = Inr hcI"
    and "ParseDuration (getAnnotation s annotationLoadBalancerServiceHealthCheckTimeout
           defaultNLBServiceHealthCheckTimeout) = Inr hcT"
    using assms(1) by (auto simp: buildLoadBalancerFromAnnotations_def buildServices_Inr split: sum.splits)
  moreover have "Inr d \<in> set (map (buildLoadBalancerService s hcI hcT hcR) (s_Ports s))"
    unfolding b using assms(2) by simp
  then obtain p where "p \<in> set (s_Ports s)" "buildLoadBalancerService s hcI hcT hcR p = Inr d" by auto
  ultimately show thesis using that by blast
qed

text \<open>
  Property C31. The health check port annotation is read as a number and cut to sixteen bits without a check:
  every desired service gets the number modulo 65536 as its health check port.
\<close>

theorem healthcheck_port_wraps:
  assumes "buildLoadBalancerFromAnnotations s = Inr lb" and "d \<in> set (lb_Services lb)"
    and "s_Annotations s annotationLoadBalancerServiceHealthCheckPort = Some (fmt_d n)"
    and "- 9223372036854775808 \<le> n" and "n \<le> 9223372036854775807"
  shows "\<exists>h. svc_Healthcheck d = Some h \<and> hc_Port h = n mod 65536"
proof -
  obtain hcI hcT hcR p where d: "buildLoadBalancerService s hcI hcT hcR p = Inr d"
    using assms(1,2) by (rule buildLoadBalancer_services)
  have "fmt_d n \<noteq> []" by (simp add: fmt_d_def)
  then have "healthcheckPort s p = Inr (word_of_int n)"
    using assms(3-5) by (simp add: healthcheckPort_def getAnnotation_def Atoi_fmt_d)
  with d show ?thesis
    by (auto simp: buildLoadBalancerService_def Let_def uint_word_of_int split: if_splits)
qed

definition exHcPort :: "(string \<times> string) list" where
  "exHcPort = (annotationLoadBalancerServiceHealthCheckPort, fmt_d 70000) # exPool"

lemma Atoi_seventy_thousand: "Atoi ''70000'' = Inr 70000"
  using Atoi_fmt_d [of 70000] by (simp add: fmt_d_def show_nat_eval)

lemma build_exHcPort:
  "\<exists>lb d. buildLoadBalancerFromAnnotations (exService exHcPort [exPort]) = Inr lb \<and> d \<in> set (lb_Services lb)"
  by (simp add: build_eval example_defs exHcPort_def Atoi_seventy_thousand)

theorem healthcheck_port_wraps_witness:
  "\<exists>lb d h. buildLoadBalancerFromAnnotations (exService exHcPort [exPort]) = Inr lb \<and> d \<in> set (lb_Services lb) \<and>
     svc_Healthcheck d = Some h \<and> hc_Port h = 4464"
proof -
  obtain lb d where lb: "buildLoadBalancerFromAnnotations (exService exHcPort [exPort]) = Inr lb"
    and d: "d \<in> set (lb_Services lb)" using build_exHcPort by blast
  have "s_Annotations (exService exHcPort [exPort]) annotationLoadBalancerServiceHealthCheckPort = Some (fmt_d 70000)"
    by (simp add: exService_def exHcPort_def)
  from healthcheck_port_wraps [OF lb d this] lb d show ?thesis by auto
qed

text \<open>
  A health check interval and timeout of whole seconds, written as \<^verbatim>\<open>"<n>s"\<close>, arrive unchanged in
  every desired service, for every duration that fits.
\<close>

theorem healthcheck_durations:
  assumes "buildLoadBalancerFromAnnotations s = Inr lb" and "d \<in> set (lb_Services lb)"
    and "s_Annotations s annotationLoadBalancerServiceHealthCheckInterval = Some (show_nat m @ ''s'')"
    and "s_Annotations s annotationLoadBalancerServiceHealthCheckTimeout = Some (show_nat n @ ''s'')"
    and "m \<le> 9223372036" and "n \<le> 9223372036"
  shows "\<exists>h. svc_Healthcheck d = Some h \<and> hc_Interval h = int m \<and> hc_Timeout h = int n"
proof -
  obtain hcI hcT hcR p where d: "buildLoadBalancerService s hcI hcT hcR p = Inr d"
    and "ParseDuration (getAnnotation s annotationLoadBalancerServiceHealthCheckInterval
           defaultNLBServiceHealthcheckInterval) = Inr hcI"
    and "ParseDuration (getAnnotation s annotationLoadBalancerServiceHealthCheckTimeout
           defaultNLBServiceHealthCheckTimeout) = Inr hcT"
    using assms(1,2) by (rule buildLoadBalancer_services)
  then have "hcI = int m * 1000000000" "hcT = int n * 1000000000"
    using assms(3-6) by (simp_all add: getAnnotation_Some ParseDuration_seconds)
  then have "Seconds_int64 hcI = int m" "Seconds_int64 hcT = int n"
    using Seconds_int64_whole assms(5,6) by simp_all
  with d show ?thesis
    by (auto simp: buildLoadBalancerService_def Let_def split: sum.splits if_splits)
qed

definition exDurations :: "(string \<times> string) list" where
  "exDurations = (annotationLoadBalancerServiceHealthCheckInterval, show_nat 30 @ ''s'') #
     (annotationLoadBalancerServiceHealthCheckTimeout, show_nat 5 @ ''s'') # exPool"

lemma duration_thirty: "ParseDuration ''30s'' = Inr 30000000000"
  using ParseDuration_seconds [of 30] by (simp add: show_nat_eval)

lemma build_exDurations:
  "\<exists>lb d. buildLoadBalancerFromAnnotations (exService exDurations [exPort]) = Inr lb \<and> d \<in> set (lb_Services lb)"
  by (simp add: build_eval example_defs exDurations_def duration_thirty)

theorem healthcheck_durations_witness:
  "\<exists>lb d h. buildLoadBalancerFromAnnotations (exService exDurations [exPort]) = Inr lb \<and> d \<in> set (lb_Services lb) \<and>
     svc_Healthcheck d = Some h \<and> hc_Interval h = 30 \<and> hc_Timeout h = 5"
proof -
  obtain lb d where lb: "buildLoadBalancerFromAnnotations (exService exDurations [exPort]) = Inr lb"
    and d: "d \<in> set (lb_Services lb)" using build_exDurations by blast
  have "s_Annotations (exService exDurations [exPort]) annotationLoadBalancerServiceHealthCheckInterval = Some (show_nat 30 @ ''s'')"
    "s_Annotations (exService exDurations [exPort]) annotationLoadBalancerServiceHealthCheckTimeout = Some (show_nat 5 @ ''s'')"
    by (simp_all add: exService_def exDurations_def annotation_defs del: show_nat.simps)
  from healthcheck_durations [OF lb d this] lb d show ?thesis by auto
qed

section \<open>A load balancer in sync\<close>

text \<open>Nothing to do: every desired service has its counterpart, and no other service has to go.\<close>

definition inSync :: "bool \<Rightarrow> LoadBalancer \<Rightarrow> LoadBalancer \<Rightarrow> bool" where
  "inSync external cur spec \<longleftrightarrow>
     (external \<or> \<not> isLoadBalancerUpdated cur spec) \<and>
     distinct (map serviceKey (lb_Services cur)) \<and>
     list_all (\<lambda>c. \<not> unwanted external (lb_Services spec) c) (lb_Services cur) \<and>
     list_all (\<lambda>d. list_ex (\<lambda>c. serviceKey c = serviceKey d \<and>
        \<not> isLoadBalancerServiceUpdated c (d\<lparr>svc_ID := svc_ID c\<rparr>)) (lb_Services cur)) (lb_Services spec)"

lemma firstLoop_quiet:
  assumes "list_all (\<lambda>c. \<not> unwanted external (lb_Services spec) c) xs"
  shows "foldM (firstLoopBody cl external cur spec) xs (keptMap (lb_Services spec) vs) st =
    (Inr (keptMap (lb_Services spec) (vs @ xs)), st)"
  using assms
proof (induction xs arbitrary: vs)
  case (Cons x xs)
  then have "firstLoopBody cl external cur spec x (keptMap (lb_Services spec) vs) st =
      (Inr (keptMap (lb_Services spec) (vs @ [x])), st)"
    unfolding firstLoopBody_def Let_def find_key_iff by (auto simp: unwanted_def keptMap_snoc returnM_def)
  with Cons show ?case by (simp add: bindM_def)
qed (simp add: returnM_def)

lemma same_pool:
  assumes "\<not> isLoadBalancerServiceUpdated c (d\<lparr>svc_ID := svc_ID c\<rparr>)"
  shows "poolID c = poolID (d\<lparr>svc_ID := svc_ID c\<rparr>)"
proof -
  have "svc_InstancePool (c\<lparr>svc_State := [], svc_HealthcheckStatus := []\<rparr>) =
      svc_InstancePool (d\<lparr>svc_ID := svc_ID c, svc_State := [], svc_HealthcheckStatus := []\<rparr>)"
    using assms by (simp only: isLoadBalancerServiceUpdated_def not_not)
  then show ?thesis by (simp add: poolID_def)
qed

lemma secondLoop_quiet:
  assumes "distinct (map serviceKey (lb_Services cur))"
    and "list_all (\<lambda>d. list_ex (\<lambda>c. serviceKey c = serviceKey d \<and>
        \<not> isLoadBalancerServiceUpdated c (d\<lparr>svc_ID := svc_ID c\<rparr>)) (lb_Services cur)) ds"
    and "set ds \<subseteq> set (lb_Services spec)"
  shows "forM (secondLoopBody cl cur spec (keptMap (lb_Services spec) (lb_Services cur))) ds st = (Inr (), st)"
  using assms(2,3)
proof (induction ds)
  case (Cons d ds)
  then obtain c where c: "c \<in> set (lb_Services cur)" "serviceKey c = serviceKey d"
    "\<not> isLoadBalancerServiceUpdated c (d\<lparr>svc_ID := svc_ID c\<rparr>)" by (auto simp: list_ex_iff)
  then have "keptMap (lb_Services spec) (lb_Services cur) (serviceKey d) = Some c"
    using keptMap_Some [OF assms(1)] Cons.prems(2) by auto
  with c(3) same_pool [OF c(3)] have "secondLoopBody cl cur spec (keptMap (lb_Services spec) (lb_Services cur)) d st = (Inr (), st)"
    by (simp add: secondLoopBody_def Let_def returnM_def)
  with Cons show ?case by (simp add: bindM_def)
qed (simp add: returnM_def)

text \<open>
  A load balancer that is in sync with its Service is left alone: the update reads it and sends
  no other request.
\<close>

theorem in_sync_no_requests:
  assumes "buildLoadBalancerFromAnnotations s = Inr spec" and "lb_ID spec \<noteq> []"
    and "GetLoadBalancer exo (lb_ID spec) w = (Inr cur, w')" and "inSync (isExternal s) cur spec"
  shows "trace (updateLoadBalancer (exoscaleClientMock exo)) s w = [CallGetLoadBalancer (lb_ID spec)]"
proof -
  let ?cl = "exoscaleClientMock exo"
  let ?st0 = "\<lparr>st_service = s, st_world = \<lparr>mock_world = w, Calls = []\<rparr>\<rparr>"
  let ?st1 = "\<lparr>st_service = s, st_world = \<lparr>mock_world = w', Calls = [CallGetLoadBalancer (lb_ID spec)]\<rparr>\<rparr>"
  have get: "callM (GetLoadBalancer ?cl (lb_ID spec)) ?st0 = (Inr cur, ?st1)"
    using assms(3) by (simp add: callM_def exoscaleClientMock_def Called_def)
  have top: "updateTopLevel ?cl (isExternal s) cur spec ?st1 = (Inr (), ?st1)"
    using assms(4) by (auto simp: updateTopLevel_def returnM_def inSync_def)
  have "keptMap (lb_Services spec) [] = Map.empty" by (simp add: keptMap_def fun_eq_iff)
  then have one: "foldM (firstLoopBody ?cl (isExternal s) cur spec) (lb_Services cur) Map.empty ?st1 =
      (Inr (keptMap (lb_Services spec) (lb_Services cur)), ?st1)"
    using firstLoop_quiet [of "isExternal s" spec "lb_Services cur" ?cl cur "[]" ?st1] assms(4) by (simp add: inSync_def)
  have two: "forM (secondLoopBody ?cl cur spec (keptMap (lb_Services spec) (lb_Services cur))) (lb_Services spec) ?st1 =
      (Inr (), ?st1)"
    by (rule secondLoop_quiet) (use assms(4) in \<open>auto simp: inSync_def\<close>)
  have "updateLoadBalancer ?cl ?st0 = (Inr (), ?st1)"
    using assms(1,2) by (simp add: updateLoadBalancer_def bindM_def getM_def liftE_def get top one two)
  then show ?thesis by (simp add: trace_def)
qed

definition exSynced :: memory where
  "exSynced = exMemory\<lparr>mem_nlbs := [(''n1'', exNLB\<lparr>lb_Name := ''k8s-u1'', lb_Description := []\<rparr>)],
     mem_services := [(''n1'', [(''x'', exDesired\<lparr>svc_ID := ''x'', svc_State := ''running''\<rparr>)])]\<rparr>"

theorem in_sync_no_requests_witness:
  "trace (updateLoadBalancer (exoscaleClientMock memoryClient)) (exService exPool [exPort]) exSynced =
   [CallGetLoadBalancer ''n1'']"
proof -
  let ?cur = "exNLB\<lparr>lb_Name := ''k8s-u1'', lb_Description := [],
      lb_Services := [exDesired\<lparr>svc_ID := ''x'', svc_State := ''running''\<rparr>]\<rparr>"
  have get: "GetLoadBalancer memoryClient (lb_ID exSpec) exSynced = (Inr ?cur, exSynced)"
    by (simp add: memory_eval exSynced_def exSpec_def exNLB_def)
  have "\<not> isExternal (exService exPool [exPort])" by (simp add: external_eval example_defs)
  then have "inSync (isExternal (exService exPool [exPort])) ?cur exSpec"
    by (simp add: inSync_def isLoadBalancerUpdated_def exSpec_def unwanted_def serviceKey_def
        isLoadBalancerServiceUpdated_def exDesired_def)
  moreover have "lb_ID exSpec = ''n1''" by (simp add: exSpec_def)
  ultimately show ?thesis using in_sync_no_requests [OF build_exPool _ get] by simp
qed

section \<open>The Instance Pool\<close>

text \<open>The Instance Pool that an instance belongs to.\<close>

definition poolsOf :: "Instance \<Rightarrow> UUID list" where
  "poolsOf inst = (case inst_Manager inst of
     None \<Rightarrow> [] | Some m \<Rightarrow> if mgr_Type m = ''instance-pool'' then [mgr_ID m] else [])"

lemma inferBody_run:
  assumes "GetInstance cl (n_SystemUUID node) (st_world st) = (Inr inst, st_world st)"
  shows "inferBody cl node acc st = (case poolsOf inst of
     [] \<Rightarrow> (Inr acc, st)
   | p # _ \<Rightarrow> if acc \<noteq> [] \<and> p \<noteq> acc
       then (Inl (ErrNew (''multiple Instance Pools detected across cluster Nodes, '' @
                ''an Instance Pool ID must be specified in Service manifest annotations'')), st)
       else (Inr p, st))"
  using assms
  by (auto simp: inferBody_def bindM_def wrapM_def catchM_def callM_def poolsOf_def returnM_def failM_def
      split: option.split)

lemma infer_fold:
  assumes "\<And>node. node \<in> set nodes \<Longrightarrow>
      GetInstance cl (n_SystemUUID node) (st_world st) = (Inr (inst node), st_world st) \<and> [] \<notin> set (poolsOf (inst node))"
  shows "foldM (inferBody cl) nodes acc st = (Inr r, st') \<longleftrightarrow>
    st' = st \<and> set ((if acc = [] then [] else [acc]) @ concat (map (poolsOf \<circ> inst) nodes)) \<subseteq> {r} \<and>
    ((if acc = [] then [] else [acc]) @ concat (map (poolsOf \<circ> inst) nodes) = [] \<longrightarrow> r = [])"
  using assms
proof (induction nodes arbitrary: acc)
  case (Cons node nodes)
  note body = inferBody_run [of cl node st "inst node" acc]
  have g: "GetInstance cl (n_SystemUUID node) (st_world st) = (Inr (inst node), st_world st)"
    "[] \<notin> set (poolsOf (inst node))" using Cons.prems by auto
  show ?case
  proof (cases "poolsOf (inst node)")
    case Nil
    with body g Cons show ?thesis by (simp add: bindM_def)
  next
    case (Cons p ps)
    then have "ps = []" "p \<noteq> []" using g(2) by (auto simp: poolsOf_def split: option.splits if_splits)
    with body g Cons Cons.IH [of p] Cons.prems show ?thesis by (auto simp: bindM_def)
  qed
qed (auto simp: returnM_def)

text \<open>
  Property C29. The Instance Pool is inferred from the nodes exactly when the instances of the nodes belong to
  one Instance Pool, instances outside of any pool aside; the result is that pool.
\<close>

theorem infer_pool_iff:
  assumes "\<And>node. node \<in> set nodes \<Longrightarrow>
      GetInstance cl (n_SystemUUID node) (st_world st) = (Inr (inst node), st_world st) \<and> [] \<notin> set (poolsOf (inst node))"
  shows "inferInstancePool cl nodes st = (Inr r, st') \<longleftrightarrow>
    st' = st \<and> set (concat (map (poolsOf \<circ> inst) nodes)) = {r}"
proof -
  have notNil: "[] \<notin> set (concat (map (poolsOf \<circ> inst) nodes))" using assms by auto
  have "inferInstancePool cl nodes st = (Inr r, st') \<longleftrightarrow> foldM (inferBody cl) nodes [] st = (Inr r, st') \<and> r \<noteq> []"
    by (auto simp: inferInstancePool_def bindM_def returnM_def failM_def split: prod.splits sum.splits if_splits)
  also have "\<dots> \<longleftrightarrow> st' = st \<and> set (concat (map (poolsOf \<circ> inst) nodes)) = {r}"
  proof -
    have only: "set l \<subseteq> {r} \<and> (l = [] \<longrightarrow> r = []) \<and> r \<noteq> [] \<longleftrightarrow> set l = {r}" if "[] \<notin> set l" for l :: "UUID list"
      using that by (cases l) auto
    show ?thesis using infer_fold [OF assms, of nodes "[]" r st'] only [OF notNil] by (simp del: set_concat)
  qed
  finally show ?thesis .
qed

definition exPoolNode :: "string \<Rightarrow> Node" where
  "exPoolNode uuid = \<lparr>n_Name = uuid, n_Annotations = Map.empty, n_ProviderID = [], n_SystemUUID = uuid\<rparr>"

definition exPoolInstance :: "Manager option \<Rightarrow> Instance" where
  "exPoolInstance m = \<lparr>inst_ID = [], inst_InstanceType = None, inst_Ipv6Address = [], inst_Manager = m,
     inst_Name = [], inst_PrivateNetworks = [], inst_PublicIP = [], inst_State = []\<rparr>"

definition exPoolState :: "memory handler_state" where
  "exPoolState = \<lparr>st_service = exService [] [exPort], st_world = exMemory\<lparr>mem_instances :=
     [(''a'', exPoolInstance (Some \<lparr>mgr_ID = ''p1'', mgr_Type = ''instance-pool''\<rparr>)), (''b'', exPoolInstance None)]\<rparr>\<rparr>"

theorem infer_pool_iff_witness:
  "inferInstancePool memoryClient [exPoolNode ''a'', exPoolNode ''b''] exPoolState = (Inr ''p1'', exPoolState)"
proof -
  let ?inst = "\<lambda>node. if n_SystemUUID node = ''a''
      then exPoolInstance (Some \<lparr>mgr_ID = ''p1'', mgr_Type = ''instance-pool''\<rparr>) else exPoolInstance None"
  have "GetInstance memoryClient (n_SystemUUID node) (st_world exPoolState) = (Inr (?inst node), st_world exPoolState) \<and>
      [] \<notin> set (poolsOf (?inst node))" if "node \<in> set [exPoolNode ''a'', exPoolNode ''b'']" for node
    using that by (auto simp: exPoolNode_def memoryClient_def memLookup_def exPoolState_def poolsOf_def exPoolInstance_def)
  from infer_pool_iff [of "[exPoolNode ''a'', exPoolNode ''b'']", OF this]
  show ?thesis by (simp add: exPoolNode_def poolsOf_def exPoolInstance_def)
qed

section \<open>Creation\<close>

fun createsNLB :: "api_call \<Rightarrow> bool" where
  "createsNLB (CallCreateLoadBalancer req) = True"
| "createsNLB c = False"

definition createdAtMost :: "nat \<Rightarrow> 'w mock \<Rightarrow> bool" where
  "createdAtMost n m \<longleftrightarrow> length (filter createsNLB (Calls m)) \<le> n"

lemma keeps_created: "\<not> createsNLB c \<Longrightarrow> keeps (createdAtMost n) (Called c answer)"
  by (auto simp: keeps_def createdAtMost_def Calls_Called)

lemma leads_create: "leads (createdAtMost 0) (createdAtMost 1) (Called c answer)"
  by (auto simp: leads_def createdAtMost_def Calls_Called)

lemma keeps_created_onWorld: "keeps (createdAtMost n) (onWorld f)"
  by (auto simp: keeps_def createdAtMost_def onWorld_def split: prod.split)

interpretation creating: nlb_writes_services "exoscaleClientMock exo" "kubeBeside kc" "\<lambda>_. True" "createdAtMost n" for exo kc n
  by unfold_locales (simp_all add: exoscaleClientMock_def kubeBeside_def keeps_created keeps_created_onWorld)

lemma creating_update: "keeps (onState (\<lambda>_. True) (createdAtMost n)) (updateLoadBalancer (exoscaleClientMock exo))"
proof (rule creating.keeps_updateLoadBalancer_if)
  show "keeps (onState (\<lambda>_. True) (createdAtMost n)) (updateTopLevel (exoscaleClientMock exo) (isExternal s) c u)" for s c u
    unfolding updateTopLevel_def
    by (intro keeps_intros keeps_onState_callM) (simp add: exoscaleClientMock_def keeps_created)
qed

lemma creating_create:
  "leads (onState (\<lambda>_. True) (createdAtMost 0)) (onState (\<lambda>_. True) (createdAtMost 1))
     (createNLB (exoscaleClientMock exo) (kubeBeside kc) lib spec)"
proof -
  let ?I = "onState (\<lambda>_. True) (createdAtMost 0 :: 'a mock \<Rightarrow> bool)"
    and ?J = "onState (\<lambda>_. True) (createdAtMost 1 :: 'a mock \<Rightarrow> bool)"
  have mono: "?I st \<Longrightarrow> ?J st" for st by (simp add: onState_def createdAtMost_def)
  have "leads ?I ?J (callM (CreateLoadBalancer (exoscaleClientMock exo) req))" for req
    using leads_create by (auto simp: leads_def onState_def exoscaleClientMock_def)
  note create = leads_after [OF this]
  show ?thesis
    unfolding createNLB_def
    by (rule leads_before [OF keeps_get mono], assumption, rule leads_if, rule leads_keeps [OF keeps_fail mono],
        assumption, rule create)
      (intro keeps_intros creating.keeps_reads creating.keeps_annotate)
qed

text \<open>
  Property C26. One run of \<^verbatim>\<open>EnsureLoadBalancer\<close> sends at most one request to create a load balancer, whatever the
  APIs answer.
\<close>

theorem ensure_creates_at_most_one:
  "length (filter createsNLB (trace (EnsureLoadBalancer (exoscaleClientMock exo) (kubeBeside kc) lib nodes) s w)) \<le> 1"
proof -
  let ?I = "onState (\<lambda>_. True) (createdAtMost 0 :: 'a mock \<Rightarrow> bool)"
    and ?J = "onState (\<lambda>_. True) (createdAtMost 1 :: 'a mock \<Rightarrow> bool)"
  have mono: "?I st \<Longrightarrow> ?J st" for st by (simp add: onState_def createdAtMost_def)
  have "leads ?I ?J (catchM (fetchLoadBalancer (exoscaleClientMock exo)) (\<lambda>e. if errors_Is e ErrLoadBalancerNotFound
      then createNLB (exoscaleClientMock exo) (kubeBeside kc) lib spec else failM e))" for spec
    by (rule leads_handler [OF creating.keeps_fetch mono], assumption)
      (intro leads_if creating_create leads_keeps [OF keeps_fail mono])
  then have "leads ?I ?J (EnsureLoadBalancer (exoscaleClientMock exo) (kubeBeside kc) lib nodes)"
    unfolding EnsureLoadBalancer_def
    by (intro leads_before [OF creating.keeps_resolveExternal mono] leads_before [OF creating.keeps_resolveInstancePool mono]
        leads_before [OF keeps_get mono] leads_before [OF keeps_lift mono] leads_after keeps_intros creating_update)
  from leadsD [OF this, of "\<lparr>st_service = s, st_world = \<lparr>mock_world = w, Calls = []\<rparr>\<rparr>"]
  show ?thesis by (simp add: onState_def createdAtMost_def trace_def)
qed

end
