(* ===== verification/Cloud_Properties.thy ===== *)
theory Cloud_Properties
  imports Cloud Client_Properties SKS_Properties LB_Behaviour
begin

text \<open>
  The properties of the provider: where its zone comes from and in which state \<^verbatim>\<open>Initialize\<close>
  leaves it.
\<close>

text \<open>
  The zone is taken from \<^verbatim>\<open>EXOSCALE_API_ZONE\<close>, else from \<^verbatim>\<open>EXOSCALE_ZONE\<close>, without asking
  anybody; else from the CD-ROM; the metadata server is asked only when the CD-ROM fails. A variable
  set to the empty string counts as unset.
\<close>

theorem zone_precedence:
  "newExoscaleCloud md env cfg w =
   (let provider = (\<lambda>zone. \<lparr>p_cfg = cfg, p_client = None, p_kclient = None, p_zone = zone\<rparr>) in
    case filter (\<lambda>z. z \<noteq> []) (List.map_filter env [''EXOSCALE_API_ZONE'', ''EXOSCALE_ZONE'']) of
      zone # _ \<Rightarrow> (Inr (provider zone), w)
    | [] \<Rightarrow> (case FromCdRom md AvailabilityZone w of
        (Inr zone, w1) \<Rightarrow> (Inr (provider zone), w1)
      | (Inl e, w1) \<Rightarrow> if is_panic e then (Inl e, w1)
          else (case metadataGet md AvailabilityZone w1 of
            (Inr zone, w2) \<Rightarrow> (Inr (provider zone), w2)
          | (Inl e2, w2) \<Rightarrow> (Inl (if is_panic e2 then e2 else ErrorfW ''get metadata: %w'' [] e2), w2))))"
proof (cases "env ''EXOSCALE_API_ZONE''"; cases "env ''EXOSCALE_ZONE''")
qed (auto simp: newExoscaleCloud_def providerZone_def getenv_def List.map_filter_def bindM_def catchM_def wrapM_def
    returnM_def failM_def split: prod.split sum.split)

lemma newRefreshable_static:
  assumes "newRefreshableExoscaleClient ego files ver config zone cb a = (Inr watched, a')"
    and "gc_APIKey config \<noteq> []" and "gc_APISecret config \<noteq> []"
  shows "watched = None \<and> (\<exists>c. rc_exo (app_client a') = Some c)"
  using assms
  by (auto simp: newRefreshableExoscaleClient_def bindM_def worldM_def modifyM_def returnM_def Let_def
      split: prod.splits sum.splits)

text \<open>
  Property C39. When \<^verbatim>\<open>Initialize\<close> returns, the provider has its clients, every requested agent runner is a
  known one and has been started, and with an API key and secret in the configuration the Exoscale
  client is usable (not nil) and no file is watched.
\<close>

theorem initialize_ready:
  assumes "Initialize ego files ver env kc p a = (Inr (p', watched, started), a')"
  shows "p_client p' = Some (refreshableClient ego) \<and> p_kclient p' = Some (kubeOfApp kc) \<and>
    p_cfg p' = p_cfg p \<and> p_zone p' = p_zone p \<and>
    started = (if getenv env ''EXOSCALE_SKS_AGENT_RUNNERS'' = [] then []
               else Split (CHR '','') (getenv env ''EXOSCALE_SKS_AGENT_RUNNERS'')) \<and>
    set started \<subseteq> {''node-csr-validation''} \<and>
    (gc_APIKey (cc_Global (p_cfg p)) \<noteq> [] \<and> gc_APISecret (cc_Global (p_cfg p)) \<noteq> [] \<longrightarrow>
       watched = None \<and> rc_exo (app_client a') \<noteq> None)"
proof -
  let ?v = "getenv env ''EXOSCALE_SKS_AGENT_RUNNERS''"
  obtain a1 where new: "newRefreshableExoscaleClient ego files ver (cc_Global (p_cfg p)) (p_zone p)
      (switchZoneCallback ego) a = (Inr watched, a1)"
    and rest: "p' = p\<lparr>p_kclient := Some (kubeOfApp kc), p_client := Some (refreshableClient ego)\<rparr>" "a' = a1"
      "if ?v = [] then started = [] else runSKSAgent (Split (CHR '','') ?v) = (started, Inr ())"
    using assms unfolding Initialize_def Let_def
    by (auto elim!: bindM_InrE simp: catchM_def failM_def returnM_def split: prod.splits sum.splits if_splits)
  have all: "started = rs \<and> set rs \<subseteq> {''node-csr-validation''}" if "runSKSAgent rs = (started, Inr ())" for rs
    using that
  proof (induction rs arbitrary: started)
    case (Cons r rs)
    then show ?case by (auto simp: sksAgentNodeCSRValidation_def split: if_splits prod.splits)
  qed simp
  have "started = (if ?v = [] then [] else Split (CHR '','') ?v) \<and> set started \<subseteq> {''node-csr-validation''}"
    using rest(3) all [of "Split (CHR '','') ?v"] by (cases "?v = []") auto
  with rest(1,2) newRefreshable_static [OF new] show ?thesis by auto
qed

definition exGlobal :: globalConfig where
  "exGlobal = \<lparr>gc_APIKey = ''k'', gc_APISecret = ''s'', gc_APICredentialsFile = [], gc_APIEndpoint = []\<rparr>"

definition exNewProvider :: "(string, memory) app cloudProvider" where
  "exNewProvider = \<lparr>p_cfg = zeroConfig\<lparr>cc_Global := exGlobal\<rparr>, p_client = None, p_kclient = None, p_zone = ''ch-gva-2''\<rparr>"

lemma exInitialize_runs:
  "\<exists>p' a'. Initialize memoryEgo (exFiles ''k2'') ''v'' [''EXOSCALE_SKS_AGENT_RUNNERS'' \<mapsto> ''node-csr-validation'']
     (memoryKube (\<lambda>_. None)) exNewProvider exApp = (Inr (p', None, [''node-csr-validation'']), a')"
  by (simp add: Initialize_def newRefreshableExoscaleClient_def exNewProvider_def exGlobal_def bindM_def catchM_def
      modifyM_def worldM_def connect_def liftE_def memoryEgo_def switchZoneCallback_def returnM_def getenv_def
      sksAgentNodeCSRValidation_def exApp_def)

theorem initialize_ready_witness:
  "\<exists>p' a'. Initialize memoryEgo (exFiles ''k2'') ''v'' [''EXOSCALE_SKS_AGENT_RUNNERS'' \<mapsto> ''node-csr-validation'']
     (memoryKube (\<lambda>_. None)) exNewProvider exApp = (Inr (p', None, [''node-csr-validation'']), a') \<and>
     p_client p' = Some (refreshableClient memoryEgo) \<and> rc_exo (app_client a') \<noteq> None"
proof -
  obtain p' a' where run: "Initialize memoryEgo (exFiles ''k2'') ''v''
     [''EXOSCALE_SKS_AGENT_RUNNERS'' \<mapsto> ''node-csr-validation''] (memoryKube (\<lambda>_. None)) exNewProvider exApp =
     (Inr (p', None, [''node-csr-validation'']), a')" using exInitialize_runs by blast
  from initialize_ready [OF this] run show ?thesis by (auto simp: exNewProvider_def exGlobal_def)
qed

end
