(* ===== verification/LB_Lifecycle.thy ===== *)
theory LB_Lifecycle
  imports LB_Properties
begin

text \<open>
  The handlers one after the other: creating and deleting, and what a failure in the middle of a
  creation leaves behind.
\<close>

section \<open>Ensure, then delete\<close>

lemma option_ifI:
  assumes "\<And>x. a = Some x \<longleftrightarrow> e \<and> b = Some x"
  shows "a = (if e then b else None)"
proof (cases a)
  case None
  with assms have "\<not> (e \<and> b = Some x)" for x by blast
  with None show ?thesis by (cases b) auto
next
  case (Some x)
  with assms [of x] show ?thesis by simp
qed

lemma unowned_Some: "unowned ports N sid = Some s \<longleftrightarrow> N sid = Some s \<and> \<not> ownedBy ports s"
  by (auto simp: unowned_def split: option.splits)

lemma converged_unowned:
  assumes conv: "converged ds (foreignServices external ds N) N'"
    and keys: "map serviceKey ds = map (\<lambda>p. (sp_Port p, ToLower (sp_Protocol p))) ports"
  shows "unowned ports N' = (if external then unowned ports N else Map.empty)"
proof
  have owned: "ownedBy ports s" if "serviceKey s \<in> serviceKey ` set ds" for s
  proof -
    from that have "serviceKey s \<in> set (map serviceKey ds)" by simp
    then obtain p where "p \<in> set ports" "serviceKey s = (sp_Port p, ToLower (sp_Protocol p))"
      unfolding keys by auto
    then show ?thesis by (auto simp: ownedBy_def deleteMatches_def serviceKey_def EqualFold_ToLower)
  qed
  fix sid
  have new: "foreignServices external ds N sid = Some s" if "N' sid = Some s" "\<not> ownedBy ports s" for s
    using conv that owned realizes_key unfolding converged_def by (metis image_eqI)
  have old: "N' sid = Some s" if "external" "N sid = Some s" "\<not> ownedBy ports s" for s
  proof -
    have "serviceKey s \<notin> serviceKey ` set ds" using owned that(3) by blast
    with that have "foreignServices external ds N sid = Some s" by (auto simp: foreignServices_def)
    with conv show ?thesis by (auto simp: converged_def map_le_def dom_def)
  qed
  show "unowned ports N' sid = (if external then unowned ports N else Map.empty) sid"
  proof -
    have foreign: "external \<and> N sid = Some s" if "foreignServices external ds N sid = Some s" for s
      using that by (auto simp: foreignServices_def split: option.splits if_splits)
    have "unowned ports N' sid = Some s \<longleftrightarrow> external \<and> unowned ports N sid = Some s" for s
      unfolding unowned_Some using new [of s] old [of s] foreign [of s] by blast
    then have "unowned ports N' sid = (if external then unowned ports N sid else None)" by (rule option_ifI)
    then show ?thesis by simp
  qed
qed

context nlb_api begin

text \<open>What holds after a successful \<^verbatim>\<open>EnsureLoadBalancer\<close>, for the Service object that it leaves behind.\<close>

lemma ensure_result:
  assumes ensure: "EnsureLoadBalancer cl kc lib nodes st = (Inr status, st1)"
    and ports: "distinct (map (\<lambda>p. (sp_Port p, sp_Protocol p)) (s_Ports (st_service st)))"
  obtains spec c' where "buildLoadBalancerFromAnnotations (st_service st1) = Inr spec"
    and "lb_ID spec = getAnnotation (st_service st1) annotationLoadBalancerID []" and "lb_ID spec \<noteq> []"
    and "view (st_world st1) = (view (st_world st))(lb_ID spec \<mapsto> c')"
    and "converged (lb_Services spec) (foreignServices (isExternal (st_service st)) (lb_Services spec)
       (servicesAt (view (st_world st)) (lb_ID spec))) (v_Services c')"
    and "map serviceKey (lb_Services spec) = map (\<lambda>p. (sp_Port p, ToLower (sp_Protocol p))) (s_Ports (st_service st))"
    and "s_Ports (st_service st1) = s_Ports (st_service st)" "isExternal (st_service st1) = isExternal (st_service st)"
    and "distinct (map (\<lambda>p. (sp_Port p, ToLower (sp_Protocol p))) (s_Ports (st_service st)))"
proof -
  obtain sta where same: "s_Ports (st_service sta) = s_Ports (st_service st)" "isExternal (st_service sta) = isExternal (st_service st)"
    and upd: "updateLoadBalancer cl sta = (Inr (), st1)"
    using ensure by (rule EnsureLoadBalancer_phases)
  have s1: "st_service st1 = st_service sta" using updateLoadBalancer_service [of sta] upd by simp
  obtain spec c' where spec: "buildLoadBalancerFromAnnotations (st_service st1) = Inr spec"
    and res: "view (st_world st1) = (view (st_world st))(lb_ID spec \<mapsto> c')"
      "converged (lb_Services spec) (foreignServices (isExternal (st_service st)) (lb_Services spec)
       (servicesAt (view (st_world st)) (lb_ID spec))) (v_Services c')"
    using EnsureLoadBalancer_converges [OF ensure ports] by blast
  have "lb_ID spec \<noteq> []" using upd spec s1
    by (auto simp: updateLoadBalancer_def bindM_def getM_def liftE_def failM_def split: if_splits)
  moreover have keys: "map serviceKey (lb_Services spec) = map (\<lambda>p. (sp_Port p, ToLower (sp_Protocol p))) (s_Ports (st_service st))"
    using buildLoadBalancer_keys [OF spec] s1 same by simp
  moreover have "distinct (map (\<lambda>p. (sp_Port p, ToLower (sp_Protocol p))) (s_Ports (st_service st)))"
    using buildLoadBalancer_keys_distinct [OF spec] ports s1 same unfolding keys [symmetric] by simp
  ultimately show thesis using that [OF spec buildLoadBalancer_ID [OF spec] _ res] s1 same by simp
qed

lemma ensure_delete:
  assumes ensure: "EnsureLoadBalancer cl kc lib nodes st = (Inr status, st1)"
    and delete: "EnsureLoadBalancerDeleted cl st1 = (Inr u, st2)"
    and ports: "distinct (map (\<lambda>p. (sp_Port p, sp_Protocol p)) (s_Ports (st_service st)))"
    and i: "getAnnotation (st_service st1) annotationLoadBalancerID [] = i"
  shows "\<exists>c. view (st_world st2) = (view (st_world st))(i := if isExternal (st_service st) then Some c else None) \<and>
    v_Services c = unowned (s_Ports (st_service st)) (servicesAt (view (st_world st)) i)"
proof -
  let ?s = "st_service st" and ?V = "view (st_world st)"
  from ensure ports show ?thesis
  proof (rule ensure_result)
    fix spec c'
    assume id: "lb_ID spec = getAnnotation (st_service st1) annotationLoadBalancerID []" "lb_ID spec \<noteq> []"
      and V1: "view (st_world st1) = ?V(lb_ID spec \<mapsto> c')"
      and conv: "converged (lb_Services spec) (foreignServices (isExternal ?s) (lb_Services spec)
         (servicesAt ?V (lb_ID spec))) (v_Services c')"
      and keys: "map serviceKey (lb_Services spec) = map (\<lambda>p. (sp_Port p, ToLower (sp_Protocol p))) (s_Ports ?s)"
      and same: "s_Ports (st_service st1) = s_Ports ?s" "isExternal (st_service st1) = isExternal ?s"
      and dist: "distinct (map (\<lambda>p. (sp_Port p, ToLower (sp_Protocol p))) (s_Ports ?s))"
    have "view (st_world st2) = afterDelete (isExternal ?s) (s_Ports ?s) i (?V(i \<mapsto> c'))"
      using EnsureLoadBalancerDeleted_refines [OF delete _ i] dist same V1 id i by simp
    moreover have "unowned (s_Ports ?s) (v_Services c') =
        (if isExternal ?s then unowned (s_Ports ?s) (servicesAt ?V i) else Map.empty)"
      using converged_unowned [OF conv keys] id i by simp
    ultimately show ?thesis
      by (cases "isExternal ?s") (auto simp: afterDelete_def intro: exI [of _ "c'\<lparr>v_Services := X\<rparr>" for X])
  qed
qed

end

text \<open>
  Property C17. Ensuring and then deleting undoes itself: when both handlers return without an error, the
  load balancer of a Service is gone and all others are as before; an external load balancer stays,
  with exactly those of its former services that are not on a port of the Service.
\<close>

theorem ensure_delete_restores:
  assumes "nlb_api cl kc view"
    and "EnsureLoadBalancer cl kc lib nodes st = (Inr status, st1)"
    and "EnsureLoadBalancerDeleted cl st1 = (Inr u, st2)"
    and "distinct (map (\<lambda>p. (sp_Port p, sp_Protocol p)) (s_Ports (st_service st)))"
    and "getAnnotation (st_service st1) annotationLoadBalancerID [] = i"
  shows "\<exists>c. view (st_world st2) = (view (st_world st))(i := if isExternal (st_service st) then Some c else None) \<and>
    v_Services c = unowned (s_Ports (st_service st)) (servicesAt (view (st_world st)) i)"
  by (rule nlb_api.ensure_delete [OF assms])

lemma delete_after_update_runs:
  "fst (EnsureLoadBalancerDeleted memoryClient (snd (updateLoadBalancer memoryClient (exState exPool)))) = Inr ()"
  by (simp add: exState_def updateLoadBalancer_def build_exPool run_eval)
    (simp add: update_eval run_eval memory_eval external_eval example_defs exSpec_def exDesired_def
      EnsureLoadBalancerDeleted_def fetchLoadBalancer_def deleteBody_def deleteMatches_def)

theorem ensure_delete_restores_witness:
  "memView (st_world (snd (EnsureLoadBalancerDeleted memoryClient (snd
     (EnsureLoadBalancer memoryClient (memoryKube (\<lambda>_. None)) exLib [] (exState exPool)))))) ''n1'' = None"
proof -
  let ?st = "snd (updateLoadBalancer memoryClient (exState exPool))"
  have s: "st_service ?st = exService exPool [exPort]"
    by (simp add: memory.updateLoadBalancer_service) (simp add: exState_def)
  have i: "getAnnotation (st_service ?st) annotationLoadBalancerID [] = ''n1''"
    unfolding s by (simp add: external_eval example_defs)
  have "\<not> isExternal (st_service (exState exPool))" by (simp add: external_eval example_defs)
  moreover have "distinct (map (\<lambda>p. (sp_Port p, sp_Protocol p)) (s_Ports (st_service (exState exPool))))"
    by (simp add: exState_def exService_def)
  ultimately show ?thesis
    unfolding ensure_exPool_state snd_conv
    using ensure_delete_restores [OF memory.nlb_api_axioms ensure_exPool_state
      run_result [OF delete_after_update_runs] _ i] by auto
qed

section \<open>A creation that fails half way\<close>

text \<open>A Service that has no load balancer yet and names its Instance Pool.\<close>

definition freshService :: "Service \<Rightarrow> bool" where
  "freshService s \<longleftrightarrow> \<not> isExternal s \<and> getAnnotation s annotationLoadBalancerID [] = [] \<and>
     getAnnotation s annotationLoadBalancerSKSClusterName [] = [] \<and>
     getAnnotation s annotationLoadBalancerServiceSKSNodePoolName [] = [] \<and>
     getAnnotation s annotationLoadBalancerServiceInstancePoolID [] \<noteq> []"

lemma fresh_starts:
  assumes "freshService (st_service st)"
  shows "resolveExternal cl kc lib st = (Inr (), st)" and "resolveInstancePool cl kc lib nodes st = (Inr (), st)"
    and "fetchLoadBalancer cl st = (Inl ErrLoadBalancerNotFound, st)"
  using assms
  by (simp_all add: freshService_def resolveExternal_def resolveInstancePool_def returnM_def fetchLoadBalancer_def failM_def)

lemma ensure_fresh:
  assumes "freshService (st_service st)" and "buildLoadBalancerFromAnnotations (st_service st) = Inr spec"
  shows "EnsureLoadBalancer cl kc lib nodes st =
    bindM (createNLB cl kc lib spec) (\<lambda>nlb. bindM (updateLoadBalancer cl) (\<lambda>_. returnM (lbStatus nlb))) st"
  using fresh_starts [OF assms(1), of cl] assms(2)
  by (simp add: EnsureLoadBalancer_def bindM_def catchM_def liftE_def getM_def)

definition creation :: "LoadBalancer \<Rightarrow> CreateLoadBalancerRequest" where
  "creation spec = \<lparr>clb_Name = lb_Name spec, clb_Description = lb_Description spec, clb_Labels = lb_Labels spec\<rparr>"

lemma createNLB_read_fails:
  assumes "\<not> isExternal (st_service st)"
    and "CreateLoadBalancer cl (creation spec) (st_world st) = (Inr oper, w1)" and "op_Reference oper = Some ref"
    and "GetLoadBalancer cl ref w1 = (Inl e, w2)"
  shows "createNLB cl kc lib spec st = (Inl e, st\<lparr>st_world := w2\<rparr>)"
  using assms(1,3,4) assms(2) [unfolded creation_def] by (simp add: createNLB_def bindM_def callM_def getM_def)

context nlb_api begin

lemma ensure_fresh_creates:
  assumes fresh: "freshService (st_service st)" "buildLoadBalancerFromAnnotations (st_service st) = Inr spec"
    and run: "EnsureLoadBalancer cl kc lib nodes st = (Inr status, st')"
    and ports: "distinct (map (\<lambda>p. (sp_Port p, sp_Protocol p)) (s_Ports (st_service st)))"
    and other: "view (st_world st) ref \<noteq> None"
  shows "getAnnotation (st_service st') annotationLoadBalancerID [] \<noteq> ref \<and>
    view (st_world st') ref = view (st_world st) ref"
proof -
  obtain nlb st1 where create: "createNLB cl kc lib spec st = (Inr nlb, st1)"
    and upd: "updateLoadBalancer cl st1 = (Inr (), st')"
    using run unfolding ensure_fresh [OF fresh] by (auto elim!: bindM_InrE simp: returnM_def)
  from create obtain i where i: "view (st_world st) i = None" "getAnnotation (st_service st1) annotationLoadBalancerID [] = i"
    by (rule createNLB_conf) auto
  have same: "st_service st' = st_service st1" using updateLoadBalancer_service [of st1] upd by simp
  obtain spec' c' where "buildLoadBalancerFromAnnotations (st_service st') = Inr spec'"
    "view (st_world st') = (view (st_world st))(lb_ID spec' \<mapsto> c')"
    using EnsureLoadBalancer_converges [OF run ports] by blast
  with i other same show ?thesis using buildLoadBalancer_ID by (auto simp: fun_eq_iff)
qed

end

text \<open>
  Property C21. A load balancer that has been created but cannot be read back is lost: the handler returns
  the error without recording the ID, the Service is as before, and every later run for this Service that
  succeeds creates another load balancer and leaves the first one as it is.
\<close>

theorem created_but_unread_is_lost:
  assumes "nlb_api cl kc view" and "freshService s" and "buildLoadBalancerFromAnnotations s = Inr spec"
    and "CreateLoadBalancer cl (creation spec) w = (Inr oper, w1)" and "op_Reference oper = Some ref"
    and "GetLoadBalancer cl ref w1 = (Inl e, w2)"
  shows "EnsureLoadBalancer cl kc lib nodes \<lparr>st_service = s, st_world = w\<rparr> =
      (Inl e, \<lparr>st_service = s, st_world = w2\<rparr>) \<and>
    view w ref = None \<and> view w2 ref \<noteq> None \<and>
    (EnsureLoadBalancer cl kc lib nodes' \<lparr>st_service = s, st_world = w3\<rparr> = (Inr status, st') \<and>
       view w3 ref = view w2 ref \<and> distinct (map (\<lambda>p. (sp_Port p, sp_Protocol p)) (s_Ports s)) \<longrightarrow>
     getAnnotation (st_service st') annotationLoadBalancerID [] \<noteq> ref \<and> view (st_world st') ref = view w2 ref)"
proof -
  let ?st = "\<lparr>st_service = s, st_world = w\<rparr>"
  have "\<not> isExternal s" using assms(2) by (simp add: freshService_def)
  then have "createNLB cl kc lib spec ?st = (Inl e, \<lparr>st_service = s, st_world = w2\<rparr>)"
    using createNLB_read_fails [of ?st cl spec oper w1 ref e w2] assms(4-6) by simp
  then have run: "EnsureLoadBalancer cl kc lib nodes ?st = (Inl e, \<lparr>st_service = s, st_world = w2\<rparr>)"
    using ensure_fresh [of ?st spec cl kc lib nodes] assms(2,3) by (simp add: bindM_def)
  have "createEffect (creation spec) oper (view w) (view w1)" by (rule nlb_api.create_ok [OF assms(1,4)])
  then have created: "view w ref = None" "view w1 ref \<noteq> None" using assms(5) by (auto simp: createEffect_def)
  have "view w2 = view w1" using nlb_api.get_reads [OF assms(1), of ref w1] assms(6) by simp
  with created have "view w2 ref \<noteq> None" by simp
  with run created show ?thesis 
    using nlb_api.ensure_fresh_creates [OF assms(1), of "\<lparr>st_service = s, st_world = w3\<rparr>" spec lib nodes' status st' ref]
      assms(2,3) by auto
qed

text \<open>An API whose reads fail keeps the promises, too.\<close>

definition unreadClient :: "memory exoscaleClient" where
  "unreadClient = memoryClient\<lparr>GetLoadBalancer := (\<lambda>i. failM (ErrAPI ''503''))\<rparr>"

interpretation unread: nlb_api unreadClient "memoryKube nodes" memView for nodes
proof -
  show "nlb_api unreadClient (memoryKube nodes) memView"
    by unfold_locales
      (auto simp: unreadClient_def failM_def memory.list_reads memory.clusters_reads memory.instance_reads
        memory.patch_apart intro: memory.add_ok memory.delete_service_ok memory.update_service_ok memory.update_ok
        memory.create_ok memory.delete_ok)
qed

definition exFresh :: "(string \<times> string) list" where
  "exFresh = [(annotationLoadBalancerServiceInstancePoolID, ''p1'')]"

definition exFreshSpec :: LoadBalancer where
  "exFreshSpec = exSpec\<lparr>lb_ID := []\<rparr>"

lemma build_exFresh: "buildLoadBalancerFromAnnotations (exService exFresh [exPort]) = Inr exFreshSpec"
  by (simp add: build_eval example_defs exFresh_def exFreshSpec_def exSpec_def exDesired_def)

theorem created_but_unread_is_lost_witness:
  "\<exists>w2. EnsureLoadBalancer unreadClient (memoryKube (\<lambda>_. None)) exLib [] (exState exFresh) =
      (Inl (ErrAPI ''503''), \<lparr>st_service = exService exFresh [exPort], st_world = w2\<rparr>) \<and>
    memView w2 ''nn1'' \<noteq> None \<and> memView exMemory ''nn1'' = None"
proof -
  obtain w1 where create: "CreateLoadBalancer unreadClient (creation exFreshSpec) exMemory = (Inr (finished ''nn1''), w1)"
    by (simp add: unreadClient_def memory_eval exMemory_def)
  have "freshService (exService exFresh [exPort])"
    by (simp add: freshService_def external_eval exFresh_def exService_def)
  moreover have "op_Reference (finished ''nn1'') = Some ''nn1''" by (simp add: finished_def)
  moreover have "GetLoadBalancer unreadClient ''nn1'' w1 = (Inl (ErrAPI ''503''), w1)"
    by (simp add: unreadClient_def failM_def)
  ultimately show ?thesis
    using created_but_unread_is_lost [OF unread.nlb_api_axioms _ build_exFresh create] by (auto simp: exState_def)
qed

end
