(* ===== verification/LB_Reconcile.thy ===== *)
theory LB_Reconcile
  imports LB_Behaviour LB_Lifecycle
begin

text \<open>
  Reconciliation: what a successful update does to the services, exactly; when a second update finds
  nothing left to do; a field that cannot be emptied; and a difference that no update settles.
\<close>

section \<open>The exact result\<close>

text \<open>
  Property C2. A successful update computes the new services exactly: for every desired service, the existing
  service with its port, protocol and Instance Pool with the fields that are sent, or a newly created
  one if there is none; nothing else remains, except foreign services on an external load balancer.
  Name and description of the load balancer change as stated, and no other load balancer changes.
\<close>

theorem update_refines:
  assumes "nlb_api cl kc view"
    and "updateLoadBalancer cl st = (Inr (), st')"
    and "buildLoadBalancerFromAnnotations (st_service st) = Inr spec"
    and "distinct (map (\<lambda>p. (sp_Port p, sp_Protocol p)) (s_Ports (st_service st)))"
  shows "\<exists>c c'. view (st_world st) (lb_ID spec) = Some c \<and>
     view (st_world st') = (view (st_world st))(lb_ID spec \<mapsto> c') \<and>
     v_Description c' = v_Description c \<and>
     v_Name c' = (if isExternal (st_service st) then v_Name c else sent (lb_Name spec) (v_Name c)) \<and>
     covers (made (v_Services c)) (lb_Services spec)
       (foreignServices (isExternal (st_service st)) (lb_Services spec) (v_Services c)) (v_Services c')"
  using nlb_api.updateLoadBalancer_reconciles [OF assms(1-3)] buildLoadBalancer_keys_distinct [OF assms(3,4)] by blast

theorem update_refines_witness:
  "\<exists>c c'. memView exMemory ''n1'' = Some c \<and>
     memView (st_world (snd (updateLoadBalancer memoryClient (exState exExternal)))) = (memView exMemory)(''n1'' \<mapsto> c') \<and>
     covers (made (v_Services c)) [exDesired] (foreignServices True [exDesired] (v_Services c)) (v_Services c')"
proof -
  have "isExternal (exService exExternal [exPort])" by (simp add: external_eval example_defs)
  then show ?thesis
    using update_refines [OF memory.nlb_api_axioms run_result [OF update_exExternal_runs], of exSpec] build_exExternal
    by (auto simp: exState_def exSpec_def)
qed

section \<open>A second update\<close>

text \<open>
  The settings of \<open>d\<close> can be brought about by requests, given the services \<open>N\<close> that exist: a field that is
  empty cannot be sent, so it has to be empty already.
\<close>

definition settable :: "(UUID \<rightharpoonup> LoadBalancerService) \<Rightarrow> LoadBalancerService \<Rightarrow> bool" where
  "settable N d \<longleftrightarrow> svc_Name d \<noteq> [] \<and> svc_Strategy d \<noteq> [] \<and> svc_TargetPort d \<noteq> 0 \<and>
     (\<forall>c. reusable N d c \<longrightarrow> svc_InstancePool c = svc_InstancePool d \<and>
        (svc_Description d = [] \<longrightarrow> svc_Description c = []))"

lemma buildLoadBalancer_plainPool:
  assumes "buildLoadBalancerFromAnnotations s = Inr lb" and "d \<in> set (lb_Services lb)"
  obtains i where "svc_InstancePool d = Some \<lparr>ip_ID = i, ip_attrs = []\<rparr>"
  using assms
  by (elim buildLoadBalancer_services) (auto simp: buildLoadBalancerService_def Let_def split: sum.splits if_splits)

lemma made_in_sync:
  assumes "made N d (configService s)" and "settable N d" and "svc_Healthcheck d \<noteq> None"
    and "svc_InstancePool d = Some \<lparr>ip_ID = i, ip_attrs = []\<rparr>"
  shows "\<not> isLoadBalancerServiceUpdated s (d\<lparr>svc_ID := svc_ID s\<rparr>)"
proof -
  have "configService s = configService (d\<lparr>svc_ID := svc_ID (configService s)\<rparr>)"
    using assms(1)
    unfolding made_def
  proof (elim disjE exE conjE)
    fix c
    assume c: "reusable N d c" and s: "configService s = changedService (updateRequest d) c"
    have "svc_State (configService s) = []" "svc_HealthcheckStatus (configService s) = []"
      by (simp_all add: configService_def)
    then have "svc_State c = []" "svc_HealthcheckStatus c = []" unfolding s by (simp_all add: changedService_def)
    with c assms(2-4) show ?thesis
      unfolding s by (intro LoadBalancerService.equality)
        (auto simp: settable_def reusable_def changedService_def updateRequest_def configService_def sent_def sent_int_def
          serviceKey_def)
  next
    fix sid
    assume "configService s = createdService d sid"
    with assms(4) show ?thesis by (simp add: createdService_def configService_def poolID_def)
  qed
  then show ?thesis by (simp add: isLoadBalancerServiceUpdated_def configService_def)
qed

lemma covers_inSync:
  assumes covers: "covers (made N) (lb_Services spec) (foreignServices external (lb_Services spec) N) (v_Services (configOf cur))"
    and get: "distinct (map svc_ID (lb_Services cur))" "distinct (map serviceKey (lb_Services cur))"
    and top: "external \<or> lb_Name cur = lb_Name spec \<and> lb_Description cur = lb_Description spec"
    and spec: "buildLoadBalancerFromAnnotations s = Inr spec" and settable: "list_all (settable N) (lb_Services spec)"
  shows "inSync external cur spec"
proof -
  have cur: "v_Services (configOf cur) sid = Some x \<longleftrightarrow> (\<exists>c\<in>set (lb_Services cur). sid = svc_ID c \<and> x = configService c)"
    for sid x by (simp add: configOf_def servicesOf_Some [OF get(1)])
  have "\<not> unwanted external (lb_Services spec) c" if "c \<in> set (lb_Services cur)" for c
  proof -
    have "v_Services (configOf cur) (svc_ID c) = Some (configService c)" using that cur by blast
    then have "foreignServices external (lb_Services spec) N (svc_ID c) = Some (configService c) \<or>
        (\<exists>d\<in>set (lb_Services spec). made N d (configService c))" using covers unfolding covers_def by blast
    then show ?thesis using keyedD [OF made_keyed]
      by (fastforce simp: unwanted_def foreignServices_def split: option.splits if_splits)
  qed
  moreover have "\<exists>c\<in>set (lb_Services cur). serviceKey c = serviceKey d \<and> \<not> isLoadBalancerServiceUpdated c (d\<lparr>svc_ID := svc_ID c\<rparr>)"
    if d: "d \<in> set (lb_Services spec)" for d
  proof -
    obtain c where c: "c \<in> set (lb_Services cur)" "made N d (configService c)"
      using covers d unfolding covers_def cur by blast
    have "\<not> isLoadBalancerServiceUpdated c (d\<lparr>svc_ID := svc_ID c\<rparr>)"
      using made_in_sync [OF c(2)] settable d buildLoadBalancer_healthcheck [OF spec d] buildLoadBalancer_plainPool [OF spec d]
      by (auto simp: list_all_iff)
    with c keyedD [OF made_keyed c(2)] show ?thesis by auto
  qed
  ultimately show ?thesis
    using get(2) top by (auto simp: inSync_def list_all_iff list_ex_iff isLoadBalancerUpdated_def)
qed

text \<open>
  Property C27. Updating is idempotent: after a successful update, a second one for the same Service reads the load
  balancer and sends nothing, provided that the wanted description of the load balancer is the one it has and
  that no service would have to be brought to an empty field.
\<close>

theorem update_idempotent:
  assumes "nlb_api cl kc view"
    and "updateLoadBalancer cl st = (Inr (), st')"
    and "buildLoadBalancerFromAnnotations (st_service st) = Inr spec"
    and "distinct (map (\<lambda>p. (sp_Port p, sp_Protocol p)) (s_Ports (st_service st)))"
    and "view (st_world st) (lb_ID spec) = Some c"
    and "isExternal (st_service st) \<or> lb_Name spec \<noteq> [] \<and> v_Description c = lb_Description spec"
    and "list_all (settable (v_Services c)) (lb_Services spec)"
    and "GetLoadBalancer cl (lb_ID spec) (st_world st') = (Inr cur, w)"
  shows "trace (updateLoadBalancer (exoscaleClientMock cl)) (st_service st) (st_world st') =
    [CallGetLoadBalancer (lb_ID spec)]"
proof -
  obtain c' where c': "view (st_world st') (lb_ID spec) = Some c'" "v_Description c' = v_Description c"
    "v_Name c' = (if isExternal (st_service st) then v_Name c else sent (lb_Name spec) (v_Name c))"
    "covers (made (v_Services c)) (lb_Services spec)
       (foreignServices (isExternal (st_service st)) (lb_Services spec) (v_Services c)) (v_Services c')"
    using nlb_api.updateLoadBalancer_reconciles [OF assms(1-3) buildLoadBalancer_keys_distinct [OF assms(3,4)]] assms(5)
    by auto
  have get: "c' = configOf cur" "distinct (map svc_ID (lb_Services cur))" "distinct (map serviceKey (lb_Services cur))"
    using nlb_api.get_ok [OF assms(1,8)] c'(1) by (auto simp: getPromise_def)
  have "lb_ID spec \<noteq> []"
    using assms(2,3) by (auto simp: updateLoadBalancer_def bindM_def getM_def liftE_def failM_def split: if_splits)
  moreover have "isExternal (st_service st) \<or> lb_Name cur = lb_Name spec \<and> lb_Description cur = lb_Description spec"
    using assms(6) c'(2,3) by (auto simp: get(1) configOf_def sent_def)
  then have "inSync (isExternal (st_service st)) cur spec"
    using covers_inSync [OF c'(4) [unfolded get(1)] get(2,3) _ assms(3,7)] by blast
  ultimately show ?thesis using in_sync_no_requests [OF assms(3) _ assms(8)] by blast
qed

lemma update_exExternal_get:
  "\<exists>cur w. GetLoadBalancer memoryClient (lb_ID exSpec) (st_world (snd (updateLoadBalancer memoryClient (exState exExternal)))) =
     (Inr cur, w)"
  by (simp add: exState_def updateLoadBalancer_def build_exExternal run_eval)
    (simp add: update_eval run_eval memory_eval external_eval example_defs exSpec_def exDesired_def serviceKey_def)

theorem update_idempotent_witness:
  "trace (updateLoadBalancer (exoscaleClientMock memoryClient)) (exService exExternal [exPort])
     (st_world (snd (updateLoadBalancer memoryClient (exState exExternal)))) = [CallGetLoadBalancer ''n1'']"
proof -
  have c: "memView exMemory ''n1'' = Some (configOf (exNLB\<lparr>lb_Services := [exOther, exOld]\<rparr>))"
    by (simp add: memView_def memNLB_def memServices_def exMemory_def exNLB_def exOther_def exOld_def)
  have "reusable (v_Services (configOf (exNLB\<lparr>lb_Services := [exOther, exOld]\<rparr>))) exDesired x \<Longrightarrow> False" for x
    by (auto simp: reusable_def configOf_def servicesOf_def exOther_def exOld_def exDesired_def serviceKey_def poolID_def
        configService_def split: if_splits)
  then have "settable (v_Services (configOf (exNLB\<lparr>lb_Services := [exOther, exOld]\<rparr>))) exDesired"
    by (auto simp: settable_def exDesired_def)
  moreover obtain cur w where "GetLoadBalancer memoryClient (lb_ID exSpec)
      (st_world (snd (updateLoadBalancer memoryClient (exState exExternal)))) = (Inr cur, w)"
    using update_exExternal_get by blast
  moreover have "isExternal (exService exExternal [exPort])" by (simp add: external_eval example_defs)
  ultimately show ?thesis
    using update_idempotent [OF memory.nlb_api_axioms run_result [OF update_exExternal_runs], of exSpec] build_exExternal c
    by (simp add: exState_def exSpec_def)
qed

section \<open>A field that cannot be emptied\<close>

lemma getPromise_key:
  assumes "getPromise i cur V" and "V i = Some c" and "v_Services c x = Some a" and "v_Services c y = Some b"
    and "serviceKey a = serviceKey b"
  shows "a = b"
proof -
  have c: "c = configOf cur" "distinct (map svc_ID (lb_Services cur))" "distinct (map serviceKey (lb_Services cur))"
    using assms(1,2) by (simp_all add: getPromise_def)
  obtain a' b' where "a' \<in> set (lb_Services cur)" "a = configService a'" "b' \<in> set (lb_Services cur)" "b = configService b'"
    using assms(3,4) unfolding c(1) configOf_def by (auto simp: servicesOf_Some [OF c(2)])
  moreover from this assms(5) have "a' = b'" using c(3) by (simp add: distinct_map inj_on_def)
  ultimately show ?thesis by simp
qed

lemma updateLoadBalancer_got:
  assumes "nlb_api cl kc view" and "updateLoadBalancer cl st = (Inr u, st')"
    and "buildLoadBalancerFromAnnotations (st_service st) = Inr spec"
  obtains cur where "getPromise (lb_ID spec) cur (view (st_world st))"
proof -
  obtain cur st1 where "callM (GetLoadBalancer cl (lb_ID spec)) st = (Inr cur, st1)"
    using assms(2,3) unfolding updateLoadBalancer_def
    by (auto elim!: bindM_InrE simp: getM_def liftE_def failM_def split: if_splits)
  from nlb_api.get_conf [OF assms(1) this] show thesis using that by blast
qed

text \<open>
  Property C28. The description of a service cannot be removed: when the annotations ask for none and the existing
  service has one, the update succeeds and the description is still there, so the next update finds the
  service changed again.
\<close>

theorem empty_description_sticks:
  assumes "nlb_api cl kc view"
    and "updateLoadBalancer cl st = (Inr (), st')"
    and "buildLoadBalancerFromAnnotations (st_service st) = Inr spec"
    and "distinct (map (\<lambda>p. (sp_Port p, sp_Protocol p)) (s_Ports (st_service st)))"
    and "view (st_world st) (lb_ID spec) = Some c"
    and "d \<in> set (lb_Services spec)" and "svc_Description d = []"
    and "reusable (v_Services c) d old" and "svc_Description old \<noteq> []"
    and "GetLoadBalancer cl (lb_ID spec) (st_world st') = (Inr cur, w)"
  shows "\<exists>s\<in>set (lb_Services cur). serviceKey s = serviceKey d \<and> svc_Description s = svc_Description old \<and>
    isLoadBalancerServiceUpdated s (d\<lparr>svc_ID := svc_ID s\<rparr>)"
proof -
  obtain c' where c': "view (st_world st') (lb_ID spec) = Some c'"
    "covers (made (v_Services c)) (lb_Services spec)
       (foreignServices (isExternal (st_service st)) (lb_Services spec) (v_Services c)) (v_Services c')"
    using nlb_api.updateLoadBalancer_reconciles [OF assms(1-3) buildLoadBalancer_keys_distinct [OF assms(3,4)]] assms(5)
    by auto
  have got: "c' = configOf cur" "distinct (map svc_ID (lb_Services cur))"
    using nlb_api.get_ok [OF assms(1,10)] c'(1) by (auto simp: getPromise_def)
  obtain s where s: "s \<in> set (lb_Services cur)" "made (v_Services c) d (configService s)"
  proof -
    obtain sid x where "servicesOf (lb_Services cur) sid = Some x" "made (v_Services c) d x"
      using c'(2) assms(6) unfolding covers_def got(1) configOf_def by auto
    then show thesis using that unfolding servicesOf_Some [OF got(2)] by blast
  qed
  obtain cur0 where cur0: "getPromise (lb_ID spec) cur0 (view (st_world st))"
    using assms(1-3) by (rule updateLoadBalancer_got)
  have "c0 = old" if "reusable (v_Services c) d c0" for c0
    using that assms(8) getPromise_key [OF cur0 assms(5)] unfolding reusable_def by metis
  with s(2) assms(8) have new: "configService s = changedService (updateRequest d) old" unfolding made_def by blast
  then have "svc_Description (configService s) = svc_Description (changedService (updateRequest d) old)" by simp
  then have desc: "svc_Description s = svc_Description old"
    using assms(7) by (simp add: configService_def changedService_def updateRequest_def sent_def)
  have "configService s \<noteq> configService (d\<lparr>svc_ID := svc_ID s\<rparr>)"
  proof
    assume "configService s = configService (d\<lparr>svc_ID := svc_ID s\<rparr>)"
    then have "svc_Description (configService s) = svc_Description (configService (d\<lparr>svc_ID := svc_ID s\<rparr>))" by simp
    with desc assms(7,9) show False by (simp add: configService_def)
  qed
  then have "isLoadBalancerServiceUpdated s (d\<lparr>svc_ID := svc_ID s\<rparr>)"
    by (simp add: isLoadBalancerServiceUpdated_def configService_def)
  with s desc keyedD [OF made_keyed s(2)] show ?thesis by auto
qed

definition exDescribed :: memory where
  "exDescribed = exMemory\<lparr>mem_services := [(''n1'', [(''b'', exDesired\<lparr>svc_ID := ''b'', svc_Description := ''old''\<rparr>)])]\<rparr>"

lemma exDescribed_runs:
  "fst (updateLoadBalancer memoryClient \<lparr>st_service = exService exExternal [exPort], st_world = exDescribed\<rparr>) = Inr () \<and>
   (\<exists>cur w. GetLoadBalancer memoryClient (lb_ID exSpec) (st_world (snd (updateLoadBalancer memoryClient
      \<lparr>st_service = exService exExternal [exPort], st_world = exDescribed\<rparr>))) = (Inr cur, w))"
  by (simp add: updateLoadBalancer_def build_exExternal run_eval exDescribed_def)
    (simp add: update_eval run_eval memory_eval external_eval example_defs exSpec_def exDesired_def serviceKey_def)

theorem empty_description_sticks_witness:
  "\<exists>cur w. GetLoadBalancer memoryClient ''n1'' (st_world (snd (updateLoadBalancer memoryClient
      \<lparr>st_service = exService exExternal [exPort], st_world = exDescribed\<rparr>))) = (Inr cur, w) \<and>
    (\<exists>s\<in>set (lb_Services cur). svc_Description s = ''old'' \<and> isLoadBalancerServiceUpdated s (exDesired\<lparr>svc_ID := svc_ID s\<rparr>))"
proof -
  let ?st = "\<lparr>st_service = exService exExternal [exPort], st_world = exDescribed\<rparr>"
  let ?old = "exDesired\<lparr>svc_ID := ''b'', svc_Description := ''old''\<rparr>"
  obtain cur w where get: "GetLoadBalancer memoryClient (lb_ID exSpec) (st_world (snd (updateLoadBalancer memoryClient ?st))) =
      (Inr cur, w)" using exDescribed_runs by blast
  have c: "memView (st_world ?st) (lb_ID exSpec) = Some (configOf (exNLB\<lparr>lb_Services := [?old]\<rparr>))"
    by (simp add: memView_def memNLB_def memServices_def exDescribed_def exMemory_def exNLB_def exSpec_def exDesired_def)
  have old: "reusable (v_Services (configOf (exNLB\<lparr>lb_Services := [?old]\<rparr>))) exDesired (configService ?old)"
    by (simp add: reusable_def configOf_def servicesOf_def serviceKey_def poolID_def configService_def)
  have spec: "buildLoadBalancerFromAnnotations (st_service ?st) = Inr exSpec" using build_exExternal by simp
  have dist: "distinct (map (\<lambda>p. (sp_Port p, sp_Protocol p)) (s_Ports (st_service ?st)))" by simp
  have d: "exDesired \<in> set (lb_Services exSpec)" "svc_Description exDesired = []" "svc_Description (configService ?old) = ''old''"
    by (simp_all add: exDesired_def configService_def exSpec_def)
  then have ne: "svc_Description (configService ?old) \<noteq> []" by simp
  have "lb_ID exSpec = ''n1''" by (simp add: exSpec_def)
  with empty_description_sticks [OF memory.nlb_api_axioms run_result [OF conjunct1 [OF exDescribed_runs]] spec dist c
      d(1,2) old ne get] get d(3) show ?thesis by auto
qed

section \<open>A difference that is never settled\<close>

definition startsWith :: "api_call list \<Rightarrow> 'w mock \<Rightarrow> bool" where
  "startsWith cs m \<longleftrightarrow> (\<exists>rest. Calls m = cs @ rest)"

lemma keeps_started: "keeps (startsWith cs) (Called c answer)"
  by (auto simp: keeps_def startsWith_def Calls_Called)

lemma keeps_started_onWorld: "keeps (startsWith cs) (onWorld f)"
  by (auto simp: keeps_def startsWith_def onWorld_def split: prod.split)

interpretation starting: nlb_writes_services "exoscaleClientMock exo" "kubeBeside kc" "\<lambda>_. True" "startsWith cs" for exo kc cs
  by unfold_locales (simp_all add: exoscaleClientMock_def kubeBeside_def keeps_started keeps_started_onWorld)

text \<open>The first request of an update that finds the name or the description of a load balancer changed.\<close>

lemma update_sends_first:
  assumes "buildLoadBalancerFromAnnotations s = Inr spec" and "lb_ID spec \<noteq> []" and "\<not> isExternal s"
    and "GetLoadBalancer cl (lb_ID spec) w = (Inr cur, w')" and "isLoadBalancerUpdated cur spec"
  shows "\<exists>rest. trace (updateLoadBalancer (exoscaleClientMock cl)) s w =
    [CallGetLoadBalancer (lb_ID spec), CallUpdateLoadBalancer (lb_ID spec)
       \<lparr>ulb_Name = lb_Name spec, ulb_Description = lb_Description cur, ulb_Labels = lb_Labels spec\<rparr>] @ rest"
proof -
  let ?cl = "exoscaleClientMock cl" and ?i = "lb_ID spec"
  let ?cs = "[CallGetLoadBalancer ?i, CallUpdateLoadBalancer ?i
       \<lparr>ulb_Name = lb_Name spec, ulb_Description = lb_Description cur, ulb_Labels = lb_Labels spec\<rparr>]"
  let ?st0 = "\<lparr>st_service = s, st_world = \<lparr>mock_world = w, Calls = []\<rparr>\<rparr>"
  let ?st1 = "\<lparr>st_service = s, st_world = \<lparr>mock_world = w', Calls = [CallGetLoadBalancer ?i]\<rparr>\<rparr>"
  let ?loops = "bindM (foldM (firstLoopBody ?cl (isExternal s) cur spec) (lb_Services cur) Map.empty)
    (\<lambda>m. forM (secondLoopBody ?cl cur spec m) (lb_Services spec))"
  have get: "callM (GetLoadBalancer ?cl ?i) ?st0 = (Inr cur, ?st1)"
    using assms(4) by (simp add: callM_def exoscaleClientMock_def Called_def)
  have run: "updateLoadBalancer ?cl ?st0 = bindM (updateTopLevel ?cl (isExternal s) cur spec) (\<lambda>_. ?loops) ?st1"
    using assms(1,2) get by (simp add: updateLoadBalancer_def bindM_run liftE_def)
  have "keeps (onState (\<lambda>_. True) (startsWith ?cs)) ?loops"
    by (intro keeps_intros starting.keeps_firstLoopBody starting.keeps_secondLoopBody)
  moreover have "onState (\<lambda>_. True) (startsWith ?cs) (snd (updateTopLevel ?cl (isExternal s) cur spec ?st1))"
    using assms(3,5)
    by (simp add: updateTopLevel_def bindM_def callM_def exoscaleClientMock_def Called_def returnM_def onState_def
        startsWith_def split: prod.split sum.split)
  ultimately have "onState (\<lambda>_. True) (startsWith ?cs) (snd (updateLoadBalancer ?cl ?st0))"
    unfolding run by (auto simp: keeps_def bindM_def split: prod.splits sum.splits)
  then show ?thesis by (simp add: trace_def onState_def startsWith_def)
qed

lemma updates_keep_description:
  assumes "nlb_api cl kc view" and "forM (\<lambda>_. updateLoadBalancer cl) xs st = (Inr (), st')"
    and "buildLoadBalancerFromAnnotations (st_service st) = Inr spec" and "distinct (map serviceKey (lb_Services spec))"
    and "view (st_world st) (lb_ID spec) = Some c"
  shows "\<exists>c'. view (st_world st') (lb_ID spec) = Some c' \<and> v_Description c' = v_Description c"
  using assms(2,3,5)
proof (induction xs arbitrary: st c)
  case (Cons x xs)
  then obtain st1 where upd: "updateLoadBalancer cl st = (Inr (), st1)"
    and rest: "forM (\<lambda>_. updateLoadBalancer cl) xs st1 = (Inr (), st')"
    by (auto elim!: bindM_InrE)
  obtain c1 where c1: "view (st_world st1) (lb_ID spec) = Some c1" "v_Description c1 = v_Description c"
    using nlb_api.updateLoadBalancer_reconciles [OF assms(1) upd Cons.prems(2) assms(4)] Cons.prems(3) by auto
  have "st_service st1 = st_service st" using nlb_api.updateLoadBalancer_service [OF assms(1), of st] upd by simp
  with Cons.IH [OF rest _ c1(1)] Cons.prems(2) c1(2) show ?case by simp
qed (simp add: returnM_def)

lemma updates_keep_service:
  "nlb_api cl kc view \<Longrightarrow> forM (\<lambda>_. updateLoadBalancer cl) xs st = (Inr (), st') \<Longrightarrow> st_service st' = st_service st"
proof (induction xs arbitrary: st)
  case (Cons x xs)
  then obtain st1 where upd: "updateLoadBalancer cl st = (Inr (), st1)"
    and rest: "forM (\<lambda>_. updateLoadBalancer cl) xs st1 = (Inr (), st')"
    by (auto elim!: bindM_InrE)
  with Cons.IH [OF Cons.prems(1) rest] nlb_api.updateLoadBalancer_service [OF Cons.prems(1), of st] show ?case by simp
qed (simp add: returnM_def)

text \<open>
  Property C32. A wanted description that differs from the one of the load balancer keeps the update from settling: after
  any number of successful updates of the Service, the next one begins again with a request to update the load
  balancer, with the old description in it. (The load balancer is not external, and it can be read.)
\<close>

theorem description_resent:
  assumes "nlb_api cl kc view"
    and "buildLoadBalancerFromAnnotations (st_service st) = Inr spec" and "lb_ID spec \<noteq> []"
    and "distinct (map (\<lambda>p. (sp_Port p, sp_Protocol p)) (s_Ports (st_service st)))"
    and "\<not> isExternal (st_service st)"
    and "view (st_world st) (lb_ID spec) = Some c" and "v_Description c \<noteq> lb_Description spec"
    and "forM (\<lambda>_. updateLoadBalancer cl) [0..<n] st = (Inr (), st')"
    and "GetLoadBalancer cl (lb_ID spec) (st_world st') = (Inr cur, w)"
  shows "\<exists>rest. trace (updateLoadBalancer (exoscaleClientMock cl)) (st_service st) (st_world st') =
    [CallGetLoadBalancer (lb_ID spec), CallUpdateLoadBalancer (lb_ID spec)
       \<lparr>ulb_Name = lb_Name spec, ulb_Description = v_Description c, ulb_Labels = lb_Labels spec\<rparr>] @ rest"
proof -
  obtain c' where c': "view (st_world st') (lb_ID spec) = Some c'" "v_Description c' = v_Description c"
    using updates_keep_description [OF assms(1,8,2) buildLoadBalancer_keys_distinct [OF assms(2,4)] assms(6)] by blast
  have "c' = configOf cur" using nlb_api.get_ok [OF assms(1,9)] c'(1) by (simp add: getPromise_def)
  with c'(2) have desc: "lb_Description cur = v_Description c" by (simp add: configOf_def)
  with assms(7) have "isLoadBalancerUpdated cur spec" by (auto simp: isLoadBalancerUpdated_def)
  with update_sends_first [OF assms(2,3,5,9)] desc show ?thesis by simp
qed

lemma update_exPool_get:
  "\<exists>cur w. GetLoadBalancer memoryClient (lb_ID exSpec) (st_world (snd (updateLoadBalancer memoryClient (exState exPool)))) =
     (Inr cur, w)"
  by (simp add: exState_def updateLoadBalancer_def build_exPool run_eval)
    (simp add: update_eval run_eval memory_eval external_eval example_defs exSpec_def exDesired_def serviceKey_def)

theorem description_resent_witness:
  "\<exists>rest. trace (updateLoadBalancer (exoscaleClientMock memoryClient)) (exService exPool [exPort])
       (st_world (snd (updateLoadBalancer memoryClient (exState exPool)))) =
    [CallGetLoadBalancer ''n1'', CallUpdateLoadBalancer ''n1''
       \<lparr>ulb_Name = ''k8s-u1'', ulb_Description = ''shared'', ulb_Labels = lb_Labels exSpec\<rparr>] @ rest"
proof -
  let ?st = "exState exPool"
  obtain cur w where get: "GetLoadBalancer memoryClient (lb_ID exSpec) (st_world (snd (updateLoadBalancer memoryClient ?st))) =
      (Inr cur, w)" using update_exPool_get by blast
  have c: "memView (st_world ?st) (lb_ID exSpec) = Some (configOf (exNLB\<lparr>lb_Services := [exOther, exOld]\<rparr>))"
    by (simp add: memView_def memNLB_def memServices_def exState_def exMemory_def exNLB_def exSpec_def exOther_def exOld_def)
  have spec: "buildLoadBalancerFromAnnotations (st_service ?st) = Inr exSpec" using build_exPool by (simp add: exState_def)
  have ext: "\<not> isExternal (st_service ?st)" by (simp add: exState_def external_eval example_defs)
  have dist: "distinct (map (\<lambda>p. (sp_Port p, sp_Protocol p)) (s_Ports (st_service ?st)))" by (simp add: exState_def)
  have desc: "v_Description (configOf (exNLB\<lparr>lb_Services := [exOther, exOld]\<rparr>)) \<noteq> lb_Description exSpec"
    by (simp add: configOf_def exNLB_def exSpec_def)
  have run: "forM (\<lambda>_. updateLoadBalancer memoryClient) [0..<1] ?st =
      (Inr (), snd (updateLoadBalancer memoryClient ?st))"
    using run_result [OF update_exPool_runs] by (simp add: bindM_run returnM_def)
  have "lb_ID exSpec \<noteq> []" by (simp add: exSpec_def)
  from description_resent [OF memory.nlb_api_axioms spec this dist ext c desc run get] show ?thesis
    by (simp add: exState_def exSpec_def configOf_def exNLB_def)
qed

end
