(* ===== verification/LB_Shared.thy ===== *)
theory LB_Shared
  imports LB_Lifecycle
begin

text \<open>
  Two Services that share one external load balancer, on different ports: ensuring both brings about the
  services of both, and deleting one leaves those of the other.
\<close>

section \<open>Two Services on one external load balancer\<close>

lemma converged_both:
  assumes one: "converged A (foreignServices True A N) N1" and two: "converged B (foreignServices True B N1) N2"
    and apart: "serviceKey ` set A \<inter> serviceKey ` set B = {}"
  shows "converged (A @ B) (foreignServices True (A @ B) N) N2"
proof -
  have foreign: "foreignServices True ds M sid = Some s \<longleftrightarrow> M sid = Some s \<and> serviceKey s \<notin> serviceKey ` set ds" for ds M sid s
    by (auto simp: foreignServices_def split: option.splits)
  have keeps: "N2 sid = Some s" if "N1 sid = Some s" "serviceKey s \<notin> serviceKey ` set B" for sid s
    using two that foreign [of B N1 sid s] by (auto simp: converged_def map_le_def dom_def)
  have first: "N1 sid = Some s" if "N sid = Some s" "serviceKey s \<notin> serviceKey ` set A" for sid s
    using one that foreign [of A N sid s] by (auto simp: converged_def map_le_def dom_def)
  have keyB: "serviceKey s \<notin> serviceKey ` set B" if "d \<in> set A" "realizes d s" for d s
    using apart that realizes_key [OF that(2)] by auto
  have "\<exists>sid s. N2 sid = Some s \<and> realizes d s" if "d \<in> set (A @ B)" for d
  proof (cases "d \<in> set A")
    case True
    then obtain sid s where "N1 sid = Some s" "realizes d s" using one unfolding converged_def by blast
    with keeps keyB [OF True] show ?thesis by blast
  next
    case False
    with that two show ?thesis unfolding converged_def by auto
  qed
  moreover have "foreignServices True (A @ B) N \<subseteq>\<^sub>m N2"
    unfolding map_le_def dom_def using foreign [of "A @ B" N] first keeps by (auto simp: image_Un)
  moreover have "foreignServices True (A @ B) N sid = Some s \<or> (\<exists>d\<in>set (A @ B). realizes d s)" if "N2 sid = Some s" for sid s
  proof -
    consider "foreignServices True B N1 sid = Some s" | d where "d \<in> set B" "realizes d s"
      using two \<open>N2 sid = Some s\<close> unfolding converged_def by blast
    then show ?thesis
    proof cases
      case 1
      then have "N1 sid = Some s" "serviceKey s \<notin> serviceKey ` set B" using foreign by blast+
      moreover from this one have "foreignServices True A N sid = Some s \<or> (\<exists>d\<in>set A. realizes d s)"
        unfolding converged_def by blast
      ultimately show ?thesis using foreign [of A N sid s] foreign [of "A @ B" N sid s] by auto
    qed auto
  qed
  ultimately show ?thesis unfolding converged_def by blast
qed

text \<open>The services of a Service, by their ports.\<close>

lemma ownedBy_keys:
  assumes "map serviceKey ds = map (\<lambda>p. (sp_Port p, ToLower (sp_Protocol p))) ports" and "serviceKey s = (q, ToLower r)"
  shows "ownedBy ports s \<longleftrightarrow> serviceKey s \<in> serviceKey ` set ds"
proof -
  have "serviceKey ` set ds = (\<lambda>p. (sp_Port p, ToLower (sp_Protocol p))) ` set ports"
    using arg_cong [OF assms(1), of set] by simp
  then show ?thesis using assms(2)
    by (auto simp: ownedBy_def deleteMatches_def serviceKey_def EqualFold_ToLower)
qed

lemma unowned_mono:
  assumes "F \<subseteq>\<^sub>m N"
  shows "unowned ports F \<subseteq>\<^sub>m unowned ports N"
  unfolding map_le_def
proof
  fix a
  assume "a \<in> dom (unowned ports F)"
  then obtain s where s: "unowned ports F a = Some s" by auto
  then have "F a = Some s" "\<not> ownedBy ports s" by (simp_all add: unowned_Some)
  moreover from this assms have "N a = Some s" by (auto simp: map_le_def dom_def)
  ultimately have "unowned ports N a = Some s" by (simp add: unowned_Some)
  with s show "unowned ports F a = unowned ports N a" by simp
qed

lemma converged_deleted:
  assumes conv: "converged (A @ B) F N" and apart: "serviceKey ` set A \<inter> serviceKey ` set B = {}"
    and A: "map serviceKey A = map (\<lambda>p. (sp_Port p, ToLower (sp_Protocol p))) ports"
    and B: "map serviceKey B = map (\<lambda>p. (sp_Port p, ToLower (sp_Protocol p))) ports'"
  shows "converged B (unowned ports F) (unowned ports N)"
proof -
  have key: "\<exists>q r. serviceKey s = (q, ToLower r)" if "d \<in> set (A @ B)" "realizes d s" for d s
  proof -
    have "serviceKey s \<in> set (map serviceKey A) \<union> set (map serviceKey B)" using that realizes_key by fastforce
    then show ?thesis unfolding A B by auto
  qed
  have "\<not> ownedBy ports s" if "d \<in> set B" "realizes d s" for d s
    using key [of d s] that ownedBy_keys [OF A] apart realizes_key [OF that(2)] by fastforce
  moreover have "ownedBy ports s" if "d \<in> set A" "realizes d s" for d s
    using key [of d s] that ownedBy_keys [OF A] realizes_key [OF that(2)] by fastforce
  moreover have "unowned ports F \<subseteq>\<^sub>m unowned ports N"
    using conv unowned_mono unfolding converged_def by blast
  ultimately show ?thesis using conv unfolding converged_def unowned_Some by fastforce
qed

text \<open>
  Property C7. Two Services can share an external load balancer when they have no port in common: after the
  load balancer has been ensured for one and then for the other, it has the desired services of
  both, and the services of others are as before; and when the first Service is deleted, the
  services of the second are still there.
\<close>

theorem shared_external:
  assumes api: "nlb_api cl kc view"
    and one: "EnsureLoadBalancer cl kc lib nodes \<lparr>st_service = sA, st_world = w\<rparr> = (Inr statusA, stA)"
    and two: "EnsureLoadBalancer cl kc lib nodes' \<lparr>st_service = sB, st_world = st_world stA\<rparr> = (Inr statusB, stB)"
    and del: "EnsureLoadBalancerDeleted cl \<lparr>st_service = st_service stA, st_world = st_world stB\<rparr> = (Inr u, stC)"
    and ext: "isExternal sA" "isExternal sB"
    and ids: "getAnnotation (st_service stA) annotationLoadBalancerID [] = i"
      "getAnnotation (st_service stB) annotationLoadBalancerID [] = i"
    and ports: "distinct (map (\<lambda>p. (sp_Port p, sp_Protocol p)) (s_Ports sA))"
      "distinct (map (\<lambda>p. (sp_Port p, sp_Protocol p)) (s_Ports sB))"
    and apart: "\<And>p q. p \<in> set (s_Ports sA) \<Longrightarrow> q \<in> set (s_Ports sB) \<Longrightarrow> sp_Port p \<noteq> sp_Port q"
  shows "\<exists>specA specB c c'. buildLoadBalancerFromAnnotations (st_service stA) = Inr specA \<and>
    buildLoadBalancerFromAnnotations (st_service stB) = Inr specB \<and>
    view (st_world stB) = (view w)(i \<mapsto> c) \<and> view (st_world stC) = (view w)(i \<mapsto> c') \<and>
    (let foreign = foreignServices True (lb_Services specA @ lb_Services specB) (servicesAt (view w) i) in
     converged (lb_Services specA @ lb_Services specB) foreign (v_Services c) \<and>
     converged (lb_Services specB) (unowned (s_Ports sA) foreign) (v_Services c'))"
proof -
  obtain specA a where A: "buildLoadBalancerFromAnnotations (st_service stA) = Inr specA" "lb_ID specA = i" "i \<noteq> []"
    "view (st_world stA) = (view w)(i \<mapsto> a)"
    "converged (lb_Services specA) (foreignServices True (lb_Services specA) (servicesAt (view w) i)) (v_Services a)"
    and keysA: "map serviceKey (lb_Services specA) = map (\<lambda>p. (sp_Port p, ToLower (sp_Protocol p))) (s_Ports sA)"
    and sameA: "s_Ports (st_service stA) = s_Ports sA" "isExternal (st_service stA)"
    and distA: "distinct (map (\<lambda>p. (sp_Port p, ToLower (sp_Protocol p))) (s_Ports sA))"
    using nlb_api.ensure_result [OF api one] ports(1) ids(1) ext(1) by auto
  obtain specB b where B: "buildLoadBalancerFromAnnotations (st_service stB) = Inr specB" "lb_ID specB = i"
    "view (st_world stB) = (view w)(i \<mapsto> b)"
    "converged (lb_Services specB) (foreignServices True (lb_Services specB) (v_Services a)) (v_Services b)"
    and keysB: "map serviceKey (lb_Services specB) = map (\<lambda>p. (sp_Port p, ToLower (sp_Protocol p))) (s_Ports sB)"
    by (rule nlb_api.ensure_result [OF api two]) (use ports(2) ids(2) ext(2) A(4) in \<open>auto simp: servicesAt_def\<close>)
  have "serviceKey ` set (lb_Services specA) \<inter> serviceKey ` set (lb_Services specB) = {}"
    using apart arg_cong [OF keysA, of set] arg_cong [OF keysB, of set] by auto
  note both = converged_both [OF A(5) B(4) this] and deleted = converged_deleted [OF _ this keysA keysB]
  have "view (st_world stC) = afterDelete True (s_Ports sA) i (view (st_world stB))"
    using nlb_api.EnsureLoadBalancerDeleted_refines [OF api del] distA sameA ids(1) A(3) by simp
  then have "view (st_world stC) = (view w)(i \<mapsto> b\<lparr>v_Services := unowned (s_Ports sA) (v_Services b)\<rparr>)"
    by (simp add: B(3) afterDelete_def)
  with A(1) B(1,3) both deleted [OF both] show ?thesis unfolding Let_def by fastforce
qed

section \<open>An example\<close>

text \<open>Two Services, on ports 80 and 443, and a load balancer that already has a service on port 22.\<close>

definition exTLS :: Service where
  "exTLS = exService exExternal [\<lparr>sp_Port = 443, sp_NodePort = 30443, sp_Protocol = ''TCP''\<rparr>]"

definition exDesiredTLS :: LoadBalancerService where
  "exDesiredTLS = exDesired\<lparr>svc_Name := ''u1-443'', svc_Port := 443, svc_TargetPort := 30443,
     svc_Healthcheck := map_option (\<lambda>h. h\<lparr>hc_Port := 30443\<rparr>) (svc_Healthcheck exDesired)\<rparr>"

definition exShared :: "LoadBalancerService list list \<Rightarrow> memory" where
  "exShared versions = exMemory\<lparr>mem_services :=
     map (\<lambda>added. (''n1'', map (\<lambda>s. (svc_ID s, s)) (added @ [exOther]))) versions\<rparr>"

definition exFirst :: LoadBalancerService where
  "exFirst = exDesired\<lparr>svc_ID := ''na''\<rparr>"

definition exSecond :: LoadBalancerService where
  "exSecond = exDesiredTLS\<lparr>svc_ID := ''nnaa''\<rparr>"

lemmas shared_defs = exShared_def exTLS_def exDesiredTLS_def exFirst_def exSecond_def exSpec_def exDesired_def

lemma build_exTLS: "buildLoadBalancerFromAnnotations exTLS = Inr (exSpec\<lparr>lb_Services := [exDesiredTLS]\<rparr>)"
  by (simp add: build_eval example_defs exSpec_def exDesired_def exTLS_def exDesiredTLS_def)

lemma update_exShared:
  "updateLoadBalancer memoryClient \<lparr>st_service = exService exExternal [exPort], st_world = exShared [[]]\<rparr> =
    (Inr (), \<lparr>st_service = exService exExternal [exPort], st_world = exShared [[exFirst], []]\<rparr>)"
  by (simp add: updateLoadBalancer_def build_exExternal run_eval)
    (simp add: update_eval run_eval memory_eval external_eval example_defs shared_defs)

lemma update_exTLS:
  "updateLoadBalancer memoryClient \<lparr>st_service = exTLS, st_world = exShared [[exFirst], []]\<rparr> =
    (Inr (), \<lparr>st_service = exTLS, st_world = exShared [[exSecond, exFirst], [exFirst], []]\<rparr>)"
  by (simp add: updateLoadBalancer_def build_exTLS run_eval)
    (simp add: update_eval run_eval memory_eval external_eval example_defs shared_defs)

lemma delete_exShared:
  "fst (EnsureLoadBalancerDeleted memoryClient \<lparr>st_service = exService exExternal [exPort],
     st_world = exShared [[exSecond, exFirst], [exFirst], []]\<rparr>) = Inr ()"
  by (simp add: EnsureLoadBalancerDeleted_def fetchLoadBalancer_def deleteBody_def deleteMatches_def run_eval
      memory_eval external_eval example_defs serviceKey_def shared_defs)

lemma ensure_exShared:
  assumes "s = exService exExternal ps" and "buildLoadBalancerFromAnnotations s = Inr spec"
    and "\<exists>nlb. memGet ''n1'' (exShared vs) = (Inr nlb, exShared vs)"
    and "updateLoadBalancer memoryClient \<lparr>st_service = s, st_world = exShared vs\<rparr> = (Inr (), st')"
  shows "\<exists>status. EnsureLoadBalancer memoryClient (memoryKube (\<lambda>_. None)) exLib [] \<lparr>st_service = s, st_world = exShared vs\<rparr> =
    (Inr status, st')"
proof -
  let ?st = "\<lparr>st_service = s, st_world = exShared vs\<rparr>"
  have "resolveExternal memoryClient (memoryKube (\<lambda>_. None)) exLib ?st = (Inr (), ?st)"
    by (simp add: resolveExternal_def run_eval external_eval example_defs assms(1))
  moreover have "resolveInstancePool memoryClient (memoryKube (\<lambda>_. None)) exLib [] ?st = (Inr (), ?st)"
    by (simp add: resolveInstancePool_def run_eval external_eval example_defs assms(1))
  moreover have "\<exists>nlb. fetchLoadBalancer memoryClient ?st = (Inr nlb, ?st)"
    using assms(1,3) by (auto simp: fetchLoadBalancer_def run_eval external_eval example_defs memoryClient_def)
  ultimately show ?thesis
    using assms(2,4) by (auto simp: EnsureLoadBalancer_def bindM_run catchM_run liftE_def returnM_def)
qed

lemma get_exShared:
  assumes "vs \<in> {[], [exFirst]}"
  shows "\<exists>nlb. memGet ''n1'' (exShared (vs # us)) = (Inr nlb, exShared (vs # us))"
  using assms by (auto simp: memory_eval example_defs serviceKey_def shared_defs)

theorem shared_external_witness:
  "\<exists>c c'. memView (exShared [[exSecond, exFirst], [exFirst], []]) = (memView (exShared [[]]))(''n1'' \<mapsto> c) \<and>
     memView (st_world (snd (EnsureLoadBalancerDeleted memoryClient \<lparr>st_service = exService exExternal [exPort],
       st_world = exShared [[exSecond, exFirst], [exFirst], []]\<rparr>))) = (memView (exShared [[]]))(''n1'' \<mapsto> c') \<and>
     (let foreign = foreignServices True [exDesired, exDesiredTLS] (servicesAt (memView (exShared [[]])) ''n1'') in
      converged [exDesired, exDesiredTLS] foreign (v_Services c) \<and>
      converged [exDesiredTLS] (unowned [exPort] foreign) (v_Services c'))"
proof -
  obtain a where one: "EnsureLoadBalancer memoryClient (memoryKube (\<lambda>_. None)) exLib []
      \<lparr>st_service = exService exExternal [exPort], st_world = exShared [[]]\<rparr> =
      (Inr a, \<lparr>st_service = exService exExternal [exPort], st_world = exShared [[exFirst], []]\<rparr>)"
    using ensure_exShared [OF refl build_exExternal _ update_exShared] get_exShared by auto
  obtain b where two: "EnsureLoadBalancer memoryClient (memoryKube (\<lambda>_. None)) exLib []
      \<lparr>st_service = exTLS, st_world = exShared [[exFirst], []]\<rparr> =
      (Inr b, \<lparr>st_service = exTLS, st_world = exShared [[exSecond, exFirst], [exFirst], []]\<rparr>)"
    using ensure_exShared [OF exTLS_def build_exTLS _ update_exTLS] get_exShared by auto
  have ext: "isExternal (exService exExternal ps)" "isExternal exTLS"
    and ids: "getAnnotation (exService exExternal ps) annotationLoadBalancerID [] = ''n1''"
      "getAnnotation exTLS annotationLoadBalancerID [] = ''n1''" for ps
    by (simp_all add: external_eval example_defs exTLS_def)
  let ?A = "\<lparr>st_service = exService exExternal [exPort], st_world = exShared [[exFirst], []]\<rparr>"
    and ?B = "\<lparr>st_service = exTLS, st_world = exShared [[exSecond, exFirst], [exFirst], []]\<rparr>"
  have two': "EnsureLoadBalancer memoryClient (memoryKube (\<lambda>_. None)) exLib [] \<lparr>st_service = exTLS, st_world = st_world ?A\<rparr> =
      (Inr b, ?B)" and del: "EnsureLoadBalancerDeleted memoryClient \<lparr>st_service = st_service ?A, st_world = st_world ?B\<rparr> =
      (Inr (), snd (EnsureLoadBalancerDeleted memoryClient \<lparr>st_service = st_service ?A, st_world = st_world ?B\<rparr>))"
    using two run_result [OF delete_exShared] by simp_all
  have ids': "getAnnotation (st_service ?A) annotationLoadBalancerID [] = ''n1''"
    "getAnnotation (st_service ?B) annotationLoadBalancerID [] = ''n1''" using ids by simp_all
  have "distinct (map (\<lambda>p. (sp_Port p, sp_Protocol p)) (s_Ports (exService exExternal [exPort])))"
    "distinct (map (\<lambda>p. (sp_Port p, sp_Protocol p)) (s_Ports exTLS))"
    "\<And>p q. p \<in> set (s_Ports (exService exExternal [exPort])) \<Longrightarrow> q \<in> set (s_Ports exTLS) \<Longrightarrow> sp_Port p \<noteq> sp_Port q"
    by (simp_all add: exTLS_def exPort_def)
  from shared_external [OF memory.nlb_api_axioms one two' del ext ids' this] show ?thesis
    using build_exExternal build_exTLS by (simp add: exSpec_def)
qed

end
