(* ===== verification/NLB_Live.thy ===== *)
theory NLB_Live
  imports LB_Tracks
begin

text \<open>
  An API that is available: beyond the promises of \<open>nlb_api\<close>, a request is granted whenever there is no
  documented reason to refuse it. A load balancer that exists can be read and changed, a service can be
  added on a free port, a service that exists can be changed on its port or deleted, and a load
  balancer without services can be deleted. \<open>ok\<close> describes the states in which the API is available;
  requests that are granted lead to such states again.
\<close>

section \<open>The interface\<close>

definition free :: "(UUID \<rightharpoonup> LoadBalancerService) \<Rightarrow> ServiceKey \<Rightarrow> bool" where
  "free N k \<longleftrightarrow> (\<forall>sid s. N sid = Some s \<longrightarrow> serviceKey s \<noteq> k)"

definition granted :: "('w \<Rightarrow> bool) \<Rightarrow> ('w, 'a) M \<Rightarrow> 'w \<Rightarrow> bool" where
  "granted ok m w \<longleftrightarrow> (\<exists>x w'. m w = (Inr x, w') \<and> ok w')"

locale nlb_live = nlb_api cl kc view
  for cl :: "'w exoscaleClient" and kc :: "'w kubeClient" and view :: "'w \<Rightarrow> nlb_view" +
  fixes ok :: "'w \<Rightarrow> bool"
  assumes get_live: "ok w \<Longrightarrow> view w i = Some c \<Longrightarrow> granted ok (GetLoadBalancer cl i) w"
    and get_absent: "ok w \<Longrightarrow> view w i = None \<Longrightarrow>
      \<exists>e w'. GetLoadBalancer cl i w = (Inl e, w') \<and> errors_Is e ErrNotFound \<and> ok w'"
    and add_live: "ok w \<Longrightarrow> view w i = Some c \<Longrightarrow> free (v_Services c) (add_Port areq, add_Protocol areq) \<Longrightarrow>
      granted ok (AddServiceToLoadBalancer cl i areq) w"
    and delete_service_live: "ok w \<Longrightarrow> view w i = Some c \<Longrightarrow> v_Services c sid = Some s \<Longrightarrow>
      granted ok (DeleteLoadBalancerService cl i sid) w"
    and update_service_live: "ok w \<Longrightarrow> view w i = Some c \<Longrightarrow> v_Services c sid = Some s \<Longrightarrow>
      serviceKey (changedService ureq s) = serviceKey s \<Longrightarrow> granted ok (UpdateLoadBalancerService cl i sid ureq) w"
    and update_live: "ok w \<Longrightarrow> view w i = Some c \<Longrightarrow> granted ok (UpdateLoadBalancer cl i lreq) w"
    and create_live: "ok w \<Longrightarrow> granted ok (CreateLoadBalancer cl creq) w"
    and delete_live: "ok w \<Longrightarrow> view w i = Some c \<Longrightarrow> v_Services c = Map.empty \<Longrightarrow>
      granted ok (DeleteLoadBalancer cl i) w"
    and patch_live: "ok w \<Longrightarrow> granted ok (ServicesPatch kc ns n p) w"

section \<open>The in-memory service is available\<close>

text \<open>As long as no two services of a load balancer share port and protocol.\<close>

definition consistent :: "nlb_view \<Rightarrow> bool" where
  "consistent V \<longleftrightarrow> (\<forall>i c x y a b. V i = Some c \<longrightarrow> v_Services c x = Some a \<longrightarrow> v_Services c y = Some b \<longrightarrow>
     serviceKey a = serviceKey b \<longrightarrow> x = y)"

lemma consistentI:
  "(\<And>i c x y a b. V i = Some c \<Longrightarrow> v_Services c x = Some a \<Longrightarrow> v_Services c y = Some b \<Longrightarrow>
     serviceKey a = serviceKey b \<Longrightarrow> x = y) \<Longrightarrow> consistent V"
  unfolding consistent_def by blast

lemma consistentD:
  "consistent V \<Longrightarrow> V i = Some c \<Longrightarrow> v_Services c x = Some a \<Longrightarrow> v_Services c y = Some b \<Longrightarrow>
   serviceKey a = serviceKey b \<Longrightarrow> x = y"
  unfolding consistent_def by blast

lemma consistent_upd:
  assumes "consistent V"
    and "\<And>x y a b. v_Services c x = Some a \<Longrightarrow> v_Services c y = Some b \<Longrightarrow> serviceKey a = serviceKey b \<Longrightarrow> x = y"
  shows "consistent (V(i \<mapsto> c))"
  by (rule consistentI) (use assms(2) consistentD [OF assms(1)] in \<open>auto split: if_splits\<close>)

lemma consistent_add:
  assumes "consistent V" and "addEffect i req V V'" and "V i = Some c"
    and "free (v_Services c) (add_Port req, add_Protocol req)"
  shows "consistent V'"
proof -
  obtain sid where V': "V' = V(i \<mapsto> onServices (\<lambda>N. N(sid \<mapsto> serviceOf sid req)) c)"
    using assms(2,3) by (auto simp: addEffect_def)
  have "serviceKey (serviceOf sid req) = (add_Port req, add_Protocol req)"
    by (simp add: serviceKey_def serviceOf_def)
  then show ?thesis
    unfolding V' using assms(4) consistentD [OF assms(1,3)]
    by (intro consistent_upd assms(1)) (auto simp: onServices_def free_def split: if_splits)
qed

lemma consistent_delete_service: "consistent V \<Longrightarrow> deleteServiceEffect i sid V V' \<Longrightarrow> consistent V'"
  by (auto simp: deleteServiceEffect_def onServices_def intro!: consistent_upd split: if_splits dest: consistentD)

lemma consistent_update_service:
  assumes "consistent V" and "updateServiceEffect i sid req V V'" and "V i = Some c" and "v_Services c sid = Some s"
    and "serviceKey (changedService req s) = serviceKey s"
  shows "consistent V'"
proof -
  have "V' = V(i \<mapsto> onServices (\<lambda>N. N(sid \<mapsto> changedService req s)) c)"
    using assms(2-4) by (auto simp: updateServiceEffect_def)
  with assms(4,5) consistentD [OF assms(1,3)] show ?thesis
    by (auto simp: onServices_def intro!: consistent_upd assms(1) split: if_splits)
qed

lemma consistent_update: "consistent V \<Longrightarrow> updateEffect i req V V' \<Longrightarrow> consistent V'"
  by (auto simp: updateEffect_def intro!: consistent_upd dest: consistentD)

lemma consistent_create: "consistent V \<Longrightarrow> createEffect req oper V V' \<Longrightarrow> consistent V'"
  by (auto simp: createEffect_def intro!: consistent_upd)

lemma consistent_delete: "consistent V \<Longrightarrow> deleteEffect i V V' \<Longrightarrow> consistent V'"
  by (auto simp: deleteEffect_def consistent_def split: if_splits)

lemma memOnNLB_granted:
  assumes "memView m i = Some c" and "\<And>oper m'. memOnNLB i f m = (Inr oper, m') \<Longrightarrow> consistent (memView m')"
  shows "granted (\<lambda>m. consistent (memView m)) (memOnNLB i f) m"
  using assms by (auto simp: granted_def memOnNLB_def memView_eq split: option.splits)

lemma memGet_granted:
  assumes "consistent (memView m)" and "memView m i = Some c"
  shows "\<exists>lb. memGet i m = (Inr lb, m)"
proof -
  obtain lb where lb: "memNLB m i = Some lb" "c = configOf lb" using assms(2) by (auto simp: memView_def)
  have ids: "distinct (map svc_ID (lb_Services lb))"
    using lb(1) by (auto simp: memNLB_def map_fst_ID distinct_clearjunk)
  have "x = y" if "x \<in> set (lb_Services lb)" "y \<in> set (lb_Services lb)" "serviceKey x = serviceKey y" for x y
  proof -
    have "v_Services c (svc_ID z) = Some (configService z)" if "z \<in> set (lb_Services lb)" for z
      using that servicesOf_Some [OF ids] lb(2) by (auto simp: configOf_def)
    then have "svc_ID x = svc_ID y" using that consistentD [OF assms] by (metis serviceKey_config)
    with ids that show ?thesis by (simp add: distinct_map inj_on_def)
  qed
  then have "distinct (map serviceKey (lb_Services lb))"
    using ids by (simp add: distinct_map inj_on_def)
  with lb(1) show ?thesis by (simp add: memGet_def)
qed

interpretation memoryLive: nlb_live memoryClient "memoryKube nodes" memView "\<lambda>m. consistent (memView m)" for nodes
proof (unfold_locales, goal_cases)
  case (1 w i c)
  then show ?case using memGet_granted [of w i c] by (auto simp: granted_def memoryClient_def)
next
  case (2 w i)
  then show ?case by (auto simp: memoryClient_def memGet_def memView_def)
next
  case (3 w i c areq)
  then show ?case unfolding memoryClient_def memAdd_def
    using consistent_add [OF _ memAdd_ok] by (auto simp: memAdd_def intro!: memOnNLB_granted)
next
  case (4 w i c sid s)
  then show ?case unfolding memoryClient_def memDeleteService_def
    using consistent_delete_service [OF _ memDeleteService_ok] by (auto simp: memDeleteService_def intro!: memOnNLB_granted)
next
  case (5 w i c sid s ureq)
  then have "\<exists>oper m'. memUpdateService i sid ureq w = (Inr oper, m')"
    by (auto simp: memUpdateService_def memOnNLB_def memView_eq memServiceMap_def split: option.splits)
  with 5 consistent_update_service [OF _ memUpdateService_ok] show ?case
    unfolding memoryClient_def granted_def by fastforce
next
  case (6 w i c lreq)
  then show ?case unfolding memoryClient_def memUpdate_def
    using consistent_update [OF _ memUpdate_ok] by (auto simp: memUpdate_def intro!: memOnNLB_granted)
next
  case (7 w creq)
  then show ?case using consistent_create [OF 7 memCreate_ok]
    by (auto simp: granted_def memoryClient_def memCreate_def Let_def)
next
  case (8 w i c)
  then show ?case unfolding memoryClient_def memDelete_def
    using consistent_delete [OF _ memDelete_ok] by (auto simp: memDelete_def intro!: memOnNLB_granted)
next
  case (9 w ns n p)
  then show ?case using memory.patch_apart [of nodes ns n p w]
    by (simp add: granted_def memoryKube_def modifyM_def)
qed

end
