(* ===== verification/LB_Live.thy ===== *)
theory LB_Live
  imports NLB_Live LB_Reconcile
begin

text \<open>
  The handlers on an API that is available: they never ask for something that the API has a reason to
  refuse, so they return without an error. Together with the results on successful runs this gives
  total correctness of the load balancer controller.
\<close>

section \<open>What the controller asks for can be granted\<close>

lemma tracks_free:
  assumes tr: "tracks R F m vs N" and "kept ds m" and "notForeign ds F" and "keyed R"
    and d: "d \<in> set ds" "m (serviceKey d) = None" "serviceKey d \<notin> serviceKey ` set vs"
  shows "free N (serviceKey d)"
  unfolding free_def
proof (intro allI impI notI)
  fix sid s
  assume s: "N sid = Some s" "serviceKey s = serviceKey d"
  with tr show False
  proof (cases rule: tracks_only)
    case 1
    with assms(3) d(1) s(2) show False by (auto simp: notForeign_def)
  next
    case (2 d')
    with keyedD [OF assms(4)] d(3) s(2) show False by (metis imageI)
  next
    case (3 k c)
    with tracks_pending [OF tr] s(1) have "s = configService c" by simp
    with s(2) keptD [OF assms(2) 3(1)] 3(1) d(2) show False by simp
  qed
qed

lemma tracks_free_dropped:
  assumes tr: "tracks R F m vs N" and k: "kept ds m" and nf: "notForeign ds F" and "keyed R"
    and d: "d \<in> set ds" "m (serviceKey d) = Some c" "serviceKey d \<notin> serviceKey ` set vs"
  shows "free (N(svc_ID c := None)) (serviceKey d)"
proof (rule tracks_free)
  show "tracks R F (m(serviceKey d := None)) vs (N(svc_ID c := None))"
    by (rule tracks_drop [OF tr k d(2,3) pending_not_foreign [OF tr k nf d(2,3)] assms(4)])
  show "kept ds (m(serviceKey d := None))" using k by (auto simp: kept_def)
qed (use assms in auto)

lemma lastNamed_in: "n \<in> svc_Name ` set items \<or> found = n \<Longrightarrow> lastNamed n items found = n"
  by (induction items arbitrary: found) auto

context nlb_live begin

definition available ::
  "nlb_view \<Rightarrow> UUID \<Rightarrow> string \<Rightarrow> string \<Rightarrow> (UUID \<rightharpoonup> LoadBalancerService) \<Rightarrow> 'w handler_state \<Rightarrow> bool" where
  "available V i n de N st \<longleftrightarrow> conf V i n de N st \<and> ok (st_world st)"

lemma granted_callM: "granted ok f (st_world st) \<Longrightarrow> \<exists>x st'. callM f st = (Inr x, st') \<and> ok (st_world st')"
  by (auto simp: granted_def callM_def)

lemma get_runs:
  "runsTo (\<lambda>st. view (st_world st) i \<noteq> None \<and> ok (st_world st)) (callM (GetLoadBalancer cl i))
     (\<lambda>_ st. ok (st_world st))"
  by (rule runsToI) (use get_live granted_callM in blast)

lemma addService_runs:
  assumes "available V i n de N st" and "lb_ID nlb = i" and "free N (serviceKey d)"
    and "svc_Name d \<noteq> []" and "svc_InstancePool d \<noteq> None"
  shows "\<exists>st'. addService cl nlb d st = (Inr (), st') \<and> ok (st_world st')"
proof -
  let ?c = "\<lparr>v_Name = n, v_Description = de, v_Services = N\<rparr>"
  have ok: "ok (st_world st)" and V: "view (st_world st) = V(i \<mapsto> ?c)"
    using assms(1) by (simp_all add: available_def conf_def)
  obtain req where req: "addRequest d = Inr req" and key: "(add_Port req, add_Protocol req) = serviceKey d"
    using assms(5) by (auto simp: addRequest_def serviceKey_def)
  have "granted ok (AddServiceToLoadBalancer cl i req) (st_world st)"
    by (rule add_live [OF ok]) (use V assms(3) key in auto)
  then obtain oper st1 where add: "callM (AddServiceToLoadBalancer cl i req) st = (Inr oper, st1)" and ok1: "ok (st_world st1)"
    using granted_callM by blast
  from callM_InrD [OF add] add_ok have "addEffect i req (view (st_world st)) (view (st_world st1))" by blast
  then obtain c sid where c: "view (st_world st1) i = Some c" "v_Services c sid = Some (createdService d sid)"
    using addRequest_created [OF req] by (fastforce simp: addEffect_def onServices_def)
  then obtain lb st2 where get: "callM (GetLoadBalancer cl i) st1 = (Inr lb, st2)" and ok2: "ok (st_world st2)"
    using runsToE [OF get_runs [of i], of st1] ok1 by auto
  have "c = configOf lb" "distinct (map svc_ID (lb_Services lb))"
    using get_conf [OF get] c(1) by (auto simp: getPromise_def)
  with c(2) obtain x where "x \<in> set (lb_Services lb)" "configService x = createdService d sid"
    by (auto simp: configOf_def servicesOf_Some)
  then have "svc_Name d \<in> svc_Name ` set (lb_Services lb)"
    by (auto simp: configService_def createdService_def dest!: arg_cong [where f = svc_Name] intro: rev_image_eqI)
  with lastNamed_in have "lastNamed (svc_Name d) (lb_Services lb) [] = svc_Name d" by blast
  with req add get assms(2,4) ok2 show ?thesis by (simp add: addService_def liftE_def bindM_def returnM_def)
qed

lemma secondLoopBody_runs:
  assumes av: "available V i n de N st" and ids: "lb_ID cur = i" "lb_ID upd = i"
    and tr: "tracks (made N0) F m vs N" and k: "kept ds m" and nf: "notForeign ds F"
    and d: "d \<in> set ds" and new: "serviceKey d \<notin> serviceKey ` set vs"
    and named: "svc_Name d \<noteq> []" "svc_InstancePool d \<noteq> None"
  shows "\<exists>st'. secondLoopBody cl cur upd m d st = (Inr (), st') \<and> ok (st_world st')"
proof (cases "m (serviceKey d)")
  case None
  with addService_runs [OF av ids(1) tracks_free [OF tr k nf made_keyed d None new] named] show ?thesis
    by (simp add: secondLoopBody_def)
next
  case (Some c)
  let ?d = "d\<lparr>svc_ID := svc_ID c\<rparr>" and ?c = "\<lparr>v_Name = n, v_Description = de, v_Services = N\<rparr>"
  have old: "N (svc_ID c) = Some (configService c)" "serviceKey c = serviceKey d"
    using tracks_pending [OF tr Some new] keptD [OF k Some] by auto
  have ok: "ok (st_world st)" and V: "view (st_world st) i = Some ?c"
    using av by (simp_all add: available_def conf_def)
  have pool: "poolID ?d = poolID d" by (simp add: poolID_def)
  show ?thesis
  proof (cases "poolID c = poolID d")
    case True
    have "serviceKey (changedService (updateRequest d) (configService c)) = serviceKey (configService c)"
      using changedService_key [of "configService c" d] old(2) by simp
    then have "granted ok (UpdateLoadBalancerService cl i (svc_ID c) (updateRequest d)) (st_world st)"
      using update_service_live [OF ok V] old(1) by simp
    with granted_callM [OF this] True Some ids ok show ?thesis
      by (auto simp: secondLoopBody_def Let_def pool bindM_def returnM_def)
  next
    case False
    have "granted ok (DeleteLoadBalancerService cl i (svc_ID c)) (st_world st)"
      using delete_service_live [OF ok V] old(1) by simp
    then obtain oper st1 where del: "callM (DeleteLoadBalancerService cl i (svc_ID c)) st = (Inr oper, st1)"
      and "ok (st_world st1)" using granted_callM by blast
    then have "available V i n de (N(svc_ID c := None)) st1"
      using delete_service_conf [OF del] av by (simp add: available_def)
    moreover have "free (N(svc_ID c := None)) (serviceKey ?d)"
      using tracks_free_dropped [OF tr k nf made_keyed d Some new] by (simp add: serviceKey_def)
    ultimately obtain st' where "addService cl cur ?d st1 = (Inr (), st')" "ok (st_world st')"
      using addService_runs [OF _ ids(1)] named by fastforce
    moreover have "wrapM f (callM (DeleteLoadBalancerService cl i (svc_ID c))) st = (Inr oper, st1)" for f
      using del by (simp add: wrapM_Inr_iff)
    ultimately show ?thesis using False Some ids by (simp add: secondLoopBody_def Let_def pool bindM_run)
  qed
qed

lemma firstLoop_runs:
  assumes "lb_ID cur = i" and ids: "distinct (map svc_ID svcs)"
  shows "runsTo (available V i n de (servicesOf svcs)) (foldM (firstLoopBody cl external cur upd) svcs Map.empty)
    (\<lambda>m st. m = keptMap (lb_Services upd) svcs \<and>
       available V i n de (remaining external (lb_Services upd) svcs (servicesOf svcs)) st)"
proof -
  let ?D = "lb_Services upd" and ?N = "servicesOf svcs"
  let ?J = "\<lambda>vs m st. m = keptMap ?D vs \<and> available V i n de (remaining external ?D vs ?N) st"
  have "runsTo (?J [] Map.empty) (foldM (firstLoopBody cl external cur upd) svcs Map.empty) (?J svcs)"
  proof (rule runsTo_foldM [where J = ?J], rule runsToI)
    fix vs x ws b st
    assume svcs: "svcs = vs @ x # ws" and J: "?J vs b st"
    then have c: "conf V i n de (remaining external ?D vs ?N) st" and ok: "ok (st_world st)" and b: "b = keptMap ?D vs"
      by (simp_all add: available_def)
    have "remaining external ?D vs ?N (svc_ID x) = Some (configService x)"
      using ids unfolding svcs by (auto simp: remaining_def servicesOf_Some)
    then have "granted ok (DeleteLoadBalancerService cl i (svc_ID x)) (st_world st)"
      using delete_service_live [OF ok] c by (simp add: conf_def)
    then obtain oper st1 where "callM (DeleteLoadBalancerService cl i (svc_ID x)) st = (Inr oper, st1)" "ok (st_world st1)"
      using granted_callM by blast
    then have "\<exists>m st'. firstLoopBody cl external cur upd x b st = (Inr m, st') \<and> ok (st_world st')"
      using assms(1) ok by (simp add: firstLoopBody_def Let_def bindM_def returnM_def)
    with firstLoopBody_conf [OF assms(1) c] b show "\<exists>m st'. firstLoopBody cl external cur upd x b st = (Inr m, st') \<and> ?J (vs @ [x]) m st'"
      by (auto simp: available_def)
  qed
  then show ?thesis by simp
qed

lemma secondLoop_runs:
  assumes "lb_ID cur = i" "lb_ID upd = i" and "kept ds m" and "notForeign ds F" and "prior N0 ds m"
    and "distinct (map serviceKey ds)" and "\<And>d. d \<in> set ds \<Longrightarrow> svc_Name d \<noteq> [] \<and> svc_InstancePool d \<noteq> None"
  shows "runsTo (\<lambda>st. \<exists>N. available V i n de N st \<and> tracks (made N0) F m [] N) (forM (secondLoopBody cl cur upd m) ds)
    (\<lambda>_ st. ok (st_world st))"
proof -
  let ?J = "\<lambda>vs st. \<exists>N. available V i n de N st \<and> tracks (made N0) F m vs N"
  have "runsTo (?J []) (forM (secondLoopBody cl cur upd m) ds) (\<lambda>_. ?J ds)"
  proof (rule runsTo_forM [where J = ?J], rule runsToI, elim exE conjE)
    fix vs d ws st N
    assume ds: "ds = vs @ d # ws" and av: "available V i n de N st" and tr: "tracks (made N0) F m vs N"
    from assms(6) have d: "d \<in> set ds" "serviceKey d \<notin> serviceKey ` set vs" unfolding ds by auto
    then obtain st' where run: "secondLoopBody cl cur upd m d st = (Inr (), st')" and "ok (st_world st')"
      using secondLoopBody_runs [OF av assms(1,2) tr assms(3,4)] assms(7) by blast
    moreover have "\<exists>N'. conf V i n de N' st' \<and> tracks (made N0) F m (vs @ [d]) N'"
      using secondLoopBody_conf [OF run assms(1,2) _ tr assms(3-5) d] av by (simp add: available_def)
    ultimately show "\<exists>u st'. secondLoopBody cl cur upd m d st = (Inr u, st') \<and> ?J (vs @ [d]) st'"
      by (auto simp: available_def)
  qed
  then show ?thesis by (rule runsTo_weaken) (auto simp: available_def)
qed

lemma updateTopLevel_runs:
  assumes "available V i n de N st" and "lb_ID upd = i"
  shows "\<exists>st'. updateTopLevel cl external cur upd st = (Inr (), st') \<and> ok (st_world st')"
proof -
  have "granted ok (UpdateLoadBalancer cl i req) (st_world st)" for req
    using update_live assms(1) by (auto simp: available_def conf_def)
  then obtain oper st1 where "callM (UpdateLoadBalancer cl i \<lparr>ulb_Name = lb_Name upd,
      ulb_Description = lb_Description cur, ulb_Labels = lb_Labels upd\<rparr>) st = (Inr oper, st1)" "ok (st_world st1)"
    using granted_callM by blast
  with assms show ?thesis by (simp add: updateTopLevel_def bindM_run returnM_def available_def)
qed

lemma updateLoadBalancer_runs:
  assumes "ok (st_world st)" and spec: "buildLoadBalancerFromAnnotations (st_service st) = Inr spec" "lb_ID spec \<noteq> []"
    and V: "view (st_world st) (lb_ID spec) \<noteq> None" and dist: "distinct (map serviceKey (lb_Services spec))"
    and named: "list_all (\<lambda>d. svc_Name d \<noteq> []) (lb_Services spec)"
  shows "\<exists>st'. updateLoadBalancer cl st = (Inr (), st') \<and> ok (st_world st')"
proof -
  let ?i = "lb_ID spec" and ?ext = "isExternal (st_service st)" and ?D = "lb_Services spec" and ?V = "view (st_world st)"
  obtain cur st1 where get: "callM (GetLoadBalancer cl ?i) st = (Inr cur, st1)" and ok1: "ok (st_world st1)"
    using runsToE [OF get_runs [of ?i], of st] assms(1) V by blast
  from get_conf [OF get] have "getPromise ?i cur ?V" and v1: "view (st_world st1) = ?V" by auto
  then have ids: "lb_ID cur = ?i" and c: "?V ?i = Some (configOf cur)"
    and d: "distinct (map svc_ID (lb_Services cur))" "distinct (map serviceKey (lb_Services cur))"
    by (auto simp: getPromise_def)
  let ?N = "servicesOf (lb_Services cur)" and ?m = "keptMap ?D (lb_Services cur)"
  define n where "n = (if ?ext then lb_Name cur else sent (lb_Name spec) (lb_Name cur))"
  have one: "conf ?V ?i (lb_Name cur) (lb_Description cur) ?N st1"
    using c v1 by (simp add: conf_def configOf_def fun_upd_idem)
  then obtain st2 where top: "updateTopLevel cl ?ext cur spec st1 = (Inr (), st2)" and "ok (st_world st2)"
    using updateTopLevel_runs ok1 by (metis available_def)
  then have "available ?V ?i n (lb_Description cur) ?N st2"
    using updateTopLevel_conf [OF top refl one] by (simp add: available_def n_def)
  with firstLoop_runs [OF ids d(1)] obtain st3
    where first: "foldM (firstLoopBody cl ?ext cur spec) (lb_Services cur) Map.empty st2 = (Inr ?m, st3)"
    and "available ?V ?i n (lb_Description cur) (remaining ?ext ?D (lb_Services cur) ?N) st3"
    by (rule runsToE [where Q = "\<lambda>m st. m = ?m \<and> A m st" for A]) auto
  then have start: "\<exists>N. available ?V ?i n (lb_Description cur) N st3 \<and> tracks (made ?N) (foreignServices ?ext ?D ?N) ?m [] N"
    using tracks_initial [OF d] by blast
  have "svc_Name x \<noteq> [] \<and> svc_InstancePool x \<noteq> None" if "x \<in> set ?D" for x
    using named that buildLoadBalancer_plainPool [OF spec(1) that] by (auto simp: list_all_iff)
  from secondLoop_runs [OF ids refl kept_keptMap notForeign_foreignServices prior_keptMap [OF d] dist this] start
  obtain u st' where "forM (secondLoopBody cl cur spec ?m) ?D st3 = (Inr u, st')" "ok (st_world st')"
    by (rule runsToE)
  with get top first spec show ?thesis by (simp add: updateLoadBalancer_def bindM_run liftE_def)
qed

end

section \<open>Ensuring\<close>

text \<open>The patch library can encode every Service and compare every pair of texts.\<close>

definition patches :: "patchLib \<Rightarrow> bool" where
  "patches lib \<longleftrightarrow> (\<forall>s. \<exists>j. jsonMarshal lib s = Inr j) \<and> (\<forall>a b. \<exists>p. CreateTwoWayMergePatch lib a b = Inr p)"

text \<open>The Service names its Instance Pool, and if its load balancer is external, this has an ID and exists.\<close>

definition ensurable :: "nlb_view \<Rightarrow> Service \<Rightarrow> bool" where
  "ensurable V s \<longleftrightarrow> getAnnotation s annotationLoadBalancerSKSClusterName [] = [] \<and>
     getAnnotation s annotationLoadBalancerServiceSKSNodePoolName [] = [] \<and>
     getAnnotation s annotationLoadBalancerServiceInstancePoolID [] \<noteq> [] \<and>
     (isExternal s \<longrightarrow> (let i = getAnnotation s annotationLoadBalancerID [] in i \<noteq> [] \<and> V i \<noteq> None))"

text \<open>The load balancer that the Service has, if it exists, and a new one otherwise.\<close>

definition attached :: "nlb_view \<Rightarrow> Service \<Rightarrow> UUID \<Rightarrow> bool" where
  "attached V s i \<longleftrightarrow> (let j = getAnnotation s annotationLoadBalancerID [] in
     if j \<noteq> [] \<and> V j \<noteq> None then i = j else V i = None)"

lemma buildLoadBalancer_annotate_ID:
  "buildLoadBalancerFromAnnotations (s\<lparr>s_Annotations := (s_Annotations s)(annotationLoadBalancerID \<mapsto> i)\<rparr>) =
   map_sum id (\<lambda>lb. lb\<lparr>lb_ID := i\<rparr>) (buildLoadBalancerFromAnnotations s)"
proof -
  let ?s = "s\<lparr>s_Annotations := (s_Annotations s)(annotationLoadBalancerID \<mapsto> i)\<rparr>"
  have "healthcheckPort ?s p = healthcheckPort s p" "serviceName ?s p = serviceName s p" for p
    by (simp_all add: healthcheckPort_def serviceName_def annotation_defs Let_def)
  then have "buildLoadBalancerService ?s a b c = buildLoadBalancerService s a b c" for a b c
    by (simp add: buildLoadBalancerService_def fun_eq_iff annotation_defs Let_def split: sum.split)
  then show ?thesis
    by (simp add: buildLoadBalancerFromAnnotations_def annotation_defs split: sum.split)
qed

lemma ensurable_resolves:
  assumes "ensurable V (st_service st)"
  shows "resolveExternal cl kc lib st = (Inr (), st)" "resolveInstancePool cl kc lib nodes st = (Inr (), st)"
  using assms by (auto simp: ensurable_def resolveExternal_def resolveInstancePool_def returnM_def Let_def)

lemma errors_Is_not_panic: "errors_Is e t \<Longrightarrow> \<not> is_panic t \<Longrightarrow> \<not> is_panic e"
  by (cases e) auto

context nlb_live begin

lemma patchAnnotation_runs:
  assumes "patches lib" and "ok (st_world st)"
  shows "\<exists>st'. patchAnnotation kc lib k v st = (Inr (), st') \<and> ok (st_world st')"
proof -
  have "\<exists>st'. Patch kc lib q st1 = (Inr (), st') \<and> ok (st_world st')" if "ok (st_world st1)" for q and st1 :: "'w handler_state"
  proof -
    obtain j j' p where json: "jsonMarshal lib (ksp_current q) = Inr j" "jsonMarshal lib (st_service st1) = Inr j'"
      "CreateTwoWayMergePatch lib j j' = Inr p" using assms(1) unfolding patches_def by metis
    have "granted ok (ServicesPatch kc (s_Namespace (ksp_current q)) (s_Name (ksp_current q)) p) (st_world st1)"
      using patch_live that by blast
    then obtain st2 where "callM (ServicesPatch kc (s_Namespace (ksp_current q)) (s_Name (ksp_current q)) p) st1 = (Inr (), st2)"
      "ok (st_world st2)" using granted_callM by (metis old.unit.exhaust)
    then show ?thesis
      using json that by (simp add: Patch_def bindM_run wrapM_liftE returnM_def wrapM_Inr_iff)
  qed
  with assms(2) show ?thesis by (auto simp: patchAnnotation_def Let_def getM_def modifyM_def bindM_def returnM_def)
qed

lemma createNLB_runs:
  assumes "patches lib" and "ok (st_world st)" and "\<not> isExternal (st_service st)"
  shows "\<exists>nlb st'. createNLB cl kc lib spec st = (Inr nlb, st') \<and> ok (st_world st')"
proof -
  obtain oper st1 where create: "callM (CreateLoadBalancer cl (creation spec)) st = (Inr oper, st1)" and ok1: "ok (st_world st1)"
    using create_live [OF assms(2)] granted_callM by blast
  from callM_InrD [OF create] create_ok
  have "createEffect (creation spec) oper (view (st_world st)) (view (st_world st1))" by blast
  then obtain i where i: "op_Reference oper = Some i" "view (st_world st1) i \<noteq> None" by (auto simp: createEffect_def)
  then obtain nlb st2 where get: "callM (GetLoadBalancer cl i) st1 = (Inr nlb, st2)" and "ok (st_world st2)"
    using runsToE [OF get_runs [of i], of st1] ok1 by blast
  then obtain st' where "patchAnnotation kc lib annotationLoadBalancerID (lb_ID nlb) st2 = (Inr (), st')" "ok (st_world st')"
    using patchAnnotation_runs [OF assms(1)] by blast
  with create i(1) get assms(3) show ?thesis
    by (simp add: createNLB_def creation_def bindM_run wrapM_Inr_iff returnM_def)
qed

lemma fetch_absent:
  assumes ok: "ok (st_world st)" and i: "i = getAnnotation (st_service st) annotationLoadBalancerID []"
    and "\<not> (i \<noteq> [] \<and> view (st_world st) i \<noteq> None)"
  shows "\<exists>st'. fetchLoadBalancer cl st = (Inl ErrLoadBalancerNotFound, st') \<and> ok (st_world st')"
proof (cases "i = []")
  case True
  with ok i show ?thesis by (simp add: fetchLoadBalancer_def failM_def)
next
  case False
  with assms(3) get_absent [OF ok, of i]
  obtain e w where "GetLoadBalancer cl i (st_world st) = (Inl e, w)" "errors_Is e ErrNotFound" "ok w" by auto
  with False i errors_Is_not_panic [of e ErrNotFound] show ?thesis
    by (simp add: fetchLoadBalancer_def callM_def catchM_def failM_def Let_def)
qed

lemma ensureNLB_runs:
  assumes "patches lib" and ok: "ok (st_world st)" and "ensurable (view (st_world st)) (st_service st)"
  shows "\<exists>nlb st' i. catchM (fetchLoadBalancer cl)
      (\<lambda>e. if errors_Is e ErrLoadBalancerNotFound then createNLB cl kc lib spec else failM e) st = (Inr nlb, st') \<and>
    ok (st_world st') \<and> i \<noteq> [] \<and> view (st_world st') i \<noteq> None \<and> attached (view (st_world st)) (st_service st) i \<and>
    st_service st' = (st_service st)\<lparr>s_Annotations := (s_Annotations (st_service st))(annotationLoadBalancerID \<mapsto> i)\<rparr>"
proof -
  let ?i = "getAnnotation (st_service st) annotationLoadBalancerID []"
  show ?thesis
  proof (cases "?i \<noteq> [] \<and> view (st_world st) ?i \<noteq> None")
    case True
    then obtain nlb st1 where get: "callM (GetLoadBalancer cl ?i) st = (Inr nlb, st1)" "ok (st_world st1)"
      using runsToE [OF get_runs [of ?i], of st] ok by blast
    have "s_Annotations (st_service st) annotationLoadBalancerID = Some ?i"
      using True by (auto simp: getAnnotation_def split: option.splits)
    with True get get_conf [OF get(1)] show ?thesis
      by (auto simp: fetchLoadBalancer_def catchM_def Let_def fun_upd_idem attached_def intro!: exI [of _ ?i])
  next
    case False
    then obtain st1 where fetch: "fetchLoadBalancer cl st = (Inl ErrLoadBalancerNotFound, st1)" "ok (st_world st1)"
      using fetch_absent [OF ok refl] by blast
    have st1: "view (st_world st1) = view (st_world st)" "st_service st1 = st_service st"
      using fetchLoadBalancer_state [of st] fetch(1) by simp_all
    then have "\<not> isExternal (st_service st1)" using False assms(3) by (auto simp: ensurable_def Let_def)
    then obtain nlb st' where create: "createNLB cl kc lib spec st1 = (Inr nlb, st')" and "ok (st_world st')"
      using createNLB_runs [OF assms(1) fetch(2)] by blast
    moreover from create obtain i where "i \<noteq> []" "view (st_world st') i \<noteq> None" "view (st_world st1) i = None"
      "st_service st' = (st_service st1)\<lparr>s_Annotations := (s_Annotations (st_service st1))(annotationLoadBalancerID \<mapsto> i)\<rparr>"
      by (rule createNLB_conf) auto
    ultimately show ?thesis using fetch(1) st1 False by (auto simp: catchM_def attached_def Let_def)
  qed
qed

lemma EnsureLoadBalancer_runs:
  assumes "patches lib" and "ok (st_world st)" and ens: "ensurable (view (st_world st)) (st_service st)"
    and spec: "buildLoadBalancerFromAnnotations (st_service st) = Inr spec"
    and dist: "distinct (map (\<lambda>p. (sp_Port p, sp_Protocol p)) (s_Ports (st_service st)))"
    and named: "list_all (\<lambda>d. svc_Name d \<noteq> []) (lb_Services spec)"
  shows "\<exists>status st' i. EnsureLoadBalancer cl kc lib nodes st = (Inr status, st') \<and> ok (st_world st') \<and>
    attached (view (st_world st)) (st_service st) i \<and>
    st_service st' = (st_service st)\<lparr>s_Annotations := (s_Annotations (st_service st))(annotationLoadBalancerID \<mapsto> i)\<rparr>"
proof -
  obtain nlb st1 i where one: "catchM (fetchLoadBalancer cl)
      (\<lambda>e. if errors_Is e ErrLoadBalancerNotFound then createNLB cl kc lib spec else failM e) st = (Inr nlb, st1)"
    and ok1: "ok (st_world st1)" "i \<noteq> []" "view (st_world st1) i \<noteq> None" and at: "attached (view (st_world st)) (st_service st) i"
    and s1: "st_service st1 = (st_service st)\<lparr>s_Annotations := (s_Annotations (st_service st))(annotationLoadBalancerID \<mapsto> i)\<rparr>"
    using ensureNLB_runs [OF assms(1-3)] by blast
  have "buildLoadBalancerFromAnnotations (st_service st1) = Inr (spec\<lparr>lb_ID := i\<rparr>)"
    unfolding s1 buildLoadBalancer_annotate_ID spec by simp
  then obtain st' where upd: "updateLoadBalancer cl st1 = (Inr (), st')" "ok (st_world st')"
    using updateLoadBalancer_runs [OF ok1(1)] ok1(2,3) named buildLoadBalancer_keys_distinct [OF spec dist] by fastforce
  moreover have "st_service st' = st_service st1" using updateLoadBalancer_service [of st1] upd(1) by simp
  ultimately show ?thesis
    using one spec at s1 ensurable_resolves [OF ens]
    by (auto simp: EnsureLoadBalancer_def bindM_run liftE_def returnM_def)
qed

end

section \<open>Deleting\<close>

context nlb_live begin

lemma deleteLoop_runs:
  assumes dist: "distinct (map (\<lambda>p. (sp_Port p, ToLower (sp_Protocol p))) ports)" and "lb_ID nlb = i"
    and ids: "distinct (map svc_ID svcs)"
  shows "runsTo (available V i n de (servicesOf svcs)) (foldM (deleteBody cl nlb ports) svcs r0)
    (\<lambda>r st. r = r0 - int (length (filter (ownedBy ports) svcs)) \<and>
       available V i n de (dropOwned ports svcs (servicesOf svcs)) st)"
proof -
  let ?N = "servicesOf svcs" and ?left = "\<lambda>vs. r0 - int (length (filter (ownedBy ports) vs))"
  let ?J = "\<lambda>vs r st. r = ?left vs \<and> available V i n de (dropOwned ports vs ?N) st"
  have "runsTo (?J [] r0) (foldM (deleteBody cl nlb ports) svcs r0) (?J svcs)"
  proof (rule runsTo_foldM [where J = ?J], rule runsToI)
    fix vs x ws b st
    assume svcs: "svcs = vs @ x # ws" and J: "?J vs b st"
    then have c: "conf V i n de (dropOwned ports vs ?N) st" and ok: "ok (st_world st)" by (simp_all add: available_def)
    have "dropOwned ports vs ?N (svc_ID x) = Some (configService x)"
      using ids unfolding svcs by (auto simp: dropOwned_def servicesOf_Some)
    then have "granted ok (DeleteLoadBalancerService cl i (svc_ID x)) (st_world st)"
      using delete_service_live [OF ok] c by (simp add: conf_def)
    then obtain oper st1 where "callM (DeleteLoadBalancerService cl i (svc_ID x)) st = (Inr oper, st1)" "ok (st_world st1)"
      using granted_callM by blast
    then obtain r st' where run: "deleteBody cl nlb ports x b st = (Inr r, st')" "ok (st_world st')"
      using that assms(2) ok by (cases "ownedBy ports x")
        (simp_all add: deleteBody_owned [OF dist] deleteBody_unowned bindM_def returnM_def)
    with deleteBody_conf [OF assms(1,2) c, of x r0 r st'] J show "\<exists>r st'. deleteBody cl nlb ports x b st = (Inr r, st') \<and> ?J (vs @ [x]) r st'"
      unfolding available_def by blast
  qed
  then show ?thesis by simp
qed

lemma EnsureLoadBalancerDeleted_runs:
  assumes dist: "distinct (map (\<lambda>p. (sp_Port p, ToLower (sp_Protocol p))) (s_Ports (st_service st)))"
    and ok: "ok (st_world st)"
  shows "\<exists>st'. EnsureLoadBalancerDeleted cl st = (Inr (), st') \<and> ok (st_world st')"
proof -
  let ?i = "getAnnotation (st_service st) annotationLoadBalancerID []" and ?ports = "s_Ports (st_service st)"
  show ?thesis
  proof (cases "?i \<noteq> [] \<and> view (st_world st) ?i \<noteq> None")
    case False
    then obtain st2 where "fetchLoadBalancer cl st = (Inl ErrLoadBalancerNotFound, st2)" "ok (st_world st2)"
      using fetch_absent [OF ok refl] by blast
    then show ?thesis by (simp add: EnsureLoadBalancerDeleted_def bindM_def getM_def catchM_def returnM_def)
  next
    case True
    then obtain nlb st2 where get: "callM (GetLoadBalancer cl ?i) st = (Inr nlb, st2)" "ok (st_world st2)"
      using runsToE [OF get_runs [of ?i], of st] ok by blast
    let ?svcs = "lb_Services nlb" and ?V = "view (st_world st)"
    have p: "lb_ID nlb = ?i" "?V ?i = Some (configOf nlb)" "distinct (map svc_ID ?svcs)" "view (st_world st2) = ?V"
      using get_conf [OF get(1)] by (auto simp: getPromise_def)
    then have "available ?V ?i (lb_Name nlb) (lb_Description nlb) (servicesOf ?svcs) st2"
      using get(2) by (simp add: available_def conf_def configOf_def fun_upd_idem)
    with deleteLoop_runs [OF dist p(1,3)] obtain r st3
      where loop: "foldM (deleteBody cl nlb ?ports) ?svcs (int (length ?svcs)) st2 = (Inr r, st3)"
      and "r = int (length ?svcs) - int (length (filter (ownedBy ?ports) ?svcs)) \<and>
        available ?V ?i (lb_Name nlb) (lb_Description nlb) (dropOwned ?ports ?svcs (servicesOf ?svcs)) st3"
      by (rule runsToE)
    then have r: "r = 0 \<longleftrightarrow> unowned ?ports (servicesOf ?svcs) = Map.empty"
      and av: "available ?V ?i (lb_Name nlb) (lb_Description nlb) (unowned ?ports (servicesOf ?svcs)) st3"
      using none_left [OF p(3)] by (simp_all add: dropOwned_all [OF p(3)])
    have "\<exists>oper st4. callM (DeleteLoadBalancer cl ?i) st3 = (Inr oper, st4) \<and> ok (st_world st4)" if "r = 0"
      using granted_callM [OF delete_live] av that r by (simp add: available_def conf_def)
    then have "\<exists>st'. (if r = 0 then if isExternal (st_service st) then returnM ()
        else bindM (callM (DeleteLoadBalancer cl (lb_ID nlb))) (\<lambda>_. returnM ()) else returnM ()) st3 = (Inr (), st') \<and> ok (st_world st')"
      using av p(1) by (auto simp: bindM_def returnM_def available_def)
    moreover have "catchM (bindM (fetchLoadBalancer cl) (\<lambda>nlb. returnM (Some nlb)))
        (\<lambda>e. if errors_Is e ErrLoadBalancerNotFound then returnM None else failM e) st = (Inr (Some nlb), st2)"
      using True get(1) by (simp add: fetchLoadBalancer_def catchM_def bindM_def getM_def returnM_def Let_def)
    ultimately show ?thesis using loop by (simp add: EnsureLoadBalancerDeleted_def bindM_run)
  qed
qed

end

section \<open>Total correctness\<close>



lemma consistent_exMemory: "consistent (memView exMemory)"
  by (rule consistentI)
    (auto simp: memView_eq memServices_def memServiceMap_def exMemory_def exOther_def exOld_def serviceKey_def
      configService_def split: if_splits)



text \<open>
  Property C5. With an API that is available, \<^verbatim>\<open>EnsureLoadBalancerDeleted\<close> returns without an error for every
  Service without duplicate ports, and exactly the services on these ports are gone.
\<close>

theorem delete_succeeds:
  assumes live: "nlb_live cl kc view ok" "ok (st_world st)"
    and dist: "distinct (map (\<lambda>p. (sp_Port p, ToLower (sp_Protocol p))) (s_Ports (st_service st)))"
    and i: "getAnnotation (st_service st) annotationLoadBalancerID [] = i"
  shows "\<exists>st'. EnsureLoadBalancerDeleted cl st = (Inr (), st') \<and> ok (st_world st') \<and>
    view (st_world st') = (if i = [] then view (st_world st)
      else afterDelete (isExternal (st_service st)) (s_Ports (st_service st)) i (view (st_world st)))"
proof -
  have api: "nlb_api cl kc view" using live(1) by (simp add: nlb_live_def)
  obtain st' where "EnsureLoadBalancerDeleted cl st = (Inr (), st')" "ok (st_world st')"
    using nlb_live.EnsureLoadBalancerDeleted_runs [OF live(1) dist live(2)] by blast
  with nlb_api.EnsureLoadBalancerDeleted_refines [OF api this(1) dist i] show ?thesis by blast
qed

theorem delete_succeeds_witness:
  "\<exists>st'. EnsureLoadBalancerDeleted memoryClient (exState exExternal) = (Inr (), st') \<and>
     memView (st_world st') = afterDelete True [exPort] ''n1'' (memView exMemory)"
  using delete_succeeds [where st = "exState exExternal", OF memoryLive.nlb_live_axioms _ _ refl] consistent_exMemory
  by (auto simp: exState_def external_eval exService_def exExternal_def exPool_def)

end
