(* ===== verification/Client_Live.thy ===== *)
theory Client_Live
  imports Client_Properties LB_Live
begin

text \<open>
  The refreshable client over an asynchronous API that is available: requests are accepted and their
  operations succeed. Then the client is available to the load balancer controller as long as it is set.
\<close>

section \<open>Availability of the asynchronous API\<close>

text \<open>A request that changes something is granted when its operation has succeeded.\<close>

locale async_live = async_nlb_api exo kc view
  for exo :: "'w exoscaleClient" and kc :: "'w kubeClient" and view :: "'w \<Rightarrow> nlb_view" +
  fixes ok :: "'w \<Rightarrow> bool"
  assumes aget_live: "ok w \<Longrightarrow> view w i = Some c \<Longrightarrow> granted ok (GetLoadBalancer exo i) w"
    and aget_absent: "ok w \<Longrightarrow> view w i = None \<Longrightarrow>
      \<exists>e w'. GetLoadBalancer exo i w = (Inl e, w') \<and> errors_Is e ErrNotFound \<and> ok w'"
    and aadd_live: "ok w \<Longrightarrow> view w i = Some c \<Longrightarrow> free (v_Services c) (add_Port areq, add_Protocol areq) \<Longrightarrow>
      granted ok (waitSuccess exo (AddServiceToLoadBalancer exo i areq)) w"
    and adelete_service_live: "ok w \<Longrightarrow> view w i = Some c \<Longrightarrow> v_Services c sid = Some s \<Longrightarrow>
      granted ok (waitSuccess exo (DeleteLoadBalancerService exo i sid)) w"
    and aupdate_service_live: "ok w \<Longrightarrow> view w i = Some c \<Longrightarrow> v_Services c sid = Some s \<Longrightarrow>
      serviceKey (changedService ureq s) = serviceKey s \<Longrightarrow>
      granted ok (waitSuccess exo (UpdateLoadBalancerService exo i sid ureq)) w"
    and aupdate_live: "ok w \<Longrightarrow> view w i = Some c \<Longrightarrow> granted ok (waitSuccess exo (UpdateLoadBalancer exo i lreq)) w"
    and acreate_live: "ok w \<Longrightarrow> granted ok (waitSuccess exo (CreateLoadBalancer exo creq)) w"
    and adelete_live: "ok w \<Longrightarrow> view w i = Some c \<Longrightarrow> v_Services c = Map.empty \<Longrightarrow>
      granted ok (waitSuccess exo (DeleteLoadBalancer exo i)) w"
    and apatch_live: "ok w \<Longrightarrow> granted ok (ServicesPatch kc ns n p) w"

text \<open>Every client that the package can make is available, and the endpoint of a zone can be found.\<close>

locale live_stack = async_stack ego kc view
  for ego :: "('c, 'w) egoscale" and kc :: "'w kubeClient" and view :: "'w \<Rightarrow> nlb_view" +
  fixes ok :: "'w \<Rightarrow> bool"
  assumes every_live: "async_live (asClient ego c) kc view ok"
    and zone_live: "ok w \<Longrightarrow> granted ok (GetZoneAPIEndpoint ego c zone) w"
    and zone_reads: "view (snd (GetZoneAPIEndpoint ego c zone w)) = view w"

definition usable :: "('w \<Rightarrow> bool) \<Rightarrow> ('c, 'w) app \<Rightarrow> bool" where
  "usable ok a \<longleftrightarrow> rc_exo (app_client a) \<noteq> None \<and> ok (app_world a)"

lemma usableE:
  assumes "usable ok a"
  obtains c where "rc_exo (app_client a) = Some c" and "ok (app_world a)"
  using assms by (auto simp: usable_def)

lemma granted_worldM:
  assumes "rc_exo (app_client a) \<noteq> None" and "granted ok f (app_world a)"
  shows "granted (usable ok) (worldM f) a"
proof -
  obtain x w where "f (app_world a) = (Inr x, w)" "ok w" using assms(2) by (auto simp: granted_def)
  with assms(1) show ?thesis by (simp add: granted_def worldM_def usable_def)
qed

lemma granted_onExo:
  "rc_exo (app_client a) = Some c \<Longrightarrow> granted ok (f (asClient ego c)) (app_world a) \<Longrightarrow> granted (usable ok) (onExo ego f) a"
  using granted_worldM [of a ok "f (asClient ego c)"] by (simp add: granted_def onExo_def)

lemmas stack_methods = refreshableClient_def rc_GetLoadBalancer_def rc_AddServiceToLoadBalancer_def
  rc_DeleteLoadBalancerService_def rc_UpdateLoadBalancerService_def rc_UpdateLoadBalancer_def
  rc_CreateLoadBalancer_def rc_DeleteLoadBalancer_def

sublocale live_stack \<subseteq> live: nlb_live "refreshableClient ego" "kubeOfApp kc" "\<lambda>a. view (app_world a)" "usable ok"
proof (unfold_locales, goal_cases)
  case (1 a i c)
  then show ?case
    by (auto simp: stack_methods elim!: usableE intro: granted_onExo async_live.aget_live [OF every_live])
next
  case (2 a i)
  from 2(1) obtain c where c: "rc_exo (app_client a) = Some c" "ok (app_world a)" by (rule usableE)
  with async_live.aget_absent [OF every_live _ 2(2)] obtain e w
    where "GetLoadBalancer (asClient ego c) i (app_world a) = (Inl e, w)" "errors_Is e ErrNotFound" "ok w" by blast
  with c show ?case by (simp add: stack_methods onExo_def worldM_def usable_def)
next
  case (3 a i c areq)
  then show ?case
    by (auto simp: stack_methods elim!: usableE intro!: granted_onExo intro: async_live.aadd_live [OF every_live])
next
  case (4 a i c sid s)
  then show ?case
    by (auto simp: stack_methods elim!: usableE intro!: granted_onExo intro: async_live.adelete_service_live [OF every_live])
next
  case (5 a i c sid s ureq)
  then show ?case
    by (auto simp: stack_methods elim!: usableE intro!: granted_onExo intro: async_live.aupdate_service_live [OF every_live])
next
  case (6 a i c lreq)
  then show ?case
    by (auto simp: stack_methods elim!: usableE intro!: granted_onExo intro: async_live.aupdate_live [OF every_live])
next
  case (7 a creq)
  then show ?case
    by (auto simp: stack_methods elim!: usableE intro!: granted_onExo intro: async_live.acreate_live [OF every_live])
next
  case (8 a i c)
  then show ?case
    by (auto simp: stack_methods elim!: usableE intro!: granted_onExo intro: async_live.adelete_live [OF every_live])
next
  case (9 a ns n p)
  then show ?case
    by (auto simp: kubeOfApp_def elim!: usableE intro!: granted_worldM async_live.apatch_live [OF every_live])
qed

context live_stack begin

lemma stack_live: "nlb_live (refreshableClient ego) (kubeOfApp kc) (\<lambda>a. view (app_world a)) (usable ok)"
  by (rule live.nlb_live_axioms)

text \<open>A client is made whenever the package accepts the credentials.\<close>

lemma connect_runs:
  assumes "ok w" and "NewClient ego (cr_APIKey cr) (cr_APISecret cr) (if endpoint \<noteq> [] then Some endpoint else None)
      (userAgent ver) = Inr c"
  shows "\<exists>c' w'. connect ego ver endpoint cr zone (switchZoneCallback ego) w = (Inr c', w') \<and> ok w' \<and> view w' = view w"
proof -
  obtain e w' where "GetZoneAPIEndpoint ego c zone w = (Inr e, w')" "ok w'"
    using zone_live [OF assms(1), of c zone] by (auto simp: granted_def)
  with zone_reads [of c zone w] assms show ?thesis
    by (auto simp: connect_def liftE_def bindM_def switchZoneCallback_def returnM_def)
qed

lemma newRefreshableExoscaleClient_runs:
  assumes "ok (app_world a)" and "gc_APIKey config \<noteq> []" and "gc_APISecret config \<noteq> []"
    and "NewClient ego (gc_APIKey config) (gc_APISecret config)
      (if gc_APIEndpoint config \<noteq> [] then Some (gc_APIEndpoint config) else None) (userAgent ver) = Inr c"
  shows "\<exists>a'. newRefreshableExoscaleClient ego files ver config zone (switchZoneCallback ego) a = (Inr None, a') \<and>
    usable ok a' \<and> view (app_world a') = view (app_world a)"
proof -
  let ?cr = "\<lparr>cr_APIKey = gc_APIKey config, cr_APISecret = gc_APISecret config, cr_Name = []\<rparr>"
  obtain c' w' where "connect ego ver (gc_APIEndpoint config) ?cr zone (switchZoneCallback ego) (app_world a) = (Inr c', w')"
    "ok w'" "view w' = view (app_world a)"
    using connect_runs [OF assms(1), of ?cr "gc_APIEndpoint config" ver c zone] assms(4) by auto
  with assms(2,3) show ?thesis
    by (simp add: newRefreshableExoscaleClient_def bindM_def modifyM_def worldM_def returnM_def usable_def Let_def)
qed

end

section \<open>The stack on the in-memory service\<close>

lemma waitSuccess_memory: "waitSuccess memoryClient request = request"
  by (auto simp: waitSuccess_def memoryClient_def bindM_def returnM_def fun_eq_iff split: prod.split sum.split)

interpretation memoryAsyncLive: async_live memoryClient "memoryKube nodes" memView "\<lambda>m. consistent (memView m)" for nodes
  by (intro async_live.intro async_live_axioms.intro memoryAsync.async_nlb_api_axioms, unfold waitSuccess_memory)
    (fact memoryLive.get_live memoryLive.get_absent memoryLive.add_live memoryLive.delete_service_live
      memoryLive.update_service_live memoryLive.update_live memoryLive.create_live memoryLive.delete_live
      memoryLive.patch_live)+

interpretation memoryLiveStack: live_stack memoryEgo "memoryKube nodes" memView "\<lambda>m. consistent (memView m)" for nodes
proof -
  have "live_stack_axioms memoryEgo (memoryKube nodes) memView (\<lambda>m. consistent (memView m))"
    by (rule live_stack_axioms.intro)
      (simp_all add: memoryEgo_def granted_def returnM_def memoryAsyncLive.async_live_axioms)
  then show "live_stack memoryEgo (memoryKube nodes) memView (\<lambda>m. consistent (memView m))"
    by (intro live_stack.intro memoryStack.async_stack_axioms)
qed

end
