(* ===== verification/Panic_Free.thy ===== *)
theory Panic_Free
  imports LB_Lifecycle Client Zones
begin

text \<open>
  Panics: when an operation of the load balancer, instances and zones components ends in a Go run-time
  panic, on top of calls that do not panic themselves. The judgement \<open>safe\<close> says that a program
  does not panic in states with an invariant, which it keeps; \<open>panics\<close> says that one run does, with an
  equivalence per combinator, for the programs that may: a creation, when the operation it is answered
  with names nothing, and the lookups of an instance, when the client is nil or the instance has no type.
\<close>

section \<open>The judgement\<close>

named_theorems safe_intros \<open>rules for the absence of panics\<close>

definition safe :: "('s \<Rightarrow> bool) \<Rightarrow> ('s, 'a) M \<Rightarrow> bool" where
  "safe I m \<longleftrightarrow> (\<forall>s. I s \<longrightarrow> I (snd (m s)) \<and> (\<forall>e. fst (m s) = Inl e \<longrightarrow> \<not> is_panic e))"

lemma safeD: "safe I m \<Longrightarrow> I s \<Longrightarrow> m s = (Inl e, s') \<Longrightarrow> \<not> is_panic e"
  unfolding safe_def by (metis fst_conv)

lemma safe_answer: "safe I m \<Longrightarrow> I s \<Longrightarrow> m s = (r, s') \<Longrightarrow> I s' \<and> (\<forall>e. r = Inl e \<longrightarrow> \<not> is_panic e)"
  unfolding safe_def by (metis fst_conv snd_conv)

lemma safe_keeps: "safe I m \<Longrightarrow> keeps I m"
  by (simp add: safe_def keeps_def)

lemma safe_return [safe_intros]: "safe I (returnM x)"
  by (simp add: safe_def returnM_def)

lemma safe_fail [safe_intros]: "\<not> is_panic e \<Longrightarrow> safe I (failM e)"
  by (simp add: safe_def failM_def)

lemma safe_lift [safe_intros]: "(\<And>e. r = Inl e \<Longrightarrow> \<not> is_panic e) \<Longrightarrow> safe I (liftE r)"
  by (simp add: safe_def liftE_def)

lemma safe_get [safe_intros]: "safe I (getM f)"
  by (simp add: safe_def getM_def)

lemma safe_modify: "(\<And>s. I s \<Longrightarrow> I (f s)) \<Longrightarrow> safe I (modifyM f)"
  by (simp add: safe_def modifyM_def)

lemma safe_bind [safe_intros]:
  assumes "safe I m" and "\<And>s x s'. I s \<Longrightarrow> m s = (Inr x, s') \<Longrightarrow> safe I (f x)"
  shows "safe I (bindM m f)"
  unfolding safe_def
proof (intro allI impI)
  fix s
  assume "I s"
  obtain r s' where m: "m s = (r, s')" by (metis surj_pair)
  have I: "I s'" "\<And>e. r = Inl e \<Longrightarrow> \<not> is_panic e" using safe_answer [OF assms(1) \<open>I s\<close> m] by simp_all
  show "I (snd (bindM m f s)) \<and> (\<forall>e. fst (bindM m f s) = Inl e \<longrightarrow> \<not> is_panic e)"
  proof (cases r)
    case (Inl e)
    with m I show ?thesis by (simp add: bindM_def)
  next
    case (Inr x)
    with m \<open>I s\<close> have "safe I (f x)" by (intro assms(2) [of s]) simp_all
    with m I Inr show ?thesis by (simp add: bindM_def safe_def)
  qed
qed

lemma safe_catch [safe_intros]:
  assumes "safe I m" and "\<And>e. \<not> is_panic e \<Longrightarrow> safe I (h e)"
  shows "safe I (catchM m h)"
  unfolding safe_def
proof (intro allI impI)
  fix s
  assume "I s"
  obtain r s' where m: "m s = (r, s')" by (metis surj_pair)
  have I: "I s'" "\<And>e. r = Inl e \<Longrightarrow> \<not> is_panic e" using safe_answer [OF assms(1) \<open>I s\<close> m] by simp_all
  show "I (snd (catchM m h s)) \<and> (\<forall>e. fst (catchM m h s) = Inl e \<longrightarrow> \<not> is_panic e)"
    using m I assms(2) by (cases r) (auto simp: catchM_def safe_def)
qed

lemma safe_wrap [safe_intros]: "safe I m \<Longrightarrow> (\<And>e. \<not> is_panic (w e)) \<Longrightarrow> safe I (wrapM w m)"
  unfolding wrapM_def by (intro safe_intros)

lemma safe_forM [safe_intros]: "(\<And>x. x \<in> set xs \<Longrightarrow> safe I (f x)) \<Longrightarrow> safe I (forM f xs)"
  by (induction xs) (auto intro!: safe_intros)

lemma safe_foldM [safe_intros]: "(\<And>x b. x \<in> set xs \<Longrightarrow> safe I (f x b)) \<Longrightarrow> safe I (foldM f xs b)"
  by (induction xs arbitrary: b) (auto intro!: safe_intros)

lemma safe_if [safe_intros]:
  "(c \<Longrightarrow> safe I m) \<Longrightarrow> (\<not> c \<Longrightarrow> safe I n) \<Longrightarrow> safe I (if c then m else n)"
  by simp

lemma safe_case_option [safe_intros]:
  "(z = None \<Longrightarrow> safe I m) \<Longrightarrow> (\<And>x. z = Some x \<Longrightarrow> safe I (f x)) \<Longrightarrow> safe I (case z of None \<Rightarrow> m | Some x \<Rightarrow> f x)"
  by (cases z) auto

lemma safe_case_sum [safe_intros]:
  "(\<And>e. z = Inl e \<Longrightarrow> safe I (h e)) \<Longrightarrow> (\<And>x. z = Inr x \<Longrightarrow> safe I (f x)) \<Longrightarrow>
   safe I (case z of Inl e \<Rightarrow> h e | Inr x \<Rightarrow> f x)"
  by (cases z) auto

definition atWorld :: "('w \<Rightarrow> bool) \<Rightarrow> 'w handler_state \<Rightarrow> bool" where
  "atWorld I st \<longleftrightarrow> I (st_world st)"

text \<open>The program ends in a panic.\<close>

definition panics :: "('s, 'a) M \<Rightarrow> 's \<Rightarrow> bool" where
  "panics m s = (case fst (m s) of Inl e \<Rightarrow> is_panic e | Inr _ \<Rightarrow> False)"

lemma safe_panics: "safe I m \<Longrightarrow> I s \<Longrightarrow> \<not> panics m s"
  by (auto simp: safe_def panics_def split: sum.splits)

lemma safe_callM: "safe I f \<Longrightarrow> safe (atWorld I) (callM f)"
  by (simp add: safe_def atWorld_def)

named_theorems panics_iffs \<open>when a combinator panics\<close>

lemma panics_basic [panics_iffs]:
  "panics (returnM x) s \<longleftrightarrow> False" "panics (failM e) s \<longleftrightarrow> is_panic e" "panics (getM g) s \<longleftrightarrow> False"
  "panics (liftE r) s \<longleftrightarrow> (\<exists>e. r = Inl e \<and> is_panic e)"
  by (auto simp: panics_def returnM_def failM_def getM_def liftE_def split: sum.splits)

lemma panics_bind [panics_iffs]:
  "panics (bindM m f) s \<longleftrightarrow> panics m s \<or> (\<exists>x s'. m s = (Inr x, s') \<and> panics (f x) s')"
  by (auto simp: panics_def bindM_def split: prod.splits sum.splits)

lemma panics_read: "panics (bindM (getM g) f) s \<longleftrightarrow> panics (f (g s)) s"
  by (simp add: panics_def)

lemma panics_then_return: "panics (bindM m (\<lambda>x. returnM (g x))) s \<longleftrightarrow> panics m s"
  by (simp add: panics_bind panics_basic)

lemma panics_if: "panics (if c then m else n) s \<longleftrightarrow> (if c then panics m s else panics n s)"
  by simp

lemma panics_catch [panics_iffs]:
  "panics (catchM m h) s \<longleftrightarrow> panics m s \<or> (\<exists>e s'. m s = (Inl e, s') \<and> \<not> is_panic e \<and> panics (h e) s')"
  by (auto simp: panics_def catchM_def split: prod.splits sum.splits)

lemma panics_wrap: "(\<And>e. \<not> is_panic (w e)) \<Longrightarrow> panics (wrapM w m) s \<longleftrightarrow> panics m s"
  by (simp add: wrapM_def panics_iffs)

lemma panics_callM: "panics (callM f) st \<longleftrightarrow> panics f (st_world st)"
  by (simp add: panics_def callM_def split: prod.split)

lemma callM_Inr_iff: "callM f st = (Inr x, st') \<longleftrightarrow> (\<exists>w'. f (st_world st) = (Inr x, w') \<and> st' = st\<lparr>st_world := w'\<rparr>)"
  by (auto simp: callM_def split: prod.splits)

lemma panics_worldM: "panics (worldM f) a \<longleftrightarrow> panics f (app_world a)"
  by (simp add: panics_def worldM_def split: prod.split)

lemma panics_onExo_iff:
  "panics (onExo ego f) a \<longleftrightarrow>
   (case rc_exo (app_client a) of None \<Rightarrow> True | Some c \<Rightarrow> panics (f (asClient ego c)) (app_world a))"
  by (simp add: panics_def onExo_def worldM_def nilPanic_def split: option.split prod.split)

text \<open>Up to a point where the run may panic, a program is safe.\<close>

lemma panics_after_safe:
  assumes "safe I m" and "I s" and "\<And>x s'. I s' \<Longrightarrow> panics (f x) s' \<longleftrightarrow> Q x s'"
  shows "panics (bindM m f) s \<longleftrightarrow> (\<exists>x s'. m s = (Inr x, s') \<and> Q x s')"
proof -
  have "I s'" if "m s = (Inr x, s')" for x s'
    using that keepsD [OF safe_keeps [OF assms(1)] assms(2)] by simp
  with assms(3) safe_panics [OF assms(1,2)] show ?thesis by (auto simp: panics_bind)
qed

lemma panics_after_lift:
  "(\<And>e. r = Inl e \<Longrightarrow> \<not> is_panic e) \<Longrightarrow> panics (bindM (liftE r) f) s \<longleftrightarrow> (\<exists>x. r = Inr x \<and> panics (f x) s)"
  by (cases r) (auto simp: panics_def bindM_def liftE_def)

lemma panics_before_safe:
  assumes "keeps I m" and "I s" and "\<And>x. safe I (f x)"
  shows "panics (bindM m f) s \<longleftrightarrow> panics m s"
proof -
  have "\<not> panics (f x) s'" if "m s = (Inr x, s')" for x s'
    using that keepsD [OF assms(1,2)] by (intro safe_panics [OF assms(3)]) simp
  then show ?thesis by (auto simp: panics_bind)
qed

section \<open>Errors that are no panics\<close>

lemma parse_uint_not_panic: "parse_uint_loop s n = Inl e \<Longrightarrow> \<not> is_panic e"
  by (induction s n rule: parse_uint_loop.induct) (auto simp: Let_def split: if_splits)

lemma Atoi_not_panic: "Atoi s = Inl e \<Longrightarrow> \<not> is_panic e"
  by (auto simp: Atoi_def ParseInt_def ParseUint_def split: if_splits prod.splits option.splits sum.splits
      dest: parse_uint_not_panic)

lemma ParseDuration_not_panic: "ParseDuration s = Inl e \<Longrightarrow> \<not> is_panic e"
  by (auto simp: ParseDuration_def split: if_splits prod.splits option.splits)

lemma buildService_not_panic: "buildLoadBalancerService s i t r p = Inl e \<Longrightarrow> \<not> is_panic e"
  by (auto simp: buildLoadBalancerService_def healthcheckPort_def Let_def split: sum.splits if_splits)

lemma build_not_panic: "buildLoadBalancerFromAnnotations s = Inl e \<Longrightarrow> \<not> is_panic e"
  by (auto simp: buildLoadBalancerFromAnnotations_def split: sum.splits
      dest: ParseDuration_not_panic Atoi_not_panic buildServices_Inl buildService_not_panic)

text \<open>A desired service always names an Instance Pool, so a request can be made from it.\<close>

lemma buildLoadBalancer_pool:
  assumes "buildLoadBalancerFromAnnotations s = Inr lb" and "d \<in> set (lb_Services lb)"
  shows "svc_InstancePool d \<noteq> None"
proof -
  obtain i t r where "map (buildLoadBalancerService s i t r) (s_Ports s) = map Inr (lb_Services lb)"
    using assms(1) by (rule buildLoadBalancer_Inr)
  with assms(2) have "Inr d \<in> set (map (buildLoadBalancerService s i t r) (s_Ports s))" by simp
  then show ?thesis by (auto simp: buildLoadBalancerService_def Let_def split: sum.splits if_splits)
qed

lemma addRequest_not_panic: "svc_InstancePool d \<noteq> None \<Longrightarrow> addRequest d \<noteq> Inl e"
  by (auto simp: addRequest_def)

section \<open>The load balancer handlers\<close>

text \<open>
  A creation is answered with a finished operation that names nothing: \<^verbatim>\<open>Reference\<close> is an optional field of an
  operation.
\<close>

definition namelessCreate :: "'w exoscaleClient \<Rightarrow> LoadBalancer \<Rightarrow> 'w \<Rightarrow> bool" where
  "namelessCreate cl spec w \<longleftrightarrow>
     (\<exists>oper w'. CreateLoadBalancer cl (creation spec) w = (Inr oper, w') \<and> op_Reference oper = None)"

text \<open>The run of \<open>EnsureLoadBalancer\<close> gets to the creation of a load balancer, in the state \<open>st'\<close>.\<close>

definition startsCreate ::
  "'w exoscaleClient \<Rightarrow> 'w kubeClient \<Rightarrow> patchLib \<Rightarrow> Node list \<Rightarrow> 'w handler_state \<Rightarrow> LoadBalancer \<Rightarrow> 'w handler_state \<Rightarrow> bool" where
  "startsCreate cl kc lib nodes st spec st' \<longleftrightarrow>
     (\<exists>st1 st2 e. resolveExternal cl kc lib st = (Inr (), st1) \<and> resolveInstancePool cl kc lib nodes st1 = (Inr (), st2) \<and>
        buildLoadBalancerFromAnnotations (st_service st2) = Inr spec \<and>
        fetchLoadBalancer cl st2 = (Inl e, st') \<and> errors_Is e ErrLoadBalancerNotFound \<and> \<not> isExternal (st_service st'))"

text \<open>Calls that do not panic; the answer to a creation is not restricted.\<close>

locale nlb_total =
  fixes cl :: "'w exoscaleClient" and kc :: "'w kubeClient" and lib :: patchLib and I :: "'w \<Rightarrow> bool"
  assumes safe_Create: "safe I (CreateLoadBalancer cl creq)"
    and safe_Add: "safe I (AddServiceToLoadBalancer cl i areq)"
    and safe_Delete: "safe I (DeleteLoadBalancer cl i)"
    and safe_DeleteService: "safe I (DeleteLoadBalancerService cl i sid)"
    and safe_Get: "safe I (GetLoadBalancer cl i)"
    and safe_List: "safe I (ListLoadBalancers cl)"
    and safe_Clusters: "safe I (ListSKSClusters cl)"
    and safe_Instance: "safe I (GetInstance cl i)"
    and safe_Update: "safe I (UpdateLoadBalancer cl i lreq)"
    and safe_UpdateService: "safe I (UpdateLoadBalancerService cl i sid ureq)"
    and safe_ServicesPatch: "safe I (ServicesPatch kc ns n p)"
    and marshal_total: "jsonMarshal lib s = Inl e \<Longrightarrow> \<not> is_panic e"
    and merge_total: "CreateTwoWayMergePatch lib a b = Inl e \<Longrightarrow> \<not> is_panic e"
begin

lemmas safe_calls = safe_callM [OF safe_Create] safe_callM [OF safe_Add] safe_callM [OF safe_Delete]
  safe_callM [OF safe_DeleteService] safe_callM [OF safe_Get] safe_callM [OF safe_List] safe_callM [OF safe_Clusters]
  safe_callM [OF safe_Instance] safe_callM [OF safe_Update] safe_callM [OF safe_UpdateService]
  safe_callM [OF safe_ServicesPatch]

lemma safe_Patch: "safe (atWorld I) (Patch kc lib p)"
  unfolding Patch_def
  by (intro safe_intros safe_calls) (auto dest: marshal_total merge_total)

lemma safe_patchAnnotation: "safe (atWorld I) (patchAnnotation kc lib k v)"
  unfolding patchAnnotation_def Let_def
  by (intro safe_intros safe_Patch safe_modify) (auto simp: atWorld_def)

lemma safe_fetch: "safe (atWorld I) (fetchLoadBalancer cl)"
  unfolding fetchLoadBalancer_def Let_def by (intro safe_intros safe_calls) auto

lemma safe_lb_GetLoadBalancer: "safe (atWorld I) (lb_GetLoadBalancer cl)"
  unfolding lb_GetLoadBalancer_def by (intro safe_intros safe_fetch) auto

lemma safe_resolveExternal: "safe (atWorld I) (resolveExternal cl kc lib)"
  unfolding resolveExternal_def Let_def
  by (intro safe_intros safe_calls safe_patchAnnotation) auto

lemma safe_resolveInstancePool: "safe (atWorld I) (resolveInstancePool cl kc lib nodes)"
  unfolding resolveInstancePool_def resolveNodepool_def inferInstancePool_def inferBody_def Let_def
  by (intro safe_intros safe_calls safe_patchAnnotation) auto

lemma keeps_createNLB: "keeps (atWorld I) (createNLB cl kc lib spec)"
  unfolding createNLB_def by (intro keeps_intros safe_calls [THEN safe_keeps] safe_patchAnnotation [THEN safe_keeps])

lemma panics_createNLB:
  assumes "atWorld I st"
  shows "panics (createNLB cl kc lib spec) st \<longleftrightarrow> \<not> isExternal (st_service st) \<and> namelessCreate cl spec (st_world st)"
proof -
  have recorded: "safe (atWorld I) (bindM (callM (GetLoadBalancer cl ref)) (\<lambda>nlb.
      bindM (wrapM (ErrorfS m as) (patchAnnotation kc lib k (lb_ID nlb))) (\<lambda>_. returnM nlb)))" for ref m as k
    by (intro safe_intros safe_calls safe_patchAnnotation) simp
  have "panics (case op_Reference oper of None \<Rightarrow> failM (Panic x) | Some ref \<Rightarrow> f ref) st' \<longleftrightarrow> op_Reference oper = None"
    if "atWorld I st'" "\<And>ref. safe (atWorld I) (f ref)" for oper x st' and f :: "UUID \<Rightarrow> ('w handler_state, LoadBalancer) M"
    using that(1) safe_panics [OF that(2) that(1)] by (cases "op_Reference oper") (auto simp: panics_iffs)
  note step = panics_after_safe [OF safe_callM [OF safe_Create] assms this, OF _ recorded]
  show ?thesis
    by (auto simp: createNLB_def namelessCreate_def creation_def panics_basic panics_read callM_Inr_iff step)
qed

lemma safe_addService: "svc_InstancePool d \<noteq> None \<Longrightarrow> safe (atWorld I) (addService cl nlb d)"
  unfolding addService_def
  by (intro safe_intros safe_calls) (auto simp: addRequest_not_panic)

lemma safe_updateLoadBalancer: "safe (atWorld I) (updateLoadBalancer cl)"
  unfolding updateLoadBalancer_def updateTopLevel_def firstLoopBody_def secondLoopBody_def Let_def
  by (intro safe_intros safe_calls safe_addService)
    (auto simp: liftE_def dest: build_not_panic buildLoadBalancer_pool)

lemma panics_EnsureLoadBalancer:
  assumes "atWorld I st"
  shows "panics (EnsureLoadBalancer cl kc lib nodes) st \<longleftrightarrow>
    (\<exists>spec st'. startsCreate cl kc lib nodes st spec st' \<and> namelessCreate cl spec (st_world st'))"
proof -
  have create: "panics (catchM (fetchLoadBalancer cl)
        (\<lambda>e. if errors_Is e ErrLoadBalancerNotFound then createNLB cl kc lib spec else failM e)) st2 \<longleftrightarrow>
      (\<exists>e st'. fetchLoadBalancer cl st2 = (Inl e, st') \<and> errors_Is e ErrLoadBalancerNotFound \<and>
        \<not> isExternal (st_service st') \<and> namelessCreate cl spec (st_world st'))"
    if st2: "atWorld I st2" for spec st2
  proof -
    have "atWorld I st'" if "fetchLoadBalancer cl st2 = (Inl e, st')" for e st'
      using that keepsD [OF safe_keeps [OF safe_fetch] st2] by simp
    with safe_panics [OF safe_fetch st2] safeD [OF safe_fetch st2] show ?thesis
      by (auto simp: panics_iffs panics_createNLB split: if_splits)
  qed
  have update: "panics (bindM (catchM (fetchLoadBalancer cl)
        (\<lambda>e. if errors_Is e ErrLoadBalancerNotFound then createNLB cl kc lib spec else failM e)) (\<lambda>nlb.
        bindM (updateLoadBalancer cl) (\<lambda>_. returnM (lbStatus nlb)))) st2 \<longleftrightarrow>
      (\<exists>e st'. fetchLoadBalancer cl st2 = (Inl e, st') \<and> errors_Is e ErrLoadBalancerNotFound \<and>
        \<not> isExternal (st_service st') \<and> namelessCreate cl spec (st_world st'))"
    if "atWorld I st2" for spec st2
    unfolding create [OF that, symmetric]
    by (rule panics_before_safe [where I = "atWorld I", OF _ that])
      (intro keeps_intros safe_keeps [OF safe_fetch] keeps_createNLB safe_intros safe_updateLoadBalancer)+
  have "panics (EnsureLoadBalancer cl kc lib nodes) st \<longleftrightarrow>
    (\<exists>x st1. resolveExternal cl kc lib st = (Inr x, st1) \<and>
      (\<exists>y st2. resolveInstancePool cl kc lib nodes st1 = (Inr y, st2) \<and>
        (\<exists>spec. buildLoadBalancerFromAnnotations (st_service st2) = Inr spec \<and>
          (\<exists>e st'. fetchLoadBalancer cl st2 = (Inl e, st') \<and> errors_Is e ErrLoadBalancerNotFound \<and>
            \<not> isExternal (st_service st') \<and> namelessCreate cl spec (st_world st')))))"
    unfolding EnsureLoadBalancer_def
    by (intro panics_after_safe [OF safe_resolveExternal assms] panics_after_safe [OF safe_resolveInstancePool])
      (simp_all add: panics_read panics_after_lift build_not_panic update)
  then show ?thesis by (auto simp: startsCreate_def)
qed

lemma safe_EnsureLoadBalancerDeleted: "safe (atWorld I) (EnsureLoadBalancerDeleted cl)"
  unfolding EnsureLoadBalancerDeleted_def deleteBody_def
  by (intro safe_intros safe_calls safe_fetch) auto

lemmas all_safe = safe_updateLoadBalancer safe_EnsureLoadBalancerDeleted safe_lb_GetLoadBalancer

end

section \<open>The instances and zones components\<close>

lemma formatProviderID_not_panic: "formatProviderID pid = Inl e \<Longrightarrow> \<not> is_panic e"
  by (auto simp: formatProviderID_def split: if_splits)

lemma formatProviderID_Inr: "formatProviderID pid = Inr i \<longleftrightarrow> pid \<noteq> [] \<and> i = TrimPrefix pid providerPrefix"
  by (auto simp: formatProviderID_def)

text \<open>
  The two ways in which the lookup of an instance and its type panics: the request for the instance is made through a
  nil client (only an empty provider ID is refused before), or the instance comes without a type, an optional field.
\<close>

definition asksNilClient :: "string \<Rightarrow> ('c, 'w) app \<Rightarrow> bool" where
  "asksNilClient pid a \<longleftrightarrow> pid \<noteq> [] \<and> rc_exo (app_client a) = None"

definition findsUntyped :: "('c, 'w) egoscale \<Rightarrow> string \<Rightarrow> ('c, 'w) app \<Rightarrow> bool" where
  "findsUntyped ego pid a \<longleftrightarrow> pid \<noteq> [] \<and> (\<exists>inst a'.
     GetInstance (refreshableClient ego) (TrimPrefix pid providerPrefix) a = (Inr inst, a') \<and> inst_InstanceType inst = None)"

text \<open>The provider ID by which the instance of a node object is looked up.\<close>

definition nodeID :: "Node \<Rightarrow> string" where
  "nodeID node = (if n_ProviderID node = [] then n_SystemUUID node else n_ProviderID node)"

text \<open>
  A provider after \<^verbatim>\<open>Initialize\<close>: it holds the refreshable client and the Kubernetes client, whose \<^verbatim>\<open>Get\<close> is that
  of the vendored package. The requests do not panic themselves; what they return is not restricted.
\<close>

locale lookup_stack =
  fixes ego :: "('c, 'w) egoscale" and kc :: "'w kubeClient" and request :: "string \<Rightarrow> ('w, Node) M"
    and p :: "('c, 'w) app cloudProvider"
  assumes clients: "p_client p = Some (refreshableClient ego)" "p_kclient p = Some (kubeOfApp kc)"
    and nodes_get: "NodesGet kc = Client_Get request"
    and total_request: "\<not> panics (request n) w"
    and total_GetInstance: "\<not> panics (GetInstance (asClient ego c) i) w"
    and total_GetInstanceType: "\<not> panics (GetInstanceType (asClient ego c) i) w"
begin

lemma panics_onExo:
  "(\<And>c. \<not> panics (f (asClient ego c)) (app_world a)) \<Longrightarrow> panics (onExo ego f) a \<longleftrightarrow> rc_exo (app_client a) = None"
  by (simp add: panics_onExo_iff split: option.split)

lemma panics_GetInstance: "panics (GetInstance (refreshableClient ego) i) a \<longleftrightarrow> rc_exo (app_client a) = None"
  by (simp add: refreshableClient_def rc_GetInstance_def panics_onExo total_GetInstance)

lemma panics_GetInstanceType: "panics (GetInstanceType (refreshableClient ego) i) a \<longleftrightarrow> rc_exo (app_client a) = None"
  by (simp add: refreshableClient_def rc_GetInstanceType_def panics_onExo total_GetInstanceType)

lemma instance_keeps_client:
  "GetInstance (refreshableClient ego) i a = (Inr inst, a') \<Longrightarrow> rc_exo (app_client a') \<noteq> None"
  by (auto simp: refreshableClient_def rc_GetInstance_def onExo_def worldM_def split: option.splits prod.splits)

lemma getNode_request: "getNodeM (kubeOfApp kc) n = worldM (request n)"
  by (auto simp: getNodeM_def kubeOfApp_def nodes_get Client_Get_def worldM_def fun_eq_iff split: prod.split sum.split)

lemma panics_getNode: "\<not> panics (kclientM p (\<lambda>kc. getNodeM kc n)) a"
  by (simp add: kclientM_def clients getNode_request panics_worldM total_request)

lemma panics_compute: "panics (computeInstanceByProviderID p pid) a \<longleftrightarrow> asksNilClient pid a"
  by (auto simp: computeInstanceByProviderID_def clientM_def clients panics_after_lift formatProviderID_not_panic
      formatProviderID_Inr panics_GetInstance asksNilClient_def)

lemma compute_Inr_iff:
  "computeInstanceByProviderID p pid a = (Inr inst, a') \<longleftrightarrow>
   pid \<noteq> [] \<and> GetInstance (refreshableClient ego) (TrimPrefix pid providerPrefix) a = (Inr inst, a')"
  by (auto simp: computeInstanceByProviderID_def clientM_def clients bindM_def liftE_def formatProviderID_def)

lemma panics_typeLabel:
  "rc_exo (app_client a) \<noteq> None \<Longrightarrow> panics (instanceTypeLabel p inst) a \<longleftrightarrow> inst_InstanceType inst = None"
  by (auto simp: instanceTypeLabel_def clientM_def clients panics_iffs panics_GetInstanceType nilPanic_def split: option.split)

text \<open>What follows the lookup of the instance panics when the instance has no type, or never.\<close>

lemma panics_typed:
  assumes "\<And>inst a'. rc_exo (app_client a') \<noteq> None \<Longrightarrow> panics (f inst) a' \<longleftrightarrow> inst_InstanceType inst = None"
  shows "panics (bindM (computeInstanceByProviderID p pid) f) a \<longleftrightarrow> asksNilClient pid a \<or> findsUntyped ego pid a"
  using assms instance_keeps_client
  by (auto simp: panics_bind panics_compute compute_Inr_iff findsUntyped_def)

lemma panics_found:
  "(\<And>inst a'. \<not> panics (f inst) a') \<Longrightarrow> panics (bindM (computeInstanceByProviderID p pid) f) a \<longleftrightarrow> asksNilClient pid a"
  by (simp add: panics_bind panics_compute)

lemma panics_exists: "panics (existsM (computeInstanceByProviderID p pid)) a \<longleftrightarrow> asksNilClient pid a"
  by (auto simp: existsM_def panics_catch panics_found panics_basic)

lemma external_not_panic: "\<not> is_panic errExternalOnly" "\<not> is_panic errNoInstanceOverride" "\<not> is_panic ErrNotImplemented"
  by (simp_all add: errExternalOnly_def errNoInstanceOverride_def)

lemmas lookup_iffs = panics_basic panics_then_return panics_if external_not_panic panics_compute panics_found panics_typed panics_exists panics_typeLabel
  newInstances_def newInstancesV2_def newZones_def computeInstanceByNode_def nodeID_def Let_def

lemma panics_InstanceID: "\<not> panics (InstanceID rx (newInstances p cfg) n) a"
  by (auto simp: InstanceID_def lookup_iffs panics_bind panics_wrap panics_getNode split: option.split)

lemma panics_NodeAddressesByProviderID:
  "panics (NodeAddressesByProviderID (newInstances p cfg) pid) a \<longleftrightarrow>
   staticAddresses (getInstanceOverrideByProviderID cfg pid) = None \<and> \<not> ic_ExternalOnly cfg \<and> asksNilClient pid a"
proof -
  have "\<not> panics (kclientM p (\<lambda>kc w. case providedNodeIP kc n w of (ip, w') \<Rightarrow> (Inr ip, w'))) a'" for n a'
    by (simp add: kclientM_def clients panics_def split: prod.split)
  then show ?thesis
    by (auto simp: NodeAddressesByProviderID_def lookup_iffs split: option.split)
qed

lemma panics_NodeAddresses:
  "panics (NodeAddresses rx (newInstances p cfg) n) a \<longleftrightarrow>
   staticAddresses (getInstanceOverride rx cfg n) = None \<and> \<not> ic_ExternalOnly cfg \<and>
   (\<exists>pid a'. InstanceID rx (newInstances p cfg) n a = (Inr pid, a') \<and>
      panics (NodeAddressesByProviderID (newInstances p cfg) pid) a')"
  using panics_InstanceID by (auto simp: NodeAddresses_def lookup_iffs panics_bind split: option.split)

lemma panics_InstanceTypeByProviderID:
  "panics (InstanceTypeByProviderID (newInstances p cfg) pid) a \<longleftrightarrow>
   staticType (getInstanceOverrideByProviderID cfg pid) = None \<and> \<not> ic_ExternalOnly cfg \<and>
   (asksNilClient pid a \<or> findsUntyped ego pid a)"
  by (auto simp: InstanceTypeByProviderID_def lookup_iffs split: option.split)

lemma panics_InstanceType:
  "panics (i_InstanceType rx (newInstances p cfg) n) a \<longleftrightarrow>
   staticType (getInstanceOverride rx cfg n) = None \<and> \<not> ic_ExternalOnly cfg \<and>
   (\<exists>pid a'. InstanceID rx (newInstances p cfg) n a = (Inr pid, a') \<and>
      panics (InstanceTypeByProviderID (newInstances p cfg) pid) a')"
  using panics_InstanceID by (auto simp: i_InstanceType_def lookup_iffs panics_bind split: option.split)

lemma panics_InstanceExistsByProviderID:
  "panics (InstanceExistsByProviderID (newInstances p cfg) pid) a \<longleftrightarrow>
   externalOverride (getInstanceOverrideByProviderID cfg pid) = None \<and> \<not> ic_ExternalOnly cfg \<and> asksNilClient pid a"
  by (auto simp: InstanceExistsByProviderID_def lookup_iffs)

lemma panics_InstanceShutdownByProviderID:
  "panics (InstanceShutdownByProviderID (newInstances p cfg) pid) a \<longleftrightarrow>
   externalOverride (getInstanceOverrideByProviderID cfg pid) = None \<and> \<not> ic_ExternalOnly cfg \<and> asksNilClient pid a"
  by (auto simp: InstanceShutdownByProviderID_def lookup_iffs)

lemma panics_InstanceExists:
  "panics (InstanceExists rx (newInstancesV2 p cfg) node) a \<longleftrightarrow>
   externalOverride (nodeInstanceOverride rx (newInstancesV2 p cfg) node) = None \<and> \<not> ic_ExternalOnly cfg \<and>
   asksNilClient (nodeID node) a"
  by (auto simp: InstanceExists_def lookup_iffs)

lemma panics_InstanceShutdown:
  "panics (InstanceShutdown rx (newInstancesV2 p cfg) node) a \<longleftrightarrow>
   externalOverride (nodeInstanceOverride rx (newInstancesV2 p cfg) node) = None \<and> \<not> ic_ExternalOnly cfg \<and>
   asksNilClient (nodeID node) a"
  by (auto simp: InstanceShutdown_def lookup_iffs)

lemma panics_InstanceMetadata:
  "panics (i2_InstanceMetadata rx (newInstancesV2 p cfg) node) a \<longleftrightarrow>
   externalOverride (nodeInstanceOverride rx (newInstancesV2 p cfg) node) = None \<and> \<not> ic_ExternalOnly cfg \<and>
   (asksNilClient (nodeID node) a \<or>
    staticType (nodeInstanceOverride rx (newInstancesV2 p cfg) node) = None \<and> findsUntyped ego (nodeID node) a)"
proof -
  define override where "override = nodeInstanceOverride rx (newInstancesV2 p cfg) node"
  have static: "staticType override \<noteq> Some []" by (auto simp: staticType_def split: option.split)
  show ?thesis
    unfolding i2_InstanceMetadata_def override_def [symmetric] using static
    by (cases "staticType override")
      (auto simp: lookup_iffs split: option.split)
qed

lemma panics_zones:
  "\<not> panics (GetZoneByProviderID (newZones p) pid) a" "\<not> panics (GetZoneByNodeName rx (newZones p) n) a"
proof -
  show provider: "\<not> panics (GetZoneByProviderID (newZones p) pid) a" for pid a
    by (auto simp: GetZoneByProviderID_def lookup_iffs split: option.split)
  then show "\<not> panics (GetZoneByNodeName rx (newZones p) n) a"
    by (auto simp: GetZoneByNodeName_def lookup_iffs panics_bind panics_wrap panics_getNode split: option.split)
qed

lemmas all_panics = panics_InstanceID panics_NodeAddressesByProviderID panics_NodeAddresses panics_InstanceTypeByProviderID
  panics_InstanceType panics_InstanceExistsByProviderID panics_InstanceShutdownByProviderID panics_InstanceExists
  panics_InstanceShutdown panics_InstanceMetadata panics_zones

end

end
