(* ===== verification/Ego_Wait.thy ===== *)
theory Ego_Wait
  imports Client Go_Time
begin

text \<open>
  \<^verbatim>\<open>Client.Wait\<close> of the vendored package (\<^verbatim>\<open>vendor/github.com/exoscale/egoscale/v3/api.go\<close>), on which every
  method of the refreshable client that changes something ends: it polls an operation until the
  operation has left the state \<^verbatim>\<open>pending\<close>. What the \<^verbatim>\<open>select\<close> of its loop receives is a list of
  events: ticks of the ticker, each with the delay with which it is handled, and the end of the context. The time
  at which the ticker fires is part of the loop's state, since every tick resets the ticker to a new interval. The request \<^verbatim>\<open>GetOperation\<close> is a parameter. Durations are nanoseconds.
\<close>

section \<open>The poll interval\<close>

text \<open>\<open>runTime.Seconds()\<close> as a double.\<close>

definition Seconds_float :: "nat \<Rightarrow> nat \<times> nat" where
  "Seconds_float d = fl_add (fl_of_nat (d div 1000000000)) (fl_div (fl_of_nat (d mod 1000000000)) (1000000000, 1))"

definition fl_sub :: "nat \<times> nat \<Rightarrow> nat \<times> nat \<Rightarrow> nat \<times> nat" where
  "fl_sub x y = fl64 (fst x * snd y - fst y * snd x, snd x * snd y)"

definition fl_less :: "nat \<times> nat \<Rightarrow> nat \<times> nat \<Rightarrow> bool" where
  "fl_less x y \<longleftrightarrow> fst x * snd y < fst y * snd x"

definition pollInterval :: "nat \<Rightarrow> nat" where
  "pollInterval runTime =
     (let runTimeSeconds = Seconds_float runTime;
          a = fl64 (57, 870);
          b = fl_sub (3, 1) (fl_mul (30, 1) a);
          minWait = (3, 1);
          maxWait = (60, 1);
          interval = fl_add (fl_mul a runTimeSeconds) b;
          interval = (if fl_less minWait interval then interval else minWait);
          interval = (if fl_less interval maxWait then interval else maxWait)
      in fl_trunc interval * 1000000000)"

section \<open>The loop\<close>

datatype waitEvent =
    Tick nat
  | CtxDone error

definition OperationStatePending :: string where
  "OperationStatePending = ''pending''"

definition OperationStateSuccess :: string where
  "OperationStateSuccess = ''success''"

definition abortErrorsCount :: nat where
  "abortErrorsCount = 5"

text \<open>
  \<open>due\<close> is the time since the start at which the ticker fires next: one interval after it was made or last reset
  (\<^verbatim>\<open>ticker.Reset\<close>). A tick is handled at that time or later. The result is the operation that ended the loop, or
  \<open>None\<close> when the loop waits for a further event.
\<close>

fun polling ::
  "(UUID \<Rightarrow> ('w, Operation) M) \<Rightarrow> int \<Rightarrow> UUID \<Rightarrow> nat \<Rightarrow> nat \<Rightarrow> waitEvent list \<Rightarrow> ('w, Operation option) M" where
  "polling GetOperation waitTimeout opID due subsequentErrors [] = returnM None"
| "polling GetOperation waitTimeout opID due subsequentErrors (CtxDone e # events) = failM e"
| "polling GetOperation waitTimeout opID due subsequentErrors (Tick late # events) =
     (let runTime = due + late in
      if waitTimeout \<noteq> 0 \<and> waitTimeout < int runTime
      then failM (Errorf ''operation: %q: max wait timeout reached'' [opID])
      else let newDue = runTime + pollInterval runTime in
       (\<lambda>w. case GetOperation opID w of
          (Inl err, w') \<Rightarrow>
            if is_panic err \<or> abortErrorsCount \<le> Suc subsequentErrors then (Inl err, w')
            else polling GetOperation waitTimeout opID newDue (Suc subsequentErrors) events w'
        | (Inr answer, w') \<Rightarrow>
            if op_State answer = OperationStatePending then polling GetOperation waitTimeout opID newDue 0 events w'
            else (Inr (Some answer), w')))"

definition checkState :: "string list \<Rightarrow> Operation \<Rightarrow> error + Operation" where
  "checkState states operation =
     (if states = [] then Inr operation
      else if op_State operation \<in> set states then Inr operation
      else Inl (Errorf ''operation: %q %v, state: %s, reason: %q, message: %q''
             [op_ID operation, case op_Reference operation of None \<Rightarrow> [] | Some r \<Rightarrow> r, op_State operation]))"

definition ego_Wait ::
  "(UUID \<Rightarrow> ('w, Operation) M) \<Rightarrow> int \<Rightarrow> waitEvent list \<Rightarrow> Operation option \<Rightarrow> string list \<Rightarrow> ('w, Operation option) M" where
  "ego_Wait GetOperation waitTimeout events p states =
     (case p of
        None \<Rightarrow> failM (ErrNew ''operation is nil'')
      | Some oper \<Rightarrow>
          if op_State oper \<noteq> OperationStatePending then returnM (Some oper)
          else bindM (polling GetOperation waitTimeout (op_ID oper) (pollInterval 0) 0 events) (\<lambda>polled.
               case polled of
                 None \<Rightarrow> returnM None
               | Some operation \<Rightarrow> bindM (liftE (checkState states operation)) (\<lambda>checked. returnM (Some checked))))"

section \<open>The interval is between three seconds and a minute\<close>

lemma fl64_positive: "0 < snd (fl64 x)"
  by (cases x) (simp add: fl64_def Let_def)

lemma fl_trunc_ge: "fst x \<ge> m * snd x \<Longrightarrow> 0 < snd x \<Longrightarrow> m \<le> fl_trunc x"
  by (simp add: fl_trunc_def less_eq_div_iff_mult_less_eq)

lemma fl_trunc_le: "fst x \<le> m * snd x \<Longrightarrow> 0 < snd x \<Longrightarrow> fl_trunc x \<le> m"
  using div_le_mono [of "fst x" "m * snd x" "snd x"] by (simp add: fl_trunc_def)

lemma pollInterval_bounds: "3000000000 \<le> pollInterval t \<and> pollInterval t \<le> 60000000000"
proof -
  define x where "x = fl_add (fl_mul (fl64 (57, 870)) (Seconds_float t))
    (fl_sub (3, 1) (fl_mul (30, 1) (fl64 (57, 870))))"
  define y where "y = (if fl_less (3, 1) x then x else (3, 1))"
  define z where "z = (if fl_less y (60, 1) then y else (60, 1))"
  have p: "pollInterval t = fl_trunc z * 1000000000"
    by (simp add: pollInterval_def Let_def x_def y_def z_def)
  have "0 < snd x" by (simp add: x_def fl_add_def fl64_positive)
  then have "0 < snd y \<and> 3 * snd y \<le> fst y" by (auto simp: y_def fl_less_def)
  then have "0 < snd z \<and> 3 * snd z \<le> fst z \<and> fst z \<le> 60 * snd z" by (auto simp: z_def fl_less_def)
  then have "3 \<le> fl_trunc z \<and> fl_trunc z \<le> 60" by (simp add: fl_trunc_ge fl_trunc_le)
  then show ?thesis by (simp add: p)
qed

section \<open>It returns\<close>

lemma polling_returns:
  assumes "3000000000 * Suc k \<le> due" and "0 < waitTimeout"
    and "nat waitTimeout < 3000000000 * (k + length events)" and "events \<noteq> []"
  shows "fst (polling GetOperation waitTimeout opID due n events w) \<noteq> Inr None"
  using assms
proof (induction events arbitrary: k due n w)
  case (Cons ev events)
  show ?case
  proof (cases ev)
    case (Tick late)
    define t where "t = due + late"
    show ?thesis
    proof (cases "waitTimeout < int t")
      case True
      with Tick Cons.prems(2) show ?thesis by (simp add: failM_def t_def)
    next
      case False
      have t: "3000000000 * Suc k \<le> t" using Cons.prems(1) by (simp add: t_def)
      then have "3000000000 * Suc (Suc k) \<le> t + pollInterval t" using pollInterval_bounds [of t] by simp
      moreover have "events \<noteq> []" using Cons.prems(3) False t by auto
      moreover have "nat waitTimeout < 3000000000 * (Suc k + length events)" using Cons.prems(3) by simp
      ultimately have "fst (polling GetOperation waitTimeout opID (t + pollInterval t) m events w') \<noteq> Inr None" for m w'
        using Cons.IH Cons.prems(2) by blast
      with Tick False show ?thesis by (auto simp: t_def Let_def split: prod.split sum.split)
    qed
  qed (simp add: failM_def)
qed simp

lemma polling_done:
  "CtxDone e \<in> set events \<Longrightarrow> fst (polling GetOperation waitTimeout opID due n events w) \<noteq> Inr None"
proof (induction events arbitrary: due n w)
  case (Cons ev events)
  then show ?case by (cases ev) (auto simp: failM_def Let_def split: prod.split sum.split)
qed simp

lemma ego_Wait_returns:
  assumes "fst (polling GetOperation waitTimeout (op_ID oper) (pollInterval 0) 0 events w) \<noteq> Inr None"
  shows "fst (ego_Wait GetOperation waitTimeout events (Some oper) states w) \<noteq> Inr None"
  using assms
  by (auto simp: ego_Wait_def bindM_def returnM_def liftE_def split: prod.split sum.split option.split)

text \<open>
  Property C19. With a wait timeout, \<^verbatim>\<open>Wait\<close> returns: whatever the API answers, it handles at most one tick for
  every three seconds of the timeout, and one more; and it returns when the context ends.
\<close>

theorem wait_terminates:
  assumes "0 < waitTimeout \<and> nat waitTimeout < 3000000000 * length events \<or> (\<exists>e. CtxDone e \<in> set events)"
  shows "fst (ego_Wait GetOperation waitTimeout events (Some oper) states w) \<noteq> Inr None"
proof (rule ego_Wait_returns)
  show "fst (polling GetOperation waitTimeout (op_ID oper) (pollInterval 0) 0 events w) \<noteq> Inr None"
    using assms pollInterval_bounds [of 0]
    by (cases "events = []") (auto dest: polling_done polling_returns [of 0, simplified])
qed

text \<open>
  Without a timeout, which is how the program makes its clients, an operation that stays pending is
  polled for ever: no number of ticks ends the loop.
\<close>

lemma pending_polled_forever:
  assumes "\<And>w. \<exists>answer w'. GetOperation opID w = (Inr answer, w') \<and> op_State answer = OperationStatePending"
  shows "fst (polling GetOperation 0 opID due n (map Tick ts) w) = Inr None"
proof (induction ts arbitrary: due n w)
  case (Cons t ts)
  obtain answer w' where "GetOperation opID w = (Inr answer, w')" "op_State answer = OperationStatePending"
    using assms by blast
  with Cons show ?case by (simp add: Let_def)
qed (simp add: returnM_def)

text \<open>The operation has failed by the second tick; before, the API does not answer.\<close>

definition exGetOperation :: "UUID \<Rightarrow> (nat, Operation) M" where
  "exGetOperation i = (\<lambda>w. (if w = 0 then Inl (ErrAPI ''503'')
     else Inr \<lparr>op_ID = i, op_Reference = None, op_State = ''failure''\<rparr>, Suc w))"

definition exPending :: Operation where
  "exPending = \<lparr>op_ID = ''o1'', op_Reference = Some ''n1'', op_State = ''pending''\<rparr>"

theorem wait_terminates_witness:
  "fst (ego_Wait exGetOperation 5000000000 [Tick 60000000000, Tick 0] (Some exPending) [''success''] 0) \<noteq> Inr None"
  using wait_terminates [of 5000000000 "[Tick 60000000000, Tick 0]" exGetOperation exPending "[''success'']" 0] by simp

section \<open>What a method of the client accepts\<close>

text \<open>
  \<^verbatim>\<open>Wait\<close> of a client, with the delays of the ticks that come before the context of the caller ends. The loop has ended
  by then, so the last case does not occur.
\<close>

definition vendoredWait ::
  "(UUID \<Rightarrow> ('w, Operation) M) \<Rightarrow> int \<Rightarrow> ('w \<Rightarrow> nat list) \<Rightarrow> error \<Rightarrow> Operation \<Rightarrow> string list \<Rightarrow> ('w, Operation) M" where
  "vendoredWait GetOperation waitTimeout ticks ctxErr oper states = (\<lambda>w.
     case ego_Wait GetOperation waitTimeout (map Tick (ticks w) @ [CtxDone ctxErr]) (Some oper) states w of
       (Inl e, w') \<Rightarrow> (Inl e, w')
     | (Inr (Some answer), w') \<Rightarrow> (Inr answer, w')
     | (Inr None, w') \<Rightarrow> (Inl ctxErr, w'))"

lemma vendoredWait_ended:
  "ego_Wait GetOperation waitTimeout (map Tick (ticks w) @ [CtxDone ctxErr]) (Some oper) states w \<noteq> (Inr None, w')"
proof -
  have "fst (ego_Wait GetOperation waitTimeout (map Tick (ticks w) @ [CtxDone ctxErr]) (Some oper) states w) \<noteq> Inr None"
    by (intro ego_Wait_returns polling_done [of ctxErr]) simp
  then show ?thesis by (metis fst_conv)
qed

lemma vendoredWait_final:
  "op_State oper \<noteq> OperationStatePending \<Longrightarrow> vendoredWait GetOperation waitTimeout ticks ctxErr oper states w = (Inr oper, w)"
  by (simp add: vendoredWait_def ego_Wait_def returnM_def)

lemma vendoredWait_polled:
  assumes "vendoredWait GetOperation waitTimeout ticks ctxErr oper states w = (Inr answer, w')"
    and "op_State oper = OperationStatePending" and "states \<noteq> []"
  shows "op_State answer \<in> set states"
  using assms
  by (auto simp: vendoredWait_def ego_Wait_def bindM_def returnM_def liftE_def checkState_def
      split: prod.splits sum.splits option.splits if_splits)

text \<open>
  Property C22. A method of the client that waits for its operation accepts it in two cases: the
  operation was pending, and polling found it in the state \<^verbatim>\<open>success\<close>; or the API answered at once with an
  operation that was not pending, in whatever state, a failed one included.
\<close>

theorem operation_accepted:
  assumes "rc_exo (app_client a) = Some c"
    and "Wait (asClient ego c) = vendoredWait GetOperation waitTimeout ticks ctxErr"
    and "request (asClient ego c) (app_world a) = (Inr oper, w1)"
  shows "(op_State oper \<noteq> ''pending'' \<longrightarrow>
      onExo ego (\<lambda>exo. waitSuccess exo (request exo)) a = (Inr oper, a\<lparr>app_world := w1\<rparr>)) \<and>
    (op_State oper = ''pending'' \<longrightarrow> (\<forall>answer a'.
      onExo ego (\<lambda>exo. waitSuccess exo (request exo)) a = (Inr answer, a') \<longrightarrow> op_State answer = ''success''))"
proof -
  have run: "onExo ego (\<lambda>exo. waitSuccess exo (request exo)) a =
      (case vendoredWait GetOperation waitTimeout ticks ctxErr oper [''success''] w1 of (r, w) \<Rightarrow> (r, a\<lparr>app_world := w\<rparr>))"
    by (simp add: onExo_def worldM_def waitSuccess_def bindM_def assms)
  show ?thesis
    unfolding run using vendoredWait_final [of oper GetOperation] vendoredWait_polled [of GetOperation]
    by (fastforce simp: OperationStatePending_def split: prod.splits)
qed

text \<open>The API refuses a deletion with an operation that has already failed; the client reports success.\<close>

definition refused :: Operation where
  "refused = \<lparr>op_ID = ''o1'', op_Reference = Some ''n1'', op_State = ''failure''\<rparr>"

definition refusingClient :: "memory exoscaleClient" where
  "refusingClient = memoryClient\<lparr>DeleteLoadBalancer := (\<lambda>i. returnM refused),
     Wait := vendoredWait (\<lambda>i. returnM refused) 0 (\<lambda>w. []) (ErrNew ''context canceled'')\<rparr>"

definition refusingEgo :: "(unit, memory) egoscale" where
  "refusingEgo = \<lparr>NewClient = (\<lambda>key secret endpoint agent. Inr ()), GetZoneAPIEndpoint = (\<lambda>c zone. returnM zone),
     WithEndpoint = (\<lambda>c e. c), asClient = (\<lambda>c. refusingClient)\<rparr>"

definition refusingApp :: "(unit, memory) app" where
  "refusingApp = \<lparr>app_client = \<lparr>rc_exo = Some (), rc_apiCredentials = noCredentials, rc_apiEndpoint = []\<rparr>,
     app_world = \<lparr>mem_nlbs = [], mem_services = [], mem_instances = [], mem_types = [], mem_clusters = [], mem_patches = []\<rparr>\<rparr>"

theorem operation_accepted_witness: "rc_DeleteLoadBalancer refusingEgo ''n1'' refusingApp = (Inr refused, refusingApp)"
proof -
  have "rc_exo (app_client refusingApp) = Some ()" by (simp add: refusingApp_def)
  moreover have "Wait (asClient refusingEgo ()) =
      vendoredWait (\<lambda>i. returnM refused) 0 (\<lambda>w. []) (ErrNew ''context canceled'')"
    by (simp add: refusingEgo_def refusingClient_def)
  moreover have "DeleteLoadBalancer (asClient refusingEgo ()) ''n1'' (app_world refusingApp) = (Inr refused, app_world refusingApp)"
    by (simp add: refusingEgo_def refusingClient_def returnM_def)
  ultimately show ?thesis
    using operation_accepted [of refusingApp "()" refusingEgo _ _ _ _ "\<lambda>exo. DeleteLoadBalancer exo ''n1''"]
    by (simp add: rc_DeleteLoadBalancer_def refused_def)
qed

end
