(* ===== verification/Panic_Properties.thy ===== *)
theory Panic_Properties
  imports Panic_Free Ego_Wait Client_Properties Instances_Properties
begin

text \<open>
  Panics of the whole stack: exactly when a handler, on top of the refreshable client, and a lookup of the
  instances and zones components end in one.
\<close>

section \<open>The refreshable client\<close>

definition hasClient :: "('c, 'w) app \<Rightarrow> bool" where
  "hasClient a \<longleftrightarrow> rc_exo (app_client a) \<noteq> None"

lemma safe_worldM: "safe (\<lambda>_. True) f \<Longrightarrow> safe hasClient (worldM f)"
  by (simp add: safe_def worldM_def hasClient_def split: prod.split) (metis fst_conv)

lemma safe_onExo:
  fixes ego :: "('c, 'w) egoscale"
  assumes "\<And>c. safe (\<lambda>_. True) (f (asClient ego c))"
  shows "safe hasClient (onExo ego f)"
  unfolding safe_def
proof (intro allI impI)
  fix a :: "('c, 'w) app"
  assume "hasClient a"
  then obtain c where "rc_exo (app_client a) = Some c" by (auto simp: hasClient_def)
  then have run: "onExo ego f a = worldM (f (asClient ego c)) a" by (simp add: onExo_def)
  have "safe hasClient (worldM (f (asClient ego c)) :: ('c, 'w) app \<Rightarrow> _)" by (rule safe_worldM [OF assms])
  with \<open>hasClient a\<close> show "hasClient (snd (onExo ego f a)) \<and> (\<forall>e. fst (onExo ego f a) = Inl e \<longrightarrow> \<not> is_panic e)"
    unfolding run safe_def by blast
qed

text \<open>No call of a client of the package panics, its \<^verbatim>\<open>Wait\<close> included. What the calls return is not restricted.\<close>

locale total_stack =
  fixes ego :: "('c, 'w) egoscale" and kc :: "'w kubeClient" and lib :: patchLib
  assumes every_client: "nlb_total (asClient ego c) kc lib (\<lambda>_. True)"
    and safe_Wait: "safe (\<lambda>_. True) (Wait (asClient ego c) oper states)"
begin

lemmas every_safe = every_client [THEN nlb_total.safe_Create] every_client [THEN nlb_total.safe_Add]
  every_client [THEN nlb_total.safe_Delete] every_client [THEN nlb_total.safe_DeleteService]
  every_client [THEN nlb_total.safe_Get] every_client [THEN nlb_total.safe_List]
  every_client [THEN nlb_total.safe_Clusters] every_client [THEN nlb_total.safe_Instance]
  every_client [THEN nlb_total.safe_Update] every_client [THEN nlb_total.safe_UpdateService]
  every_client [THEN nlb_total.safe_ServicesPatch]

lemma safe_wait: "safe (\<lambda>_. True) request \<Longrightarrow> safe (\<lambda>_. True) (waitSuccess (asClient ego c) request)"
  unfolding waitSuccess_def by (intro safe_intros safe_Wait)

end

sublocale total_stack \<subseteq> stack: nlb_total "refreshableClient ego" "kubeOfApp kc" lib hasClient
proof unfold_locales
qed (auto simp: refreshableClient_def rc_CreateLoadBalancer_def rc_AddServiceToLoadBalancer_def
    rc_DeleteLoadBalancer_def rc_DeleteLoadBalancerService_def rc_GetLoadBalancer_def rc_ListLoadBalancers_def
    rc_ListSKSClusters_def rc_GetInstance_def rc_UpdateLoadBalancer_def rc_UpdateLoadBalancerService_def kubeOfApp_def
    intro!: safe_onExo safe_wait safe_worldM every_safe
    dest: every_client [THEN nlb_total.marshal_total] every_client [THEN nlb_total.merge_total])

context total_stack begin

lemma stack_total: "nlb_total (refreshableClient ego) (kubeOfApp kc) lib hasClient"
  by (rule stack.nlb_total_axioms)

end

text \<open>
  Property C13. The handlers of the load balancer component and Go run-time panics (a nil dereference or an index out
  of range), on top of a refreshable client that holds a client: \<^verbatim>\<open>EnsureLoadBalancer\<close> panics if and only if it gets to
  the creation of a load balancer and the creation is answered with an operation that names nothing, whose
  \<^verbatim>\<open>Reference\<close> is read without a check; the other handlers never panic. This holds whatever the Service and its annotations are and
  whichever calls fail, as long as the calls of the API and of the patch library do not panic themselves.
\<close>

theorem handlers_panic_iff:
  assumes "total_stack ego kc lib" and "rc_exo (app_client (st_world st)) \<noteq> None"
  shows "(panics (EnsureLoadBalancer (refreshableClient ego) (kubeOfApp kc) lib nodes) st \<longleftrightarrow>
      (\<exists>spec st'. startsCreate (refreshableClient ego) (kubeOfApp kc) lib nodes st spec st' \<and>
        (\<exists>oper a. CreateLoadBalancer (refreshableClient ego) (creation spec) (st_world st') = (Inr oper, a) \<and>
           op_Reference oper = None))) \<and>
    \<not> panics (updateLoadBalancer (refreshableClient ego)) st \<and>
    \<not> panics (EnsureLoadBalancerDeleted (refreshableClient ego)) st \<and>
    \<not> panics (lb_GetLoadBalancer (refreshableClient ego)) st"
proof -
  have st: "atWorld hasClient st" using assms(2) by (simp add: atWorld_def hasClient_def)
  note stack = total_stack.stack_total [OF assms(1)]
  show ?thesis
    using nlb_total.panics_EnsureLoadBalancer [OF stack st, of nodes] nlb_total.all_safe [OF stack, THEN safe_panics, OF st]
    by (simp add: namelessCreate_def)
qed

subsection \<open>The in-memory service\<close>

lemma safe_memOnNLB: "safe (\<lambda>_. True) (memOnNLB i f)"
  by (simp add: safe_def memOnNLB_def split: option.split)

lemma safe_memLookup: "safe (\<lambda>_. True) (memLookup f i)"
  by (simp add: safe_def memLookup_def split: option.split)

lemma safe_memory:
  "safe (\<lambda>_. True) (memCreate creq)" "safe (\<lambda>_. True) (memGet i)" "safe (\<lambda>_. True) (memAdd i areq)"
  "safe (\<lambda>_. True) (memDeleteService i sid)" "safe (\<lambda>_. True) (memUpdate i lreq)" "safe (\<lambda>_. True) (memDelete i)"
  "safe (\<lambda>_. True) (memUpdateService i sid ureq)"
  by (simp_all add: memAdd_def memDeleteService_def memUpdate_def memDelete_def safe_memOnNLB)
    (auto simp: safe_def memCreate_def memGet_def memUpdateService_def memOnNLB_def Let_def split: option.splits)

lemma total_memory: "nlb_total memoryClient (memoryKube nodes) exLib (\<lambda>_. True)"
  by unfold_locales
    (auto simp: memoryClient_def memoryKube_def exLib_def safe_memory safe_memLookup intro!: safe_get safe_modify)

interpretation memoryTotal: total_stack memoryEgo "memoryKube nodes" exLib for nodes
proof (rule total_stack.intro)
  show "nlb_total (asClient memoryEgo c) (memoryKube nodes) exLib (\<lambda>_. True)" for c
    using total_memory by (simp add: memoryEgo_def)
qed (auto simp: memoryEgo_def memoryClient_def returnM_def safe_def)

subsection \<open>A creation that is polled\<close>

lemma safe_polling:
  assumes "\<And>i. safe I (GetOperation i)" and "\<And>e. CtxDone e \<in> set events \<Longrightarrow> \<not> is_panic e"
  shows "safe I (polling GetOperation waitTimeout opID due n events)"
  using assms(2)
proof (induction events arbitrary: due n)
  case (Cons ev events)
  show ?case
  proof (cases ev)
    case (Tick late)
    have IH: "safe I (polling GetOperation waitTimeout opID d m events)" for d m using Cons by simp
    show ?thesis
      unfolding safe_def
    proof (intro allI impI)
      fix w
      assume "I w"
      obtain r w' where g: "GetOperation opID w = (r, w')" by (metis surj_pair)
      have "I w'" "\<And>e. r = Inl e \<Longrightarrow> \<not> is_panic e" using safe_answer [OF assms(1) \<open>I w\<close> g] by simp_all
      with IH g \<open>I w\<close> show "I (snd (polling GetOperation waitTimeout opID due n (ev # events) w)) \<and>
          (\<forall>e. fst (polling GetOperation waitTimeout opID due n (ev # events) w) = Inl e \<longrightarrow> \<not> is_panic e)"
        by (cases r) (auto simp: Tick Let_def failM_def safe_def)
    qed
  next
    case (CtxDone e)
    with Cons.prems show ?thesis by (simp add: safe_fail)
  qed
qed (simp add: safe_return)

lemma safe_ego_Wait:
  assumes "\<And>i. safe I (GetOperation i)" and "\<And>e. CtxDone e \<in> set events \<Longrightarrow> \<not> is_panic e"
  shows "safe I (ego_Wait GetOperation waitTimeout events p states)"
  unfolding ego_Wait_def
  by (intro safe_intros safe_polling assms(1)) (auto simp: checkState_def assms(2) split: if_splits)

lemma safe_vendoredWait:
  assumes "\<And>i. safe I (GetOperation i)" and "\<not> is_panic ctxErr"
  shows "safe I (vendoredWait GetOperation waitTimeout ticks ctxErr oper states)"
  unfolding safe_def
proof (intro allI impI)
  fix w
  assume "I w"
  let ?wait = "ego_Wait GetOperation waitTimeout (map Tick (ticks w) @ [CtxDone ctxErr]) (Some oper) states"
  obtain r w' where run: "?wait w = (r, w')" by (metis surj_pair)
  have "safe I ?wait" by (rule safe_ego_Wait [OF assms(1)]) (use assms(2) in auto)
  from safe_answer [OF this \<open>I w\<close> run] have "I w'" "\<And>e. r = Inl e \<Longrightarrow> \<not> is_panic e" by simp_all
  with run assms(2) show "I (snd (vendoredWait GetOperation waitTimeout ticks ctxErr oper states w)) \<and>
      (\<forall>e. fst (vendoredWait GetOperation waitTimeout ticks ctxErr oper states w) = Inl e \<longrightarrow> \<not> is_panic e)"
    by (auto simp: vendoredWait_def split: sum.split option.split)
qed

text \<open>The creation is pending at first; the finished operation that is polled names nothing.\<close>

definition unnamed :: "UUID \<Rightarrow> Operation" where
  "unnamed i = \<lparr>op_ID = i, op_Reference = None, op_State = ''success''\<rparr>"

definition namelessClient :: "memory exoscaleClient" where
  "namelessClient = memoryClient
     \<lparr>CreateLoadBalancer := (\<lambda>req. bindM (memCreate req) (\<lambda>oper. returnM (oper\<lparr>op_State := ''pending''\<rparr>))),
      Wait := vendoredWait (\<lambda>i. returnM (unnamed i)) 0 (\<lambda>w. [0]) (ErrNew ''context canceled'')\<rparr>"

definition namelessEgo :: "(string, memory) egoscale" where
  "namelessEgo = memoryEgo\<lparr>asClient := (\<lambda>c. namelessClient)\<rparr>"

interpretation namelessTotal: total_stack namelessEgo "memoryKube nodes" exLib for nodes
proof (rule total_stack.intro)
  show "nlb_total (asClient namelessEgo c) (memoryKube nodes) exLib (\<lambda>_. True)" for c
    by unfold_locales
      (auto simp: namelessEgo_def namelessClient_def memoryClient_def memoryKube_def exLib_def safe_memory safe_memLookup
        intro!: safe_intros safe_get safe_modify)
qed (auto simp: namelessEgo_def namelessClient_def intro!: safe_vendoredWait safe_return)

definition exFreshState :: "(string, memory) app handler_state" where
  "exFreshState = \<lparr>st_service = exService exFresh [exPort], st_world = exApp\<rparr>"

lemma exFresh_startsCreate: "startsCreate cl kc lib nodes exFreshState exFreshSpec exFreshState"
proof -
  have "freshService (st_service exFreshState)"
    by (simp add: exFreshState_def freshService_def external_eval exFresh_def exService_def)
  from fresh_starts [OF this, of cl] this show ?thesis
    by (simp add: startsCreate_def exFreshState_def build_exFresh freshService_def)
qed

lemma exFresh_nameless:
  "\<exists>a. CreateLoadBalancer (refreshableClient namelessEgo) (creation exFreshSpec) exApp = (Inr (unnamed ''op''), a)"
  by (simp add: refreshableClient_def rc_CreateLoadBalancer_def onExo_def worldM_def exApp_def namelessEgo_def
      namelessClient_def waitSuccess_def bindM_def memCreate_def Let_def returnM_def finished_def vendoredWait_def
      ego_Wait_def OperationStatePending_def unnamed_def liftE_def checkState_def split: prod.split)

lemma memory_creates_named:
  "CreateLoadBalancer (refreshableClient memoryEgo) req a = (Inr oper, a') \<Longrightarrow> op_Reference oper \<noteq> None"
  by (auto simp: refreshableClient_def rc_CreateLoadBalancer_def memoryEgo_def dest!: onExo_awaited awaited_memory)
    (auto simp: memoryClient_def memCreate_def finished_def Let_def)

theorem handlers_panic_iff_witness:
  "\<not> panics (EnsureLoadBalancer (refreshableClient memoryEgo) (kubeOfApp (memoryKube (\<lambda>_. None))) exLib []) exFreshState \<and>
   panics (EnsureLoadBalancer (refreshableClient namelessEgo) (kubeOfApp (memoryKube (\<lambda>_. None))) exLib []) exFreshState \<and>
   \<not> panics (EnsureLoadBalancerDeleted (refreshableClient namelessEgo)) exFreshState"
proof -
  have client: "rc_exo (app_client (st_world exFreshState)) \<noteq> None" by (simp add: exFreshState_def exApp_def)
  have world: "st_world exFreshState = exApp" by (simp add: exFreshState_def)
  obtain a where nameless: "CreateLoadBalancer (refreshableClient namelessEgo) (creation exFreshSpec)
      (st_world exFreshState) = (Inr (unnamed ''op''), a)" using exFresh_nameless world by auto
  have "op_Reference (unnamed ''op'') = None" by (simp add: unnamed_def)
  with nameless exFresh_startsCreate
  have "panics (EnsureLoadBalancer (refreshableClient namelessEgo) (kubeOfApp (memoryKube (\<lambda>_. None))) exLib []) exFreshState"
    using handlers_panic_iff [OF namelessTotal.total_stack_axioms client] by blast
  then show ?thesis
    using handlers_panic_iff [OF namelessTotal.total_stack_axioms client]
      handlers_panic_iff [OF memoryTotal.total_stack_axioms client] memory_creates_named by blast
qed

section \<open>Instances and zones\<close>

text \<open>
  Property C20. The lookups of the instances (both interfaces) and zones components and Go run-time panics, for a provider
  that has been initialized, on top of the refreshable client: \<open>InstanceID\<close> and the zone lookups never panic. A lookup
  that asks the API about an instance (no override settles it, and the API is not disabled) panics if the client
  is nil and the provider ID is not empty; a lookup of the instance type panics also if the instance comes without a
  type, and never otherwise. The lookups by name panic when the lookup by the provider ID of that name does. This holds
  whatever the node, its provider ID and the overrides are and whichever requests fail, as long as the requests
  \<^verbatim>\<open>GetInstance\<close> and \<^verbatim>\<open>GetInstanceType\<close> of the vendored client and the request for a node do not panic themselves.
\<close>

theorem lookups_panic_iff:
  assumes "lookup_stack ego kc request p"
  shows "\<not> panics (InstanceID rx (newInstances p cfg) n) a \<and>
    (panics (NodeAddressesByProviderID (newInstances p cfg) pid) a \<longleftrightarrow>
      staticAddresses (getInstanceOverrideByProviderID cfg pid) = None \<and> \<not> ic_ExternalOnly cfg \<and> asksNilClient pid a) \<and>
    (panics (NodeAddresses rx (newInstances p cfg) n) a \<longleftrightarrow>
      staticAddresses (getInstanceOverride rx cfg n) = None \<and> \<not> ic_ExternalOnly cfg \<and>
      (\<exists>i a'. InstanceID rx (newInstances p cfg) n a = (Inr i, a') \<and>
        panics (NodeAddressesByProviderID (newInstances p cfg) i) a')) \<and>
    (panics (InstanceTypeByProviderID (newInstances p cfg) pid) a \<longleftrightarrow>
      staticType (getInstanceOverrideByProviderID cfg pid) = None \<and> \<not> ic_ExternalOnly cfg \<and>
      (asksNilClient pid a \<or> findsUntyped ego pid a)) \<and>
    (panics (i_InstanceType rx (newInstances p cfg) n) a \<longleftrightarrow>
      staticType (getInstanceOverride rx cfg n) = None \<and> \<not> ic_ExternalOnly cfg \<and>
      (\<exists>i a'. InstanceID rx (newInstances p cfg) n a = (Inr i, a') \<and>
        panics (InstanceTypeByProviderID (newInstances p cfg) i) a')) \<and>
    (panics (InstanceExistsByProviderID (newInstances p cfg) pid) a \<longleftrightarrow>
      externalOverride (getInstanceOverrideByProviderID cfg pid) = None \<and> \<not> ic_ExternalOnly cfg \<and> asksNilClient pid a) \<and>
    (panics (InstanceShutdownByProviderID (newInstances p cfg) pid) a \<longleftrightarrow>
      externalOverride (getInstanceOverrideByProviderID cfg pid) = None \<and> \<not> ic_ExternalOnly cfg \<and> asksNilClient pid a) \<and>
    (panics (InstanceExists rx (newInstancesV2 p cfg) node) a \<longleftrightarrow>
      externalOverride (nodeInstanceOverride rx (newInstancesV2 p cfg) node) = None \<and> \<not> ic_ExternalOnly cfg \<and>
      asksNilClient (nodeID node) a) \<and>
    (panics (InstanceShutdown rx (newInstancesV2 p cfg) node) a \<longleftrightarrow>
      externalOverride (nodeInstanceOverride rx (newInstancesV2 p cfg) node) = None \<and> \<not> ic_ExternalOnly cfg \<and>
      asksNilClient (nodeID node) a) \<and>
    (panics (i2_InstanceMetadata rx (newInstancesV2 p cfg) node) a \<longleftrightarrow>
      externalOverride (nodeInstanceOverride rx (newInstancesV2 p cfg) node) = None \<and> \<not> ic_ExternalOnly cfg \<and>
      (asksNilClient (nodeID node) a \<or>
       staticType (nodeInstanceOverride rx (newInstancesV2 p cfg) node) = None \<and> findsUntyped ego (nodeID node) a)) \<and>
    \<not> panics (GetZoneByProviderID (newZones p) pid) a \<and>
    \<not> panics (GetZoneByNodeName rx (newZones p) n) a"
  by (intro conjI lookup_stack.all_panics [OF assms])

text \<open>An initialized provider on the in-memory service, with a client or without one.\<close>

definition exAppProvider :: "instancesConfig \<Rightarrow> (string, memory) app cloudProvider" where
  "exAppProvider cfg = \<lparr>p_cfg = zeroConfig\<lparr>cc_Instances := cfg\<rparr>, p_client = Some (refreshableClient memoryEgo),
     p_kclient = Some (kubeOfApp (memoryKube exNodes)), p_zone = ''ch-gva-2''\<rparr>"

interpretation exLookup: lookup_stack memoryEgo "memoryKube exNodes"
  "\<lambda>n m. case exNodes n of None \<Rightarrow> (Inl (ErrKube ''not found''), m) | Some node \<Rightarrow> (Inr node, m)" "exAppProvider cfg" for cfg
  by unfold_locales
    (auto simp: exAppProvider_def memoryKube_def memoryEgo_def memoryClient_def memLookup_def panics_def
      split: option.splits)

definition exUntyped :: "string option \<Rightarrow> string option \<Rightarrow> (string, memory) app" where
  "exUntyped exo t = \<lparr>app_client = \<lparr>rc_exo = exo, rc_apiCredentials = noCredentials, rc_apiEndpoint = []\<rparr>,
     app_world = exCloud\<lparr>mem_instances := [(''i1'', exInstance\<lparr>inst_InstanceType := t\<rparr>)]\<rparr>\<rparr>"

lemma exUntyped_iff:
  "asksNilClient ''exoscale://i1'' (exUntyped exo t) \<longleftrightarrow> exo = None"
  "findsUntyped memoryEgo ''exoscale://i1'' (exUntyped exo t) \<longleftrightarrow> exo \<noteq> None \<and> t = None"
  by (auto simp: asksNilClient_def findsUntyped_def exUntyped_def refreshableClient_def rc_GetInstance_def onExo_def
      worldM_def memoryEgo_def memoryClient_def memLookup_def exInstance_lookup split: option.splits)

theorem lookups_panic_iff_witness:
  "\<not> panics (InstanceTypeByProviderID (newInstances (exAppProvider exInstances) exInstances) ''exoscale://i1'')
      (exUntyped (Some ''key'') (Some ''t1'')) \<and>
   panics (InstanceTypeByProviderID (newInstances (exAppProvider exInstances) exInstances) ''exoscale://i1'')
      (exUntyped (Some ''key'') None) \<and>
   panics (i2_InstanceMetadata (\<lambda>r n. Inr False) (newInstancesV2 (exAppProvider exInstances) exInstances) exNode)
      (exUntyped (Some ''key'') None) \<and>
   \<not> panics (InstanceExists (\<lambda>r n. Inr False) (newInstancesV2 (exAppProvider exInstances) exInstances) exNode)
      (exUntyped (Some ''key'') None) \<and>
   panics (InstanceExists (\<lambda>r n. Inr False) (newInstancesV2 (exAppProvider exInstances) exInstances) exNode)
      (exUntyped None (Some ''t1''))"
proof -
  let ?v2 = "newInstancesV2 (exAppProvider exInstances) exInstances"
  have "nodeInstanceOverride (\<lambda>r n. Inr False) ?v2 exNode = None"
    by (simp add: nodeInstanceOverride_def newInstancesV2_def)
  moreover have "nodeID exNode = ''exoscale://i1''" "\<not> ic_ExternalOnly exInstances"
    by (simp_all add: nodeID_def exInstances_def)
  moreover note iff = lookups_panic_iff [OF exLookup.lookup_stack_axioms, where cfg = exInstances and rx = "\<lambda>r n. Inr False"]
  ultimately show ?thesis
    using iff [where pid = "''exoscale://i1''" and node = exNode and a = "exUntyped (Some ''key'') (Some ''t1'')"]
      iff [where pid = "''exoscale://i1''" and node = exNode and a = "exUntyped (Some ''key'') None"]
      iff [where pid = "''exoscale://i1''" and node = exNode and a = "exUntyped None (Some ''t1'')"]
    by (simp add: exUntyped_iff staticType_def externalOverride_def)
qed

end
