(* ===== verification/Provider_Run.thy ===== *)
theory Provider_Run
  imports Cloud_Properties
begin

text \<open>
  The running process: what \<^verbatim>\<open>Initialize\<close> leaves behind (\<^verbatim>\<open>exoscale/exoscale.go\<close>) is a goroutine that waits
  for the stop channel and cancels the provider's context, the watcher of the credentials file, if
  there is one, and the agent runners; the controllers call the interfaces from goroutines of their
  own. All of them share the refreshable client. Their steps interleave freely: one method of the
  client (its lock makes it one step, see \<open>Client_Lock\<close>), one event of the watcher, one step of a
  runner, or a change of the outside world that is none of the process.
\<close>

section \<open>Steps\<close>

datatype watcherPC = NotStarted | Watching string | WatcherReturned

record ('c, 'w) process =
  pr_app :: "('c, 'w) app"
  pr_stop :: bool
  pr_cancelled :: bool
  pr_watcher :: watcherPC
  pr_runners :: "runnerPC list"
  pr_ended :: bool

text \<open>
  What the process runs in. \<open>e_stopCloses\<close> says whether anybody closes the stop channel: \<^verbatim>\<open>main\<close> passes
  \<^verbatim>\<open>wait.NeverStop\<close>, which stays open.
\<close>

record ('c, 'w) environment =
  e_ego :: "('c, 'w) egoscale"
  e_files :: "'w credentialFiles"
  e_version :: string
  e_zone :: string
  e_kube :: "'w kubeClient"
  e_csr :: "'w csrClient"
  e_certs :: certLib
  e_watchable :: "bool \<Rightarrow> bool"
  e_stopCloses :: bool

definition csrOfApp :: "'w csrClient \<Rightarrow> (('c, 'w) app) csrClient" where
  "csrOfApp cc = \<lparr>UpdateApproval = (\<lambda>n csr. worldM (UpdateApproval cc n csr))\<rparr>"

definition refreshOf :: "('c, 'w) environment \<Rightarrow> string \<Rightarrow> (('c, 'w) app, unit) M" where
  "refreshOf E path =
     refreshCredentialsFromFile (e_ego E) (e_files E) (e_version E) path (e_zone E) (switchZoneCallback (e_ego E))"

definition eventOf :: "('c, 'w) environment \<Rightarrow> watchedEvent \<Rightarrow> (('c, 'w) app, bool) M" where
  "eventOf E = handleEvent (refreshableClient (e_ego E)) (kubeOfApp (e_kube E)) (csrOfApp (e_csr E)) (e_certs E)"

definition runnerOf :: "('c, 'w) process \<Rightarrow> nat \<Rightarrow> (('c, 'w) app) runner" where
  "runnerOf s i = \<lparr>r_pc = pr_runners s ! i, r_cancelled = pr_cancelled s, r_world = pr_app s\<rparr>"

fun panicked :: "error + 'a \<Rightarrow> bool" where
  "panicked (Inl e) = is_panic e"
| "panicked (Inr x) = False"

text \<open>What a method of the client returns goes to its caller; a panic ends the process.\<close>

inductive processStep :: "('c, 'w) environment \<Rightarrow> ('c, 'w) process \<Rightarrow> ('c, 'w) process \<Rightarrow> bool" for E where
  stop_closes: "\<not> pr_ended s \<Longrightarrow> e_stopCloses E \<Longrightarrow> processStep E s (s\<lparr>pr_stop := True\<rparr>)"
| stopper: "\<not> pr_ended s \<Longrightarrow> pr_stop s \<Longrightarrow> processStep E s (s\<lparr>pr_cancelled := True\<rparr>)"
| client_method: "\<not> pr_ended s \<Longrightarrow> onExo (e_ego E) (f :: 'w exoscaleClient \<Rightarrow> ('w, unit) M) (pr_app s) = (r, a) \<Longrightarrow>
    processStep E s (s\<lparr>pr_app := a, pr_ended := panicked r\<rparr>)"
| outside: "\<not> pr_ended s \<Longrightarrow> processStep E s (s\<lparr>pr_app := (pr_app s)\<lparr>app_world := w\<rparr>\<rparr>)"
| watcher_event: "\<not> pr_ended s \<Longrightarrow> pr_watcher s = Watching path \<Longrightarrow> (event = ContextDone \<longrightarrow> pr_cancelled s) \<Longrightarrow>
    watchLoop (refreshOf E path) path [event] (pr_app s) = (Inr returned, a) \<Longrightarrow>
    processStep E s (s\<lparr>pr_app := a, pr_watcher := (if returned then WatcherReturned else Watching path)\<rparr>)"
| watcher_fatal: "\<not> pr_ended s \<Longrightarrow> pr_watcher s = Watching path \<Longrightarrow>
    watchLoop (refreshOf E path) path [event] (pr_app s) = (Inl e, a) \<Longrightarrow>
    processStep E s (s\<lparr>pr_app := a, pr_ended := True\<rparr>)"
| runner_step: "\<not> pr_ended s \<Longrightarrow> i < length (pr_runners s) \<Longrightarrow>
    runStep (e_watchable E) (eventOf E) (runnerOf s i) r \<Longrightarrow> r_cancelled r = pr_cancelled s \<Longrightarrow>
    processStep E s (s\<lparr>pr_app := r_world r, pr_runners := (pr_runners s)[i := r_pc r], pr_ended := (r_pc r = Crashed)\<rparr>)"

inductive_cases processStepE: "processStep E s s'"

text \<open>The process after \<^verbatim>\<open>Initialize\<close>.\<close>

definition startProcess :: "string option \<Rightarrow> string list \<Rightarrow> ('c, 'w) app \<Rightarrow> ('c, 'w) process" where
  "startProcess watched started a = \<lparr>pr_app = a, pr_stop = False, pr_cancelled = False,
     pr_watcher = (case watched of None \<Rightarrow> NotStarted | Some path \<Rightarrow> Watching path),
     pr_runners = map (\<lambda>_. Watch) started, pr_ended = False\<rparr>"

section \<open>The invariant\<close>

text \<open>
  The client was made from the credentials that are recorded beside it, for the configured endpoint and zone.
\<close>

definition clientMade :: "('c, 'w) environment \<Rightarrow> string \<Rightarrow> 'c refreshableExoscaleClient \<Rightarrow> bool" where
  "clientMade E endpoint rc \<longleftrightarrow> rc_apiEndpoint rc = endpoint \<and>
     (\<forall>c. rc_exo rc = Some c \<longrightarrow> (\<exists>w w'. connect (e_ego E) (e_version E) endpoint (rc_apiCredentials rc) (e_zone E)
        (switchZoneCallback (e_ego E)) w = (Inr c, w')))"

definition clientSet :: "'c refreshableExoscaleClient \<Rightarrow> bool" where
  "clientSet rc \<longleftrightarrow> rc_exo rc \<noteq> None"

lemma onExo_client: "app_client (snd (onExo ego f a)) = app_client a"
  by (simp add: onExo_def worldM_def split: option.split prod.split)

lemma worldM_client: "app_client (snd (worldM f a)) = app_client a"
  by (simp add: worldM_def split: prod.split)

text \<open>A refresh, whatever its result.\<close>

lemma refresh_client:
  assumes "refreshOf E path a = (r, a')"
  shows "app_client a' = app_client a \<or> (\<exists>c cr w w'. connect (e_ego E) (e_version E) (rc_apiEndpoint (app_client a)) cr (e_zone E)
      (switchZoneCallback (e_ego E)) w = (Inr c, w') \<and>
    app_client a' = (app_client a)\<lparr>rc_exo := Some c, rc_apiCredentials := cr\<rparr>)"
  using assms
  by (auto simp: refreshOf_def refreshCredentialsFromFile_def bindM_def catchM_def worldM_def failM_def returnM_def getM_def
      modifyM_def split: prod.splits sum.splits option.splits if_splits) metis

lemma refresh_clientMade:
  assumes "refreshOf E path a = (r, a')" and "clientMade E endpoint (app_client a)"
  shows "clientMade E endpoint (app_client a')"
  using refresh_client [OF assms(1)]
proof
  assume "app_client a' = app_client a"
  with assms(2) show ?thesis by simp
next
  assume "\<exists>c cr w w'. connect (e_ego E) (e_version E) (rc_apiEndpoint (app_client a)) cr (e_zone E)
      (switchZoneCallback (e_ego E)) w = (Inr c, w') \<and>
    app_client a' = (app_client a)\<lparr>rc_exo := Some c, rc_apiCredentials := cr\<rparr>"
  then show ?thesis using assms(2) unfolding clientMade_def by (elim exE conjE) (simp, blast)
qed

lemma refresh_clientSet: "refreshOf E path a = (r, a') \<Longrightarrow> clientSet (app_client a) \<Longrightarrow> clientSet (app_client a')"
  using refresh_client by (fastforce simp: clientSet_def)

text \<open>The runner handles an event without touching the client.\<close>

lemma keeps_handleEvent:
  assumes list: "keeps I (ListInstances cl)" and nodes: "\<And>n w. I w \<Longrightarrow> I (snd (NodesGet kc n w))"
    and approval: "\<And>n csr. keeps I (UpdateApproval cc n csr)"
  shows "keeps I (handleEvent cl kc cc lib event)"
proof -
  have provided: "I (snd (providedNodeIP kc n w))" if "I w" for n w
    using nodes [OF that, of n] nodes [of "snd (NodesGet kc n w)" "ToLower n"]
    by (auto simp: providedNodeIP_def split: prod.splits option.splits)
  have addrs: "keeps I (nodeAddrs kc inst)" for inst
    by (rule keepsI, frule provided [of _ "inst_Name inst"])
      (auto simp: nodeAddrs_def Let_def split: prod.splits option.splits)
  show ?thesis
    unfolding handleEvent_def handleCSR_def checkInstance_def
    by (intro keeps_intros keeps_case_sum list addrs approval)
qed

lemma eventOf_client: "eventOf E event a = (r, a') \<Longrightarrow> app_client a' = app_client a"
proof -
  have "keeps (\<lambda>x. app_client x = app_client a) (eventOf E event)"
    unfolding eventOf_def
    by (rule keeps_handleEvent)
      (auto simp: keeps_def refreshableClient_def rc_ListInstances_def onExo_client kubeOfApp_def csrOfApp_def worldM_client
        split: prod.split)
  then show "eventOf E event a = (r, a') \<Longrightarrow> app_client a' = app_client a" by (auto simp: keeps_def dest: spec [of _ a])
qed

text \<open>One step: what it keeps of the client.\<close>

lemma watchLoop_one:
  "watchLoop m path [event] a = (r, a') \<Longrightarrow> a' = a \<or> (\<exists>r'. m a = (r', a'))"
  by (cases event) (auto simp: returnM_def bindM_def split: if_splits prod.splits sum.splits)

lemma runStep_client:
  assumes "runStep watchable (eventOf E) r r'"
  shows "app_client (r_world r') = app_client (r_world r)"
  using assms by cases (auto dest: eventOf_client)

lemma step_client:
  assumes "processStep E s s'"
  shows "app_client (pr_app s') = app_client (pr_app s) \<or> (\<exists>path r. refreshOf E path (pr_app s) = (r, pr_app s'))"
  using assms
proof cases
  case (client_method f r a)
  with onExo_client [of "e_ego E" f "pr_app s"] show ?thesis by simp
next
  case (watcher_event path event returned a)
  with watchLoop_one [of "refreshOf E path" path event] show ?thesis by fastforce
next
  case (watcher_fatal path event e a)
  with watchLoop_one [of "refreshOf E path" path event] show ?thesis by fastforce
next
  case (runner_step i r)
  with runStep_client [of _ E "runnerOf s i" r] show ?thesis by (simp add: runnerOf_def)
qed simp_all

definition processInv :: "('c, 'w) environment \<Rightarrow> string \<Rightarrow> ('c, 'w) process \<Rightarrow> bool" where
  "processInv E endpoint s \<longleftrightarrow> clientMade E endpoint (app_client (pr_app s)) \<and>
     (pr_stop s \<longrightarrow> e_stopCloses E) \<and> (pr_cancelled s \<longrightarrow> pr_stop s) \<and>
     (Returned \<in> set (pr_runners s) \<longrightarrow> pr_cancelled s)"

lemma runStep_returned:
  "runStep watchable handle r r' \<Longrightarrow> r_pc r' = Returned \<Longrightarrow> r_cancelled r' \<or> r_pc r = Returned"
  by (erule runStepE) auto

lemma processInv_step:
  assumes "processStep E s s'" and "processInv E endpoint s"
  shows "processInv E endpoint s'"
proof -
  have "clientMade E endpoint (app_client (pr_app s'))"
    using step_client [OF assms(1)] assms(2) by (auto simp: processInv_def intro: refresh_clientMade)
  moreover have "(pr_stop s' \<longrightarrow> e_stopCloses E) \<and> (pr_cancelled s' \<longrightarrow> pr_stop s') \<and>
      (Returned \<in> set (pr_runners s') \<longrightarrow> pr_cancelled s')"
    using assms(1)
  proof cases
    case (runner_step i r)
    then have "pr_runners s ! i \<in> set (pr_runners s)" by simp
    then have "r_pc r = Returned \<Longrightarrow> pr_cancelled s"
      using runStep_returned [OF runner_step(4)] runner_step(5) assms(2) by (auto simp: runnerOf_def processInv_def)
    with runner_step assms(2) show ?thesis
      by (auto simp: processInv_def dest: set_update_subset_insert [THEN subsetD])
  qed (use assms(2) in \<open>auto simp: processInv_def\<close>)
  ultimately show ?thesis by (simp add: processInv_def)
qed

lemma clientSet_step:
  "processStep E s s' \<Longrightarrow> clientSet (app_client (pr_app s)) \<Longrightarrow> clientSet (app_client (pr_app s'))"
  using step_client by (metis refresh_clientSet)

section \<open>Every interleaving\<close>

lemma newRefreshable_made:
  assumes "newRefreshableExoscaleClient (e_ego E) (e_files E) (e_version E) config (e_zone E)
      (switchZoneCallback (e_ego E)) a = (Inr watched, a')"
  shows "clientMade E (gc_APIEndpoint config) (app_client a')"
proof (cases "gc_APIKey config \<noteq> [] \<and> gc_APISecret config \<noteq> []")
  case True
  with assms show ?thesis
    by (auto simp: newRefreshableExoscaleClient_def clientMade_def bindM_def worldM_def modifyM_def returnM_def Let_def
        split: prod.splits sum.splits) metis
next
  case False
  let ?a = "a\<lparr>app_client := \<lparr>rc_exo = None, rc_apiCredentials = noCredentials, rc_apiEndpoint = gc_APIEndpoint config\<rparr>\<rparr>"
  have "refreshOf E (gc_APICredentialsFile config) ?a = (Inr (), a')"
    using assms False
    by (auto simp: newRefreshableExoscaleClient_def refreshOf_def bindM_def modifyM_def returnM_def failM_def
        split: prod.splits sum.splits if_splits)
  then show ?thesis by (rule refresh_clientMade) (simp add: clientMade_def)
qed

lemma Initialize_made:
  assumes "Initialize (e_ego E) (e_files E) (e_version E) env (e_kube E) p a = (Inr (p', watched, started), a')"
    and "p_zone p = e_zone E"
  shows "clientMade E (gc_APIEndpoint (cc_Global (p_cfg p))) (app_client a')"
proof -
  have "newRefreshableExoscaleClient (e_ego E) (e_files E) (e_version E) (cc_Global (p_cfg p)) (e_zone E)
      (switchZoneCallback (e_ego E)) a = (Inr watched, a')"
    using assms unfolding Initialize_def Let_def
    by (auto elim!: bindM_InrE simp: catchM_def failM_def returnM_def split: prod.splits sum.splits if_splits)
  then show ?thesis by (rule newRefreshable_made)
qed

lemma start_inv:
  "clientMade E endpoint (app_client a) \<Longrightarrow> processInv E endpoint (startProcess watched started a)"
  by (auto simp: processInv_def startProcess_def)

text \<open>
  Property C14. However the goroutines of the process interleave after \<^verbatim>\<open>Initialize\<close>: the client in
  use was made from the credentials recorded beside it, for the configured endpoint and zone; a client once set is
  never lost; and a runner returns only after the stop channel was closed, so never when
  \<^verbatim>\<open>main\<close> passes \<^verbatim>\<open>wait.NeverStop\<close>.
\<close>

theorem process_invariant:
  assumes "Initialize (e_ego E) (e_files E) (e_version E) env (e_kube E) p a = (Inr (p', watched, started), a')"
    and "p_zone p = e_zone E"
    and "(processStep E)\<^sup>*\<^sup>* (startProcess watched started a') s"
  shows "clientMade E (gc_APIEndpoint (cc_Global (p_cfg p))) (app_client (pr_app s)) \<and>
    (rc_exo (app_client a') \<noteq> None \<longrightarrow> rc_exo (app_client (pr_app s)) \<noteq> None) \<and>
    (Returned \<in> set (pr_runners s) \<longrightarrow> pr_stop s \<and> e_stopCloses E)"
proof -
  let ?P = "\<lambda>s. processInv E (gc_APIEndpoint (cc_Global (p_cfg p))) s \<and>
    (clientSet (app_client a') \<longrightarrow> clientSet (app_client (pr_app s)))"
  have "?P s"
    using assms(3)
  proof (induction rule: rtranclp_induct)
    case base
    show ?case using start_inv [OF Initialize_made [OF assms(1,2)]] by (simp add: startProcess_def)
  next
    case (step s1 s2)
    then show ?case using processInv_step [of E s1 s2] clientSet_step [of E s1 s2] by blast
  qed
  then show ?thesis by (auto simp: processInv_def clientSet_def)
qed

text \<open>The process with one runner, which opens its watch.\<close>

definition exEnvironment :: "(string, memory) environment" where
  "exEnvironment = \<lparr>e_ego = memoryEgo, e_files = exFiles ''k2'', e_version = ''v'', e_zone = ''ch-gva-2'',
     e_kube = memoryKube (\<lambda>_. None), e_csr = exCSRClient, e_certs = exLibCSR, e_watchable = (\<lambda>_. True),
     e_stopCloses = False\<rparr>"

lemma exProcess_step:
  "processStep exEnvironment (startProcess None [''node-csr-validation''] a)
     ((startProcess None [''node-csr-validation''] a)\<lparr>pr_runners := [Select]\<rparr>)"
proof -
  let ?s = "startProcess None [''node-csr-validation''] a"
  let ?r = "(runnerOf ?s 0)\<lparr>r_pc := Select\<rparr>"
  have "runStep (e_watchable exEnvironment) (eventOf exEnvironment) (runnerOf ?s 0) ?r"
    by (rule runStep.watch_opens) (simp_all add: runnerOf_def startProcess_def exEnvironment_def)
  then have "processStep exEnvironment ?s (?s\<lparr>pr_app := r_world ?r, pr_runners := (pr_runners ?s)[0 := r_pc ?r],
      pr_ended := (r_pc ?r = Crashed)\<rparr>)"
    by (intro processStep.runner_step) (simp_all add: runnerOf_def startProcess_def)
  then show ?thesis by (simp add: runnerOf_def startProcess_def)
qed

theorem process_invariant_witness:
  "\<exists>a' :: (string, memory) app. clientMade exEnvironment [] (app_client a') \<and> rc_exo (app_client a') \<noteq> None"
proof -
  let ?env = "[''EXOSCALE_SKS_AGENT_RUNNERS'' \<mapsto> ''node-csr-validation'']"
  obtain p' a' where init: "Initialize (e_ego exEnvironment) (e_files exEnvironment) (e_version exEnvironment) ?env
      (e_kube exEnvironment) exNewProvider exApp = (Inr (p', None, [''node-csr-validation'']), a')"
    using exInitialize_runs by (auto simp: exEnvironment_def)
  have zone: "p_zone exNewProvider = e_zone exEnvironment" by (simp add: exNewProvider_def exEnvironment_def)
  have made: "rc_exo (app_client a') \<noteq> None"
    using init by (auto simp: exEnvironment_def Initialize_def newRefreshableExoscaleClient_def exNewProvider_def exGlobal_def
        bindM_def catchM_def modifyM_def worldM_def connect_def liftE_def memoryEgo_def switchZoneCallback_def returnM_def
        getenv_def sksAgentNodeCSRValidation_def exApp_def)
  have run: "(processStep exEnvironment)\<^sup>*\<^sup>* (startProcess None [''node-csr-validation''] a')
      ((startProcess None [''node-csr-validation''] a')\<lparr>pr_runners := [Select]\<rparr>)"
    by (rule r_into_rtranclp) (rule exProcess_step)
  from process_invariant [OF init zone run] made show ?thesis
    by (auto simp: startProcess_def exNewProvider_def exGlobal_def)
qed

end
