(* ===== verification/Client_Lock.thy ===== *)
theory Client_Lock
  imports Main
begin

text \<open>
  The lock of the refreshable client (\<^verbatim>\<open>exoscale/client.go\<close>): any number of goroutines call methods, each
  of which holds the read lock from before its request until after its \<^verbatim>\<open>Wait\<close>, and a goroutine that
  refreshes the credentials replaces \<^verbatim>\<open>c.exo\<close> under the write lock. The steps of all goroutines
  interleave freely. \<^verbatim>\<open>sync.RWMutex\<close> lets a writer in only when nobody holds the lock, and a reader
  only when no writer holds it or has announced itself: a writer first excludes other writers and
  new readers, then waits for the readers that are in.
\<close>

section \<open>Steps\<close>

datatype 'c pc =
    Idle
  | Reading
  | Requested 'c
  | Waited 'c 'c
  | Announced
  | Writing
  | Written

record ('t, 'c) lockState =
  ls_exo :: "'c option"
  ls_readers :: "'t set"
  ls_writer :: "'t option"
  ls_announced :: "'t option"
  ls_pc :: "'t \<Rightarrow> 'c pc"

definition goto :: "'t \<Rightarrow> 'c pc \<Rightarrow> ('t, 'c) lockState \<Rightarrow> ('t, 'c) lockState" where
  "goto t p s = s\<lparr>ls_pc := (ls_pc s)(t := p)\<rparr>"

text \<open>
  A method: \<^verbatim>\<open>RLock\<close>, the request, \<^verbatim>\<open>Wait\<close> (for the methods that have one), \<^verbatim>\<open>RUnlock\<close>; a nil client
  panics and the deferred \<^verbatim>\<open>RUnlock\<close> runs. A refresh: \<^verbatim>\<open>Lock\<close>, the assignment, \<^verbatim>\<open>Unlock\<close>.
\<close>

inductive step :: "'t \<Rightarrow> ('t, 'c) lockState \<Rightarrow> ('t, 'c) lockState \<Rightarrow> bool" where
  RLock: "ls_pc s t = Idle \<Longrightarrow> ls_writer s = None \<Longrightarrow> ls_announced s = None \<Longrightarrow>
    step t s ((goto t Reading s)\<lparr>ls_readers := insert t (ls_readers s)\<rparr>)"
| request: "ls_pc s t = Reading \<Longrightarrow> ls_exo s = Some c \<Longrightarrow> step t s (goto t (Requested c) s)"
| nil_client: "ls_pc s t = Reading \<Longrightarrow> ls_exo s = None \<Longrightarrow>
    step t s ((goto t Idle s)\<lparr>ls_readers := ls_readers s - {t}\<rparr>)"
| wait: "ls_pc s t = Requested c \<Longrightarrow> ls_exo s = Some c' \<Longrightarrow> step t s (goto t (Waited c c') s)"
| RUnlock: "ls_pc s t = Requested c \<or> ls_pc s t = Waited c c' \<Longrightarrow>
    step t s ((goto t Idle s)\<lparr>ls_readers := ls_readers s - {t}\<rparr>)"
| announce: "ls_pc s t = Idle \<Longrightarrow> ls_writer s = None \<Longrightarrow> ls_announced s = None \<Longrightarrow>
    step t s ((goto t Announced s)\<lparr>ls_announced := Some t\<rparr>)"
| Lock: "ls_pc s t = Announced \<Longrightarrow> ls_readers s = {} \<Longrightarrow>
    step t s ((goto t Writing s)\<lparr>ls_writer := Some t, ls_announced := None\<rparr>)"
| assign: "ls_pc s t = Writing \<Longrightarrow> step t s ((goto t Written s)\<lparr>ls_exo := Some c\<rparr>)"
| Unlock: "ls_pc s t = Written \<Longrightarrow> step t s ((goto t Idle s)\<lparr>ls_writer := None\<rparr>)"

inductive_cases stepE: "step t s s'"

definition start :: "'c option \<Rightarrow> ('t, 'c) lockState" where
  "start exo = \<lparr>ls_exo = exo, ls_readers = {}, ls_writer = None, ls_announced = None, ls_pc = (\<lambda>_. Idle)\<rparr>"

inductive reachable :: "'c option \<Rightarrow> ('t, 'c) lockState \<Rightarrow> bool" for exo where
  reach_start: "reachable exo (start exo)"
| reach_step: "reachable exo s \<Longrightarrow> step t s s' \<Longrightarrow> reachable exo s'"

section \<open>The invariant\<close>

fun holdsRead :: "'c pc \<Rightarrow> bool" where
  "holdsRead Reading = True"
| "holdsRead (Requested c) = True"
| "holdsRead (Waited c c') = True"
| "holdsRead p = False"

fun holdsWrite :: "'c pc \<Rightarrow> bool" where
  "holdsWrite Writing = True"
| "holdsWrite Written = True"
| "holdsWrite p = False"

fun usesClient :: "'c option \<Rightarrow> 'c pc \<Rightarrow> bool" where
  "usesClient exo (Requested c) = (exo = Some c)"
| "usesClient exo (Waited c c') = (c = c')"
| "usesClient exo p = True"

definition lockInv :: "('t, 'c) lockState \<Rightarrow> bool" where
  "lockInv s \<longleftrightarrow>
     (\<forall>t. t \<in> ls_readers s \<longleftrightarrow> holdsRead (ls_pc s t)) \<and>
     (\<forall>t. ls_writer s = Some t \<longleftrightarrow> holdsWrite (ls_pc s t)) \<and>
     (\<forall>t. ls_announced s = Some t \<longleftrightarrow> ls_pc s t = Announced) \<and>
     (ls_writer s \<noteq> None \<longrightarrow> ls_readers s = {} \<and> ls_announced s = None) \<and>
     (\<forall>t. usesClient (ls_exo s) (ls_pc s t))"

lemma lockInv_start: "lockInv (start exo)"
  by (simp add: lockInv_def start_def)

lemma reading_no_writer: "lockInv s \<Longrightarrow> holdsRead (ls_pc s t) \<Longrightarrow> ls_writer s = None"
  by (auto simp: lockInv_def)

text \<open>While a refresh holds the lock, no method does.\<close>

lemma writing_no_reader: "lockInv s \<Longrightarrow> holdsWrite (ls_pc s t) \<Longrightarrow> \<not> holdsRead (ls_pc s t')"
  unfolding lockInv_def by (metis empty_iff option.distinct(1))

lemma usesClient_not_reading: "\<not> holdsRead p \<Longrightarrow> usesClient exo p"
  by (cases p) auto

lemma lockInv_step:
  assumes "step t s s'" and "lockInv s"
  shows "lockInv s'"
  using assms(1)
proof cases
  case RLock
  with assms(2) show ?thesis by (auto simp: lockInv_def goto_def)
next
  case (request c)
  with assms(2) show ?thesis by (auto simp: lockInv_def goto_def)
next
  case nil_client
  with assms(2) show ?thesis by (auto simp: lockInv_def goto_def)
next
  case (wait c c')
  then have "c = c'" using assms(2) unfolding lockInv_def by (metis option.inject usesClient.simps(1))
  with wait assms(2) show ?thesis by (auto simp: lockInv_def goto_def)
next
  case (RUnlock c c')
  with assms(2) show ?thesis by (auto simp: lockInv_def goto_def)
next
  case announce
  with assms(2) show ?thesis by (auto simp: lockInv_def goto_def)
next
  case Lock
  moreover from this assms(2) have "ls_announced s = Some t" by (simp add: lockInv_def)
  moreover from this assms(2) have "ls_writer s = None" by (auto simp: lockInv_def)
  ultimately show ?thesis using assms(2) by (auto simp: lockInv_def goto_def)
next
  case (assign c)
  then have "\<not> holdsRead (ls_pc s t')" for t' using writing_no_reader [OF assms(2), of t t'] by simp
  with assign assms(2) show ?thesis by (auto simp: lockInv_def goto_def usesClient_not_reading)
next
  case Unlock
  then have "ls_writer s = Some t" using assms(2) by (simp add: lockInv_def)
  with Unlock assms(2) show ?thesis by (auto simp: lockInv_def goto_def)
qed

lemma reachable_lockInv: "reachable exo s \<Longrightarrow> lockInv s"
  by (induction rule: reachable.induct) (auto intro: lockInv_start lockInv_step)

section \<open>Properties\<close>

text \<open>
  Property C16. A method sends its request and waits for the operation with one and the same client,
  however the refreshes of the credentials interleave with it; and no refresh replaces the client
  while a method runs.
\<close>

theorem one_client_per_call:
  assumes "reachable exo s"
  shows "(ls_pc s t = Waited c c' \<longrightarrow> c = c') \<and> (ls_pc s t = Requested c \<longrightarrow> ls_exo s = Some c) \<and>
    \<not> (holdsWrite (ls_pc s t') \<and> holdsRead (ls_pc s t))"
proof -
  have inv: "lockInv s" using assms by (rule reachable_lockInv)
  then have "usesClient (ls_exo s) (ls_pc s t)" by (simp add: lockInv_def)
  then show ?thesis using writing_no_reader [OF inv] by auto
qed

text \<open>A refresh, then a call by another goroutine.\<close>

definition exRun :: "(nat, string) lockState" where
  "exRun = \<lparr>ls_exo = Some ''new'', ls_readers = {1}, ls_writer = None, ls_announced = None,
     ls_pc = (\<lambda>_. Idle)(1 := Waited ''new'' ''new'')\<rparr>"

lemma exRun_reachable: "reachable (Some ''old'') exRun"
proof -
  let ?s0 = "start (Some ''old'') :: (nat, string) lockState"
  let ?sA = "(goto 0 Announced ?s0)\<lparr>ls_announced := Some 0\<rparr>"
  let ?s1 = "(goto 0 Writing ?sA)\<lparr>ls_writer := Some 0, ls_announced := None\<rparr>"
  let ?s2 = "(goto 0 Written ?s1)\<lparr>ls_exo := Some ''new''\<rparr>"
  let ?s3 = "(goto 0 Idle ?s2)\<lparr>ls_writer := None\<rparr>"
  let ?s4 = "(goto 1 Reading ?s3)\<lparr>ls_readers := insert 1 (ls_readers ?s3)\<rparr>"
  let ?s5 = "goto 1 (Requested ''new'') ?s4"
  let ?s6 = "goto 1 (Waited ''new'' ''new'') ?s5"
  have "step 0 ?s0 ?sA" by (rule step.announce) (simp_all add: start_def)
  moreover have "step 0 ?sA ?s1" by (rule step.Lock) (simp_all add: goto_def start_def)
  moreover have "step 0 ?s1 ?s2" by (rule step.assign) (simp add: goto_def)
  moreover have "step 0 ?s2 ?s3" by (rule step.Unlock) (simp add: goto_def)
  moreover have "step 1 ?s3 ?s4" by (rule step.RLock) (simp_all add: goto_def start_def)
  moreover have "step 1 ?s4 ?s5" by (rule step.request) (simp_all add: goto_def)
  moreover have "step 1 ?s5 ?s6" by (rule step.wait) (simp_all add: goto_def)
  ultimately have "reachable (Some ''old'') ?s6"
    by (meson reachable.reach_start reachable.reach_step)
  moreover have "?s6 = exRun" by (simp add: exRun_def goto_def start_def fun_eq_iff)
  ultimately show ?thesis by simp
qed

theorem one_client_per_call_witness:
  "reachable (Some ''old'') exRun \<and> ls_pc exRun 1 = Waited ''new'' ''new'' \<and> ls_exo exRun = Some ''new'' \<and>
   holdsRead (ls_pc exRun 1) \<and> (\<forall>t'. \<not> holdsWrite (ls_pc exRun t'))"
proof -
  have "holdsRead (ls_pc exRun 1)" by (simp add: exRun_def)
  with one_client_per_call [OF exRun_reachable] have "\<forall>t'. \<not> holdsWrite (ls_pc exRun t')" by blast
  with exRun_reachable show ?thesis by (simp add: exRun_def)
qed

section \<open>A refresh that waits for the lock\<close>

text \<open>Runs in which only goroutines with a property \<open>P\<close> take a step, with their length.\<close>

inductive runs :: "('t \<Rightarrow> bool) \<Rightarrow> ('t, 'c) lockState \<Rightarrow> nat \<Rightarrow> ('t, 'c) lockState \<Rightarrow> bool" for P s where
  runs_none: "runs P s 0 s"
| runs_more: "runs P s n s1 \<Longrightarrow> P t \<Longrightarrow> step t s1 s2 \<Longrightarrow> runs P s (Suc n) s2"

lemma runs_reachable: "runs P s n s' \<Longrightarrow> reachable exo s \<Longrightarrow> reachable exo s'"
  by (induction rule: runs.induct) (auto intro: reachable.reach_step)

lemma finite_readers_step: "step t s s' \<Longrightarrow> finite (ls_readers s) \<Longrightarrow> finite (ls_readers s')"
  by (erule stepE) (simp_all add: goto_def)

lemma finite_readers: "reachable exo s \<Longrightarrow> finite (ls_readers s)"
  by (induction rule: reachable.induct) (auto simp: start_def intro: finite_readers_step)

text \<open>The steps that a call still has to take, and those of all calls that hold the lock.\<close>

fun remaining :: "'c pc \<Rightarrow> nat" where
  "remaining Reading = 3"
| "remaining (Requested c) = 2"
| "remaining (Waited c c') = 1"
| "remaining p = 0"

definition work :: "('t, 'c) lockState \<Rightarrow> nat" where
  "work s = (\<Sum>t \<in> ls_readers s. remaining (ls_pc s t))"

lemma remaining_le: "remaining p \<le> 3"
  by (cases p) auto

lemma work_le: "work s \<le> 3 * card (ls_readers s)"
  using sum_bounded_above [of "ls_readers s" "\<lambda>t. remaining (ls_pc s t)" 3, OF remaining_le]
  by (simp add: work_def mult.commute)

lemma work_split:
  assumes "finite (ls_readers s)" and "t \<in> ls_readers s"
  shows "work s = remaining (ls_pc s t) + (\<Sum>x \<in> ls_readers s - {t}. remaining (ls_pc s x))"
  unfolding work_def by (rule sum.remove [OF assms])

text \<open>
  Once a writer has announced itself, only the calls that already hold the lock take steps, none of
  them changes the client, and each of them brings one closer to its end.
\<close>

lemma announced_step:
  assumes "lockInv s" and "finite (ls_readers s)" and "ls_announced s = Some u" and "step t s s'" and "t \<noteq> u"
  shows "ls_announced s' = Some u \<and> ls_exo s' = ls_exo s \<and> ls_readers s' \<subseteq> ls_readers s \<and> t \<in> ls_readers s \<and>
    work s' < work s"
proof -
  have no_writer: "\<not> holdsWrite (ls_pc s t)" and not_ann: "ls_pc s t \<noteq> Announced"
    using assms(1,3,5) unfolding lockInv_def by auto
  let ?rest = "\<Sum>x \<in> ls_readers s - {t}. remaining (ls_pc s x)"
  from assms(4) no_writer not_ann assms(3) have t: "t \<in> ls_readers s"
    using assms(1) by cases (auto simp: lockInv_def)
  note before = work_split [OF assms(2) t]
  have moved: "work (goto t p s) = remaining p + ?rest" for p
  proof -
    have "work (goto t p s) = remaining p + (\<Sum>x \<in> ls_readers s - {t}. remaining (ls_pc (goto t p s) x))"
      using work_split [of "goto t p s" t] assms(2) t by (simp add: goto_def)
    also have "(\<Sum>x \<in> ls_readers s - {t}. remaining (ls_pc (goto t p s) x)) = ?rest"
      by (rule sum.cong) (auto simp: goto_def)
    finally show ?thesis .
  qed
  have left: "work ((goto t Idle s)\<lparr>ls_readers := ls_readers s - {t}\<rparr>) = ?rest"
    unfolding work_def by (rule sum.cong) (auto simp: goto_def)
  from assms(4) no_writer not_ann assms(3) t show ?thesis
    by cases (auto simp: before moved left, auto simp: goto_def)
qed

lemma announced_run:
  assumes "runs P s n s'" and "lockInv s" and "finite (ls_readers s)" and "ls_announced s = Some u" and "\<not> P u"
  shows "lockInv s' \<and> finite (ls_readers s') \<and> ls_announced s' = Some u \<and> ls_exo s' = ls_exo s \<and>
    ls_readers s' \<subseteq> ls_readers s \<and> n + work s' \<le> work s"
  using assms(1)
proof induction
  case runs_none
  with assms(2-4) show ?case by simp
next
  case (runs_more n s1 t s2)
  with assms(5) have "t \<noteq> u" by auto
  with runs_more.IH runs_more.hyps(3) announced_step [of s1 u t s2] lockInv_step [of t s1 s2]
    finite_readers_step [of t s1 s2]
  show ?case by fastforce
qed

text \<open>
  Property C18. A refresh of the credentials is not starved: from the moment it asks for the write lock,
  the other goroutines can take at most three steps for each call that was already running, however
  many calls are waiting to start; and as soon as none of those calls is left it gets the lock.
\<close>

theorem refresh_not_starved:
  assumes "reachable exo s" and "ls_announced s = Some u" and "runs (\<lambda>t. t \<noteq> u) s n s'"
  shows "n \<le> 3 * card (ls_readers s) \<and> ls_announced s' = Some u \<and>
    (ls_readers s' = {} \<longrightarrow> (\<exists>s''. step u s' s'' \<and> ls_writer s'' = Some u)) \<and>
    (ls_readers s' \<noteq> {} \<longrightarrow> (\<exists>t s''. t \<noteq> u \<and> step t s' s''))"
proof -
  note run = announced_run [OF assms(3) reachable_lockInv [OF assms(1)] finite_readers [OF assms(1)] assms(2), simplified]
  then have pc: "ls_pc s' u = Announced" unfolding lockInv_def by blast
  have "\<exists>s''. step u s' s'' \<and> ls_writer s'' = Some u" if "ls_readers s' = {}"
    by (rule exI, rule conjI [OF step.Lock [OF pc that]]) simp
  moreover have "\<exists>t s''. t \<noteq> u \<and> step t s' s''" if "ls_readers s' \<noteq> {}"
  proof -
    from that obtain t where "t \<in> ls_readers s'" by blast
    with run have "holdsRead (ls_pc s' t)" by (auto simp: lockInv_def)
    then have "\<exists>s''. step t s' s''"
      by (cases "ls_pc s' t"; cases "ls_exo s'") (auto intro: step.intros)
    moreover from \<open>holdsRead (ls_pc s' t)\<close> pc have "t \<noteq> u" by auto
    ultimately show ?thesis by blast
  qed
  ultimately show ?thesis using run work_le [of s] by auto
qed

text \<open>
  Property C23. One call that does not return stops all others: while it holds the read lock and a
  refresh of the credentials waits for the lock, no further call gets past \<^verbatim>\<open>RLock\<close> and the client is not replaced,
  whatever the other goroutines do.
\<close>

theorem stuck_call_blocks_others:
  assumes "reachable exo s" and "ls_announced s = Some u" and "holdsRead (ls_pc s t)"
    and "runs (\<lambda>x. x \<noteq> t) s n s'"
  shows "ls_announced s' = Some u \<and> ls_exo s' = ls_exo s \<and> t \<in> ls_readers s' \<and> ls_readers s' \<subseteq> ls_readers s"
proof -
  have inv: "lockInv s" by (rule reachable_lockInv [OF assms(1)])
  then have t: "t \<in> ls_readers s" using assms(3) by (auto simp: lockInv_def)
  have "runs (\<lambda>x. x \<noteq> t \<and> x \<noteq> u) s n s' \<and> t \<in> ls_readers s'"
    using assms(4)
  proof induction
    case runs_none
    from t show ?case by (simp add: runs.runs_none)
  next
    case (runs_more n s1 x s2)
    note run = announced_run [OF conjunct1 [OF runs_more.IH] inv finite_readers [OF assms(1)] assms(2), simplified]
    have "ls_pc s1 u = Announced" and "ls_readers s1 \<noteq> {}" using run runs_more.IH unfolding lockInv_def by blast+
    with runs_more.hyps(3) have "x \<noteq> u" by (auto elim: stepE)
    moreover have "t \<in> ls_readers s2"
      using runs_more.hyps(3,2) runs_more.IH by cases (auto simp: goto_def)
    ultimately show ?case using runs_more by (auto intro: runs.runs_more)
  qed
  with announced_run [of _ s n s' u, OF _ inv finite_readers [OF assms(1)] assms(2)] show ?thesis by blast
qed

text \<open>Two calls have sent their requests, and a refresh waits for the lock; then one or both of them return.\<close>

definition exWaiting :: "nat set \<Rightarrow> (nat, string) lockState" where
  "exWaiting readers = \<lparr>ls_exo = Some ''c'', ls_readers = readers, ls_writer = None, ls_announced = Some 0,
     ls_pc = (\<lambda>t. if t = 0 then Announced else if t \<in> readers then Requested ''c'' else Idle)\<rparr>"

lemma exWaiting_reachable: "reachable (Some ''c'') (exWaiting {1, 2})"
proof -
  let ?s0 = "start (Some ''c'') :: (nat, string) lockState"
  let ?s1 = "(goto 1 Reading ?s0)\<lparr>ls_readers := insert 1 (ls_readers ?s0)\<rparr>"
  let ?s2 = "(goto 2 Reading ?s1)\<lparr>ls_readers := insert 2 (ls_readers ?s1)\<rparr>"
  let ?s3 = "goto 2 (Requested ''c'') (goto 1 (Requested ''c'') ?s2)"
  let ?s4 = "(goto 0 Announced ?s3)\<lparr>ls_announced := Some 0\<rparr>"
  have "step 1 ?s0 ?s1" by (rule step.RLock) (simp_all add: start_def)
  moreover have "step 2 ?s1 ?s2" by (rule step.RLock) (simp_all add: start_def goto_def)
  moreover have "step 1 ?s2 (goto 1 (Requested ''c'') ?s2)" by (rule step.request) (simp_all add: start_def goto_def)
  moreover have "step 2 (goto 1 (Requested ''c'') ?s2) ?s3" by (rule step.request) (simp_all add: start_def goto_def)
  moreover have "step 0 ?s3 ?s4" by (rule step.announce) (simp_all add: start_def goto_def)
  ultimately have "reachable (Some ''c'') ?s4" by (meson reachable.reach_start reachable.reach_step)
  moreover have "?s4 = exWaiting {1, 2}" by (auto simp: exWaiting_def goto_def start_def fun_eq_iff)
  ultimately show ?thesis by simp
qed

lemma exWaiting_return:
  assumes "t \<noteq> 0" and "t \<in> readers"
  shows "step t (exWaiting readers) (exWaiting (readers - {t}))"
proof -
  have "step t (exWaiting readers) ((goto t Idle (exWaiting readers))\<lparr>ls_readers := ls_readers (exWaiting readers) - {t}\<rparr>)"
    by (rule step.RUnlock [of _ _ "''c''" "''c''"]) (simp add: exWaiting_def assms)
  moreover have "(goto t Idle (exWaiting readers))\<lparr>ls_readers := ls_readers (exWaiting readers) - {t}\<rparr> =
      exWaiting (readers - {t})"
    using assms(1) by (simp add: exWaiting_def goto_def fun_eq_iff)
  ultimately show ?thesis by simp
qed

lemma exWaiting_first: "P 2 \<Longrightarrow> runs P (exWaiting {1, 2}) 1 (exWaiting {1})"
  using runs.runs_more [OF runs.runs_none, of P 2 "exWaiting {1, 2}" "exWaiting {1}"] exWaiting_return [of 2 "{1, 2}"]
  by (simp add: insert_Diff_if)

lemma exWaiting_second: "P 2 \<Longrightarrow> P 1 \<Longrightarrow> runs P (exWaiting {1, 2}) 2 (exWaiting {})"
  using runs.runs_more [OF exWaiting_first, of P 1 "exWaiting {}"] exWaiting_return [of 1 "{1}"]
  by (simp add: numeral_2_eq_2)

theorem refresh_not_starved_witness: "\<exists>s''. step 0 (exWaiting {}) s'' \<and> ls_writer s'' = Some 0"
  using refresh_not_starved [OF exWaiting_reachable _ exWaiting_second, of 0] by (simp add: exWaiting_def)

theorem stuck_call_blocks_others_witness:
  "reachable (Some ''c'') (exWaiting {1, 2}) \<and> holdsRead (ls_pc (exWaiting {1, 2}) 1) \<and>
   runs (\<lambda>x. x \<noteq> 1) (exWaiting {1, 2}) 1 (exWaiting {1}) \<and>
   ls_announced (exWaiting {1}) = Some 0 \<and> ls_exo (exWaiting {1}) = ls_exo (exWaiting {1, 2}) \<and>
   1 \<in> ls_readers (exWaiting {1}) \<and> ls_readers (exWaiting {1}) \<subseteq> ls_readers (exWaiting {1, 2})"
proof -
  have "ls_announced (exWaiting {1, 2}) = Some 0" and held: "holdsRead (ls_pc (exWaiting {1, 2}) 1)"
    by (simp_all add: exWaiting_def)
  moreover have run: "runs (\<lambda>x. x \<noteq> 1) (exWaiting {1, 2}) 1 (exWaiting {1})" by (rule exWaiting_first) simp
  ultimately show ?thesis using stuck_call_blocks_others [OF exWaiting_reachable _ held run] exWaiting_reachable by simp
qed

end
