(* ===== verification/Spec2Isabelle.thy ===== *)
theory Spec2Isabelle
  imports Cloud_Properties LB_Reconcile LB_Shared Client_Live Panic_Properties Ego_Wait Provider_Run Client_Lock
begin

text \<open>
  \<^bold>\<open>The Exoscale cloud controller manager.\<close>

  The program (Go, package \<^verbatim>\<open>exoscale\<close> under \<^verbatim>\<open>src/exoscale\<close>, started by
  \<^verbatim>\<open>src/cmd/exoscale-cloud-controller-manager/main.go\<close>) connects a Kubernetes cluster to the Exoscale
  cloud. Kubernetes controllers, which are vendored code, call it through the interfaces of
  \<^verbatim>\<open>k8s.io/cloud-provider\<close>:

  \<^item> the load balancer component turns Services into network load balancers (NLBs) of the cloud and
    keeps their services in step with the ports and annotations of the Service;
  \<^item> the instances and zones components answer what is known about the machine behind a node: does
    it exist, is it shut down, its addresses, type and region. Static overrides in the configuration
    take precedence over the cloud API;
  \<^item> the SKS agent watches certificate signing requests of nodes and approves those that agree with
    a machine of the cloud;
  \<^item> the client component holds the API client, whose credentials may be replaced at any time from a
    watched file;
  \<^item> the provider reads the configuration, makes the components and gives them their clients.

  \<^bold>\<open>Theories.\<close> In the order of the imports:

  \<^descr> \<open>CCM_Prelude\<close> errors as a datatype (\<open>Panic\<close> for a Go panic, which no error handler sees), the
    monad of programs with state and errors, loops over lists, and four kinds of judgement with one rule
    per combinator: \<open>keeps\<close> (an invariant of the state, whatever the result), \<open>leads\<close>, \<open>triple\<close>
    (pre- and post-condition of a successful run) and \<open>runsTo\<close> (the run succeeds).
  \<^descr> \<open>Go_Strings\<close>, \<open>Go_Time\<close>, \<open>Go_Net\<close>, \<open>Go_Sha256\<close> what the program uses of the Go library:
    \<^verbatim>\<open>strings\<close>, \<^verbatim>\<open>strconv\<close> and \<^verbatim>\<open>%d\<close>; \<^verbatim>\<open>time.ParseDuration\<close> with its 64 bit overflow checks and
    its floating point fractions; \<^verbatim>\<open>net.IP.String\<close>; \<^verbatim>\<open>crypto/sha256\<close>.
  \<^descr> \<open>Ego_API\<close>, \<open>Kube_API\<close> the data of the two APIs, as far as the program uses them, and
    the two clients as records of functions on a state of the outside world.
  \<^descr> \<open>Service_Patcher\<close> \<^verbatim>\<open>patcher.go\<close> and \<^verbatim>\<open>patchAnnotation\<close>.
  \<^descr> \<open>LB_Spec\<close> the pure part of \<^verbatim>\<open>loadbalancer.go\<close>: annotations, defaults,
    \<^verbatim>\<open>buildLoadBalancerFromAnnotations\<close> and the comparisons.
  \<^descr> \<open>LB_Handlers\<close> the handlers \<^verbatim>\<open>GetLoadBalancer\<close>, \<^verbatim>\<open>EnsureLoadBalancer\<close>, \<^verbatim>\<open>UpdateLoadBalancer\<close>,
    \<^verbatim>\<open>EnsureLoadBalancerDeleted\<close> and what they call. A handler works on \<open>handler_state\<close>: the
    Service object it was given, which it changes in place, and the outside world.
  \<^descr> \<open>LB_Safety\<close> which requests the handlers may send, over locales that say what each kind of
    request keeps (\<open>nlb_reads\<close> up to \<open>nlb_manages\<close> and \<open>nlb_external\<close>), interpreted on the recording client
    of \<^verbatim>\<open>client_mock.go\<close>.
  \<^descr> \<open>NLB_API\<close> the contract of the NLB API as a locale over an abstract view (a map from IDs to
    configurations), and an in-memory service that satisfies it.
  \<^descr> \<open>LB_Tracks\<close> the invariant of the update loops on configurations alone (\<open>tracks\<close>), and what it gives in the
    end: the services \<open>covers\<close> the desired ones, each of them \<open>made\<close> from the former services.
  \<^descr> \<open>LB_Converge\<close>, \<open>LB_Delete\<close> the handlers keep that invariant under the contract of the API, and deletion
    implements the abstract deletion \<open>afterDelete\<close>.
  \<^descr> \<open>LB_Properties\<close>, \<open>LB_Behaviour\<close> the properties of single handlers, with examples on the in-memory service.
  \<^descr> \<open>Cloud_Config\<close> \<^verbatim>\<open>exoscale_config.go\<close>, \<^verbatim>\<open>instances_config.go\<close>, \<^verbatim>\<open>loadbalancer_config.go\<close>.
  \<^descr> \<open>Instances\<close>, \<open>Zones\<close>, \<open>Instances_Properties\<close> \<^verbatim>\<open>instances.go\<close>, \<^verbatim>\<open>instances_v2.go\<close>,
    \<^verbatim>\<open>common.go\<close>, \<^verbatim>\<open>zones.go\<close>, and what they answer.
  \<^descr> \<open>Client\<close>, \<open>Client_Properties\<close>, \<open>Client_Lock\<close> \<^verbatim>\<open>client.go\<close>, \<^verbatim>\<open>sks.go\<close> and the client methods in
    \<^verbatim>\<open>loadbalancer.go\<close> and \<^verbatim>\<open>instances.go\<close>. A method is a request followed by a wait for the operation;
    the locale \<open>async_nlb_api\<close> is the contract of such an asynchronous API, and the refreshable client
    over it satisfies \<open>nlb_api\<close>. \<open>Client_Lock\<close> is the read-write lock as a step relation with any
    number of threads, and justifies that a method is one step elsewhere.
  \<^descr> \<open>Ego_Wait\<close> \<^verbatim>\<open>Wait\<close> of the vendored client, on which every method that changes something ends: its
    polling loop, with the poll interval in floating point and the ticker that every tick resets, as a function of
    the events it receives.
  \<^descr> \<open>LB_Lifecycle\<close> handlers in sequence: creation followed by deletion, and a creation whose result
    cannot be read.
  \<^descr> \<open>LB_Reconcile\<close>, \<open>LB_Shared\<close> the exact result of an update, a second update that finds nothing to do, two
    differences that no update settles, and two Services on one external load balancer.
  \<^descr> \<open>NLB_Live\<close>, \<open>LB_Live\<close>, \<open>Client_Live\<close> the locale \<open>nlb_live\<close> extends \<open>nlb_api\<close> by availability: the API grants
    every request that it has no documented reason to refuse. Then the handlers return without an error; the
    refreshable client over an asynchronous API that is available (\<open>live_stack\<close>) is available as long as it is set.
  \<^descr> \<open>Panic_Free\<close>, \<open>Panic_Properties\<close> run-time panics: a judgement for programs that do not end in one, with one
    rule per combinator, and equivalences for those that may. The locales \<open>nlb_total\<close>, \<open>total_stack\<close> and
    \<open>lookup_stack\<close> say that the calls themselves do not panic and leave their answers open: an operation may lack
    its reference and an instance its type.
  \<^descr> \<open>SKS_Agent\<close>, \<open>SKS_Properties\<close> \<^verbatim>\<open>sks_agent.go\<close> and the CSR validation runner: one event as a
    function, the loop as a step relation.
  \<^descr> \<open>Cloud\<close>, \<open>Cloud_Properties\<close> \<^verbatim>\<open>exoscale.go\<close> and \<^verbatim>\<open>main.go\<close>.
  \<^descr> \<open>Provider_Run\<close> the process after \<^verbatim>\<open>Initialize\<close> as one step relation: the goroutine that waits for the
    stop channel, the watcher of the credentials file, the runners, and the calls of the controllers.

  A definition has the name of the Go function or type it models, with a prefix where a name
  would clash (\<open>lb_\<close>, \<open>rc_\<close>, \<open>cp_\<close>, \<open>i_\<close>, \<open>i2_\<close>); the body of a loop or a stretch of a long
  function has a name of its own.

  \<^bold>\<open>What is shown.\<close> Load balancers: after a successful handler the NLB has exactly the desired
  services (foreign ones on an external NLB are unchanged) and no other NLB has changed; deletion removes
  exactly the services of the Service; a second update sends nothing; Services that share an external NLB
  do not disturb each other; on an API that is available the handlers succeed (total correctness), from the
  start of the process on; an external NLB instance is never created, changed or deleted;
  nothing is sent when nothing differs; at most one NLB is created per run. Instances: a node is reported
  as gone only when the API says so or is switched off; both interfaces agree; overrides are found again
  under the provider ID they give out. CSR runner: an approval is always justified by a listed instance, and
  every request that qualifies is approved.
  Client: a request and its wait use one client under every interleaving; a refresh replaces client and
  credentials together or not at all; a refresh is not starved by calls; along every interleaving of the
  process the client in use was made from the recorded credentials. Provider: from start-up to a converged
  load balancer. Panics, when the calls of the APIs do not panic themselves: with a client set a handler panics
  exactly when a create operation comes back without a reference, and a lookup of an instance exactly when the
  client is nil or, for its type, when the instance has none. \<^verbatim>\<open>Wait\<close> returns within its timeout, or when the context ends. Some
  properties state behaviour that one would not expect from the documentation or the comments: the health
  check port wraps, a changed description is never applied and the request for it sent again for ever, the description
  of a service cannot be removed, optional fields are read without a check, the lookup by lower-cased name is dead
  code, the last of several instances of one name decides, a cancelled runner may spin for ever, an undecodable
  credentials file gives a nil client, a load balancer whose creation cannot be read back is lost, an operation that
  is answered as failed counts as done, and an operation that stays pending (the program sets no
  wait timeout) together with a refresh stops all further API calls.

  \<^bold>\<open>Modelling choices.\<close> Code outside of the program is a parameter: the egoscale client, the API
  server, JSON, YAML, merge patches, PEM and X.509, regular expressions, the metadata service, file
  access. What a theorem relies on is a hypothesis (a locale such as \<open>nlb_api\<close>) that the in-memory
  service satisfies. The contracts of the NLB API speak about the effect of each
  request on the view, so nobody else changes the view while a handler runs; a field that is not sent keeps its value, and a
  health check that is sent replaces the old one as a whole. All loops of the handlers
  range over lists, so no fuel is needed; the endless loops are a step relation (the runner) or a
  function of the list of received events (the file watcher, the polling of an operation), and \<open>None\<close> or
  \<open>False\<close> is the answer of a loop that waits for a further event. Ports and counters that the program only
  copies are integers; conversions that cut (\<^verbatim>\<open>uint16\<close>) and 64 bit limits are explicit. Strings are
  lists of bytes. \<^verbatim>\<open>fatalf\<close> is an error nobody catches.

  \<^bold>\<open>Not modelled.\<close> Log lines; contexts and deadlines, except as the cancellation of the runner and
  the end of the watcher and of \<^verbatim>\<open>Wait\<close>; the time stamp in an approval; how the vendored command parses
  the command line; the helpers of the end-to-end tests in \<^verbatim>\<open>src/e2e/manager\<close>, which drive real clusters
  and are no part of the program; vendored code beyond the pieces named above.
\<close>

section \<open>From start-up to a converged load balancer\<close>

lemma factory_config:
  assumes "cloudProviderFactory yaml md env config w = (Inr p, w1)"
  shows "readExoscaleConfig yaml env config = Inr (p_cfg p)"
  using assms
  by (auto simp: cloudProviderFactory_def newExoscaleCloud_def returnM_def liftE_def elim!: bindM_InrE)

lemma Initialize_clients:
  assumes "Initialize ego files ver env kc p a = (Inr (p', watched, started), a')"
  shows "p_client p' = Some (refreshableClient ego) \<and> p_kclient p' = Some (kubeOfApp kc) \<and> p_cfg p' = p_cfg p"
  using assms unfolding Initialize_def Let_def
  by (auto elim!: bindM_InrE simp: catchM_def failM_def returnM_def split: prod.splits sum.splits if_splits)

lemma cloudInitializer_Inr:
  "cloudInitializer (Inr (Some p)) allow = Inr cloud \<longleftrightarrow> allow \<and> cloud = p"
  by (auto simp: cloudInitializer_def cp_HasClusterID_def)

text \<open>
  Property C10. From the configuration to the load balancer: when the factory makes the provider,
  \<^verbatim>\<open>main\<close> accepts it and \<^verbatim>\<open>Initialize\<close> returns, then untagged clusters were allowed, the provider
  runs with the configuration that was read, and every successful \<^verbatim>\<open>EnsureLoadBalancer\<close> with the
  clients of the load balancer component that the provider hands out, at any later state of the
  program, leaves the Service with a load balancer whose services are the desired ones, all other
  load balancers being unchanged.
\<close>

theorem startup_converges:
  assumes "cloudProviderFactory yaml md env config w = (Inr p, w1)"
    and "cloudInitializer (Inr (Some p)) allow = Inr cloud"
    and "Initialize ego files ver env kc cloud a = (Inr (p', watched, started), a')"
    and "p_client (l_p (fst (cp_LoadBalancer p'))) = Some cl"
    and "p_kclient (l_p (fst (cp_LoadBalancer p'))) = Some kcl"
    and "async_stack ego kc view"
    and "EnsureLoadBalancer cl kcl lib nodes st = (Inr status, st')"
    and "distinct (map (\<lambda>p. (sp_Port p, sp_Protocol p)) (s_Ports (st_service st)))"
  shows "allow \<and> readExoscaleConfig yaml env config = Inr (p_cfg p') \<and>
    (\<exists>spec c'. buildLoadBalancerFromAnnotations (st_service st') = Inr spec \<and>
       view (app_world (st_world st')) = (view (app_world (st_world st)))(lb_ID spec \<mapsto> c') \<and>
       converged (lb_Services spec) (foreignServices (isExternal (st_service st)) (lb_Services spec)
         (servicesAt (view (app_world (st_world st))) (lb_ID spec))) (v_Services c'))"
proof -
  have "allow" "cloud = p" using assms(2) by (simp_all add: cloudInitializer_Inr)
  have ready: "p_client p' = Some (refreshableClient ego)" "p_kclient p' = Some (kubeOfApp kc)" "p_cfg p' = p_cfg p"
    using Initialize_clients [OF assms(3)] \<open>cloud = p\<close> by simp_all
  then have "cl = refreshableClient ego" "kcl = kubeOfApp kc"
    using assms(4,5) by (simp_all add: cp_LoadBalancer_def newLoadBalancer_def)
  then have "EnsureLoadBalancer (refreshableClient ego) (kubeOfApp kc) lib nodes st = (Inr status, st')"
    using assms(7) by simp
  from nlb_api.EnsureLoadBalancer_converges [OF async_stack.stack_promises [OF assms(6)] this assms(8)]
  show ?thesis using \<open>allow\<close> factory_config [OF assms(1)] ready(3) by simp
qed

definition exEnv :: "string \<rightharpoonup> string" where
  "exEnv = [''EXOSCALE_API_ZONE'' \<mapsto> ''ch-gva-2'', ''EXOSCALE_API_KEY'' \<mapsto> ''k'', ''EXOSCALE_API_SECRET'' \<mapsto> ''s'']"

definition exMetadata :: "unit metadataLib" where
  "exMetadata = \<lparr>FromCdRom = (\<lambda>_. failM (ErrNew ''no CD-ROM'')), metadataGet = (\<lambda>_. returnM ''at-vie-1'')\<rparr>"

lemma exFactory_runs:
  "cloudProviderFactory (\<lambda>_. Inl (ErrNew ''EOF'')) exMetadata exEnv None () = (Inr exNewProvider, ())"
  by (simp add: cloudProviderFactory_def readExoscaleConfig_def newExoscaleCloud_def providerZone_def exEnv_def
      getenv_def fromEnv_def endpointFromEnv_def liftE_def bindM_def returnM_def exNewProvider_def exGlobal_def
      zeroConfig_def)

lemma exStartup_runs:
  "\<exists>p' a'. Initialize memoryEgo (exFiles ''k2'') ''v'' exEnv (memoryKube (\<lambda>_. None)) exNewProvider exApp =
     (Inr (p', None, []), a')"
  by (simp add: Initialize_def newRefreshableExoscaleClient_def exNewProvider_def exGlobal_def bindM_def catchM_def
      modifyM_def worldM_def connect_def liftE_def memoryEgo_def switchZoneCallback_def returnM_def getenv_def
      exEnv_def exApp_def)

theorem startup_converges_witness:
  "\<exists>(spec :: LoadBalancer) c'.
     memView (app_world (st_world (snd (EnsureLoadBalancer (refreshableClient memoryEgo)
       (kubeOfApp (memoryKube (\<lambda>_. None))) exLib [] exAppState)))) = (memView exMemory)(lb_ID spec \<mapsto> c') \<and>
     converged (lb_Services spec) (foreignServices (isExternal (exService exPool [exPort])) (lb_Services spec)
       (servicesAt (memView exMemory) (lb_ID spec))) (v_Services c')"
proof -
  obtain p' a' where init: "Initialize memoryEgo (exFiles ''k2'') ''v'' exEnv (memoryKube (\<lambda>_. None)) exNewProvider
     exApp = (Inr (p', None, []), a')" using exStartup_runs by blast
  have clients: "p_client (l_p (fst (cp_LoadBalancer p'))) = Some (refreshableClient memoryEgo)"
    "p_kclient (l_p (fst (cp_LoadBalancer p'))) = Some (kubeOfApp (memoryKube (\<lambda>_. None)))"
    using Initialize_clients [OF init] by (simp_all add: cp_LoadBalancer_def newLoadBalancer_def)
  have accepted: "cloudInitializer (Inr (Some exNewProvider)) True = Inr exNewProvider"
    by (simp add: cloudInitializer_Inr)
  show ?thesis
    using startup_converges [OF exFactory_runs accepted init clients memoryStack.async_stack_axioms
      run_result [OF stack_ensure_runs]]
    by (auto simp: exAppState_def exApp_def exService_def)
qed

section \<open>A start that succeeds\<close>





end
